(* ===== verification/Prelude.thy ===== *)
theory Prelude
  imports Complex_Main "HOL-Library.Word" "HOL-Library.Multiset"
begin

text \<open>
  The shared vocabulary of the development: results in the manner of Rust's
  \<open>Result\<close> and \<open>Option\<close> combinators, polls of futures, machine integer types, and
  the one-shot cell (a mutex around an \<open>Option\<close> whose content one call takes out)
  with the interface its clients rely on.
\<close>

section \<open>Results\<close>

text \<open>An error is \<open>Inl\<close>, a value \<open>Inr\<close>; the combinators carry the names Rust gives them.\<close>

type_synonym byte = "8 word"
type_synonym bytes = "8 word list"
type_synonym u8 = "8 word"
type_synonym u16 = "16 word"
type_synonym u32 = "32 word"
type_synonym u64 = "64 word"

fun and_then :: "'e + 'a \<Rightarrow> ('a \<Rightarrow> 'e + 'b) \<Rightarrow> 'e + 'b" where
  "and_then (Inl e) f = Inl e"
| "and_then (Inr a) f = f a"

fun map_ok :: "('a \<Rightarrow> 'b) \<Rightarrow> 'e + 'a \<Rightarrow> 'e + 'b" where
  "map_ok f (Inl e) = Inl e"
| "map_ok f (Inr a) = Inr (f a)"

fun map_err :: "('e \<Rightarrow> 'f) \<Rightarrow> 'e + 'a \<Rightarrow> 'f + 'a" where
  "map_err f (Inl e) = Inl (f e)"
| "map_err f (Inr a) = Inr a"

fun ok_or :: "'e \<Rightarrow> 'a option \<Rightarrow> 'e + 'a" where
  "ok_or e None = Inl e"
| "ok_or e (Some a) = Inr a"

fun transpose_opt :: "('e + 'a) option \<Rightarrow> 'e + 'a option" where
  "transpose_opt None = Inr None"
| "transpose_opt (Some (Inl e)) = Inl e"
| "transpose_opt (Some (Inr a)) = Inr (Some a)"

fun unwrap_or :: "'a \<Rightarrow> 'a option \<Rightarrow> 'a" where
  "unwrap_or d None = d"
| "unwrap_or d (Some a) = a"

fun collect_results :: "('e + 'a) list \<Rightarrow> 'e + 'a list" where
  "collect_results [] = Inr []"
| "collect_results (Inl e # rs) = Inl e"
| "collect_results (Inr a # rs) = map_ok (Cons a) (collect_results rs)"

text \<open>The decimal text of a number.\<close>

fun show_nat :: "nat \<Rightarrow> string" where
  "show_nat n =
     (if n < 10 then [''0123456789'' ! n] else show_nat (n div 10) @ [''0123456789'' ! (n mod 10)])"

declare show_nat.simps [simp del]

text \<open>A loop over the items of a dict whose body may return early with an error.\<close>

fun for_items :: "('k \<Rightarrow> 'v \<Rightarrow> 's \<Rightarrow> 'e + 's) \<Rightarrow> ('k \<times> 'v) list \<Rightarrow> 's \<Rightarrow> 'e + 's" where
  "for_items body [] s = Inr s"
| "for_items body ((k, v) # kvs) s = and_then (body k v s) (for_items body kvs)"

text \<open>The \<open>Debug\<close> text (\<open>{:?}\<close>) of a string: quoted, with escapes.\<close>

definition hex_digit :: "nat \<Rightarrow> char" where
  "hex_digit n = ''0123456789abcdef'' ! (n mod 16)"

definition debug_char :: "char \<Rightarrow> string" where
  "debug_char c =
     (if c \<in> {CHR 0x22, CHR 0x5C} then [CHR 0x5C, c]
      else if c = CHR 0x0A then [CHR 0x5C, CHR ''n'']
      else if c = CHR 0x0D then [CHR 0x5C, CHR ''r'']
      else if c = CHR 0x09 then [CHR 0x5C, CHR ''t'']
      else if c = CHR 0x00 then [CHR 0x5C, CHR ''0'']
      else if of_char c < (32::nat) \<or> c = CHR 0x7F
        then [CHR 0x5C] @ ''u{'' @ (if of_char c < (16::nat) then [] else [hex_digit (of_char c div 16)])
               @ [hex_digit (of_char c)] @ ''}''
      else [c])"

definition debug_str :: "string \<Rightarrow> string" where
  "debug_str s = [CHR 0x22] @ concat (map debug_char s) @ [CHR 0x22]"

fun is_ok :: "'e + 'a \<Rightarrow> bool" where
  "is_ok (Inl e) = False"
| "is_ok (Inr a) = True"

datatype 'a poll = Pending | Ready 'a

text \<open>The one-shot cell: \<open>StdMutex<Option<T>>\<close> and its \<open>take\<close>.\<close>

type_synonym 'a cell = "'a option"

definition cell_take :: "'a cell \<Rightarrow> 'a option \<times> 'a cell" where
  "cell_take c = (c, None)"

text \<open>A sequence of uses of a cell: what each of them got, and the cell after all.\<close>

fun uses :: "('op \<Rightarrow> 'c \<Rightarrow> ('e + 'a) \<times> 'c) \<Rightarrow> 'op list \<Rightarrow> 'c \<Rightarrow> ('e + 'a) list" where
  "uses f [] c = []"
| "uses f (u # us) c = (case f u c of (r, c') \<Rightarrow> r # uses f us c')"

section \<open>Shared facts\<close>

named_theorems res_simps
named_theorems step_defs

lemma and_then_Inr_iff [res_simps]:
  "and_then r f = Inr b \<longleftrightarrow> (\<exists>a. r = Inr a \<and> f a = Inr b)"
  by (cases r) auto

lemma and_then_Inl_iff [res_simps]:
  "and_then r f = Inl e \<longleftrightarrow> r = Inl e \<or> (\<exists>a. r = Inr a \<and> f a = Inl e)"
  by (cases r) auto

lemma map_ok_Inr_iff [res_simps]: "map_ok f r = Inr b \<longleftrightarrow> (\<exists>a. r = Inr a \<and> b = f a)"
  by (cases r) auto

lemma map_ok_Inl_iff [res_simps]: "map_ok f r = Inl e \<longleftrightarrow> r = Inl e"
  by (cases r) auto

lemma map_err_Inr_iff [res_simps]: "map_err f r = Inr a \<longleftrightarrow> r = Inr a"
  by (cases r) auto

lemma map_err_Inl_iff [res_simps]: "map_err f r = Inl e \<longleftrightarrow> (\<exists>d. r = Inl d \<and> e = f d)"
  by (cases r) auto

lemma ok_or_Inr_iff [res_simps]: "ok_or e x = Inr a \<longleftrightarrow> x = Some a"
  by (cases x) auto

lemma ok_or_Inl_iff [res_simps]: "ok_or e x = Inl d \<longleftrightarrow> x = None \<and> d = e"
  by (cases x) auto

lemma transpose_opt_Inr_iff [res_simps]:
  "transpose_opt x = Inr y \<longleftrightarrow> (x = None \<and> y = None) \<or> (\<exists>a. x = Some (Inr a) \<and> y = Some a)"
  by (cases x rule: transpose_opt.cases) auto

lemma transpose_opt_Inl_iff [res_simps]: "transpose_opt x = Inl e \<longleftrightarrow> x = Some (Inl e)"
  by (cases x rule: transpose_opt.cases) auto

lemma is_ok_iff: "is_ok r \<longleftrightarrow> (\<exists>a. r = Inr a)"
  by (cases r) auto

lemma collect_results_Inr_iff:
  "collect_results rs = Inr xs \<longleftrightarrow> rs = map Inr xs"
proof (induction rs arbitrary: xs rule: collect_results.induct)
  case (3 a rs)
  then show ?case by (cases xs) (auto simp: res_simps)
qed auto

lemma for_items_append:
  "for_items f (xs @ ys) s = and_then (for_items f xs s) (for_items f ys)"
proof (induction xs arbitrary: s)
  case (Cons x xs)
  obtain k v where x: "x = (k, v)" by fastforce
  then show ?case using Cons by (cases "f k v s") simp_all
qed simp

text \<open>The last element of a list that satisfies a predicate.\<close>

fun last_item :: "('a \<Rightarrow> bool) \<Rightarrow> 'a list \<Rightarrow> 'a option" where
  "last_item P [] = None"
| "last_item P (x # xs) =
     (case last_item P xs of Some y \<Rightarrow> Some y | None \<Rightarrow> if P x then Some x else None)"

section \<open>The interface of a one-shot cell\<close>

text \<open>
  What the holders of a one-shot object rely on: a use that succeeds finds it full and
  leaves it empty, and a use that fails does not fill it.
\<close>

locale one_shot =
  fixes usef :: "'op \<Rightarrow> 'c \<Rightarrow> ('e + 'a) \<times> 'c"
    and full :: "'c \<Rightarrow> bool"
  assumes use_ok: "usef u c = (Inr a, c') \<Longrightarrow> full c \<and> \<not> full c'"
    and use_err: "usef u c = (Inl e, c') \<Longrightarrow> full c' \<Longrightarrow> full c"
begin

lemma uses_empty: "\<not> full c \<Longrightarrow> filter is_ok (uses usef us c) = []"
proof (induction us arbitrary: c)
  case (Cons u us)
  obtain r c' where t: "usef u c = (r, c')" by fastforce
  with Cons.prems use_ok use_err have "\<not> is_ok r" "\<not> full c'" by (cases r; force)+
  with Cons.IH t show ?case by simp
qed simp

lemma uses_at_most_once: "length (filter is_ok (uses usef us c)) \<le> 1"
proof (induction us arbitrary: c)
  case (Cons u us)
  obtain r c' where t: "usef u c = (r, c')" by fastforce
  show ?case
  proof (cases r)
    case (Inr a)
    then have "filter is_ok (uses usef us c') = []" using t use_ok uses_empty by blast
    then show ?thesis using t Inr by simp
  qed (use t Cons.IH in simp)
qed simp

end

section \<open>The interface of a loop over named fields\<close>

text \<open>
  What a loop over the keyword arguments of a call relies on: the bodies of two different
  keys do not depend on each other. Then the order of the arguments does not matter.
\<close>

locale keyed_body =
  fixes body :: "'k \<Rightarrow> 'v \<Rightarrow> 's \<Rightarrow> 'e + 's"
  assumes body_commute: "k \<noteq> k' \<Longrightarrow>
      and_then (body k v s) (body k' v') = Inr t \<longleftrightarrow> and_then (body k' v' s) (body k v) = Inr t"
begin

lemma for_items_move:
  assumes "k \<notin> fst ` set xs"
  shows "for_items body (xs @ (k, v) # ys) s = Inr t \<longleftrightarrow> for_items body ((k, v) # xs @ ys) s = Inr t"
  using assms
proof (induction xs arbitrary: s)
  case (Cons x xs)
  obtain k' v' where x: "x = (k', v')" by fastforce
  have ne: "k \<noteq> k'" using Cons.prems x by auto
  have "for_items body ((x # xs) @ (k, v) # ys) s = Inr t \<longleftrightarrow>
      (\<exists>u. and_then (body k' v' s) (body k v) = Inr u \<and> for_items body (xs @ ys) u = Inr t)"
    using Cons x by (auto simp: res_simps)
  also have "\<dots> \<longleftrightarrow> for_items body ((k, v) # (x # xs) @ ys) s = Inr t"
    unfolding body_commute [OF ne, symmetric] by (auto simp: res_simps x)
  finally show ?case .
qed simp

lemma for_items_perm:
  "mset xs = mset ys \<Longrightarrow> distinct (map fst xs) \<Longrightarrow>
     for_items body xs s = Inr t \<longleftrightarrow> for_items body ys s = Inr t"
proof (induction xs arbitrary: ys s)
  case (Cons x xs)
  obtain k v where x: "x = (k, v)" by fastforce
  have "x \<in> set ys" using Cons.prems(1) by (metis list.set_intros(1) set_mset_mset)
  then obtain as bs where ys: "ys = as @ x # bs" by (meson split_list)
  have m: "mset xs = mset (as @ bs)" using Cons.prems(1) ys by simp
  then have "set as \<subseteq> set xs" by (metis Un_upper1 set_append set_mset_mset)
  then have k: "k \<notin> fst ` set as" using Cons.prems(2) x by auto
  show ?case
    using for_items_move [OF k, of v bs s t] Cons.IH [OF m] Cons.prems(2) x ys
    by (auto simp: res_simps)
qed simp

end

end
