(* ===== verification/Machines.thy ===== *)
theory Machines
  imports Prelude
begin

text \<open>
  State machines with executable steps. A concurrent part of the bindings is a step
  function \<open>'s \<Rightarrow> 'a \<Rightarrow> 's option\<close>: an action is one atomic step of one thread, and
  \<open>None\<close> says that the action is not enabled in that state. A run is a list of actions
  in the order in which the scheduler interleaves them.
\<close>

section \<open>Runs and reachable states\<close>

fun run_steps :: "('s \<Rightarrow> 'a \<Rightarrow> 's option) \<Rightarrow> 's \<Rightarrow> 'a list \<Rightarrow> 's option" where
  "run_steps step s [] = Some s"
| "run_steps step s (a # as) =
     (case step s a of None \<Rightarrow> None | Some s' \<Rightarrow> run_steps step s' as)"

inductive reach :: "('s \<Rightarrow> 'a \<Rightarrow> 's option) \<Rightarrow> 's \<Rightarrow> 's \<Rightarrow> bool" for step s0 where
  reach_refl: "reach step s0 s0"
| reach_step: "reach step s0 s \<Longrightarrow> step s a = Some s' \<Longrightarrow> reach step s0 s'"

lemma run_steps_append:
  "run_steps step s (as @ bs) =
     (case run_steps step s as of None \<Rightarrow> None | Some s' \<Rightarrow> run_steps step s' bs)"
  by (induction as arbitrary: s) (auto split: option.splits)

lemma run_steps_reach: "run_steps step s as = Some s' \<Longrightarrow> reach step s0 s \<Longrightarrow> reach step s0 s'"
proof (induction as arbitrary: s)
  case (Cons a as)
  then show ?case by (auto split: option.splits intro: reach_step)
qed simp

lemma reach_run: "run_steps step s as = Some s' \<Longrightarrow> reach step s s'"
  by (erule run_steps_reach) (rule reach_refl)

lemma reach_the_run: "run_steps step s as \<noteq> None \<Longrightarrow> reach step s (the (run_steps step s as))"
  by (auto intro: reach_run)

lemma reach_iff_run: "reach step s s' \<longleftrightarrow> (\<exists>as. run_steps step s as = Some s')"
proof
  assume "reach step s s'"
  then show "\<exists>as. run_steps step s as = Some s'"
  proof (induction rule: reach.induct)
    case reach_refl
    show ?case by (rule exI [of _ "[]"]) simp
  next
    case (reach_step t a t')
    then obtain as where "run_steps step s as = Some t" by blast
    with reach_step(2) have "run_steps step s (as @ [a]) = Some t'"
      by (simp add: run_steps_append)
    then show ?case ..
  qed
qed (auto dest: reach_run)

section \<open>Invariants\<close>

text \<open>
  What the components prove about their machine, and what they get for it: a predicate
  that every step keeps holds along every run.
\<close>

locale step_closed =
  fixes step :: "'s \<Rightarrow> 'a \<Rightarrow> 's option"
    and inv :: "'s \<Rightarrow> bool"
  assumes keeps: "inv s \<Longrightarrow> step s a = Some s' \<Longrightarrow> inv s'"
begin

lemma along_reach: "reach step s s' \<Longrightarrow> inv s \<Longrightarrow> inv s'"
  by (induction rule: reach.induct) (auto dest: keeps)

lemma along_run: "run_steps step s as = Some s' \<Longrightarrow> inv s \<Longrightarrow> inv s'"
  using along_reach reach_run by metis

end

locale step_invariant = step_closed +
  fixes s0
  assumes starts: "inv s0"
begin

lemma reachable_inv: "reach step s0 s \<Longrightarrow> inv s"
  using along_reach starts by blast

end

end
