(* ===== verification/Exit_Gate.thy ===== *)
theory Exit_Gate
  imports Machines
begin

text \<open>
  The gate between the runtime's threads and an exiting interpreter: \<open>attach\<close>,
  \<open>_shutdown\<close> and \<open>mark_runtime_thread\<close> of \<open>src/src/rt.rs\<close>. The state holds the two
  atomics \<open>EXITING\<close> and \<open>INFLIGHT\<close>, the interpreter lock, the program point of every
  thread and of the \<open>atexit\<close> hook, and a clock in milliseconds. One action is one atomic
  access of the source (\<open>fetch_add\<close>, \<open>load\<close>, \<open>fetch_sub\<close>, \<open>store\<close>), the entry into or
  return from \<open>Python::attach\<close>, or a hand-over of the interpreter lock, so that a run is
  an interleaving of the threads under sequential consistency.
\<close>

section \<open>State\<close>

type_synonym tid = nat

text \<open>
  Where a thread is: running its own code (\<open>Run\<close>), after \<open>fetch_add\<close> (\<open>Counted\<close>), after
  \<open>EXITING\<close> was seen set (\<open>Refused\<close>), in \<open>Python::attach\<close> waiting for the interpreter
  (\<open>Wanting\<close>), back from it with the guard \<open>Leave\<close> still held (\<open>Leaving\<close>), in the
  \<open>park\<close> loop (\<open>Parked\<close>), or having lent the interpreter lock to another thread inside
  \<open>Python::attach\<close> (\<open>Yielded\<close>).
\<close>

datatype gate_pc = Run | Counted | Refused | Wanting | Leaving | Parked | Yielded

text \<open>\<open>frames\<close>: the calls of \<open>Python::attach\<close> the thread is inside; a call may nest.\<close>

record thread =
  runtime :: bool
  pc :: gate_pc
  frames :: nat

text \<open>
  The hook: not called; \<open>EXITING\<close> stored; polling detached until a deadline; back from
  the loop and waiting for the interpreter; returned. The flag says whether the loop
  ended because it read \<open>INFLIGHT = 0\<close>.
\<close>

datatype hook = NotStarted | Stored | Polling nat | Returning bool | Returned bool

record gate =
  exiting :: bool
  inflight :: nat
  gil :: "tid option"
  thr :: "tid \<Rightarrow> thread"
  hook :: hook
  clock :: nat

definition exit_wait :: nat where
  "exit_wait = 1000"

text \<open>Thread 0 is the main thread of Python, inside the interpreter; the others start outside.\<close>

definition gate_init :: gate where
  "gate_init = \<lparr>exiting = False, inflight = 0, gil = Some 0,
     thr = (\<lambda>t. \<lparr>runtime = False, pc = Run, frames = (if t = 0 then 1 else 0)\<rparr>),
     hook = NotStarted, clock = 0\<rparr>"

definition set_pc :: "gate \<Rightarrow> tid \<Rightarrow> gate_pc \<Rightarrow> gate" where
  "set_pc s t p = s\<lparr>thr := (thr s)(t := (thr s t)\<lparr>pc := p\<rparr>)\<rparr>"

definition set_thread :: "gate \<Rightarrow> tid \<Rightarrow> gate_pc \<Rightarrow> nat \<Rightarrow> gate" where
  "set_thread s t p k = s\<lparr>thr := (thr s)(t := (thr s t)\<lparr>pc := p, frames := k\<rparr>)\<rparr>"

text \<open>The main thread runs nothing else while it is inside the hook.\<close>

fun in_hook :: "hook \<Rightarrow> bool" where
  "in_hook NotStarted = False"
| "in_hook (Returned b) = False"
| "in_hook _ = True"

fun hook_detached :: "hook \<Rightarrow> bool" where
  "hook_detached (Polling e) = True"
| "hook_detached (Returning b) = True"
| "hook_detached _ = False"

fun hook_past_loop :: "hook \<Rightarrow> bool" where
  "hook_past_loop (Returning b) = True"
| "hook_past_loop (Returned b) = True"
| "hook_past_loop _ = False"

definition free :: "gate \<Rightarrow> tid \<Rightarrow> bool" where
  "free s t \<longleftrightarrow> t \<noteq> 0 \<or> \<not> in_hook (hook s)"

section \<open>Steps\<close>

text \<open>\<open>mark_runtime_thread\<close>, at the start of a thread that is not Python's.\<close>

definition mark_runtime_thread :: "gate \<Rightarrow> tid \<Rightarrow> gate option" where
  "mark_runtime_thread s t =
     (if t \<noteq> 0 \<and> pc (thr s t) = Run \<and> frames (thr s t) = 0
      then Some (s\<lparr>thr := (thr s)(t := (thr s t)\<lparr>runtime := True\<rparr>)\<rparr>) else None)"

text \<open>
  \<open>attach\<close>, up to the count: a thread of Python goes straight to \<open>Python::attach\<close>, a
  runtime thread counts itself first. A call from inside a closure (\<open>frames > 0\<close>) is made
  by the thread that holds the interpreter.
\<close>

definition attach_enter :: "gate \<Rightarrow> tid \<Rightarrow> gate option" where
  "attach_enter s t =
     (if pc (thr s t) = Run \<and> free s t \<and> (frames (thr s t) = 0 \<or> gil s = Some t)
      then Some (if runtime (thr s t) then (set_pc s t Counted)\<lparr>inflight := inflight s + 1\<rparr>
                 else set_pc s t Wanting)
      else None)"

text \<open>\<open>if EXITING.load()\<close>.\<close>

definition attach_check :: "gate \<Rightarrow> tid \<Rightarrow> gate option" where
  "attach_check s t =
     (if pc (thr s t) = Counted
      then Some (set_pc s t (if exiting s then Refused else Wanting)) else None)"

text \<open>\<open>drop(leave)\<close>, then the loop around \<open>park\<close>.\<close>

definition attach_park :: "gate \<Rightarrow> tid \<Rightarrow> gate option" where
  "attach_park s t =
     (if pc (thr s t) = Refused
      then Some ((set_pc s t Parked)\<lparr>inflight := inflight s - 1\<rparr>) else None)"

text \<open>\<open>Python::attach(f)\<close> entered: at once when the thread is attached, else with the free lock.\<close>

definition attach_begin :: "gate \<Rightarrow> tid \<Rightarrow> gate option" where
  "attach_begin s t =
     (if pc (thr s t) = Wanting \<and> (0 < frames (thr s t) \<or> gil s = None)
      then Some ((set_thread s t Run (frames (thr s t) + 1))
                   \<lparr>gil := (if 0 < frames (thr s t) then gil s else Some t)\<rparr>)
      else None)"

text \<open>
  \<open>f\<close> returned (or unwound): the outermost call gives the interpreter back. A runtime
  thread still holds its guard. The main thread never leaves its outermost frame.
\<close>

definition attach_end :: "gate \<Rightarrow> tid \<Rightarrow> gate option" where
  "attach_end s t =
     (if pc (thr s t) = Run \<and> free s t \<and> gil s = Some t
         \<and> (if t = 0 then 1 else 0) < frames (thr s t)
      then Some ((set_thread s t (if runtime (thr s t) then Leaving else Run) (frames (thr s t) - 1))
                   \<lparr>gil := (if frames (thr s t) = 1 then None else Some t)\<rparr>)
      else None)"

text \<open>\<open>drop(leave)\<close>.\<close>

definition attach_leave :: "gate \<Rightarrow> tid \<Rightarrow> gate option" where
  "attach_leave s t =
     (if pc (thr s t) = Leaving
      then Some ((set_pc s t Run)\<lparr>inflight := inflight s - 1\<rparr>) else None)"

text \<open>The interpreter switches threads between two instructions of Python code.\<close>

definition gil_yield :: "gate \<Rightarrow> tid \<Rightarrow> gate option" where
  "gil_yield s t =
     (if pc (thr s t) = Run \<and> free s t \<and> gil s = Some t
      then Some ((set_pc s t Yielded)\<lparr>gil := None\<rparr>) else None)"

definition gil_resume :: "gate \<Rightarrow> tid \<Rightarrow> gate option" where
  "gil_resume s t =
     (if pc (thr s t) = Yielded \<and> gil s = None
      then Some ((set_pc s t Run)\<lparr>gil := Some t\<rparr>) else None)"

text \<open>\<open>_shutdown\<close>: the store, the detach with the deadline, one turn of the loop, the return.\<close>

definition shutdown_store :: "gate \<Rightarrow> gate option" where
  "shutdown_store s =
     (if hook s = NotStarted \<and> gil s = Some 0 \<and> pc (thr s 0) = Run
      then Some (s\<lparr>exiting := True, hook := Stored\<rparr>) else None)"

definition shutdown_detach :: "gate \<Rightarrow> gate option" where
  "shutdown_detach s =
     (if hook s = Stored \<and> gil s = Some 0
      then Some (s\<lparr>gil := None, hook := Polling (clock s + exit_wait)\<rparr>) else None)"

definition shutdown_poll :: "gate \<Rightarrow> gate option" where
  "shutdown_poll s =
     (case hook s of
        Polling end \<Rightarrow>
          Some (if 0 < inflight s \<and> clock s < end then s\<lparr>clock := clock s + 1\<rparr>
                else s\<lparr>hook := Returning (inflight s = 0)\<rparr>)
      | _ \<Rightarrow> None)"

definition shutdown_return :: "gate \<Rightarrow> gate option" where
  "shutdown_return s =
     (case hook s of
        Returning b \<Rightarrow>
          if gil s = None then Some (s\<lparr>gil := Some 0, hook := Returned b\<rparr>) else None
      | _ \<Rightarrow> None)"

datatype gate_action =
    Mark tid | Enter tid | Check tid | Park tid | Begin tid | End tid | Leave tid
  | Yield tid | Resume tid | Store | Detach | Poll | Return | Tick

text \<open>A process with \<open>n\<close> threads: the actions of a thread beyond them are not enabled.\<close>

fun gate_step :: "nat \<Rightarrow> gate \<Rightarrow> gate_action \<Rightarrow> gate option" where
  "gate_step n s (Mark t) = (if t < n then mark_runtime_thread s t else None)"
| "gate_step n s (Enter t) = (if t < n then attach_enter s t else None)"
| "gate_step n s (Check t) = (if t < n then attach_check s t else None)"
| "gate_step n s (Park t) = (if t < n then attach_park s t else None)"
| "gate_step n s (Begin t) = (if t < n then attach_begin s t else None)"
| "gate_step n s (End t) = (if t < n then attach_end s t else None)"
| "gate_step n s (Leave t) = (if t < n then attach_leave s t else None)"
| "gate_step n s (Yield t) = (if t < n then gil_yield s t else None)"
| "gate_step n s (Resume t) = (if t < n then gil_resume s t else None)"
| "gate_step n s Store = shutdown_store s"
| "gate_step n s Detach = shutdown_detach s"
| "gate_step n s Poll = shutdown_poll s"
| "gate_step n s Return = shutdown_return s"
| "gate_step n s Tick = Some (s\<lparr>clock := clock s + 1\<rparr>)"


section \<open>The invariant\<close>

text \<open>The guards \<open>Leave\<close> a thread holds: one for each closure it is inside and one on its way.\<close>

definition guard_count :: "thread \<Rightarrow> nat" where
  "guard_count th =
     (if runtime th
      then frames th + (if pc th \<in> {Counted, Refused, Wanting, Leaving} then 1 else 0) else 0)"

definition guards :: "nat \<Rightarrow> gate \<Rightarrow> nat" where
  "guards n s = (\<Sum>t<n. guard_count (thr s t))"

definition drained :: "hook \<Rightarrow> bool" where
  "drained h \<longleftrightarrow> h = Returning True \<or> h = Returned True"

definition hook_returned :: "hook \<Rightarrow> bool" where
  "hook_returned h \<longleftrightarrow> h = Returned True \<or> h = Returned False"

text \<open>The thread is not inside Python and will not get there with the guards it holds.\<close>

definition outside :: "thread \<Rightarrow> bool" where
  "outside th \<longleftrightarrow> frames th = 0 \<and> pc th \<noteq> Wanting \<and> pc th \<noteq> Leaving"

definition count_inv :: "nat \<Rightarrow> gate \<Rightarrow> bool" where
  "count_inv n s \<longleftrightarrow> inflight s = guards n s"

definition exit_inv :: "gate \<Rightarrow> bool" where
  "exit_inv s \<longleftrightarrow> exiting s = (hook s \<noteq> NotStarted)"

definition python_inv :: "gate \<Rightarrow> bool" where
  "python_inv s \<longleftrightarrow>
     (\<forall>t. pc (thr s t) \<in> {Counted, Refused, Leaving, Parked} \<longrightarrow> runtime (thr s t))"

definition drain_inv :: "nat \<Rightarrow> gate \<Rightarrow> bool" where
  "drain_inv n s \<longleftrightarrow>
     (drained (hook s) \<longrightarrow> (\<forall>t<n. runtime (thr s t) \<longrightarrow> outside (thr s t)))"

definition gate_inv :: "nat \<Rightarrow> gate \<Rightarrow> bool" where
  "gate_inv n s \<longleftrightarrow> count_inv n s \<and> exit_inv s \<and> python_inv s \<and> drain_inv n s"

text \<open>A thread that parked inside a closure holds the interpreter for the rest of the process.\<close>

definition parked_holder :: "tid \<Rightarrow> gate \<Rightarrow> bool" where
  "parked_holder t s \<longleftrightarrow> t \<noteq> 0 \<and> gil s = Some t \<and> pc (thr s t) = Parked"

definition exit_blocked :: "nat \<Rightarrow> gate \<Rightarrow> bool" where
  "exit_blocked n s \<longleftrightarrow> (\<forall>s'. reach (gate_step n) s s' \<longrightarrow> \<not> hook_returned (hook s'))"

text \<open>Runs in which no runtime thread calls \<open>attach\<close> inside \<open>attach\<close>.\<close>

fun flat_step :: "nat \<Rightarrow> gate \<Rightarrow> gate_action \<Rightarrow> gate option" where
  "flat_step n s (Enter t) =
     (if runtime (thr s t) \<and> 0 < frames (thr s t) then None else gate_step n s (Enter t))"
| "flat_step n s a = gate_step n s a"

text \<open>Who holds the interpreter, with the main thread's place in the hook.\<close>

definition main_inv :: "gate \<Rightarrow> bool" where
  "main_inv s \<longleftrightarrow>
     0 < frames (thr s 0) \<and> \<not> runtime (thr s 0) \<and> (in_hook (hook s) \<longrightarrow> pc (thr s 0) = Run)"

definition detached_inv :: "gate \<Rightarrow> bool" where
  "detached_inv s \<longleftrightarrow> (hook_detached (hook s) \<longrightarrow> gil s \<noteq> Some 0)"

definition owner_inv :: "nat \<Rightarrow> gate \<Rightarrow> bool" where
  "owner_inv n s \<longleftrightarrow>
     (\<forall>t. gil s = Some t \<longrightarrow> t < n \<and> 0 < frames (thr s t) \<and> pc (thr s t) \<noteq> Yielded)
     \<and> (\<forall>t. pc (thr s t) = Yielded \<longrightarrow> 0 < frames (thr s t))"

definition flat_inv :: "gate \<Rightarrow> bool" where
  "flat_inv s \<longleftrightarrow>
     (\<forall>t. runtime (thr s t) \<longrightarrow>
        frames (thr s t) = 0 \<or> frames (thr s t) = 1 \<and> pc (thr s t) \<in> {Run, Yielded})"

definition flat_gate_inv :: "nat \<Rightarrow> gate \<Rightarrow> bool" where
  "flat_gate_inv n s \<longleftrightarrow>
     python_inv s \<and> main_inv s \<and> detached_inv s \<and> owner_inv n s \<and> flat_inv s"

text \<open>The thread an action moves; the hook's own actions move none.\<close>

fun subject :: "gate_action \<Rightarrow> tid option" where
  "subject (Mark t) = Some t"
| "subject (Enter t) = Some t"
| "subject (Check t) = Some t"
| "subject (Park t) = Some t"
| "subject (Begin t) = Some t"
| "subject (End t) = Some t"
| "subject (Leave t) = Some t"
| "subject (Yield t) = Some t"
| "subject (Resume t) = Some t"
| "subject _ = None"

fun is_poll :: "gate_action \<Rightarrow> bool" where
  "is_poll Poll = True"
| "is_poll _ = False"

section \<open>Proofs\<close>

lemmas [step_defs] = mark_runtime_thread_def attach_enter_def attach_check_def attach_park_def
  attach_begin_def attach_end_def attach_leave_def gil_yield_def gil_resume_def
  shutdown_store_def shutdown_detach_def shutdown_poll_def shutdown_return_def
  set_pc_def set_thread_def

text \<open>Replacing one thread changes the number of guards by that thread's.\<close>

lemma guards_update:
  fixes f :: "tid \<Rightarrow> thread"
  assumes "t < n"
  shows "(\<Sum>i<n. guard_count ((f(t := th)) i)) + guard_count (f t)
         = (\<Sum>i<n. guard_count (f i)) + guard_count th"
proof -
  have "(\<Sum>i<n. guard_count (g i)) = guard_count (g t) + (\<Sum>i\<in>{..<n} - {t}. guard_count (g i))" for g
    by (rule sum.remove) (use assms in auto)
  moreover have "(\<Sum>i\<in>{..<n} - {t}. guard_count ((f(t := th)) i))
      = (\<Sum>i\<in>{..<n} - {t}. guard_count (f i))"
    by (rule sum.cong) auto
  ultimately show ?thesis by simp
qed

lemma guard_count_le: "t < n \<Longrightarrow> guard_count (thr s t) \<le> guards n s"
  unfolding guards_def by (rule member_le_sum) auto

lemma guards_thr_update:
  "t < n \<Longrightarrow> thr s' = (thr s)(t := th) \<Longrightarrow>
     guards n s' + guard_count (thr s t) = guards n s + guard_count th"
  unfolding guards_def using guards_update [of t n "thr s" th] by simp

lemma guards_cong: "thr s' = thr s \<Longrightarrow> guards n s' = guards n s"
  by (simp add: guards_def)

text \<open>A guard that is about to be dropped is counted.\<close>

lemma inflight_pos:
  assumes "count_inv n s" "python_inv s" "t < n" "pc (thr s t) = Refused \<or> pc (thr s t) = Leaving"
  shows "0 < inflight s"
proof -
  from assms(2,4) have "0 < guard_count (thr s t)"
    by (auto simp: guard_count_def python_inv_def)
  with guard_count_le [OF assms(3), of s] assms(1) show ?thesis
    by (simp add: count_inv_def)
qed

text \<open>The accounting of one step: the counter moves with the guards of the thread that moved.\<close>

lemma step_no_subject:
  "gate_step n s a = Some s' \<Longrightarrow> subject a = None \<Longrightarrow> thr s' = thr s \<and> inflight s' = inflight s"
  by (cases a) (auto simp: step_defs split: if_splits hook.splits)

lemma step_subject_frame:
  "gate_step n s a = Some s' \<Longrightarrow> subject a = Some t \<Longrightarrow> t < n \<and> thr s' = (thr s)(t := thr s' t)"
  by (cases a) (auto simp: step_defs split: if_splits)

lemma step_subject_count:
  assumes "count_inv n s" "python_inv s" "gate_step n s a = Some s'" "subject a = Some t"
  shows "inflight s' + guard_count (thr s t) = inflight s + guard_count (thr s' t)"
proof -
  from step_subject_frame [OF assms(3,4)] have "t < n" ..
  note pos = inflight_pos [OF assms(1,2) this]
  show ?thesis
    using assms(2-4) pos
    by (cases a) (auto simp: step_defs guard_count_def python_inv_def split: if_splits)
qed

lemma count_inv_step:
  assumes "count_inv n s" "python_inv s" "gate_step n s a = Some s'"
  shows "count_inv n s'"
proof (cases "subject a")
  case None
  from step_no_subject [OF assms(3) None] assms(1) show ?thesis
    by (simp add: count_inv_def guards_def)
next
  case (Some t)
  from step_subject_frame [OF assms(3) Some] step_subject_count [OF assms Some] assms(1)
  show ?thesis
    using guards_thr_update [of t n s' s "thr s' t"] by (simp add: count_inv_def)
qed

lemma exit_inv_step: "exit_inv s \<Longrightarrow> gate_step n s a = Some s' \<Longrightarrow> exit_inv s'"
  by (cases a) (auto simp: exit_inv_def step_defs split: if_splits hook.splits)

lemma python_inv_step: "python_inv s \<Longrightarrow> gate_step n s a = Some s' \<Longrightarrow> python_inv s'"
  by (cases a) (auto simp: python_inv_def step_defs split: if_splits hook.splits)

text \<open>Reading the counter at 0 shows every runtime thread outside; the closed gate keeps it there.\<close>

lemma no_guards_outside:
  "count_inv n s \<Longrightarrow> inflight s = 0 \<Longrightarrow> t < n \<Longrightarrow> runtime (thr s t) \<Longrightarrow> outside (thr s t)"
  using guard_count_le [of t n s]
  by (auto simp: count_inv_def guard_count_def outside_def split: if_splits)

lemma outside_step:
  "exiting s \<Longrightarrow> gate_step n s a = Some s' \<Longrightarrow> runtime (thr s t) \<longrightarrow> outside (thr s t) \<Longrightarrow>
     runtime (thr s' t) \<longrightarrow> outside (thr s' t)"
  by (cases a) (auto simp: outside_def step_defs split: if_splits hook.splits)

lemma drained_step:
  "gate_step n s a = Some s' \<Longrightarrow> drained (hook s') \<Longrightarrow> drained (hook s) \<or> (inflight s = 0 \<and> thr s' = thr s)"
  by (cases a) (auto simp: drained_def step_defs split: if_splits hook.splits)

lemma drained_exiting: "exit_inv s \<Longrightarrow> drained (hook s) \<Longrightarrow> exiting s"
  by (auto simp: exit_inv_def drained_def)

lemma drain_inv_step:
  assumes "exit_inv s" "count_inv n s" "drain_inv n s" "gate_step n s a = Some s'"
  shows "drain_inv n s'"
proof (cases "drained (hook s')")
  case True
  from drained_step [OF assms(4) True] show ?thesis
  proof
    assume d: "drained (hook s)"
    from drained_exiting [OF assms(1) d] have e: "exiting s" .
    show ?thesis
      using assms(3) d outside_step [OF e assms(4)] by (auto simp: drain_inv_def)
  next
    assume "inflight s = 0 \<and> thr s' = thr s"
    then show ?thesis
      using no_guards_outside [OF assms(2)] by (auto simp: drain_inv_def)
  qed
qed (simp add: drain_inv_def)

lemma gate_inv_init: "gate_inv n gate_init"
  by (simp add: gate_inv_def gate_init_def count_inv_def guards_def guard_count_def exit_inv_def
      python_inv_def drain_inv_def drained_def)

lemma gate_inv_step: "gate_inv n s \<Longrightarrow> gate_step n s a = Some s' \<Longrightarrow> gate_inv n s'"
  unfolding gate_inv_def
  by (blast intro: count_inv_step exit_inv_step python_inv_step drain_inv_step)

interpretation gatem: step_invariant "gate_step n" "gate_inv n" gate_init for n
  by unfold_locales (rule gate_inv_step, assumption+, rule gate_inv_init)

text \<open>A parked thread that holds the interpreter keeps both.\<close>

lemma parked_holder_step: "parked_holder t s \<Longrightarrow> gate_step n s a = Some s' \<Longrightarrow> parked_holder t s'"
  by (cases a) (auto simp: parked_holder_def step_defs split: if_splits hook.splits)

lemma parked_holder_blocks:
  "parked_holder t s \<Longrightarrow> \<not> hook_returned (hook s) \<Longrightarrow> gate_step n s a = Some s' \<Longrightarrow>
     \<not> hook_returned (hook s')"
  by (cases a) (auto simp: parked_holder_def hook_returned_def step_defs split: if_splits hook.splits)

interpretation stuckm: step_closed "gate_step n" "\<lambda>s. parked_holder t s \<and> \<not> hook_returned (hook s)"
  for n t
  by unfold_locales (blast intro: parked_holder_step dest: parked_holder_blocks)

text \<open>Without nested calls the holder of the interpreter can always pass it on.\<close>

lemma flat_gate_step: "flat_step n s a = Some s' \<Longrightarrow> gate_step n s a = Some s'"
  by (cases a) (auto split: if_splits)

lemma main_inv_step: "main_inv s \<Longrightarrow> gate_step n s a = Some s' \<Longrightarrow> main_inv s'"
  by (cases a) (auto intro!: gr0I simp: main_inv_def free_def step_defs split: if_splits hook.splits)

lemma detached_inv_step:
  "main_inv s \<Longrightarrow> detached_inv s \<Longrightarrow> gate_step n s a = Some s' \<Longrightarrow> detached_inv s'"
  by (cases a; cases "hook s") (auto simp: main_inv_def detached_inv_def step_defs split: if_splits)

lemma owner_inv_step:
  "0 < n \<Longrightarrow> main_inv s \<Longrightarrow> owner_inv n s \<Longrightarrow> gate_step n s a = Some s' \<Longrightarrow> owner_inv n s'"
  by (cases a) (auto simp: main_inv_def owner_inv_def step_defs split: if_splits hook.splits)

lemma flat_inv_step: "flat_inv s \<Longrightarrow> flat_step n s a = Some s' \<Longrightarrow> flat_inv s'"
  by (cases a) (auto simp: flat_inv_def step_defs split: if_splits hook.splits)

lemma flat_gate_inv_init: "0 < n \<Longrightarrow> flat_gate_inv n gate_init"
  by (auto simp: flat_gate_inv_def python_inv_def main_inv_def detached_inv_def owner_inv_def
      flat_inv_def gate_init_def)

lemma flat_gate_inv_step:
  "0 < n \<Longrightarrow> flat_gate_inv n s \<Longrightarrow> flat_step n s a = Some s' \<Longrightarrow> flat_gate_inv n s'"
  unfolding flat_gate_inv_def
  by (blast intro: flat_gate_step python_inv_step main_inv_step detached_inv_step owner_inv_step
      flat_inv_step)

text \<open>The number of threads is \<open>Suc m\<close>: there is at least the main one.\<close>

interpretation flatm: step_invariant "flat_step (Suc m)" "flat_gate_inv (Suc m)" gate_init for m
  by unfold_locales (auto intro: flat_gate_inv_step flat_gate_inv_init)

lemma holder_state:
  assumes "flat_gate_inv n s" "gil s = Some t"
  shows "t < n" "0 < frames (thr s t)" "pc (thr s t) = Run \<or> pc (thr s t) = Wanting"
proof -
  show "t < n" "0 < frames (thr s t)"
    using assms by (auto simp: flat_gate_inv_def owner_inv_def)
  show "pc (thr s t) = Run \<or> pc (thr s t) = Wanting"
    using assms
    by (cases "pc (thr s t)"; cases "runtime (thr s t)")
       (auto simp: flat_gate_inv_def owner_inv_def flat_inv_def python_inv_def)
qed

text \<open>The interpreter can be freed in at most two steps, and the hook is where it was.\<close>

lemma flat_release:
  assumes "flat_gate_inv n s" "hook_detached (hook s)"
  shows "\<exists>as s'. run_steps (flat_step n) s as = Some s' \<and> gil s' = None \<and> hook s' = hook s"
proof (cases "gil s")
  case None
  then show ?thesis by (intro exI [of _ "[]"]) simp
next
  case (Some t)
  note h = holder_state [OF assms(1) Some]
  have "t \<noteq> 0"
    using assms Some by (auto simp: flat_gate_inv_def detached_inv_def)
  then have f: "free s t" for s by (simp add: free_def)
  from h(3) show ?thesis
  proof
    assume "pc (thr s t) = Run"
    with h Some f show ?thesis
      by (intro exI [of _ "[Yield t]"]) (simp add: step_defs)
  next
    assume "pc (thr s t) = Wanting"
    with h Some f show ?thesis
      by (intro exI [of _ "[Begin t, Yield t]"]) (simp add: step_defs)
  qed
qed

text \<open>While the hook polls, every turn of its loop that stays in it uses up a millisecond.\<close>

lemma clock_step: "gate_step n s a = Some s' \<Longrightarrow> clock s \<le> clock s'"
  by (cases a) (auto simp: step_defs split: if_splits hook.splits)

lemma polling_next:
  "hook s = Polling e \<Longrightarrow> gate_step n s a = Some s' \<Longrightarrow>
     hook_past_loop (hook s')
     \<or> hook s' = Polling e \<and> e - clock s' + (if is_poll a then 1 else 0) \<le> e - clock s"
  using clock_step [of n s a s'] by (cases a) (auto simp: step_defs split: if_splits hook.splits)

lemma past_loop_step:
  "hook_past_loop (hook s) \<Longrightarrow> gate_step n s a = Some s' \<Longrightarrow> hook_past_loop (hook s')"
  by (cases a; cases "hook s") (auto simp: step_defs split: if_splits)

interpretation pastm: step_closed "gate_step n" "\<lambda>s. hook_past_loop (hook s)" for n
  by unfold_locales (rule past_loop_step)

lemma polling_run:
  "hook s = Polling e \<Longrightarrow> run_steps (gate_step n) s as = Some s' \<Longrightarrow>
     e - clock s < length (filter is_poll as) \<Longrightarrow> hook_past_loop (hook s')"
proof (induction as arbitrary: s)
  case (Cons a as)
  then obtain t where t: "gate_step n s a = Some t" "run_steps (gate_step n) t as = Some s'"
    by (auto split: option.splits)
  from polling_next [OF Cons.prems(1) t(1)] show ?case
  proof
    assume "hook_past_loop (hook t)"
    with t(2) show ?thesis by (rule pastm.along_run)
  next
    assume "hook t = Polling e \<and> e - clock t + (if is_poll a then 1 else 0) \<le> e - clock s"
    with Cons t(2) show ?thesis by (cases "is_poll a") auto
  qed
qed simp

section \<open>Properties\<close>

text \<open>
  C1. Once the \<open>atexit\<close> hook has read \<open>INFLIGHT = 0\<close>, no runtime thread is inside
  \<open>Python::attach\<close> or on its way into it. This holds in every state that any interleaving
  of the threads reaches, nested calls included, and so for the rest of the process.
\<close>

theorem exit_gate_safe:
  assumes "reach (gate_step n) gate_init s" "drained (hook s)" "t < n" "runtime (thr s t)"
  shows "frames (thr s t) = 0 \<and> pc (thr s t) \<noteq> Wanting \<and> pc (thr s t) \<noteq> Leaving"
proof -
  from gatem.reachable_inv [OF assms(1)] have "drain_inv n s"
    by (simp add: gate_inv_def)
  with assms(2-4) show ?thesis by (simp add: drain_inv_def outside_def)
qed

theorem exit_gate_safe_witness:
  "\<exists>s. reach (gate_step 2) gate_init s \<and> drained (hook s) \<and> runtime (thr s 1)
     \<and> frames (thr s 1) = 0 \<and> pc (thr s 1) \<noteq> Wanting"
proof -
  let ?as = "[Mark 1, Enter 1, Check 1, Store, Detach, Begin 1, Poll, End 1, Leave 1, Poll]"
  obtain s where r: "run_steps (gate_step 2) gate_init ?as = Some s"
    and h: "drained (hook s)" "runtime (thr s 1)"
    by (simp add: step_defs gate_init_def free_def exit_wait_def drained_def)
  from exit_gate_safe [OF reach_run [OF r] h(1) _ h(2)] reach_run [OF r] h show ?thesis by auto
qed

text \<open>
  C6. \<open>INFLIGHT\<close> is exactly the number of guards \<open>Leave\<close> alive in the process, and it is
  positive whenever a thread is about to decrement it, so \<open>fetch_sub\<close> never wraps around.
\<close>

theorem inflight_counts_guards:
  assumes "reach (gate_step n) gate_init s"
  shows "inflight s = guards n s
    \<and> (\<forall>t<n. pc (thr s t) = Refused \<or> pc (thr s t) = Leaving \<longrightarrow> 0 < inflight s)"
  using gatem.reachable_inv [OF assms] inflight_pos [of n s]
  by (auto simp: gate_inv_def count_inv_def)

theorem inflight_counts_guards_witness:
  "\<exists>s. reach (gate_step 3) gate_init s \<and> inflight s = 3 \<and> guards 3 s = 3"
proof -
  let ?as = "[Mark 1, Mark 2, Enter 1, Check 1, Enter 2, Yield 0, Begin 1, Enter 1]"
  obtain s where r: "run_steps (gate_step 3) gate_init ?as = Some s" and i: "inflight s = 3"
    by (simp add: step_defs gate_init_def free_def)
  from inflight_counts_guards [OF reach_run [OF r]] reach_run [OF r] i show ?thesis by auto
qed


lemma run_polls:
  "hook s = Polling e \<Longrightarrow> 0 < inflight s \<Longrightarrow> clock s + k \<le> e \<Longrightarrow>
     run_steps (gate_step n) s (replicate k Poll) = Some (s\<lparr>clock := clock s + k\<rparr>)"
  by (induction k arbitrary: s) (auto simp: shutdown_poll_def)





end
