(* ===== verification/Floats.thy ===== *)
theory Floats
  imports Prelude "HOL-Library.Log_Nat"
begin

text \<open>
  Floating point numbers and durations: Python hands every time to the bindings as a
  number of seconds (\<open>f64\<close>), the crate counts it in nanoseconds
  (\<open>std::time::Duration\<close>). The conversions are those of Rust's standard library.
\<close>

section \<open>Definitions\<close>

text \<open>
  A 64 bit float by its value; the finite ones are given by the rational number they
  stand for (both zeros by 0), so what holds here for all of them holds for the floats.
\<close>

datatype f64 = Fin rat | PInf | NInf | NaN

fun is_finite :: "f64 \<Rightarrow> bool" where
  "is_finite (Fin q) = True"
| "is_finite x = False"

text \<open>The comparison \<open>x < 0.0\<close>, false on a NaN.\<close>

fun is_neg :: "f64 \<Rightarrow> bool" where
  "is_neg (Fin q) = (q < 0)"
| "is_neg NInf = True"
| "is_neg x = False"

text \<open>Rounding to the nearest integer, ties to the even one.\<close>

definition round_even :: "rat \<Rightarrow> int" where
  "round_even q =
     (let n = \<lfloor>q\<rfloor>; r = q - of_int n
      in if r < 1/2 then n else if 1/2 < r then n + 1 else if even n then n else n + 1)"

text \<open>
  The nearest double of a non-negative rational: a multiple of the unit in the last place,
  which is \<open>2 ^ (len - 53)\<close> times the smallest positive double \<open>1 / 2 ^ 1074\<close>.
\<close>

definition rnd :: "rat \<Rightarrow> rat" where
  "rnd q =
     (let m = nat (bitlen \<lfloor>q * 2 ^ 1074\<rfloor>) - 53
      in of_int (round_even (q * 2 ^ 1074 / 2 ^ m)) * 2 ^ m / 2 ^ 1074)"

text \<open>A \<open>Duration\<close>: whole nanoseconds, fewer than \<open>2 ^ 64\<close> seconds.\<close>

type_synonym duration = nat

definition nanos_per_sec :: nat where
  "nanos_per_sec = 1000000000"

definition duration_end :: nat where
  "duration_end = 2 ^ 64 * nanos_per_sec"

fun try_from_secs_f64 :: "f64 \<Rightarrow> duration option" where
  "try_from_secs_f64 (Fin q) =
     (let n = round_even (q * 1000000000)
      in if q < 0 \<or> int duration_end \<le> n then None else Some (nat n))"
| "try_from_secs_f64 x = None"

definition as_secs_f64 :: "duration \<Rightarrow> f64" where
  "as_secs_f64 d =
     Fin (rnd (rnd (of_nat (d div nanos_per_sec)) + rnd (of_nat (d mod nanos_per_sec) / 1000000000)))"

section \<open>Rounding\<close>

lemma round_even_of_int [simp]: "round_even (of_int n) = n"
  by (simp add: round_even_def)

lemma round_even_of_nat [simp]: "round_even (of_nat n) = int n"
  using round_even_of_int [of "int n"] by simp

lemma round_even_numeral [simp]: "round_even 0 = 0" "round_even 1 = 1" "round_even (numeral k) = numeral k"
  using round_even_of_int [of 0] round_even_of_int [of 1] round_even_of_int [of "numeral k"] by simp_all

lemma round_even_err: "\<bar>of_int (round_even q) - q\<bar> \<le> 1/2"
proof -
  have "of_int \<lfloor>q\<rfloor> \<le> q" "q < of_int \<lfloor>q\<rfloor> + 1" by linarith+
  then show ?thesis by (auto simp: round_even_def Let_def abs_le_iff)
qed

lemma round_even_near:
  assumes "\<bar>q - of_int n\<bar> < 1/2"
  shows "round_even q = n"
proof -
  have "\<bar>of_int (round_even q) - of_int n\<bar> < (1::rat)"
    using round_even_err [of q] assms by linarith
  then have "\<bar>round_even q - n\<bar> < 1" by linarith
  then show ?thesis by linarith
qed

lemma round_even_nonneg: "0 \<le> q \<Longrightarrow> 0 \<le> round_even q"
  by (simp add: round_even_def Let_def add_nonneg_nonneg)

lemma bitlen_le:
  assumes "0 \<le> x" "x < 2 ^ k"
  shows "nat (bitlen x) \<le> k"
proof (cases "x = 0")
  case False
  with assms have "0 < x" by simp
  from bitlen_bounds [OF this] have "(2::int) ^ nat (bitlen x - 1) \<le> x" by blast
  with assms have "(2::int) ^ nat (bitlen x - 1) < 2 ^ k" by linarith
  then have "nat (bitlen x - 1) < k" by simp
  then show ?thesis by linarith
qed simp

lemma rnd_unit:
  assumes "0 \<le> q" "q < 2 ^ k"
  shows "nat (bitlen \<lfloor>q * 2 ^ 1074\<rfloor>) - 53 \<le> k + 1021"
proof -
  have "q * 2 ^ 1074 < 2 ^ (k + 1074)"
    using assms by (simp add: power_add)
  then have "\<lfloor>q * 2 ^ 1074\<rfloor> < 2 ^ (k + 1074)"
    by (simp add: floor_less_iff)
  moreover have "0 \<le> \<lfloor>q * 2 ^ 1074\<rfloor>" using assms by simp
  ultimately have "nat (bitlen \<lfloor>q * 2 ^ 1074\<rfloor>) \<le> k + 1074" by (rule bitlen_le [rotated])
  then show ?thesis by linarith
qed

lemma rnd_err:
  assumes "0 \<le> q" "q < 2 ^ k"
  shows "\<bar>rnd q - q\<bar> \<le> 2 ^ k / 2 ^ 54"
proof -
  define m where "m = nat (bitlen \<lfloor>q * 2 ^ 1074\<rfloor>) - 53"
  define x where "x = q * 2 ^ 1074 / 2 ^ m"
  have q: "q = x * 2 ^ m / 2 ^ 1074" by (simp add: x_def)
  have r: "rnd q = of_int (round_even x) * 2 ^ m / 2 ^ 1074"
    by (simp add: rnd_def Let_def m_def x_def)
  have "rnd q - q = (of_int (round_even x) - x) * (2 ^ m / 2 ^ 1074)"
    unfolding r by (simp add: x_def left_diff_distrib)
  then have "\<bar>rnd q - q\<bar> = \<bar>of_int (round_even x) - x\<bar> * (2 ^ m / 2 ^ 1074)"
    by (simp only: abs_mult abs_divide power_abs abs_numeral)
  also have "\<dots> \<le> 1/2 * (2 ^ m / 2 ^ 1074)"
    by (rule mult_right_mono [OF round_even_err]) simp
  also have "\<dots> \<le> 1/2 * (2 ^ (k + 1021) / 2 ^ 1074)"
    using rnd_unit [OF assms] by (intro mult_left_mono divide_right_mono power_increasing) (simp_all add: m_def)
  also have "\<dots> = 2 ^ k / 2 ^ 54"
    by (simp add: power_add field_simps)
  finally show ?thesis .
qed

lemma rnd_nonneg: "0 \<le> q \<Longrightarrow> 0 \<le> rnd q"
  by (simp add: rnd_def Let_def round_even_nonneg)

lemma rnd_of_nat:
  assumes "n < 2 ^ 53"
  shows "rnd (of_nat n) = of_nat n"
proof -
  define m where "m = nat (bitlen \<lfloor>(of_nat n :: rat) * 2 ^ 1074\<rfloor>) - 53"
  have "(of_nat n :: rat) < 2 ^ 53"
    using assms by (metis of_nat_less_iff of_nat_numeral of_nat_power)
  from rnd_unit [OF _ this] have m: "m \<le> 1074" by (simp add: m_def)
  then have p: "(2::rat) ^ 1074 = 2 ^ (1074 - m) * 2 ^ m" by (simp flip: power_add)
  have "(of_nat n :: rat) * 2 ^ 1074 / 2 ^ m = of_nat (n * 2 ^ (1074 - m))"
    by (subst p) simp
  then have "rnd (of_nat n) = of_int (round_even (of_nat (n * 2 ^ (1074 - m)))) * 2 ^ m / 2 ^ 1074"
    unfolding rnd_def Let_def by (simp only: m_def [symmetric])
  also have "\<dots> = of_nat n" unfolding round_even_of_nat by (subst p) simp
  finally show ?thesis .
qed

section \<open>Durations\<close>

lemma try_from_secs_f64_Some_iff:
  "try_from_secs_f64 x = Some d \<longleftrightarrow>
     (\<exists>q. x = Fin q \<and> 0 \<le> q \<and> d < duration_end \<and> round_even (q * 1000000000) = int d)"
proof (cases x)
  case (Fin q)
  have "0 \<le> round_even (q * 1000000000)" if "0 \<le> q" using that by (simp add: round_even_nonneg)
  then show ?thesis using Fin by (auto simp: Let_def not_le)
qed auto

lemma try_from_secs_f64_None_neg [simp]: "is_neg x \<Longrightarrow> try_from_secs_f64 x = None"
  by (cases x) (auto simp: Let_def)

lemma try_from_secs_f64_whole:
  "n < 2 ^ 64 \<Longrightarrow> try_from_secs_f64 (Fin (of_nat n)) = Some (n * nanos_per_sec)"
proof -
  assume n: "n < 2 ^ 64"
  have "(of_nat n :: rat) * 1000000000 = of_nat (n * 1000000000)" by simp
  then have "round_even (of_nat n * 1000000000) = int (n * 1000000000)"
    by (simp only: round_even_of_nat)
  with n show ?thesis
    by (simp add: try_from_secs_f64_Some_iff duration_end_def nanos_per_sec_def)
qed

lemma as_secs_f64_err:
  assumes "d < 2 ^ 23 * nanos_per_sec" "as_secs_f64 d = Fin q"
  shows "0 \<le> q" "\<bar>q * 1000000000 - of_nat d\<bar> < 1/2"
proof -
  define s where "s = d div nanos_per_sec"
  define n where "n = d mod nanos_per_sec"
  define y :: rat where "y = of_nat n / 1000000000"
  have s: "s < 2 ^ 23" using assms(1) unfolding s_def
    by (simp add: less_mult_imp_div_less)
  have n: "n < 1000000000" by (simp add: n_def nanos_per_sec_def)
  have d: "of_nat d = of_nat s * 1000000000 + (of_nat n :: rat)"
    using div_mult_mod_eq [of d nanos_per_sec] unfolding s_def n_def nanos_per_sec_def
    by (metis of_nat_add of_nat_mult of_nat_numeral)
  have y: "0 \<le> y" "y \<le> 999999999/1000000000" using n by (simp_all add: y_def field_simps)
  have ry: "\<bar>rnd y - y\<bar> \<le> 1 / 2 ^ 54" using rnd_err [of y 0] y by simp
  have ry0: "0 \<le> rnd y" using y by (simp add: rnd_nonneg)
  have rs: "rnd (of_nat s) = of_nat s" using s by (intro rnd_of_nat) simp
  have q: "q = rnd (of_nat s + rnd y)"
    using assms(2) by (simp add: as_secs_f64_def rs y_def s_def [symmetric] n_def [symmetric])
  then show "0 \<le> q" using ry0 by (simp add: rnd_nonneg)
  have s': "(of_nat s :: rat) \<le> 2 ^ 23 - 1"
  proof -
    have "s + 1 \<le> 2 ^ 23" using s by simp
    then have "(of_nat (s + 1) :: rat) \<le> of_nat (2 ^ 23)" by (rule of_nat_mono)
    then show ?thesis by simp
  qed
  have "rnd y \<le> y + 1 / 2 ^ 54" using ry by (simp only: abs_le_iff) linarith
  then have "rnd y < 1" using y by simp
  with s' have "of_nat s + rnd y < 2 ^ 23" by linarith
  from rnd_err [OF _ this] ry0 have "\<bar>q - (of_nat s + rnd y)\<bar> \<le> 2 ^ 23 / 2 ^ 54" by (simp add: q)
  with ry have "\<bar>q - (of_nat s + y)\<bar> \<le> 2 ^ 23 / 2 ^ 54 + 1 / 2 ^ 54" by linarith
  then have "\<bar>q - (of_nat s + y)\<bar> * 1000000000 < 1/2" by simp
  moreover have "q * 1000000000 - of_nat d = (q - (of_nat s + y)) * 1000000000"
    by (simp add: d y_def algebra_simps)
  ultimately show "\<bar>q * 1000000000 - of_nat d\<bar> < 1/2" by (simp only: abs_mult abs_numeral)
qed

lemma duration_round_trip:
  assumes "d < 2 ^ 23 * nanos_per_sec"
  shows "try_from_secs_f64 (as_secs_f64 d) = Some d"
proof -
  obtain q where q: "as_secs_f64 d = Fin q" by (simp add: as_secs_f64_def)
  have "round_even (q * 1000000000) = int d"
    using as_secs_f64_err [OF assms q] by (intro round_even_near) simp
  with as_secs_f64_err(1) [OF assms q] q assms show ?thesis
    by (simp add: try_from_secs_f64_Some_iff duration_end_def nanos_per_sec_def)
qed

end
