(* ===== verification/Pyo3.thy ===== *)
theory Pyo3
  imports Floats
begin

text \<open>
  Python as the bindings see it: the exception classes the module registers
  (\<open>create_exception!\<close> in \<open>src/src/lib.rs\<close> and \<open>src/src/mode.rs\<close>) with their
  bases, an exception with the attributes the bindings set on it, and the object
  operations of PyO3 the bindings call. PyO3 is not part of the repository: its
  operations are the fields of a record that the definitions take as a parameter,
  in the place where the source takes the token \<open>py\<close>.
\<close>

section \<open>Exception classes\<close>

text \<open>
  The classes of the module, Python's own classes it raises, and \<open>Foreign\<close> for a
  class of the application (an exception a callback raised).
\<close>

datatype py_class =
    ZmuxError | ConnectError | SessionClosed | EarlyDataRejected | StreamError | StreamReset
  | StreamStopped | IncompleteRead | LimitExceeded | ListenerClosed | OpenError | DatagramError
  | PipeError | PreambleTooLargeError | ModeError
  | PyBaseException | PyException | PyValueError | PyTypeError | PyRuntimeError
  | PyStopAsyncIteration | PyBufferError | PyCancelledError | PanicException | Foreign string

text \<open>The base a class is created with; Python's classes have theirs.\<close>

fun base_class :: "py_class \<Rightarrow> py_class option" where
  "base_class ZmuxError = Some PyException"
| "base_class ConnectError = Some ZmuxError"
| "base_class SessionClosed = Some ZmuxError"
| "base_class EarlyDataRejected = Some ZmuxError"
| "base_class StreamError = Some ZmuxError"
| "base_class StreamReset = Some StreamError"
| "base_class StreamStopped = Some StreamError"
| "base_class IncompleteRead = Some StreamError"
| "base_class LimitExceeded = Some StreamError"
| "base_class ListenerClosed = Some ZmuxError"
| "base_class OpenError = Some ZmuxError"
| "base_class DatagramError = Some ZmuxError"
| "base_class PipeError = Some ZmuxError"
| "base_class PreambleTooLargeError = Some PyValueError"
| "base_class ModeError = Some ZmuxError"
| "base_class PyBaseException = None"
| "base_class PyException = Some PyBaseException"
| "base_class PyValueError = Some PyException"
| "base_class PyTypeError = Some PyException"
| "base_class PyRuntimeError = Some PyException"
| "base_class PyStopAsyncIteration = Some PyException"
| "base_class PyBufferError = Some PyException"
| "base_class PyCancelledError = Some PyBaseException"
| "base_class PanicException = Some PyBaseException"
| "base_class (Foreign n) = Some PyException"

text \<open>The depth of the class tree is four; \<open>is_subclass\<close> follows the bases up.\<close>

fun subclass_fuel :: "nat \<Rightarrow> py_class \<Rightarrow> py_class \<Rightarrow> bool" where
  "subclass_fuel 0 c d = (c = d)"
| "subclass_fuel (Suc n) c d =
     (c = d \<or> (case base_class c of None \<Rightarrow> False | Some b \<Rightarrow> subclass_fuel n b d))"

definition is_subclass :: "py_class \<Rightarrow> py_class \<Rightarrow> bool" where
  "is_subclass c d = subclass_fuel 4 c d"

text \<open>
  A string of the Python layer: a member of one of its enumerations (whose text it equals)
  or a plain \<open>str\<close>.
\<close>

datatype py_tag = EnumMember string string | PlainStr string

fun tag_text :: "py_tag \<Rightarrow> string" where
  "tag_text (EnumMember e v) = v"
| "tag_text (PlainStr v) = v"

text \<open>An attribute of an exception object that \<open>setattr\<close> may or may not have set.\<close>

datatype 'a attribute = Unset | Attr 'a

record py_err =
  err_class :: py_class
  err_msg :: string
  err_kind :: "py_tag attribute"
  err_retryable :: "bool attribute"
  err_code :: "u64 option attribute"
  err_reason :: "bytes option attribute"
  err_remote :: "bool option attribute"

type_synonym 'a py_result = "py_err + 'a"

definition new_err :: "py_class \<Rightarrow> string \<Rightarrow> py_err" where
  "new_err c m = \<lparr>err_class = c, err_msg = m, err_kind = Unset, err_retryable = Unset,
     err_code = Unset, err_reason = Unset, err_remote = Unset\<rparr>"

definition is_instance :: "py_err \<Rightarrow> py_class \<Rightarrow> bool" where
  "is_instance e c = is_subclass (err_class e) c"

section \<open>Object operations\<close>

text \<open>
  The operations on a Python object \<open>'o\<close>: tests, conversions (\<open>extract\<close> at the
  type the source asks for), attribute access, the objects made of Rust values
  (\<open>into_pyobject\<close>), and the construction of a dataclass of \<open>zmux._types\<close> from keyword
  arguments. Each conversion may raise; \<open>mapping_items\<close> is \<open>None\<close> on an object that is not a
  mapping.
\<close>

record 'o py =
  is_none :: "'o \<Rightarrow> bool"
  is_float :: "'o \<Rightarrow> bool"
  is_str :: "'o \<Rightarrow> bool"
  extract_i128 :: "'o \<Rightarrow> int py_result"
  extract_u64 :: "'o \<Rightarrow> u64 py_result"
  extract_f64 :: "'o \<Rightarrow> f64 py_result"
  extract_bool :: "'o \<Rightarrow> bool py_result"
  extract_str :: "'o \<Rightarrow> string py_result"
  extract_bytes :: "'o \<Rightarrow> bytes py_result"
  getattr :: "'o \<Rightarrow> string \<Rightarrow> 'o py_result"
  mk_none :: 'o
  mk_u64 :: "u64 \<Rightarrow> 'o"
  mk_f64 :: "f64 \<Rightarrow> 'o"
  mk_bool :: "bool \<Rightarrow> 'o"
  mk_str :: "string \<Rightarrow> 'o"
  mapping_items :: "'o \<Rightarrow> ('o \<times> 'o) list py_result option"
  call_kw :: "string \<Rightarrow> (string \<times> 'o) list \<Rightarrow> 'o py_result"

text \<open>\<open>extract::<Option<T>>\<close> and the object of an \<open>Option\<close>.\<close>

definition extract_opt :: "('o, 'm) py_scheme \<Rightarrow> ('o \<Rightarrow> 'a py_result) \<Rightarrow> 'o \<Rightarrow> 'a option py_result" where
  "extract_opt py f v = (if is_none py v then Inr None else map_ok Some (f v))"

definition mk_opt :: "('o, 'm) py_scheme \<Rightarrow> ('a \<Rightarrow> 'o) \<Rightarrow> 'a option \<Rightarrow> 'o" where
  "mk_opt py f x = (case x of None \<Rightarrow> mk_none py | Some a \<Rightarrow> f a)"

text \<open>An attribute whose value \<open>None\<close> is no value.\<close>

definition opt_attr :: "('o, 'm) py_scheme \<Rightarrow> 'o \<Rightarrow> string \<Rightarrow> 'o option py_result" where
  "opt_attr py ob name =
     map_ok (\<lambda>v. if is_none py v then None else Some v) (getattr py ob name)"

section \<open>Python's built-in values\<close>

text \<open>
  The values of Python the bindings exchange, and the operations on them as Python and
  PyO3 document them: a \<open>bool\<close> is an integer, a float is not converted to one, an integer
  that a double represents is converted to it, and a dataclass instance has the attributes
  it is made with.
\<close>

datatype pyval =
    PNone | PBool bool | PInt int | PFloat f64 | PStr string | PBytes bytes
  | PDict "(pyval \<times> pyval) list" | PInst string "(string \<times> pyval) list"

fun int_of_pyval :: "pyval \<Rightarrow> int py_result" where
  "int_of_pyval (PInt n) = Inr n"
| "int_of_pyval (PBool b) = Inr (of_bool b)"
| "int_of_pyval v = Inl (new_err PyTypeError ''an integer is required'')"

definition in_range :: "int \<Rightarrow> int \<Rightarrow> int \<Rightarrow> int py_result" where
  "in_range lo hi n =
     (if lo \<le> n \<and> n < hi then Inr n else Inl (new_err (Foreign ''OverflowError'') ''out of range''))"

fun f64_of_pyval :: "pyval \<Rightarrow> f64 py_result" where
  "f64_of_pyval (PFloat x) = Inr x"
| "f64_of_pyval v = map_ok (\<lambda>n. Fin (of_int n)) (and_then (int_of_pyval v) (in_range (- (2 ^ 53)) (2 ^ 53)))"

fun bool_of_pyval :: "pyval \<Rightarrow> bool py_result" where
  "bool_of_pyval (PBool b) = Inr b"
| "bool_of_pyval v = Inl (new_err PyTypeError ''a bool is required'')"

fun str_of_pyval :: "pyval \<Rightarrow> string py_result" where
  "str_of_pyval (PStr t) = Inr t"
| "str_of_pyval v = Inl (new_err PyTypeError ''a str is required'')"

fun bytes_of_pyval :: "pyval \<Rightarrow> bytes py_result" where
  "bytes_of_pyval (PBytes b) = Inr b"
| "bytes_of_pyval v = Inl (new_err PyTypeError ''bytes are required'')"

fun pyval_getattr :: "pyval \<Rightarrow> string \<Rightarrow> pyval py_result" where
  "pyval_getattr (PInst c kw) n = ok_or (new_err (Foreign ''AttributeError'') n) (map_of kw n)"
| "pyval_getattr v n = Inl (new_err (Foreign ''AttributeError'') n)"

definition builtins :: "pyval py" where
  "builtins =
     \<lparr>is_none = (\<lambda>v. v = PNone),
      is_float = (\<lambda>v. case v of PFloat x \<Rightarrow> True | _ \<Rightarrow> False),
      is_str = (\<lambda>v. case v of PStr t \<Rightarrow> True | _ \<Rightarrow> False),
      extract_i128 = (\<lambda>v. and_then (int_of_pyval v) (in_range (- (2 ^ 127)) (2 ^ 127))),
      extract_u64 = (\<lambda>v. map_ok of_int (and_then (int_of_pyval v) (in_range 0 (2 ^ 64)))),
      extract_f64 = f64_of_pyval,
      extract_bool = bool_of_pyval,
      extract_str = str_of_pyval,
      extract_bytes = bytes_of_pyval,
      getattr = pyval_getattr,
      mk_none = PNone,
      mk_u64 = (\<lambda>n. PInt (uint n)),
      mk_f64 = PFloat,
      mk_bool = PBool,
      mk_str = PStr,
      mapping_items = (\<lambda>v. case v of PDict kvs \<Rightarrow> Some (Inr kvs) | _ \<Rightarrow> None),
      call_kw = (\<lambda>c kw. Inr (PInst c kw))\<rparr>"

section \<open>Facts\<close>

lemma subclass_refl [simp]: "is_subclass c c"
  by (cases c) (simp_all add: is_subclass_def numeral_eq_Suc)

lemma new_err_simps [simp]:
  "err_class (new_err c m) = c" "err_msg (new_err c m) = m" "err_kind (new_err c m) = Unset"
  "err_retryable (new_err c m) = Unset" "err_code (new_err c m) = Unset"
  "err_reason (new_err c m) = Unset" "err_remote (new_err c m) = Unset"
  by (simp_all add: new_err_def)

lemma uint_in_range: "in_range 0 (2 ^ 64) (uint (n::u64)) = Inr (uint n)"
  "in_range (- (2 ^ 127)) (2 ^ 127) (uint (n::u64)) = Inr (uint n)"
  using uint_lt2p [of n] by (auto simp: in_range_def intro: order.trans [of _ 0])

lemmas uint_in_range_numeral [simp] = uint_in_range [simplified]

section \<open>The interface of the object operations\<close>

text \<open>
  What the conversions between Rust and Python promise: a value that was converted to an
  object is read back as it was, only \<open>None\<close> is \<open>None\<close>, and a dataclass instance has the
  attributes it was made with.
\<close>

locale py_values =
  fixes py :: "'o py"
  assumes none_is_none: "is_none py (mk_none py)"
    and not_none: "\<not> is_none py (mk_u64 py n)" "\<not> is_none py (mk_f64 py x)"
      "\<not> is_none py (mk_bool py b)" "\<not> is_none py (mk_str py t)"
    and read_back: "extract_i128 py (mk_u64 py n) = Inr (uint n)" "extract_u64 py (mk_u64 py n) = Inr n"
      "extract_f64 py (mk_f64 py x) = Inr x" "extract_bool py (mk_bool py b) = Inr b"
      "extract_str py (mk_str py t) = Inr t"
    and dataclass_made: "\<exists>ob. call_kw py c kw = Inr ob"
    and dataclass_attr: "call_kw py c kw = Inr ob \<Longrightarrow> map_of kw k = Some v \<Longrightarrow> getattr py ob k = Inr v"
begin

lemmas py_laws = none_is_none not_none read_back

lemma is_none_mk_opt:
  "(\<And>a. \<not> is_none py (f a)) \<Longrightarrow> is_none py (mk_opt py f x) \<longleftrightarrow> x = None"
  by (simp add: mk_opt_def none_is_none split: option.splits)

lemma extract_mk_opt:
  assumes "\<And>a. \<not> is_none py (f a)" "\<And>a. g (f a) = Inr a"
  shows "extract_opt py g (mk_opt py f x) = Inr x"
  using assms by (cases x) (simp_all add: extract_opt_def mk_opt_def none_is_none)

lemma opt_attr_made:
  assumes "call_kw py c kw = Inr ob" "map_of kw k = Some (mk_opt py f x)" "\<And>a. \<not> is_none py (f a)"
  shows "opt_attr py ob k = Inr (map_option f x)"
  using assms is_none_mk_opt [of f x] dataclass_attr [OF assms(1,2)]
  by (cases x) (simp_all add: opt_attr_def mk_opt_def)

end

lemma builtins_simps [simp]:
  "is_none builtins v \<longleftrightarrow> v = PNone" "is_float builtins v = (case v of PFloat x \<Rightarrow> True | _ \<Rightarrow> False)"
  "is_str builtins v = (case v of PStr t \<Rightarrow> True | _ \<Rightarrow> False)"
  "extract_i128 builtins v = and_then (int_of_pyval v) (in_range (- (2 ^ 127)) (2 ^ 127))"
  "extract_u64 builtins v = map_ok of_int (and_then (int_of_pyval v) (in_range 0 (2 ^ 64)))"
  "extract_f64 builtins v = f64_of_pyval v" "extract_bool builtins v = bool_of_pyval v"
  "extract_str builtins v = str_of_pyval v" "extract_bytes builtins v = bytes_of_pyval v"
  "getattr builtins v n = pyval_getattr v n" "mk_none builtins = PNone"
  "mk_u64 builtins = (\<lambda>n. PInt (uint n))" "mk_f64 builtins = PFloat" "mk_bool builtins = PBool"
  "mk_str builtins = PStr"
  "mapping_items builtins v = (case v of PDict kvs \<Rightarrow> Some (Inr kvs) | _ \<Rightarrow> None)"
  "call_kw builtins c kw = Inr (PInst c kw)"
  by (simp_all add: builtins_def)

interpretation bi: py_values builtins
  by unfold_locales auto

end
