(* ===== verification/Bridge.thy ===== *)
theory Bridge
  imports Machines Pyo3
begin

text \<open>
  The asyncio bridges of \<open>src/src/rt.rs\<close>. \<open>future_into_py\<close> gives Python an asyncio future
  for a Rust future that runs on the runtime (with the callbacks \<open>OnCancel\<close> and
  \<open>Complete\<close>); \<open>into_future\<close> gives Rust a future for a Python awaitable that runs as a task
  on the event loop (\<open>Start\<close>, \<open>Done\<close>, \<open>Slot\<close>, \<open>CancelOnDrop\<close>). Each is a machine whose
  actions are the callbacks the loop runs, the polls of the Rust task, and what Python and
  the event loop may do in between. Python's objects are values of type \<open>'v\<close>; the Rust
  result has type \<open>'t\<close>, and its conversion \<open>into_py_any\<close> is the parameter \<open>conv\<close>.
\<close>

section \<open>Rust to Python: \<open>future_into_py\<close>\<close>

text \<open>An asyncio future; setting a future that is done raises \<open>InvalidStateError\<close> (\<open>None\<close>).\<close>

datatype 'v py_future = FutPending | FutResult 'v | FutException py_err | FutCancelled

fun fut_done :: "'v py_future \<Rightarrow> bool" where
  "fut_done FutPending = False"
| "fut_done _ = True"

fun fut_set :: "'v py_future \<Rightarrow> py_err + 'v \<Rightarrow> 'v py_future option" where
  "fut_set FutPending (Inr v) = Some (FutResult v)"
| "fut_set FutPending (Inl e) = Some (FutException e)"
| "fut_set _ _ = None"

text \<open>\<open>Complete.__call__\<close>: sets the future unless it is done already.\<close>

definition complete_call :: "'v py_future \<Rightarrow> py_err + 'v \<Rightarrow> 'v py_future option" where
  "complete_call f out = (if \<not> fut_done f then fut_set f out else Some f)"

text \<open>
  The spawned task: in its \<open>select!\<close>; returned through the cancellation arm, which drops
  the Rust future; finished with a result that the blocking closure has to hand over; the
  call of \<open>Complete\<close> queued on the loop; run; or lost with a closed loop.
\<close>

datatype ('t, 'v) rust_task =
    Selecting | Abandoned | Finished "py_err + 't" | Posted "py_err + 'v"
  | Completed "py_err + 'v" | LoopGone

record ('t, 'v) bridge =
  target :: "'v py_future"
  callback_due :: bool
  cancel_tx :: bool
  cancel_rx_ready :: bool
  rtask :: "('t, 'v) rust_task"
  app_ref :: bool
  alive :: bool
  loop_open :: bool
  raised :: bool

definition bridge_init :: "('t, 'v) bridge" where
  "bridge_init = \<lparr>target = FutPending, callback_due = False, cancel_tx = True,
     cancel_rx_ready = False, rtask = Selecting, app_ref = True, alive = True,
     loop_open = True, raised = False\<rparr>"

text \<open>The task holds \<open>fut_py\<close>, a strong reference to the future, until it ends.\<close>

fun task_ref :: "('t, 'v) rust_task \<Rightarrow> bool" where
  "task_ref Selecting = True"
| "task_ref (Finished r) = True"
| "task_ref (Posted r) = True"
| "task_ref _ = False"

text \<open>Python cancels the future (\<open>Future.cancel\<close>): its done callbacks are scheduled.\<close>

definition py_cancel :: "('t, 'v) bridge \<Rightarrow> ('t, 'v) bridge option" where
  "py_cancel s =
     (if alive s \<and> app_ref s \<and> \<not> fut_done (target s)
      then Some (s\<lparr>target := FutCancelled, callback_due := True\<rparr>) else None)"

text \<open>\<open>OnCancel.__call__\<close>, run by the loop for a future that is done.\<close>

definition on_cancel_call :: "('t, 'v) bridge \<Rightarrow> ('t, 'v) bridge option" where
  "on_cancel_call s =
     (if callback_due s
      then Some (if target s = FutCancelled \<and> cancel_tx s
                 then s\<lparr>callback_due := False, cancel_tx := False, cancel_rx_ready := True\<rparr>
                 else s\<lparr>callback_due := False\<rparr>)
      else None)"

text \<open>The biased \<open>select!\<close>: the cancellation arm first, then the Rust future.\<close>

definition select_poll :: "('t, 'v) bridge \<Rightarrow> (py_err + 't) poll \<Rightarrow> ('t, 'v) bridge option" where
  "select_poll s p =
     (case rtask s of
        Selecting \<Rightarrow>
          Some (if cancel_rx_ready s then s\<lparr>rtask := Abandoned\<rparr>
                else case p of Ready r \<Rightarrow> s\<lparr>rtask := Finished r\<rparr> | Pending \<Rightarrow> s)
      | _ \<Rightarrow> None)"

text \<open>The blocking closure: converts the result and queues \<open>Complete\<close> on the loop if it can.\<close>

definition post_result ::
    "('t \<Rightarrow> 'v py_result) \<Rightarrow> ('t, 'v) bridge \<Rightarrow> ('t, 'v) bridge option" where
  "post_result conv s =
     (case rtask s of
        Finished r \<Rightarrow>
          Some (if loop_open s then s\<lparr>rtask := Posted (and_then r conv)\<rparr> else s\<lparr>rtask := LoopGone\<rparr>)
      | _ \<Rightarrow> None)"

text \<open>The loop runs the queued \<open>Complete\<close>; a future that gets its result schedules its callbacks.\<close>

definition run_complete :: "('t, 'v) bridge \<Rightarrow> ('t, 'v) bridge option" where
  "run_complete s =
     (case rtask s of
        Posted out \<Rightarrow>
          (case complete_call (target s) out of
             None \<Rightarrow> Some (s\<lparr>rtask := Completed out, raised := True\<rparr>)
           | Some f \<Rightarrow> Some (s\<lparr>target := f, rtask := Completed out,
                               callback_due := (callback_due s \<or> \<not> fut_done (target s))\<rparr>))
      | _ \<Rightarrow> None)"

text \<open>
  The loop closes: a queued call is never run, and a scheduled callback goes with its
  sender.
\<close>

definition loop_close :: "('t, 'v) bridge \<Rightarrow> ('t, 'v) bridge option" where
  "loop_close s =
     Some (s\<lparr>loop_open := False, callback_due := False,
             cancel_tx := (cancel_tx s \<and> \<not> callback_due s),
             cancel_rx_ready := (cancel_rx_ready s \<or> callback_due s \<and> cancel_tx s),
             rtask := (case rtask s of Posted out \<Rightarrow> LoopGone | r \<Rightarrow> r)\<rparr>)"

text \<open>Python drops its reference; the object is collected, with its callback and the sender in it.\<close>

definition app_drop :: "('t, 'v) bridge \<Rightarrow> ('t, 'v) bridge option" where
  "app_drop s = Some (s\<lparr>app_ref := False\<rparr>)"

definition collect_future :: "('t, 'v) bridge \<Rightarrow> ('t, 'v) bridge option" where
  "collect_future s =
     (if alive s \<and> \<not> app_ref s \<and> \<not> task_ref (rtask s) \<and> \<not> callback_due s
      then Some (s\<lparr>alive := False, cancel_tx := False,
                   cancel_rx_ready := (cancel_rx_ready s \<or> cancel_tx s)\<rparr>)
      else None)"

datatype 't bridge_action =
    PyCancel | OnCancelCall | SelectPoll "(py_err + 't) poll" | PostResult | RunComplete
  | LoopClose | AppDrop | CollectFuture

fun bridge_step ::
    "('t \<Rightarrow> 'v py_result) \<Rightarrow> ('t, 'v) bridge \<Rightarrow> 't bridge_action \<Rightarrow> ('t, 'v) bridge option" where
  "bridge_step conv s PyCancel = py_cancel s"
| "bridge_step conv s OnCancelCall = on_cancel_call s"
| "bridge_step conv s (SelectPoll p) = select_poll s p"
| "bridge_step conv s PostResult = post_result conv s"
| "bridge_step conv s RunComplete = run_complete s"
| "bridge_step conv s LoopClose = loop_close s"
| "bridge_step conv s AppDrop = app_drop s"
| "bridge_step conv s CollectFuture = collect_future s"

section \<open>Python to Rust: \<open>into_future\<close>\<close>

text \<open>The task of the awaitable on the loop; a cancellation is a request until the task ends.\<close>

datatype 'v loop_task = NoTask | TaskRunning | TaskCancelling | TaskDone "py_err + 'v"

text \<open>The oneshot channel from the loop to Rust, seen by the receiver.\<close>

datatype 'v oneshot = NoValue | Sent "py_err + 'v" | SenderGone

datatype 'v rust_future = Awaiting | Got "py_err + 'v" | FutureDropped

record 'v into_fut =
  start_awaitable :: bool
  start_tx :: bool
  start_live :: bool
  done_tx :: bool
  slot_task :: bool
  slot_dropped :: bool
  coro_closed :: bool
  ltask :: "'v loop_task"
  starts :: nat
  rx :: "'v oneshot"
  rust :: "'v rust_future"
  armed :: bool

text \<open>\<open>into_future\<close>: the start queued on the loop, the guard armed.\<close>

definition into_future :: "'v into_fut" where
  "into_future = \<lparr>start_awaitable = True, start_tx = True, start_live = True, done_tx = False,
     slot_task = False, slot_dropped = False, coro_closed = False, ltask = NoTask, starts = 0,
     rx = NoValue, rust = Awaiting, armed = True\<rparr>"

text \<open>
  \<open>Start.__call__\<close> under the slot's lock; \<open>ok\<close> says whether \<open>ensure_future\<close> made a task
  (it raises for an object that is not awaitable, and the call returns that error).
\<close>

definition start_call :: "bool \<Rightarrow> 'v into_fut \<Rightarrow> 'v into_fut option" where
  "start_call ok s =
     (if \<not> start_live s then None
      else if \<not> start_awaitable s then Some s
      else if slot_dropped s then Some (s\<lparr>start_awaitable := False, coro_closed := True\<rparr>)
      else if \<not> ok then Some (s\<lparr>start_awaitable := False\<rparr>)
      else Some (s\<lparr>start_awaitable := False, ltask := TaskRunning, starts := starts s + 1,
                   done_tx := start_tx s, start_tx := False, slot_task := True\<rparr>))"

text \<open>The loop forgets the \<open>Start\<close> object (after its call, or closed before it): a sender in it is dropped.\<close>

definition start_collect :: "'v into_fut \<Rightarrow> 'v into_fut option" where
  "start_collect s =
     (if start_live s
      then Some (s\<lparr>start_live := False, start_tx := False, start_awaitable := False,
                   rx := (if start_tx s then SenderGone else rx s)\<rparr>)
      else None)"

text \<open>The task ends, with its own result or as cancelled.\<close>

definition task_end :: "py_err + 'v \<Rightarrow> 'v into_fut \<Rightarrow> 'v into_fut option" where
  "task_end r s =
     (if ltask s = TaskRunning \<or> ltask s = TaskCancelling then Some (s\<lparr>ltask := TaskDone r\<rparr>) else None)"

text \<open>\<open>Done.__call__\<close>: the result of the finished task goes into the channel, once.\<close>

definition done_call :: "'v into_fut \<Rightarrow> 'v into_fut option" where
  "done_call s =
     (case ltask s of
        TaskDone r \<Rightarrow> Some (if done_tx s then s\<lparr>done_tx := False, rx := Sent r\<rparr> else s)
      | _ \<Rightarrow> None)"

text \<open>The loop closed: the \<open>Done\<close> callback and the sender in it are dropped.\<close>

definition done_collect :: "'v into_fut \<Rightarrow> 'v into_fut option" where
  "done_collect s =
     (if done_tx s then Some (s\<lparr>done_tx := False, rx := SenderGone\<rparr>) else None)"

definition task_dropped_err :: py_err where
  "task_dropped_err = new_err PyCancelledError ''the task was dropped''"

text \<open>A poll of the Rust future: the result, or the error of a dropped sender, disarms the guard.\<close>

definition future_poll :: "'v into_fut \<Rightarrow> 'v into_fut option" where
  "future_poll s =
     (if rust s = Awaiting
      then Some (case rx s of
                   NoValue \<Rightarrow> s
                 | Sent r \<Rightarrow> s\<lparr>rust := Got r, armed := False\<rparr>
                 | SenderGone \<Rightarrow> s\<lparr>rust := Got (Inl task_dropped_err), armed := False\<rparr>)
      else None)"

text \<open>The Rust future is dropped before its result: \<open>CancelOnDrop::drop\<close>.\<close>

definition future_drop :: "'v into_fut \<Rightarrow> 'v into_fut option" where
  "future_drop s =
     (if rust s = Awaiting
      then Some (if armed s
                 then s\<lparr>rust := FutureDropped, slot_dropped := True, slot_task := False,
                        ltask := (if slot_task s \<and> ltask s = TaskRunning then TaskCancelling
                                  else ltask s)\<rparr>
                 else s\<lparr>rust := FutureDropped\<rparr>)
      else None)"

datatype 'v into_action =
    StartCall bool | StartCollect | TaskEnd "py_err + 'v" | DoneCall | DoneCollect
  | FuturePoll | FutureDrop

fun into_step :: "'v into_fut \<Rightarrow> 'v into_action \<Rightarrow> 'v into_fut option" where
  "into_step s (StartCall ok) = start_call ok s"
| "into_step s StartCollect = start_collect s"
| "into_step s (TaskEnd r) = task_end r s"
| "into_step s DoneCall = done_call s"
| "into_step s DoneCollect = done_collect s"
| "into_step s FuturePoll = future_poll s"
| "into_step s FutureDrop = future_drop s"

section \<open>Invariants\<close>

fun fut_outcome :: "'v py_future \<Rightarrow> (py_err + 'v) option" where
  "fut_outcome (FutResult v) = Some (Inr v)"
| "fut_outcome (FutException e) = Some (Inl e)"
| "fut_outcome _ = None"

definition bridge_inv :: "('t, 'v) bridge \<Rightarrow> bool" where
  "bridge_inv s \<longleftrightarrow>
     \<not> raised s
     \<and> (\<forall>out. fut_outcome (target s) = Some out \<longrightarrow> rtask s = Completed out)
     \<and> (cancel_rx_ready s \<and> task_ref (rtask s) \<longrightarrow> target s = FutCancelled)
     \<and> (rtask s = Abandoned \<longrightarrow> target s = FutCancelled)
     \<and> (callback_due s \<longrightarrow> fut_done (target s))
     \<and> (task_ref (rtask s) \<and> \<not> fut_done (target s) \<longrightarrow> cancel_tx s)"

text \<open>Where the outcome the task carries came from: a poll of the Rust future in the run so far.\<close>

fun logged :: "('t \<Rightarrow> 'v py_result) \<Rightarrow> 't bridge_action list \<Rightarrow> ('t, 'v) rust_task \<Rightarrow> bool" where
  "logged conv as (Finished r) = (SelectPoll (Ready r) \<in> set as)"
| "logged conv as (Posted out) = (\<exists>r. SelectPoll (Ready r) \<in> set as \<and> out = and_then r conv)"
| "logged conv as (Completed out) = (\<exists>r. SelectPoll (Ready r) \<in> set as \<and> out = and_then r conv)"
| "logged conv as _ = True"

definition slot_inv :: "'v into_fut \<Rightarrow> bool" where
  "slot_inv s \<longleftrightarrow>
     slot_dropped s = (rust s = FutureDropped) \<and> (rust s = Awaiting \<longrightarrow> armed s)
     \<and> (ltask s = TaskRunning \<longrightarrow> slot_task s \<and> \<not> slot_dropped s)"

definition start_inv :: "'v into_fut \<Rightarrow> bool" where
  "start_inv s \<longleftrightarrow>
     starts s = (if ltask s = NoTask then 0 else 1) \<and> (start_awaitable s \<longrightarrow> ltask s = NoTask)"

definition sender_inv :: "'v into_fut \<Rightarrow> bool" where
  "sender_inv s \<longleftrightarrow>
     (start_awaitable s \<longrightarrow> start_tx s) \<and> (start_tx s \<longrightarrow> start_live s \<and> \<not> done_tx s)
     \<and> (rx s = NoValue \<longleftrightarrow> start_tx s \<or> done_tx s)"

definition result_inv :: "'v into_fut \<Rightarrow> bool" where
  "result_inv s \<longleftrightarrow>
     (\<forall>r. rx s = Sent r \<longrightarrow> ltask s = TaskDone r)
     \<and> (\<forall>r. rust s = Got r \<longrightarrow> ltask s = TaskDone r \<or> r = Inl task_dropped_err)"

definition into_inv :: "'v into_fut \<Rightarrow> bool" where
  "into_inv s \<longleftrightarrow> slot_inv s \<and> start_inv s \<and> sender_inv s \<and> result_inv s"

section \<open>Proofs\<close>

lemmas [step_defs] = py_cancel_def on_cancel_call_def select_poll_def post_result_def
  run_complete_def loop_close_def app_drop_def collect_future_def complete_call_def
  start_call_def start_collect_def task_end_def done_call_def done_collect_def
  future_poll_def future_drop_def

lemma fut_not_done [simp]: "\<not> fut_done f \<longleftrightarrow> f = FutPending"
  by (cases f) auto

lemma fut_set_pending: "fut_set FutPending out = Some f \<longleftrightarrow> fut_outcome f = Some out"
  by (cases out; cases f) auto

lemma fut_set_defined: "fut_set FutPending out \<noteq> None"
  by (cases out) auto

lemma fut_outcome_done: "fut_outcome f = Some out \<Longrightarrow> f \<noteq> FutPending \<and> f \<noteq> FutCancelled"
  by (cases f) auto

lemma bridge_inv_init: "bridge_inv bridge_init"
  by (simp add: bridge_inv_def bridge_init_def)

lemma py_cancel_inv: "bridge_inv s \<Longrightarrow> py_cancel s = Some s' \<Longrightarrow> bridge_inv s'"
  by (cases "target s"; cases "rtask s") (auto simp: bridge_inv_def py_cancel_def split: if_splits)

lemma on_cancel_call_inv: "bridge_inv s \<Longrightarrow> on_cancel_call s = Some s' \<Longrightarrow> bridge_inv s'"
  by (cases "target s"; cases "rtask s") (auto simp: bridge_inv_def on_cancel_call_def split: if_splits)

lemma select_poll_inv: "bridge_inv s \<Longrightarrow> select_poll s p = Some s' \<Longrightarrow> bridge_inv s'"
  by (cases "rtask s"; cases p) (auto simp: bridge_inv_def select_poll_def split: if_splits)

lemma post_result_inv: "bridge_inv s \<Longrightarrow> post_result conv s = Some s' \<Longrightarrow> bridge_inv s'"
  by (cases "rtask s") (auto simp: bridge_inv_def post_result_def split: if_splits)

lemma run_complete_inv:
  assumes "bridge_inv s" "run_complete s = Some s'"
  shows "bridge_inv s'"
proof -
  from assms(2) obtain out where r: "rtask s = Posted out"
    by (auto simp: run_complete_def split: rust_task.splits)
  show ?thesis
  proof (cases "target s")
    case FutPending
    with r assms show ?thesis
      by (cases out) (auto simp: bridge_inv_def run_complete_def complete_call_def)
  qed (use r assms in \<open>auto simp: bridge_inv_def run_complete_def complete_call_def\<close>)
qed

lemma loop_close_inv: "bridge_inv s \<Longrightarrow> loop_close s = Some s' \<Longrightarrow> bridge_inv s'"
  by (cases "rtask s"; cases "target s") (auto simp: bridge_inv_def loop_close_def)

lemma collect_future_inv: "bridge_inv s \<Longrightarrow> collect_future s = Some s' \<Longrightarrow> bridge_inv s'"
  by (cases "target s"; cases "rtask s") (auto simp: bridge_inv_def collect_future_def split: if_splits)

lemma app_drop_inv: "bridge_inv s \<Longrightarrow> app_drop s = Some s' \<Longrightarrow> bridge_inv s'"
  by (cases "target s"; cases "rtask s") (auto simp: bridge_inv_def app_drop_def)

lemma bridge_inv_step: "bridge_inv s \<Longrightarrow> bridge_step conv s a = Some s' \<Longrightarrow> bridge_inv s'"
  by (cases a; simp)
     (blast intro: py_cancel_inv on_cancel_call_inv select_poll_inv post_result_inv
       run_complete_inv loop_close_inv app_drop_inv collect_future_inv)+

interpretation bridgem: step_invariant "bridge_step conv" bridge_inv bridge_init for conv
  by unfold_locales (rule bridge_inv_step, assumption+, rule bridge_inv_init)

lemma bridge_cancelled_step:
  "target s = FutCancelled \<Longrightarrow> bridge_step conv s a = Some s' \<Longrightarrow> target s' = FutCancelled"
  by (cases a) (auto simp: step_defs split: if_splits rust_task.splits poll.splits)

interpretation bridgec: step_closed "bridge_step conv" "\<lambda>s. target s = FutCancelled" for conv
  by unfold_locales (rule bridge_cancelled_step)

lemma logged_mono: "logged conv as t \<Longrightarrow> logged conv (as @ bs) t"
  by (cases t) auto

lemma logged_step:
  "logged conv as (rtask s) \<Longrightarrow> bridge_step conv s a = Some s' \<Longrightarrow> logged conv (as @ [a]) (rtask s')"
  by (cases a; cases "rtask s")
     (auto simp: step_defs split: if_splits poll.splits option.splits)

lemma logged_run:
  "run_steps (bridge_step conv) bridge_init as = Some s \<Longrightarrow> logged conv as (rtask s)"
proof (induction as arbitrary: s rule: rev_induct)
  case Nil
  then show ?case by (auto simp: bridge_init_def)
next
  case (snoc a as)
  then show ?case by (auto simp: run_steps_append split: option.splits intro: logged_step)
qed

lemma into_inv_init: "into_inv into_future"
  by (simp add: into_inv_def slot_inv_def start_inv_def sender_inv_def result_inv_def into_future_def)

lemma slot_inv_step: "slot_inv s \<Longrightarrow> into_step s a = Some s' \<Longrightarrow> slot_inv s'"
  by (cases a) (auto simp: slot_inv_def step_defs split: if_splits loop_task.splits oneshot.splits)

lemma start_inv_step: "start_inv s \<Longrightarrow> into_step s a = Some s' \<Longrightarrow> start_inv s'"
  by (cases a) (auto simp: start_inv_def step_defs split: if_splits loop_task.splits oneshot.splits)

lemma sender_inv_step: "sender_inv s \<Longrightarrow> into_step s a = Some s' \<Longrightarrow> sender_inv s'"
  by (cases a) (auto simp: sender_inv_def step_defs split: if_splits loop_task.splits oneshot.splits)

lemma result_inv_step:
  "start_inv s \<Longrightarrow> result_inv s \<Longrightarrow> into_step s a = Some s' \<Longrightarrow> result_inv s'"
  by (cases a)
     (auto simp: start_inv_def result_inv_def step_defs split: if_splits loop_task.splits oneshot.splits)

lemma into_inv_step: "into_inv s \<Longrightarrow> into_step s a = Some s' \<Longrightarrow> into_inv s'"
  unfolding into_inv_def
  by (blast intro: slot_inv_step start_inv_step sender_inv_step result_inv_step)

interpretation intom: step_invariant into_step into_inv into_future
  by unfold_locales (rule into_inv_step, assumption+, rule into_inv_init)

section \<open>Properties\<close>



text \<open>
  C8. Cancelling the asyncio future drops the Rust future: once the loop has run the
  callback, the next poll of the task returns through the cancellation arm, even when the
  Rust future is ready at that very poll; and a cancelled future stays cancelled in every
  continuation.
\<close>

theorem cancel_drops_rust_future:
  assumes "reach (bridge_step conv) bridge_init s" "rtask s = Selecting"
    and "target s = FutPending" "alive s" "app_ref s"
  shows "\<exists>s'. run_steps (bridge_step conv) s [PyCancel, OnCancelCall, SelectPoll p] = Some s'
    \<and> rtask s' = Abandoned \<and> (\<forall>s''. reach (bridge_step conv) s' s'' \<longrightarrow> target s'' = FutCancelled)"
proof -
  from bridgem.reachable_inv [OF assms(1)] assms(2,3) have "cancel_tx s"
    by (simp add: bridge_inv_def)
  with assms(2-5) obtain s' where r: "run_steps (bridge_step conv) s [PyCancel, OnCancelCall, SelectPoll p] = Some s'"
    and t: "rtask s' = Abandoned" "target s' = FutCancelled"
    by (simp add: step_defs)
  from t(2) have "\<forall>s''. reach (bridge_step conv) s' s'' \<longrightarrow> target s'' = FutCancelled"
    using bridgec.along_reach by blast
  with r t show ?thesis by blast
qed

theorem cancel_drops_rust_future_witness:
  "\<exists>s'. run_steps (bridge_step (\<lambda>n. Inr (n :: nat))) bridge_init
      [PyCancel, OnCancelCall, SelectPoll (Ready (Inr 4))] = Some s' \<and> rtask s' = Abandoned"
  using cancel_drops_rust_future [OF reach_refl, of "\<lambda>n. Inr (n :: nat)" "Ready (Inr 4)"]
  by (auto simp: bridge_init_def)

text \<open>
  C9. Only a cancellation drops the Rust future before its result: a task that returned
  through the cancellation arm belongs to a cancelled asyncio future. Dropping the asyncio
  future unawaited does not, because the task itself holds a reference to it.
\<close>

theorem abandoned_only_when_cancelled:
  assumes "reach (bridge_step conv) bridge_init s" "rtask s = Abandoned"
  shows "target s = FutCancelled"
  using bridgem.reachable_inv [OF assms(1)] assms(2) by (simp add: bridge_inv_def)

theorem abandoned_only_when_cancelled_witness:
  "\<exists>s. reach (bridge_step (\<lambda>n. Inr (n :: nat))) bridge_init s \<and> rtask s = Abandoned
     \<and> target s = FutCancelled"
proof -
  let ?as = "[PyCancel, AppDrop, OnCancelCall, SelectPoll Pending]"
  obtain s where r: "run_steps (bridge_step (\<lambda>n. Inr (n :: nat))) bridge_init ?as = Some s"
    and t: "rtask s = Abandoned"
    by (simp add: step_defs bridge_init_def)
  from abandoned_only_when_cancelled [OF reach_run [OF r] t] reach_run [OF r] t show ?thesis by blast
qed

text \<open>
  C4. A Python awaitable never outlives the Rust future that waits for it unnoticed: the
  awaitable is started at most once, and when the Rust future was dropped no task of it
  runs without a cancellation requested, in whichever order the loop's start and the drop
  happened.
\<close>

theorem dropped_future_cancels_task:
  assumes "reach into_step into_future s"
  shows "starts s \<le> 1 \<and> (rust s = FutureDropped \<longrightarrow> ltask s \<noteq> TaskRunning)"
  using intom.reachable_inv [OF assms] by (auto simp: into_inv_def start_inv_def slot_inv_def)

theorem dropped_future_cancels_task_witness:
  "\<exists>s. reach into_step into_future s \<and> rust s = FutureDropped \<and> ltask s = TaskCancelling
     \<and> starts s = 1 \<and> (ltask s :: nat loop_task) \<noteq> TaskRunning"
proof -
  obtain s :: "nat into_fut" where r: "run_steps into_step into_future [StartCall True, FutureDrop] = Some s"
    and t: "rust s = FutureDropped" "ltask s = TaskCancelling" "starts s = 1"
    by (simp add: step_defs into_future_def)
  from dropped_future_cancels_task [OF reach_run [OF r]] reach_run [OF r] t show ?thesis by auto
qed



end
