(* ===== verification/Errors.thy ===== *)
theory Errors
  imports Pyo3
begin

text \<open>
  The errors of the \<open>zmux\<close> crate as Python exceptions: \<open>kind_of\<close>, \<open>typed\<close>, \<open>raise\<close> and the
  mappings \<open>session_err\<close> to \<open>io_err\<close> of \<open>src/src/lib.rs\<close>, the \<open>CloseInfo\<close> of
  \<open>wait_closed\<close>, and the errors that are raised without them. The crate's error types are
  given by the variants the source matches and one constructor for the others; their texts
  and their retryability are the crate's, so they are parameters (\<open>err_view\<close>).
\<close>

section \<open>The crate's errors\<close>

text \<open>The last field of a variant stands for the fields the source leaves out (\<open>..\<close>).\<close>

datatype session_error =
    ApplicationClosed u64 bytes bool
  | TransportClosed u64 bytes bool string
  | IdleTimeout bool
  | SessionErrorOther string

datatype stream_error =
    Reset u64 string | Stopped u64 | StreamSessionLost session_error
  | StreamPreambleTooLarge | ClosedLocally | StreamErrorOther string

datatype open_error = OpenSessionLost session_error | OpenPreambleTooLarge | OpenErrorOther string

datatype datagram_error = DatagramSessionLost session_error | DatagramErrorOther string

datatype pipe_error = PipeSessionLost session_error | InvalidOptions | PipeErrorOther string

datatype connect_error = ConnectClosed session_error | ConnectErrorOther string

text \<open>\<open>Display\<close>, \<open>Debug\<close> and \<open>is_retryable\<close> of an error type, and the enumerations of \<open>zmux._types\<close>.\<close>

record 'e err_view =
  display :: "'e \<Rightarrow> string"
  debug :: "'e \<Rightarrow> string"
  retryable :: "'e \<Rightarrow> bool"

record zmux_errors =
  members :: "string \<Rightarrow> string list"
  session_view :: "session_error err_view"
  early_data_rejected :: "session_error \<Rightarrow> bool"
  stream_view :: "stream_error err_view"
  open_view :: "open_error err_view"
  datagram_view :: "datagram_error err_view"
  pipe_view :: "pipe_error err_view"
  connect_view :: "connect_error err_view"

section \<open>Exceptions\<close>

text \<open>The name of a variant: its \<open>Debug\<close> text up to the first \<open>(\<close>, space or \<open>{\<close>.\<close>

definition kind_of :: "string \<Rightarrow> string" where
  "kind_of s = takeWhile (\<lambda>c. c \<notin> set ''( {'') s"

text \<open>The member of an enumeration with that value, or the text itself.\<close>

definition typed :: "(string \<Rightarrow> string list) \<Rightarrow> string \<Rightarrow> string \<Rightarrow> py_tag" where
  "typed ms enum_name v = (if v \<in> set (ms enum_name) then EnumMember enum_name v else PlainStr v)"

definition raise_err ::
    "zmux_errors \<Rightarrow> py_class \<Rightarrow> string \<Rightarrow> string \<Rightarrow> bool \<Rightarrow> u64 option \<Rightarrow> py_err" where
  "raise_err z cls disp dbg retry code =
     (new_err cls disp)\<lparr>err_kind := Attr (typed (members z) ''ErrorKind'' (kind_of dbg)),
        err_retryable := Attr retry, err_code := Attr code\<rparr>"

fun session_fields :: "session_error \<Rightarrow> u64 option \<times> bytes option \<times> bool option" where
  "session_fields (ApplicationClosed code reason remote) = (Some code, Some reason, Some remote)"
| "session_fields (TransportClosed code reason remote rest) = (Some code, Some reason, Some remote)"
| "session_fields (IdleTimeout remote) = (None, None, Some remote)"
| "session_fields (SessionErrorOther d) = (None, None, None)"

definition session_err :: "zmux_errors \<Rightarrow> session_error \<Rightarrow> py_err" where
  "session_err z e =
     (case session_fields e of (code, reason, remote) \<Rightarrow>
        (raise_err z (if early_data_rejected z e then EarlyDataRejected else SessionClosed)
           (display (session_view z) e) (debug (session_view z) e) (retryable (session_view z) e) code)
        \<lparr>err_reason := Attr reason, err_remote := Attr remote\<rparr>)"

fun stream_err :: "zmux_errors \<Rightarrow> stream_error \<Rightarrow> py_err" where
  "stream_err z (StreamSessionLost s) = session_err z s"
| "stream_err z StreamPreambleTooLarge =
     new_err PreambleTooLargeError (display (stream_view z) StreamPreambleTooLarge)"
| "stream_err z (Reset code rest) =
     raise_err z StreamReset (display (stream_view z) (Reset code rest))
       (debug (stream_view z) (Reset code rest)) (retryable (stream_view z) (Reset code rest)) (Some code)"
| "stream_err z (Stopped code) =
     raise_err z StreamStopped (display (stream_view z) (Stopped code))
       (debug (stream_view z) (Stopped code)) (retryable (stream_view z) (Stopped code)) (Some code)"
| "stream_err z e =
     raise_err z StreamError (display (stream_view z) e) (debug (stream_view z) e)
       (retryable (stream_view z) e) None"

fun open_err :: "zmux_errors \<Rightarrow> open_error \<Rightarrow> py_err" where
  "open_err z (OpenSessionLost s) = session_err z s"
| "open_err z OpenPreambleTooLarge =
     new_err PreambleTooLargeError (display (open_view z) OpenPreambleTooLarge)"
| "open_err z e =
     raise_err z OpenError (display (open_view z) e) (debug (open_view z) e)
       (retryable (open_view z) e) None"

fun datagram_err :: "zmux_errors \<Rightarrow> datagram_error \<Rightarrow> py_err" where
  "datagram_err z (DatagramSessionLost s) = session_err z s"
| "datagram_err z e =
     raise_err z DatagramError (display (datagram_view z) e) (debug (datagram_view z) e)
       (retryable (datagram_view z) e) None"

fun pipe_err :: "zmux_errors \<Rightarrow> pipe_error \<Rightarrow> py_err" where
  "pipe_err z (PipeSessionLost s) = session_err z s"
| "pipe_err z InvalidOptions = new_err PyValueError (display (pipe_view z) InvalidOptions)"
| "pipe_err z e =
     raise_err z PipeError (display (pipe_view z) e) (debug (pipe_view z) e)
       (retryable (pipe_view z) e) None"

fun connect_err :: "zmux_errors \<Rightarrow> connect_error \<Rightarrow> py_err" where
  "connect_err z (ConnectClosed s) = session_err z s"
| "connect_err z e =
     raise_err z ConnectError (display (connect_view z) e) (debug (connect_view z) e)
       (retryable (connect_view z) e) None"

text \<open>An I/O error, by its \<open>Display\<close> and \<open>Debug\<close> texts.\<close>

record io_error =
  io_display :: string
  io_debug :: string

definition io_err :: "zmux_errors \<Rightarrow> io_error \<Rightarrow> py_err" where
  "io_err z e =
     (raise_err z ConnectError (io_display e) (io_debug e) False None)
       \<lparr>err_kind := Attr (typed (members z) ''ErrorKind'' ''Io'')\<rparr>"

definition busy :: py_err where
  "busy = new_err PyRuntimeError ''another operation on this stream is in progress''"

definition value_err :: "string \<Rightarrow> py_err" where
  "value_err m = new_err PyValueError m"

text \<open>The error of \<open>Listener.accept\<close> on a closed listener, and of a carrier mode without a usable candidate.\<close>

definition listener_closed :: "zmux_errors \<Rightarrow> py_err" where
  "listener_closed z =
     (new_err ListenerClosed ''listener closed'')
       \<lparr>err_kind := Attr (typed (members z) ''ErrorKind'' ''ListenerClosed''),
        err_retryable := Attr False, err_code := Attr None\<rparr>"

definition mode_error :: "string \<Rightarrow> py_err" where
  "mode_error m = new_err ModeError m"

text \<open>The \<open>CloseInfo\<close> of \<open>wait_closed\<close>: code, reason, remote and the exception itself.\<close>

record close_info =
  ci_code :: "u64 option attribute"
  ci_reason :: "bytes option attribute"
  ci_remote :: "bool option attribute"
  ci_error :: py_err

definition wait_closed :: "zmux_errors \<Rightarrow> session_error \<Rightarrow> close_info" where
  "wait_closed z e =
     (let v = session_err z e
      in \<lparr>ci_code = err_code v, ci_reason = err_reason v, ci_remote = err_remote v, ci_error = v\<rparr>)"

section \<open>Properties\<close>

text \<open>What \<open>zmux.ZmuxError\<close> documents of its instances.\<close>

definition documented :: "py_err \<Rightarrow> bool" where
  "documented e \<longleftrightarrow>
     is_instance e ZmuxError \<and> err_kind e \<noteq> Unset \<and> err_retryable e \<noteq> Unset \<and> err_code e \<noteq> Unset"

text \<open>An argument error: Python's \<open>ValueError\<close>, and not one of the module's errors.\<close>

definition argument_error :: "py_err \<Rightarrow> bool" where
  "argument_error e \<longleftrightarrow> is_instance e PyValueError \<and> \<not> is_instance e ZmuxError"

lemmas class_defs = is_instance_def is_subclass_def numeral_eq_Suc

lemma raise_err_simps [simp]:
  "err_class (raise_err z c d g r k) = c" "err_msg (raise_err z c d g r k) = d"
  "err_kind (raise_err z c d g r k) = Attr (typed (members z) ''ErrorKind'' (kind_of g))"
  "err_retryable (raise_err z c d g r k) = Attr r" "err_code (raise_err z c d g r k) = Attr k"
  by (simp_all add: raise_err_def)

lemma session_err_simps [simp]:
  "err_class (session_err z e) = (if early_data_rejected z e then EarlyDataRejected else SessionClosed)"
  "err_retryable (session_err z e) = Attr (retryable (session_view z) e)"
  "err_code (session_err z e) = Attr (fst (session_fields e))"
  "err_reason (session_err z e) = Attr (fst (snd (session_fields e)))"
  "err_remote (session_err z e) = Attr (snd (snd (session_fields e)))"
  "err_kind (session_err z e) = Attr (typed (members z) ''ErrorKind'' (kind_of (debug (session_view z) e)))"
  by (simp_all add: session_err_def split: prod.splits)

lemma tag_text_typed [simp]: "tag_text (typed ms en v) = v"
  by (simp add: typed_def)

lemma kind_of_delims: "c \<in> set (kind_of s) \<Longrightarrow> c \<notin> set ''( {''"
  unfolding kind_of_def by (drule set_takeWhileD) simp

lemma kind_of_variant:
  "set n \<inter> set ''( {'' = {} \<Longrightarrow> c \<in> set ''( {'' \<Longrightarrow> kind_of (n @ c # rest) = n"
  unfolding kind_of_def by (subst takeWhile_append2) auto


text \<open>
  Every error of the crate becomes either a \<open>ZmuxError\<close> that carries the documented
  attributes \<open>kind\<close>, \<open>retryable\<close> and \<open>code\<close>, or an argument error (\<open>ValueError\<close>); the
  latter exactly for a preamble that is too large and for invalid pipe options.
\<close>

theorem native_errors_documented:
  "(documented (stream_err z e1) \<longleftrightarrow> e1 \<noteq> StreamPreambleTooLarge)
   \<and> (argument_error (stream_err z e1) \<longleftrightarrow> e1 = StreamPreambleTooLarge)
   \<and> (documented (open_err z e2) \<longleftrightarrow> e2 \<noteq> OpenPreambleTooLarge)
   \<and> (argument_error (open_err z e2) \<longleftrightarrow> e2 = OpenPreambleTooLarge)
   \<and> (documented (pipe_err z e3) \<longleftrightarrow> e3 \<noteq> InvalidOptions)
   \<and> (argument_error (pipe_err z e3) \<longleftrightarrow> e3 = InvalidOptions)
   \<and> documented (datagram_err z e4) \<and> documented (connect_err z e5)
   \<and> documented (io_err z e6) \<and> documented (listener_closed z)"
proof -
  have s: "documented (session_err z s) \<and> \<not> argument_error (session_err z s)" for s
    by (simp add: documented_def argument_error_def class_defs)
  note d = documented_def argument_error_def class_defs
  have 1: "(documented (stream_err z e1) \<longleftrightarrow> e1 \<noteq> StreamPreambleTooLarge)
     \<and> (argument_error (stream_err z e1) \<longleftrightarrow> e1 = StreamPreambleTooLarge)"
    using s by (cases e1) (simp_all add: d)
  have 2: "(documented (open_err z e2) \<longleftrightarrow> e2 \<noteq> OpenPreambleTooLarge)
     \<and> (argument_error (open_err z e2) \<longleftrightarrow> e2 = OpenPreambleTooLarge)"
    using s by (cases e2) (simp_all add: d)
  have 3: "(documented (pipe_err z e3) \<longleftrightarrow> e3 \<noteq> InvalidOptions)
     \<and> (argument_error (pipe_err z e3) \<longleftrightarrow> e3 = InvalidOptions)"
    using s by (cases e3) (simp_all add: d)
  have 4: "documented (datagram_err z e4)" using s by (cases e4) (simp_all add: d)
  have 5: "documented (connect_err z e5)" using s by (cases e5) (simp_all add: d)
  have 6: "documented (io_err z e6)" "documented (listener_closed z)"
    by (simp_all add: d io_err_def listener_closed_def)
  from 1 2 3 4 5 6 show ?thesis by blast
qed

text \<open>
  \<open>ModeError\<close>, which \<open>dial_mode\<close> raises, is a \<open>ZmuxError\<close> without the attributes
  that class documents: it is not made by \<open>raise\<close>.
\<close>

theorem mode_error_undocumented:
  "is_instance (mode_error m) ZmuxError \<and> err_kind (mode_error m) = Unset
   \<and> err_retryable (mode_error m) = Unset \<and> err_code (mode_error m) = Unset"
  by (simp add: mode_error_def class_defs)

section \<open>A concrete instance\<close>

text \<open>An instance of the parameters for evaluations: texts that name the error.\<close>

definition sample_view :: "('e \<Rightarrow> string) \<Rightarrow> 'e err_view" where
  "sample_view name = \<lparr>display = name, debug = name, retryable = (\<lambda>e. False)\<rparr>"

definition sample_errors :: zmux_errors where
  "sample_errors = \<lparr>members = (\<lambda>n. [''Io'', ''ListenerClosed'']),
     session_view = sample_view (\<lambda>e. ''SessionError''), early_data_rejected = (\<lambda>e. False),
     stream_view = sample_view (\<lambda>e. ''StreamError''), open_view = sample_view (\<lambda>e. ''OpenError''),
     datagram_view = sample_view (\<lambda>e. ''DatagramError''), pipe_view = sample_view (\<lambda>e. ''PipeError''),
     connect_view = sample_view (\<lambda>e. ''ConnectError'')\<rparr>"

end
