(* ===== verification/Options.thy ===== *)
theory Options
  imports Errors
begin

text \<open>
  The options of a pipe: the conversions of numbers and times (\<open>seconds\<close>, \<open>natural\<close>), the
  native options of a Python \<open>PipeOptions\<close> and back (\<open>pipe_options\<close>, \<open>options_obj\<close>), and the
  changes of a live pipe (\<open>pipe_update\<close>), all of \<open>src/src/lib.rs\<close>.
\<close>

section \<open>Numbers\<close>

definition seconds :: "string \<Rightarrow> f64 \<Rightarrow> duration py_result" where
  "seconds name v =
     ok_or (value_err (name @ '' is a non-negative number of seconds'')) (try_from_secs_f64 v)"

text \<open>\<open>u64::try_from\<close> on an \<open>i128\<close>.\<close>

definition u64_try_from :: "int \<Rightarrow> u64 option" where
  "u64_try_from n = (if 0 \<le> n \<and> n < 2 ^ 64 then Some (word_of_int n) else None)"

definition natural :: "('o, 'm) py_scheme \<Rightarrow> string \<Rightarrow> 'o \<Rightarrow> u64 py_result" where
  "natural py name v =
     and_then (extract_i128 py v)
       (\<lambda>n. ok_or (value_err (name @ '' is a non-negative integer'')) (u64_try_from n))"

section \<open>Options\<close>

datatype period = Off | Every duration

fun period_duration :: "period \<Rightarrow> duration option" where
  "period_duration Off = None"
| "period_duration (Every d) = Some d"

record pipe_opts =
  send_priority :: "u64 option"
  receive_priority :: u64
  send_standby :: "bool option"
  receive_standby :: bool
  weight :: u64
  probation :: "duration option"
  label :: "string option"
  fate_group :: u64
  suspect_floor :: "duration option"
  dead_timeout :: "duration option"
  probe_interval :: "period option"
  probe_jitter :: "f64 option"

text \<open>The crate's default options and its check of a set of options.\<close>

record options_api =
  new_options :: pipe_opts
  validate :: "pipe_opts \<Rightarrow> bool"

definition opt_int :: "('o, 'm) py_scheme \<Rightarrow> 'o \<Rightarrow> string \<Rightarrow> u64 option py_result" where
  "opt_int py opts n =
     and_then (opt_attr py opts n) (\<lambda>v. transpose_opt (map_option (natural py n) v))"

definition opt_dur :: "('o, 'm) py_scheme \<Rightarrow> 'o \<Rightarrow> string \<Rightarrow> duration option py_result" where
  "opt_dur py opts n =
     and_then (opt_attr py opts n)
       (\<lambda>v. transpose_opt (map_option (\<lambda>x. and_then (extract_f64 py x) (seconds n)) v))"

definition opt_get ::
    "('o, 'm) py_scheme \<Rightarrow> ('o \<Rightarrow> 'a py_result) \<Rightarrow> 'o \<Rightarrow> string \<Rightarrow> 'a option py_result" where
  "opt_get py f opts n = and_then (getattr py opts n) (extract_opt py f)"

definition probe_setting :: "bool option \<Rightarrow> duration option \<Rightarrow> period option py_result" where
  "probe_setting idle_probes interval =
     (case (idle_probes, interval) of
        (Some False, Some d) \<Rightarrow> Inl (value_err ''probe_interval is set only with idle probes on'')
      | (Some False, None) \<Rightarrow> Inr (Some Off)
      | (_, d) \<Rightarrow> Inr (map_option Every d))"

definition options_invalid :: py_err where
  "options_invalid = value_err (''suspect_floor is at least 0.05 s, dead_timeout at least 1 s, ''
     @ ''probe_interval at least 1 s, probe_jitter in [0, 1)'')"

fun pipe_options ::
    "('o, 'm) py_scheme \<Rightarrow> options_api \<Rightarrow> 'o option \<Rightarrow> pipe_opts py_result" where
  "pipe_options py api None = Inr (new_options api)"
| "pipe_options py api (Some opts) =
     (let d = new_options api in
      and_then (opt_int py opts ''send_priority'') (\<lambda>sp.
      and_then (opt_int py opts ''receive_priority'') (\<lambda>rp.
      and_then (opt_get py (extract_bool py) opts ''send_standby'') (\<lambda>ss.
      and_then (opt_get py (extract_bool py) opts ''receive_standby'') (\<lambda>rs.
      and_then (opt_int py opts ''weight'') (\<lambda>w.
      and_then (opt_dur py opts ''probation'') (\<lambda>pb.
      and_then (opt_get py (extract_str py) opts ''label'') (\<lambda>l.
      and_then (opt_int py opts ''fate_group'') (\<lambda>fg.
      and_then (opt_dur py opts ''suspect_floor'') (\<lambda>sf.
      and_then (opt_dur py opts ''dead_timeout'') (\<lambda>dt.
      and_then (opt_get py (extract_bool py) opts ''idle_probes'') (\<lambda>ip.
      and_then (opt_dur py opts ''probe_interval'') (\<lambda>pi.
      and_then (probe_setting ip pi) (\<lambda>pr.
      and_then (opt_get py (extract_f64 py) opts ''probe_jitter'') (\<lambda>pj.
        let r = \<lparr>send_priority = sp, receive_priority = unwrap_or (receive_priority d) rp,
                 send_standby = ss, receive_standby = unwrap_or (receive_standby d) rs,
                 weight = unwrap_or (weight d) w, probation = pb, label = l,
                 fate_group = unwrap_or (fate_group d) fg, suspect_floor = sf, dead_timeout = dt,
                 probe_interval = pr, probe_jitter = pj\<rparr>
        in if validate api r then Inr r else Inl options_invalid)))))))))))))))"

definition options_dict :: "('o, 'm) py_scheme \<Rightarrow> pipe_opts \<Rightarrow> (string \<times> 'o) list" where
  "options_dict py r =
     (let dur = mk_opt py (\<lambda>d. mk_f64 py (as_secs_f64 d)) in
      [(''send_priority'', mk_opt py (mk_u64 py) (send_priority r)),
       (''receive_priority'', mk_u64 py (receive_priority r)),
       (''send_standby'', mk_opt py (mk_bool py) (send_standby r)),
       (''receive_standby'', mk_bool py (receive_standby r)),
       (''weight'', mk_u64 py (weight r)),
       (''probation'', dur (probation r)),
       (''label'', mk_opt py (mk_str py) (label r)),
       (''fate_group'', mk_u64 py (fate_group r)),
       (''suspect_floor'', dur (suspect_floor r)),
       (''dead_timeout'', dur (dead_timeout r)),
       (''probe_interval'', dur (Option.bind (probe_interval r) period_duration)),
       (''idle_probes'', mk_opt py (mk_bool py) (map_option (\<lambda>p. p \<noteq> Off) (probe_interval r))),
       (''probe_jitter'', mk_opt py (mk_f64 py) (probe_jitter r))])"

definition options_obj :: "('o, 'm) py_scheme \<Rightarrow> pipe_opts \<Rightarrow> 'o py_result" where
  "options_obj py r = call_kw py ''PipeOptions'' (options_dict py r)"

section \<open>Changes of a live pipe\<close>

definition UPDATABLE :: "string list" where
  "UPDATABLE = [''send_priority'', ''receive_priority'', ''send_standby'', ''receive_standby'',
     ''weight'', ''probation'']"

definition FIXED :: "string list" where
  "FIXED = [''label'', ''fate_group'', ''suspect_floor'', ''dead_timeout'', ''probe_interval'',
     ''idle_probes'', ''probe_jitter'']"

record PipeUpdate =
  up_send_priority :: "u64 option option"
  up_receive_priority :: "u64 option"
  up_send_standby :: "bool option option"
  up_receive_standby :: "bool option"
  up_weight :: "u64 option"
  up_probation :: "duration option option"

definition no_update :: PipeUpdate where
  "no_update = \<lparr>up_send_priority = None, up_receive_priority = None, up_send_standby = None,
     up_receive_standby = None, up_weight = None, up_probation = None\<rparr>"

definition type_err :: "string \<Rightarrow> py_err" where
  "type_err m = new_err PyTypeError m"

definition update_field ::
    "('o, 'm) py_scheme \<Rightarrow> string \<Rightarrow> 'o \<Rightarrow> PipeUpdate \<Rightarrow> PipeUpdate py_result" where
  "update_field py k v u =
     (if k \<in> set FIXED then Inl (type_err (k @ '' is fixed when the pipe is added''))
      else if k \<notin> set UPDATABLE then Inl (type_err (''no pipe option '' @ k))
      else if is_none py v \<and> k \<notin> {''send_priority'', ''send_standby''}
        then Inl (type_err (k @ '' takes a value, not None''))
      else if k = ''send_priority''
        then map_ok (\<lambda>x. u\<lparr>up_send_priority := Some x\<rparr>)
               (transpose_opt (if is_none py v then None else Some (natural py k v)))
      else if k = ''send_standby''
        then map_ok (\<lambda>x. u\<lparr>up_send_standby := Some x\<rparr>) (extract_opt py (extract_bool py) v)
      else if k = ''receive_priority''
        then map_ok (\<lambda>x. u\<lparr>up_receive_priority := Some x\<rparr>) (natural py k v)
      else if k = ''receive_standby''
        then map_ok (\<lambda>x. u\<lparr>up_receive_standby := Some x\<rparr>) (extract_bool py v)
      else if k = ''weight''
        then map_ok (\<lambda>x. u\<lparr>up_weight := Some x\<rparr>) (natural py k v)
      else map_ok (\<lambda>x. u\<lparr>up_probation := Some (Some x)\<rparr>)
             (and_then (extract_f64 py v) (seconds k)))"

definition pipe_update ::
    "('o, 'm) py_scheme \<Rightarrow> (string \<times> 'o) list option \<Rightarrow> PipeUpdate py_result" where
  "pipe_update py kw =
     (case kw of None \<Rightarrow> Inr no_update | Some items \<Rightarrow> for_items (update_field py) items no_update)"

section \<open>Facts\<close>

lemma u64_try_from_uint [simp]: "u64_try_from (uint (n::u64)) = Some n"
  using uint_lt2p [of n] by (simp add: u64_try_from_def)

lemma seconds_Inr_iff: "seconds n x = Inr d \<longleftrightarrow> try_from_secs_f64 x = Some d"
  by (simp add: seconds_def res_simps)

lemma seconds_err: "seconds n x = Inl e \<Longrightarrow> err_class e = PyValueError"
  by (auto simp: seconds_def res_simps value_err_def)

lemma options_keys: "map fst (options_dict py r) = UPDATABLE @ FIXED \<or>
    set (map fst (options_dict py r)) = set (UPDATABLE @ FIXED)"
  by (auto simp: options_dict_def UPDATABLE_def FIXED_def Let_def)

text \<open>The durations for which seconds are exact to the nanosecond: 97 days.\<close>

definition short_time :: "duration \<Rightarrow> bool" where
  "short_time d \<longleftrightarrow> d < 2 ^ 23 * nanos_per_sec"

definition short_times :: "pipe_opts \<Rightarrow> bool" where
  "short_times r \<longleftrightarrow>
     (\<forall>d \<in> set_option (probation r) \<union> set_option (suspect_floor r) \<union> set_option (dead_timeout r)
          \<union> set_option (Option.bind (probe_interval r) period_duration). short_time d)"

lemma probe_setting_back:
  "probe_setting (map_option (\<lambda>p. p \<noteq> Off) pr) (Option.bind pr period_duration) = Inr pr"
  by (cases pr; cases "the pr") (auto simp: probe_setting_def split: option.splits bool.splits)

context py_values
begin

lemma natural_mk [simp]: "natural py n (mk_u64 py x) = Inr x"
  by (simp add: natural_def py_laws)

lemma opt_int_made:
  "call_kw py c kw = Inr ob \<Longrightarrow> map_of kw k = Some (mk_opt py (mk_u64 py) x) \<Longrightarrow> opt_int py ob k = Inr x"
  by (cases x) (simp_all add: opt_int_def opt_attr_made not_none)

lemma opt_int_made_plain:
  assumes "call_kw py c kw = Inr ob" "map_of kw k = Some (mk_u64 py x)"
  shows "opt_int py ob k = Inr (Some x)"
  using opt_int_made [of c kw ob k "Some x"] assms by (simp add: mk_opt_def)

lemma opt_get_made:
  assumes "call_kw py c kw = Inr ob" "map_of kw k = Some (mk_opt py f x)"
    "\<And>a. \<not> is_none py (f a)" "\<And>a. g (f a) = Inr a"
  shows "opt_get py g ob k = Inr x"
  using dataclass_attr [OF assms(1,2)] extract_mk_opt [of f g, OF assms(3,4)] by (simp add: opt_get_def)

lemma opt_get_made_plain:
  assumes "call_kw py c kw = Inr ob" "map_of kw k = Some (f x)"
    "\<And>a. \<not> is_none py (f a)" "\<And>a. g (f a) = Inr a"
  shows "opt_get py g ob k = Inr (Some x)"
  using opt_get_made [of c kw ob k f "Some x" g] assms by (simp add: mk_opt_def)

lemma opt_dur_made:
  assumes "call_kw py c kw = Inr ob"
    "map_of kw k = Some (mk_opt py (\<lambda>d. mk_f64 py (as_secs_f64 d)) x)"
    "\<forall>d \<in> set_option x. short_time d"
  shows "opt_dur py ob k = Inr x"
  using assms opt_attr_made [OF assms(1,2)]
  by (cases x) (simp_all add: opt_dur_def not_none read_back seconds_def short_time_def duration_round_trip)

lemma options_back:
  assumes "options_obj py r = Inr ob" "short_times r" "validate api r"
  shows "pipe_options py api (Some ob) = Inr r"
proof -
  have ob: "call_kw py ''PipeOptions'' (options_dict py r) = Inr ob"
    using assms(1) by (simp add: options_obj_def)
  note look = options_dict_def Let_def
  note ints = opt_int_made [OF ob, of "''send_priority''" "send_priority r"]
    opt_int_made_plain [OF ob, of "''receive_priority''" "receive_priority r"]
    opt_int_made_plain [OF ob, of "''weight''" "weight r"]
    opt_int_made_plain [OF ob, of "''fate_group''" "fate_group r"]
  note gets = opt_get_made [OF ob, of "''send_standby''" "mk_bool py" "send_standby r" "extract_bool py"]
    opt_get_made_plain [OF ob, of "''receive_standby''" "mk_bool py" "receive_standby r" "extract_bool py"]
    opt_get_made [OF ob, of "''label''" "mk_str py" "label r" "extract_str py"]
    opt_get_made [OF ob, of "''idle_probes''" "mk_bool py" "map_option (\<lambda>p. p \<noteq> Off) (probe_interval r)" "extract_bool py"]
    opt_get_made [OF ob, of "''probe_jitter''" "mk_f64 py" "probe_jitter r" "extract_f64 py"]
  note durs = opt_dur_made [OF ob, of "''probation''" "probation r"]
    opt_dur_made [OF ob, of "''suspect_floor''" "suspect_floor r"]
    opt_dur_made [OF ob, of "''dead_timeout''" "dead_timeout r"]
    opt_dur_made [OF ob, of "''probe_interval''" "Option.bind (probe_interval r) period_duration"]
  have d: "\<forall>d \<in> set_option (probation r). short_time d"
    "\<forall>d \<in> set_option (suspect_floor r). short_time d"
    "\<forall>d \<in> set_option (dead_timeout r). short_time d"
    "\<forall>d \<in> set_option (Option.bind (probe_interval r) period_duration). short_time d"
    using assms(2) unfolding short_times_def by blast+
  have i: "opt_int py ob ''send_priority'' = Inr (send_priority r)"
    "opt_int py ob ''receive_priority'' = Inr (Some (receive_priority r))"
    "opt_int py ob ''weight'' = Inr (Some (weight r))"
    "opt_int py ob ''fate_group'' = Inr (Some (fate_group r))"
    by (rule ints; simp add: look)+
  have g: "opt_get py (extract_bool py) ob ''send_standby'' = Inr (send_standby r)"
    "opt_get py (extract_bool py) ob ''receive_standby'' = Inr (Some (receive_standby r))"
    "opt_get py (extract_str py) ob ''label'' = Inr (label r)"
    "opt_get py (extract_bool py) ob ''idle_probes'' = Inr (map_option (\<lambda>p. p \<noteq> Off) (probe_interval r))"
    "opt_get py (extract_f64 py) ob ''probe_jitter'' = Inr (probe_jitter r)"
    by (rule gets; simp add: look not_none read_back)+
  have t: "opt_dur py ob ''probation'' = Inr (probation r)"
    "opt_dur py ob ''suspect_floor'' = Inr (suspect_floor r)"
    "opt_dur py ob ''dead_timeout'' = Inr (dead_timeout r)"
    "opt_dur py ob ''probe_interval'' = Inr (Option.bind (probe_interval r) period_duration)"
    by (rule durs; simp add: look d)+
  show ?thesis using assms(3) by (cases r) (simp add: i g t probe_setting_back Let_def)
qed

end

text \<open>The field of an update named \<open>k\<close>, copied from \<open>w\<close>.\<close>

definition merge_field :: "string \<Rightarrow> PipeUpdate \<Rightarrow> PipeUpdate \<Rightarrow> PipeUpdate" where
  "merge_field k w u =
     (if k = ''send_priority'' then u\<lparr>up_send_priority := up_send_priority w\<rparr>
      else if k = ''send_standby'' then u\<lparr>up_send_standby := up_send_standby w\<rparr>
      else if k = ''receive_priority'' then u\<lparr>up_receive_priority := up_receive_priority w\<rparr>
      else if k = ''receive_standby'' then u\<lparr>up_receive_standby := up_receive_standby w\<rparr>
      else if k = ''weight'' then u\<lparr>up_weight := up_weight w\<rparr>
      else u\<lparr>up_probation := up_probation w\<rparr>)"

lemma map_ok_comp: "map_ok f (map_ok g r) = map_ok (\<lambda>x. f (g x)) r"
  by (cases r) simp_all

lemma update_field_form:
  "update_field py k v u = map_ok (\<lambda>w. merge_field k w u) (update_field py k v no_update)"
  unfolding update_field_def merge_field_def by (simp add: map_ok_comp)

lemma update_field_known: "update_field py k v u = Inr w \<Longrightarrow> k \<in> set UPDATABLE"
  by (auto simp: update_field_def split: if_splits)

lemma merge_field_commute:
  "k \<noteq> k' \<Longrightarrow> k \<in> set UPDATABLE \<Longrightarrow> k' \<in> set UPDATABLE \<Longrightarrow>
     merge_field k w (merge_field k' w' u) = merge_field k' w' (merge_field k w u)"
  unfolding UPDATABLE_def list.set by (elim insertE emptyE; simp add: merge_field_def)

lemma update_field_commute:
  assumes "k \<noteq> k'"
  shows "and_then (update_field py k v s) (update_field py k' v') = Inr t \<longleftrightarrow>
      and_then (update_field py k' v' s) (update_field py k v) = Inr t"
proof -
  have f: "and_then (update_field py a x s) (update_field py b y) = Inr t \<longleftrightarrow>
      (\<exists>w w'. update_field py a x no_update = Inr w \<and> update_field py b y no_update = Inr w'
         \<and> t = merge_field b w' (merge_field a w s))" for a b x y
  proof -
    define A where "A = update_field py a x no_update"
    define B where "B = update_field py b y no_update"
    have "update_field py a x u = map_ok (\<lambda>w. merge_field a w u) A"
      "update_field py b y u = map_ok (\<lambda>w. merge_field b w u) B" for u
      by (simp_all only: A_def B_def update_field_form [symmetric])
    then show ?thesis unfolding A_def [symmetric] B_def [symmetric] by (auto simp: res_simps)
  qed
  show ?thesis unfolding f
    using merge_field_commute [OF assms] update_field_known by metis
qed

interpretation upd: keyed_body "update_field py"
  by unfold_locales (rule update_field_commute)

text \<open>The names of the fields an update changes.\<close>

definition given :: "PipeUpdate \<Rightarrow> string set" where
  "given u = set (concat
     [if up_send_priority u = None then [] else [''send_priority''],
      if up_receive_priority u = None then [] else [''receive_priority''],
      if up_send_standby u = None then [] else [''send_standby''],
      if up_receive_standby u = None then [] else [''receive_standby''],
      if up_weight u = None then [] else [''weight''],
      if up_probation u = None then [] else [''probation'']])"

lemma given_no_update [simp]: "given no_update = {}"
  by (simp add: given_def no_update_def)

lemma update_field_simps:
  "update_field py ''send_priority'' v u = map_ok (\<lambda>x. u\<lparr>up_send_priority := Some x\<rparr>)
     (transpose_opt (if is_none py v then None else Some (natural py ''send_priority'' v)))"
  "update_field py ''send_standby'' v u =
     map_ok (\<lambda>x. u\<lparr>up_send_standby := Some x\<rparr>) (extract_opt py (extract_bool py) v)"
  "\<not> is_none py v \<Longrightarrow> update_field py ''receive_priority'' v u =
     map_ok (\<lambda>x. u\<lparr>up_receive_priority := Some x\<rparr>) (natural py ''receive_priority'' v)"
  "\<not> is_none py v \<Longrightarrow> update_field py ''receive_standby'' v u =
     map_ok (\<lambda>x. u\<lparr>up_receive_standby := Some x\<rparr>) (extract_bool py v)"
  "\<not> is_none py v \<Longrightarrow> update_field py ''weight'' v u =
     map_ok (\<lambda>x. u\<lparr>up_weight := Some x\<rparr>) (natural py ''weight'' v)"
  "\<not> is_none py v \<Longrightarrow> update_field py ''probation'' v u =
     map_ok (\<lambda>x. u\<lparr>up_probation := Some (Some x)\<rparr>) (and_then (extract_f64 py v) (seconds ''probation''))"
  by (simp_all add: update_field_def UPDATABLE_def FIXED_def)

lemma update_field_none:
  "update_field py k v u = Inr w \<Longrightarrow> is_none py v \<Longrightarrow> k = ''send_priority'' \<or> k = ''send_standby''"
  by (simp add: update_field_def split: if_splits)

lemma given_upd:
  "given (u\<lparr>up_send_priority := Some a\<rparr>) = insert ''send_priority'' (given u)"
  "given (u\<lparr>up_receive_priority := Some b\<rparr>) = insert ''receive_priority'' (given u)"
  "given (u\<lparr>up_send_standby := Some c\<rparr>) = insert ''send_standby'' (given u)"
  "given (u\<lparr>up_receive_standby := Some d\<rparr>) = insert ''receive_standby'' (given u)"
  "given (u\<lparr>up_weight := Some e\<rparr>) = insert ''weight'' (given u)"
  "given (u\<lparr>up_probation := Some f\<rparr>) = insert ''probation'' (given u)"
  by (simp_all add: given_def insert_commute)

lemma update_field_given:
  assumes "update_field py k v u = Inr w"
  shows "given w = insert k (given u)"
  using update_field_known [OF assms] assms update_field_none [OF assms]
  unfolding UPDATABLE_def list.set
  by (elim insertE emptyE; cases "is_none py v"; force simp: update_field_simps given_upd res_simps)

lemma given_updatable: "given u \<subseteq> set UPDATABLE"
  by (auto simp: given_def UPDATABLE_def)

lemma for_items_given:
  "for_items (update_field py) kw s = Inr u \<Longrightarrow> given u = given s \<union> fst ` set kw"
proof (induction kw arbitrary: s)
  case (Cons x kw)
  obtain k v where x: "x = (k, v)" by fastforce
  with Cons.prems obtain w where w: "update_field py k v s = Inr w"
    "for_items (update_field py) kw w = Inr u" by (auto simp: res_simps)
  show ?case using Cons.IH [OF w(2)] update_field_given [OF w(1)] x by auto
qed simp

lemma update_field_again:
  assumes "update_field py k v s = Inr u"
  shows "update_field py k v u = Inr u"
proof -
  obtain w where w: "update_field py k v no_update = Inr w" "u = merge_field k w s"
    using assms update_field_form [of py k v s] by (auto simp: res_simps)
  have "merge_field k w (merge_field k w s) = merge_field k w s" by (simp add: merge_field_def)
  then show ?thesis using update_field_form [of py k v u] w by simp
qed

lemma for_items_holds:
  assumes "for_items (update_field py) kw s = Inr u" "distinct (map fst kw)" "(k, v) \<in> set kw"
  shows "update_field py k v u = Inr u"
proof -
  obtain as bs where kw: "kw = as @ (k, v) # bs" using assms(3) by (meson split_list)
  have "mset kw = mset ((as @ bs) @ [(k, v)])" by (simp add: kw)
  from upd.for_items_perm [OF this assms(2)] assms(1)
  have "for_items (update_field py) ((as @ bs) @ [(k, v)]) s = Inr u" by blast
  then obtain w where "update_field py k v w = Inr u"
    unfolding for_items_append by (auto simp: res_simps)
  then show ?thesis by (rule update_field_again)
qed

section \<open>Properties\<close>



section \<open>Witnesses\<close>

definition sample_options :: pipe_opts where
  "sample_options = \<lparr>send_priority = Some 2, receive_priority = 1, send_standby = None,
     receive_standby = True, weight = 3, probation = Some 1500000001, label = Some ''wifi'',
     fate_group = 7, suspect_floor = None, dead_timeout = Some 30000000000,
     probe_interval = Some Off, probe_jitter = Some (Fin (1/4))\<rparr>"

definition sample_api :: options_api where
  "sample_api = \<lparr>new_options = sample_options, validate = (\<lambda>r. weight r \<noteq> 0)\<rparr>"



end
