(* ===== verification/Split_Mix.thy ===== *)
theory Split_Mix
  imports Prelude
begin

text \<open>
  The seeded random source of \<open>src/src/shaping.rs\<close>: SplitMix64 on 64 bit words and the fold
  of a seed into its state.
\<close>

unbundle bit_operations_syntax

section \<open>The random source\<close>

definition next_u64 :: "u64 \<Rightarrow> u64 \<times> u64" where
  "next_u64 s0 =
     (let s = s0 + 0x9e3779b97f4a7c15;
          z = (s XOR drop_bit 30 s) * 0xbf58476d1ce4e5b9;
          z = (z XOR drop_bit 27 z) * 0x94d049bb133111eb
      in (z XOR drop_bit 31 z, s))"

text \<open>The chunks of eight bytes of a seed, and \<open>u64::from_le_bytes\<close>.\<close>

fun chunks8 :: "bytes \<Rightarrow> bytes list" where
  "chunks8 bs = (if bs = [] then [] else take 8 bs # chunks8 (drop 8 bs))"

declare chunks8.simps [simp del]

fun from_le_bytes :: "bytes \<Rightarrow> u64" where
  "from_le_bytes [] = 0"
| "from_le_bytes (b # bs) = ucast b OR push_bit 8 (from_le_bytes bs)"

definition pad8 :: "bytes \<Rightarrow> bytes" where
  "pad8 c = c @ replicate (8 - length c) 0"

fun fold_chunks :: "bytes list \<Rightarrow> u64 \<Rightarrow> u64 \<Rightarrow> u64" where
  "fold_chunks [] m s = s"
| "fold_chunks (c # cs) m s =
     (case next_u64 (m XOR from_le_bytes (pad8 c)) of (x, m') \<Rightarrow> fold_chunks cs m' (s XOR x))"

definition fold_seed :: "bytes \<Rightarrow> u64" where
  "fold_seed seed =
     (case next_u64 (of_nat (length seed)) of (s, m) \<Rightarrow> fold_chunks (chunks8 seed) m s)"

text \<open>The numbers a source of a state draws.\<close>

fun draws :: "nat \<Rightarrow> u64 \<Rightarrow> u64 list" where
  "draws 0 s = []"
| "draws (Suc n) s = (case next_u64 s of (x, s') \<Rightarrow> x # draws n s')"

section \<open>The random source: facts\<close>

lemma drop_bit_fixed: "d = drop_bit k d \<Longrightarrow> d = drop_bit (k * n) (d :: u64)"
  by (induction n) (simp, metis drop_bit_drop_bit mult_Suc_right)

lemma xor_eq_zero: "a XOR b = 0 \<longleftrightarrow> a = (b :: u64)"
  by (auto simp: bit_eq_iff bit_xor_iff)

lemma xor_cancel: "x XOR a = x XOR b \<longleftrightarrow> a = (b :: u64)"
  by (auto simp: bit_eq_iff bit_xor_iff)

lemma xorshift_inj:
  assumes "(z XOR drop_bit k z :: u64) = w XOR drop_bit k w" "0 < k"
  shows "z = w"
proof -
  define d where "d = z XOR w"
  have "d XOR drop_bit k d = (z XOR drop_bit k z) XOR (w XOR drop_bit k w)"
    unfolding d_def by (simp add: xor.assoc xor.left_commute)
  also have "\<dots> = 0" by (simp only: assms(1) xor_eq_zero)
  finally have "d = drop_bit k d" by (simp only: xor_eq_zero)
  from drop_bit_fixed [OF this, of 64] have "d = drop_bit (k * 64) d" .
  also have "\<dots> = 0"
    using assms(2) by (intro bit_word_eqI) (auto simp: bit_drop_bit_eq dest: bit_imp_le_length)
  finally show ?thesis by (simp only: d_def xor_eq_zero)
qed

lemma mult_unit_inj:
  assumes "x * c = y * c" "c * c' = 1"
  shows "x = (y :: u64)"
proof -
  have "x * (c * c') = y * (c * c')" using assms(1) by (simp only: mult.assoc [symmetric])
  then show ?thesis by (simp only: assms(2) mult_1_right)
qed

definition mix :: "u64 \<Rightarrow> u64" where
  "mix s =
     (let z = (s XOR drop_bit 30 s) * 0xbf58476d1ce4e5b9; z = (z XOR drop_bit 27 z) * 0x94d049bb133111eb
      in z XOR drop_bit 31 z)"

lemma next_u64_mix: "next_u64 s = (mix (s + 0x9e3779b97f4a7c15), s + 0x9e3779b97f4a7c15)"
  by (simp only: next_u64_def mix_def Let_def)

lemma constants_invertible:
  "(0x9e3779b97f4a7c15 :: u64) * 0xf1de83e19937733d = 1"
  "(0xbf58476d1ce4e5b9 :: u64) * 0x96de1b173f119089 = 1"
  "(0x94d049bb133111eb :: u64) * 0x319642b2d24d8ec3 = 1"
  by code_simp+

text \<open>One round of the mixing function.\<close>

definition round_mix :: "nat \<Rightarrow> u64 \<Rightarrow> u64 \<Rightarrow> u64" where
  "round_mix k c z = (z XOR drop_bit k z) * c"

lemma round_mix_inj:
  "round_mix k c x = round_mix k c y \<Longrightarrow> c * c' = 1 \<Longrightarrow> 0 < k \<Longrightarrow> x = y"
  unfolding round_mix_def by (rule xorshift_inj [OF mult_unit_inj])

lemma mix_rounds:
  "mix s = (let z = round_mix 27 0x94d049bb133111eb (round_mix 30 0xbf58476d1ce4e5b9 s) in z XOR drop_bit 31 z)"
  by (simp only: mix_def round_mix_def Let_def)

lemma mix_inj: "mix s = mix t \<longleftrightarrow> s = t"
proof
  assume "mix s = mix t"
  then have "round_mix 27 0x94d049bb133111eb (round_mix 30 0xbf58476d1ce4e5b9 s)
      = round_mix 27 0x94d049bb133111eb (round_mix 30 0xbf58476d1ce4e5b9 t)"
    unfolding mix_rounds Let_def by (rule xorshift_inj) simp
  then have "round_mix 30 0xbf58476d1ce4e5b9 s = round_mix 30 0xbf58476d1ce4e5b9 t"
    by (rule round_mix_inj [OF _ constants_invertible(3)]) simp
  then show "s = t"
    by (rule round_mix_inj [OF _ constants_invertible(2)]) simp
qed simp

lemma length_draws [simp]: "length (draws n s) = n"
  by (induction n arbitrary: s) (simp_all add: next_u64_mix)

lemma draws_nth: "i < n \<Longrightarrow> draws n s ! i = mix (s + of_nat (Suc i) * 0x9e3779b97f4a7c15)"
proof (induction n arbitrary: s i)
  case (Suc n)
  then show ?case
    by (cases i) (simp_all add: next_u64_mix algebra_simps)
qed simp

lemma gamma_inj: "a * 0x9e3779b97f4a7c15 = b * 0x9e3779b97f4a7c15 \<Longrightarrow> a = (b :: u64)"
  by (rule mult_unit_inj [OF _ constants_invertible(1)])

lemma of_nat_word_inj: "a < 2 ^ 64 \<Longrightarrow> b < 2 ^ 64 \<Longrightarrow> (of_nat a :: u64) = of_nat b \<Longrightarrow> a = b"
  by (simp add: word_of_nat_eq_iff take_bit_nat_eq_self)

lemma bit_from_le_bytes:
  "bit (from_le_bytes bs) n \<longleftrightarrow> n < 64 \<and> n div 8 < length bs \<and> bit (bs ! (n div 8)) (n mod 8)"
proof (induction bs arbitrary: n)
  case (Cons b bs)
  show ?case
  proof (cases "n < 8")
    case True
    then show ?thesis by (simp add: bit_or_iff bit_push_bit_iff bit_ucast_iff)
  next
    case False
    then have "n div 8 = Suc ((n - 8) div 8)" "n mod 8 = (n - 8) mod 8"
      by (simp_all add: le_div_geq le_mod_geq)
    moreover have "\<not> bit (ucast b :: u64) n"
      using False bit_imp_le_length [of b n] by (auto simp: bit_ucast_iff)
    ultimately show ?thesis
      using False Cons.IH [of "n - 8"] by (auto simp: bit_or_iff bit_push_bit_iff)
  qed
qed simp

lemma from_le_bytes_inj:
  assumes "from_le_bytes xs = from_le_bytes ys" "length xs = length ys" "length xs \<le> 8"
  shows "xs = ys"
proof (rule nth_equalityI [OF assms(2)])
  fix i assume i: "i < length xs"
  show "xs ! i = ys ! i"
  proof (rule bit_word_eqI)
    fix j assume "j < LENGTH(8)"
    then have "8 * i + j < 64" "(8 * i + j) div 8 = i" "(8 * i + j) mod 8 = j" using i assms(3) by auto
    then show "bit (xs ! i) j = bit (ys ! i) j"
      using arg_cong [OF assms(1), of "\<lambda>w. bit w (8 * i + j)"] i assms(2) by (simp add: bit_from_le_bytes)
  qed
qed

lemma fold_seed_short:
  assumes "length a \<le> 8" "a \<noteq> []"
  shows "fold_seed a = mix (of_nat (length a) + 0x9e3779b97f4a7c15)
     XOR mix (((of_nat (length a) + 0x9e3779b97f4a7c15) XOR from_le_bytes (pad8 a)) + 0x9e3779b97f4a7c15)"
proof -
  have "chunks8 a = [a]" using assms by (simp add: chunks8.simps [of a] chunks8.simps [of "[]"])
  then show ?thesis by (simp add: fold_seed_def next_u64_mix)
qed

lemma fold_seed_inj:
  assumes "length a = length b" "length a \<le> 8" "fold_seed a = fold_seed b"
  shows "a = b"
proof (cases "a = []")
  case False
  with assms(1) have "b \<noteq> []" by auto
  with False assms have "from_le_bytes (pad8 a) = from_le_bytes (pad8 b)"
    by (simp add: fold_seed_short xor_cancel mix_inj)
  then have "pad8 a = pad8 b" using assms by (intro from_le_bytes_inj) (simp_all add: pad8_def)
  then show ?thesis using assms(1) by (simp add: pad8_def)
qed (use assms in auto)

section \<open>Properties\<close>

text \<open>
  C14. The seeded source has the full period: within \<open>2 ^ 64\<close> draws from any state no number
  is drawn twice, so over a period every 64 bit number is drawn exactly once. Seeds of the
  same length, of at most eight bytes, that differ give sources that differ in every draw.
\<close>

theorem seeded_source:
  "(n \<le> 2 ^ 64 \<longrightarrow> distinct (draws n s))
   \<and> (length a = length b \<and> length a \<le> 8 \<and> a \<noteq> b \<and> i < n \<longrightarrow>
        draws n (fold_seed a) ! i \<noteq> draws n (fold_seed b) ! i)"
proof (intro conjI impI)
  assume n: "n \<le> 2 ^ 64"
  show "distinct (draws n s)"
    unfolding distinct_conv_nth
  proof (intro allI impI)
    fix i j assume ij: "i < length (draws n s)" "j < length (draws n s)" "i \<noteq> j"
    have "(of_nat i :: u64) \<noteq> of_nat j" using ij n of_nat_word_inj [of i j] by auto
    then have "(of_nat (Suc i) :: u64) * 0x9e3779b97f4a7c15 \<noteq> of_nat (Suc j) * 0x9e3779b97f4a7c15"
      using gamma_inj by (metis add_left_cancel of_nat_Suc)
    then show "draws n s ! i \<noteq> draws n s ! j" using ij by (simp add: draws_nth mix_inj)
  qed
next
  assume "length a = length b \<and> length a \<le> 8 \<and> a \<noteq> b \<and> i < n"
  then show "draws n (fold_seed a) ! i \<noteq> draws n (fold_seed b) ! i"
    using fold_seed_inj [of a b] by (auto simp: draws_nth mix_inj)
qed

theorem seeded_source_witness:
  "distinct (draws 3 0) \<and> draws 2 (fold_seed [1]) ! 1 \<noteq> draws 2 (fold_seed [2]) ! 1"
  using seeded_source [of 3 0] seeded_source [where a = "[1]" and b = "[2]" and i = 1 and n = 2] by simp

end
