(* ===== verification/Shaping.thy ===== *)
theory Shaping
  imports Options Split_Mix
begin

text \<open>
  Traffic shaping, \<open>src/src/shaping.rs\<close>: the bounds of a shaper, the seeded random source
  (SplitMix64 and the fold of a seed), and the factory that picks a definition by carrier
  kind. The machines of the shaping crate and its defaults are parameters.
\<close>

section \<open>Bounds\<close>

definition attr :: "('o, 'm) py_scheme \<Rightarrow> ('o \<Rightarrow> 'a py_result) \<Rightarrow> 'o \<Rightarrow> string \<Rightarrow> 'a py_result" where
  "attr py f ob name = and_then (getattr py ob name) f"

definition secs :: "('o, 'm) py_scheme \<Rightarrow> 'o \<Rightarrow> string \<Rightarrow> duration option py_result" where
  "secs py ob name =
     and_then (attr py (extract_opt py (extract_f64 py)) ob name)
       (\<lambda>v. transpose_opt (map_option
          (\<lambda>x. ok_or (value_err (name @ '' is a non-negative number of seconds'')) (try_from_secs_f64 x)) v))"

record Limits =
  max_padding_bytes :: "u64 option"
  max_padding_ratio :: "f64 option"
  max_injected :: "u64 option"
  max_pause_total :: "duration option"
  max_delay :: "duration option"

text \<open>The crate's check of the bounds answers with a message.\<close>

definition session_limits ::
    "('o, 'm) py_scheme \<Rightarrow> (Limits \<Rightarrow> string option) \<Rightarrow> 'o \<Rightarrow> Limits py_result" where
  "session_limits py check ob =
     and_then (attr py (extract_opt py (extract_u64 py)) ob ''max_padding_bytes'') (\<lambda>pb.
     and_then (attr py (extract_opt py (extract_f64 py)) ob ''max_padding_ratio'') (\<lambda>pr.
     and_then (attr py (extract_opt py (extract_u64 py)) ob ''max_injected'') (\<lambda>mi.
     and_then (secs py ob ''max_pause_total'') (\<lambda>pt.
     and_then (secs py ob ''max_delay'') (\<lambda>md.
       let l = \<lparr>max_padding_bytes = pb, max_padding_ratio = pr, max_injected = mi,
                max_pause_total = pt, max_delay = md\<rparr>
       in (case check l of None \<Rightarrow> Inr l | Some m \<Rightarrow> Inl (value_err m)))))))"

record SizeLimits =
  max_bytes :: "u64 option"
  max_machines :: "u64 option"
  max_states :: "u64 option"
  max_actions :: "u64 option"
  max_transitions :: "u64 option"
  max_points :: "u64 option"

definition size_limits :: "('o, 'm) py_scheme \<Rightarrow> 'o \<Rightarrow> SizeLimits py_result" where
  "size_limits py ob =
     and_then (attr py (extract_opt py (extract_u64 py)) ob ''max_bytes'') (\<lambda>b.
     and_then (attr py (extract_opt py (extract_u64 py)) ob ''max_machines'') (\<lambda>m.
     and_then (attr py (extract_opt py (extract_u64 py)) ob ''max_states'') (\<lambda>s.
     and_then (attr py (extract_opt py (extract_u64 py)) ob ''max_actions'') (\<lambda>a.
     and_then (attr py (extract_opt py (extract_u64 py)) ob ''max_transitions'') (\<lambda>t.
     map_ok (\<lambda>p. \<lparr>max_bytes = b, max_machines = m, max_states = s, max_actions = a,
                max_transitions = t, max_points = p\<rparr>)
       (attr py (extract_opt py (extract_u64 py)) ob ''max_points''))))))"

text \<open>
  The executor's options: the bounds of a definition, and the state of the seeded source
  (absent: the operating system's generator).
\<close>

record exec_options =
  exec_limits :: SizeLimits
  exec_source :: "u64 option"

definition options ::
    "('o, 'm) py_scheme \<Rightarrow> exec_options \<Rightarrow> 'o option \<Rightarrow> bytes option \<Rightarrow> exec_options py_result" where
  "options py dflt lims seed =
     and_then (case lims of None \<Rightarrow> Inr dflt
               | Some l \<Rightarrow> map_ok (\<lambda>x. dflt\<lparr>exec_limits := x\<rparr>) (size_limits py l))
       (\<lambda>r. Inr (case seed of None \<Rightarrow> r | Some b \<Rightarrow> r\<lparr>exec_source := Some (fold_seed b)\<rparr>))"

section \<open>The factory by carrier kind\<close>

record ('k, 'f) ByKind =
  kinds :: "'k \<Rightarrow> 'f option"
  default :: "'f option"

text \<open>The machine factory of the pipe's carrier; the shaper is a fresh one of it.\<close>

definition shaper :: "('k, 'f) ByKind \<Rightarrow> 'k option \<Rightarrow> 'f option" where
  "shaper bk carrier =
     (case Option.bind carrier (kinds bk) of Some f \<Rightarrow> Some f | None \<Rightarrow> default bk)"

text \<open>The crate's names of carrier kinds and its parser of definitions.\<close>

record ('k, 'f) shaping_api =
  kind_from_name :: "string \<Rightarrow> 'k option"
  from_json :: "string \<Rightarrow> exec_options \<Rightarrow> string + 'f"

definition carrier_kind :: "('o, 'm) py_scheme \<Rightarrow> ('k, 'f) shaping_api \<Rightarrow> 'o \<Rightarrow> 'k py_result" where
  "carrier_kind py api k =
     and_then
       (case getattr py k ''value'' of
          Inr v \<Rightarrow> if is_str py k then extract_str py k else extract_str py v
        | Inl e \<Rightarrow> extract_str py k)
       (\<lambda>name. ok_or (value_err (''unknown carrier kind '' @ debug_str name)) (kind_from_name api name))"

definition by_kind_item ::
    "('o, 'm) py_scheme \<Rightarrow> ('k, 'f) shaping_api \<Rightarrow> exec_options \<Rightarrow> 'o \<Rightarrow> 'o
       \<Rightarrow> ('k, 'f) ByKind \<Rightarrow> ('k, 'f) ByKind py_result" where
  "by_kind_item py api r k v bk =
     and_then (extract_str py v) (\<lambda>text.
     and_then (map_err value_err (from_json api text r)) (\<lambda>m.
       if is_none py k then Inr (bk\<lparr>default := Some m\<rparr>)
       else map_ok (\<lambda>c. bk\<lparr>kinds := (kinds bk)(c := Some m)\<rparr>) (carrier_kind py api k)))"

definition by_kind ::
    "('o, 'm) py_scheme \<Rightarrow> ('k, 'f) shaping_api \<Rightarrow> 'o \<Rightarrow> exec_options \<Rightarrow> ('k, 'f) ByKind py_result" where
  "by_kind py api ob r =
     and_then (case mapping_items py ob of None \<Rightarrow> Inl (value_err ''by_kind is a mapping'') | Some it \<Rightarrow> it)
       (\<lambda>items. for_items (by_kind_item py api r) items \<lparr>kinds = (\<lambda>k. None), default = None\<rparr>)"

section \<open>Properties\<close>

text \<open>The factory of a definition, and the carrier kind of a key that is not \<open>None\<close>.\<close>

definition item_factory :: "('o, 'm) py_scheme \<Rightarrow> ('k, 'f) shaping_api \<Rightarrow> exec_options \<Rightarrow> 'o \<Rightarrow> 'f py_result" where
  "item_factory py api r v =
     and_then (extract_str py v) (\<lambda>text. map_err value_err (from_json api text r))"

definition names_kind :: "('o, 'm) py_scheme \<Rightarrow> ('k, 'f) shaping_api \<Rightarrow> 'k \<Rightarrow> 'o \<times> 'o \<Rightarrow> bool" where
  "names_kind py api c item \<longleftrightarrow> \<not> is_none py (fst item) \<and> carrier_kind py api (fst item) = Inr c"

text \<open>The factory of the last item that satisfies a predicate, else \<open>d\<close>.\<close>

definition factory_of_last ::
    "('o, 'm) py_scheme \<Rightarrow> ('k, 'f) shaping_api \<Rightarrow> exec_options \<Rightarrow> ('o \<times> 'o \<Rightarrow> bool) \<Rightarrow> ('o \<times> 'o) list
       \<Rightarrow> 'f option \<Rightarrow> 'f option" where
  "factory_of_last py api r P items d =
     (case last_item P items of Some item \<Rightarrow> Some (projr (item_factory py api r (snd item))) | None \<Rightarrow> d)"

lemma by_kind_item_Inr:
  assumes "by_kind_item py api r k v bk = Inr bk'"
  obtains m where "item_factory py api r v = Inr m" "is_none py k" "bk' = bk\<lparr>default := Some m\<rparr>"
  | m c where "item_factory py api r v = Inr m" "\<not> is_none py k" "carrier_kind py api k = Inr c"
      "bk' = bk\<lparr>kinds := (kinds bk)(c := Some m)\<rparr>"
  using assms by (auto simp: by_kind_item_def item_factory_def res_simps split: if_splits)

lemma by_kind_loop:
  assumes "for_items (by_kind_item py api r) items bk = Inr bk'"
  shows "kinds bk' c = factory_of_last py api r (names_kind py api c) items (kinds bk c)
     \<and> default bk' = factory_of_last py api r (\<lambda>item. is_none py (fst item)) items (default bk)
     \<and> (\<forall>item \<in> set items. is_ok (item_factory py api r (snd item))
          \<and> (is_none py (fst item) \<or> is_ok (carrier_kind py api (fst item))))"
  using assms
proof (induction items arbitrary: bk)
  case (Cons item items)
  obtain k v where item: "item = (k, v)" by fastforce
  with Cons.prems obtain bk1 where step: "by_kind_item py api r k v bk = Inr bk1"
    and rest: "for_items (by_kind_item py api r) items bk1 = Inr bk'" by (auto simp: res_simps)
  show ?case using Cons.IH [OF rest] step
    by (elim by_kind_item_Inr) (auto simp: item factory_of_last_def names_kind_def is_ok_iff split: option.splits)
qed (simp add: factory_of_last_def)

text \<open>
  A mapping of carrier kinds to shaping definitions is accepted as a whole or not at all:
  the factory exists only if every definition parses and every key is \<open>None\<close> or names a
  carrier kind. It then shapes a pipe by the last definition given for the pipe's carrier
  kind, else by the last one given for \<open>None\<close>, else not at all.
\<close>

theorem by_kind_picks:
  assumes "mapping_items py ob = Some (Inr items)" "by_kind py api ob r = Inr bk"
  shows "(\<forall>item \<in> set items. is_ok (item_factory py api r (snd item))
            \<and> (is_none py (fst item) \<or> is_ok (carrier_kind py api (fst item))))
    \<and> shaper bk None = factory_of_last py api r (\<lambda>item. is_none py (fst item)) items None
    \<and> shaper bk (Some c) =
        (case factory_of_last py api r (names_kind py api c) items None of
           Some f \<Rightarrow> Some f | None \<Rightarrow> shaper bk None)"
proof -
  have "for_items (by_kind_item py api r) items \<lparr>kinds = (\<lambda>k. None), default = None\<rparr> = Inr bk"
    using assms by (simp add: by_kind_def)
  from by_kind_loop [OF this, of c] show ?thesis by (auto simp: shaper_def split: option.splits)
qed

definition sample_shaping :: "(nat, string) shaping_api" where
  "sample_shaping = \<lparr>kind_from_name = (\<lambda>n. if n = ''tcp'' then Some 0 else if n = ''quic'' then Some 1 else None),
     from_json = (\<lambda>text r. if text = [] then Inl ''empty'' else Inr text)\<rparr>"

definition sample_exec :: exec_options where
  "sample_exec = \<lparr>exec_limits = \<lparr>max_bytes = None, max_machines = None, max_states = None, max_actions = None,
     max_transitions = None, max_points = None\<rparr>, exec_source = None\<rparr>"

theorem by_kind_picks_witness:
  "\<exists>bk. by_kind builtins sample_shaping
        (PDict [(PStr ''tcp'', PStr ''a''), (PNone, PStr ''d''), (PStr ''tcp'', PStr ''b'')]) sample_exec = Inr bk
     \<and> shaper bk (Some 0) = Some ''b'' \<and> shaper bk (Some 1) = Some ''d''"
proof -
  let ?items = "[(PStr ''tcp'', PStr ''a''), (PNone, PStr ''d''), (PStr ''tcp'', PStr ''b'')]"
  define bk :: "(nat, string) ByKind" where
    "bk = \<lparr>kinds = (\<lambda>k. None)(0 := Some ''b''), default = Some ''d''\<rparr>"
  have i: "mapping_items builtins (PDict ?items) = Some (Inr ?items)" by simp
  have b: "by_kind builtins sample_shaping (PDict ?items) sample_exec = Inr bk"
    by (simp add: by_kind_def by_kind_item_def sample_shaping_def carrier_kind_def bk_def)
  note d = factory_of_last_def names_kind_def item_factory_def sample_shaping_def carrier_kind_def
  note p = by_kind_picks [OF i b, THEN conjunct2]
  have n: "shaper bk None = Some ''d''"
    by (subst p [THEN conjunct1]) (simp add: d)
  have "shaper bk (Some 0) = Some ''b''"
    by (subst p [of 0, THEN conjunct2]) (simp add: d)
  moreover have "shaper bk (Some 1) = Some ''d''"
    by (subst p [of 1, THEN conjunct2], subst n) (simp add: d)
  ultimately show ?thesis using b by blast
qed

end
