(* ===== verification/Config.thy ===== *)
theory Config
  imports Shaping
begin

text \<open>
  The session configuration, \<open>Config\<close> of \<open>src/src/lib.rs\<close>: the conversions of its fields and
  the loop of its constructor over the keyword arguments. The crate's own configuration is a
  parameter by its defaults; a native configuration is given by the value of each field.
\<close>

section \<open>Values of fields\<close>

datatype budget = Unlimited | Bytes u64

datatype Policy = Affinity | SessionAffinity | SpreadEta | SpreadRoundRobin | SpreadRateWeighted

datatype RedundancyMode = Urgent | RedundancyOff

datatype auth_base = AuthExporter | AuthInsecure | AuthNone

record PipeAuth =
  auth_base :: auth_base
  auth_psk :: "bytes option"

text \<open>The value of a field; \<open>FixedCap\<close> is a cap that is not automatic.\<close>

datatype ('k, 'f) cfg_val =
    OptSecs "duration option" | Secs duration | Num nat | OptNum "nat option" | FixedCap nat
  | Budget "budget option" | Flag bool | Lanes u64 | Scheduler Policy | Jitter f64
  | Redundancy RedundancyMode | Auth PipeAuth | Protocols "string list option" | ShapingLimits Limits
  | Shaper "('k, 'f) ByKind option"

record EarlyData =
  zmux_peer :: bool
  carrier_early_data :: bool

record ('k, 'f) zmux_config =
  cfg_fields :: "string \<Rightarrow> ('k, 'f) cfg_val"
  cfg_early :: EarlyData

text \<open>
  What the crate and PyO3 give the constructor: the default configuration, the conversion of
  an object to the integer type of a field and to a list of strings, and the shaping crate.
\<close>

record ('o, 'k, 'f) config_api =
  default_config :: "('k, 'f) zmux_config"
  extract_num :: "string \<Rightarrow> 'o \<Rightarrow> nat py_result"
  extract_strs :: "'o \<Rightarrow> string list py_result"
  check_limits :: "Limits \<Rightarrow> string option"
  shaping :: "('k, 'f) shaping_api"
  default_exec :: exec_options

definition field_secs :: "('o, 'm) py_scheme \<Rightarrow> string \<Rightarrow> 'o \<Rightarrow> duration py_result" where
  "field_secs py name v = and_then (extract_f64 py v) (seconds name)"

definition field_opt_secs :: "('o, 'm) py_scheme \<Rightarrow> string \<Rightarrow> 'o \<Rightarrow> duration option py_result" where
  "field_opt_secs py name v =
     (if is_none py v then Inr None else map_ok Some (field_secs py name v))"

definition field_budget :: "('o, 'm) py_scheme \<Rightarrow> string \<Rightarrow> 'o \<Rightarrow> budget py_result" where
  "field_budget py name v =
     (if is_float py v
      then and_then (extract_f64 py v)
             (\<lambda>x. if x = PInf then Inr Unlimited
                  else Inl (value_err (name @ '' is a non-negative integer or math.inf'')))
      else map_ok Bytes (natural py name v))"

definition policy :: "string \<Rightarrow> Policy py_result" where
  "policy name =
     (if name = ''affinity'' then Inr Affinity
      else if name = ''session-affinity'' then Inr SessionAffinity
      else if name = ''spread-eta'' then Inr SpreadEta
      else if name = ''spread-round-robin'' then Inr SpreadRoundRobin
      else if name = ''spread-rate-weighted'' then Inr SpreadRateWeighted
      else Inl (value_err (''unknown scheduler '' @ debug_str name)))"

definition pipe_auth :: "('o, 'm) py_scheme \<Rightarrow> 'o \<Rightarrow> PipeAuth py_result" where
  "pipe_auth py v =
     and_then (and_then (getattr py v ''_exporter'') (extract_bool py)) (\<lambda>exporter.
     and_then (and_then (getattr py v ''_insecure'') (extract_bool py)) (\<lambda>insecure.
     map_ok (\<lambda>psk. \<lparr>auth_base = (if exporter then AuthExporter else if insecure then AuthInsecure else AuthNone),
                    auth_psk = psk\<rparr>)
       (and_then (getattr py v ''_psk'') (extract_opt py (extract_bytes py)))))"

definition redundancy :: "string \<Rightarrow> RedundancyMode py_result" where
  "redundancy r =
     (if r = ''urgent'' then Inr Urgent else if r = ''off'' then Inr RedundancyOff
      else Inl (value_err (''redundancy is '' @ debug_str ''urgent'' @ '' or '' @ debug_str ''off''
                  @ '', not '' @ debug_str r)))"

section \<open>The constructor\<close>

definition TIMERS :: "string list" where
  "TIMERS = [''handshake_timeout'', ''max_idle_timeout'', ''keep_alive_period'', ''standby_probe'',
     ''probe_interval'']"

definition NUMBERS :: "string list" where
  "NUMBERS = [''initial_stream_receive_window'', ''initial_connection_receive_window'',
     ''max_incoming_streams'', ''datagram_send_queue'', ''datagram_receive_queue'',
     ''datagram_stream_queue'', ''datagram_receive_bytes'', ''send_buffer'', ''max_pipes'',
     ''pipe_headroom'', ''spread_chunk'']"

definition CAPS :: "string list" where
  "CAPS = [''max_stream_receive_window'', ''max_connection_receive_window'', ''send_buffer_max'']"

text \<open>The value of a field that is not \<open>None\<close>, not a timer and not of the early data.\<close>

definition field_value ::
    "('o, 'm) py_scheme \<Rightarrow> ('o, 'k, 'f) config_api \<Rightarrow> string \<Rightarrow> 'o \<Rightarrow> ('k, 'f) cfg_val py_result" where
  "field_value py api k v =
     (if k \<in> set NUMBERS then map_ok Num (extract_num api k v)
      else if k \<in> set CAPS then map_ok FixedCap (extract_num api k v)
      else if k \<in> set [''max_incoming_uni_streams'', ''replay_window'']
        then map_ok (\<lambda>n. OptNum (Some n)) (extract_num api k v)
      else if k \<in> set [''latency_budget'', ''suspect_floor'', ''overflow_delay'']
        then map_ok Secs (field_secs py k v)
      else if k \<in> set [''dead_timeout'', ''probation'']
        then map_ok (\<lambda>d. OptSecs (Some d)) (field_secs py k v)
      else if k = ''resume_timeout''
        then map_ok (\<lambda>d. OptSecs (if d = 0 then None else Some d)) (field_secs py k v)
      else if k = ''memory_budget'' then map_ok (\<lambda>b. Budget (Some b)) (field_budget py k v)
      else if k = ''enable_datagrams'' then map_ok Flag (extract_bool py v)
      else if k = ''max_lanes''
        then and_then (extract_u64 py v)
               (\<lambda>n. if n = 0 then Inl (value_err ''max_lanes is at least 1'') else Inr (Lanes n))
      else if k = ''scheduler'' then map_ok Scheduler (and_then (extract_str py v) policy)
      else if k = ''probe_jitter'' then map_ok Jitter (extract_f64 py v)
      else if k = ''redundancy'' then map_ok Redundancy (and_then (extract_str py v) redundancy)
      else if k = ''pipe_auth'' then map_ok Auth (pipe_auth py v)
      else if k = ''protocols'' then map_ok (\<lambda>ps. Protocols (Some ps)) (extract_strs api v)
      else if k = ''shaping_limits'' then map_ok ShapingLimits (session_limits py (check_limits api) v)
      else if k = ''shaping''
        then map_ok (\<lambda>f. Shaper (Some f)) (by_kind py (shaping api) v (default_exec api))
      else Inl (type_err (''unknown Config field '' @ debug_str k)))"

definition config_field ::
    "('o, 'm) py_scheme \<Rightarrow> ('o, 'k, 'f) config_api \<Rightarrow> string \<Rightarrow> 'o
       \<Rightarrow> ('k, 'f) zmux_config \<Rightarrow> ('k, 'f) zmux_config py_result" where
  "config_field py api k v c =
     (if k \<in> set TIMERS
      then map_ok (\<lambda>d. c\<lparr>cfg_fields := (cfg_fields c)(k := OptSecs d)\<rparr>) (field_opt_secs py k v)
      else if is_none py v then Inr c
      else if k = ''early_data''
        then map_ok (\<lambda>b. c\<lparr>cfg_early := (cfg_early c)\<lparr>zmux_peer := b\<rparr>\<rparr>) (extract_bool py v)
      else if k = ''carrier_early_data''
        then map_ok (\<lambda>b. c\<lparr>cfg_early := (cfg_early c)\<lparr>carrier_early_data := b\<rparr>\<rparr>) (extract_bool py v)
      else map_ok (\<lambda>x. c\<lparr>cfg_fields := (cfg_fields c)(k := x)\<rparr>) (field_value py api k v))"

definition config_new ::
    "('o, 'm) py_scheme \<Rightarrow> ('o, 'k, 'f) config_api \<Rightarrow> (string \<times> 'o) list option
       \<Rightarrow> ('k, 'f) zmux_config py_result" where
  "config_new py api kw =
     for_items (config_field py api) (case kw of None \<Rightarrow> [] | Some items \<Rightarrow> items) (default_config api)"

text \<open>
  The native configuration of an argument: none, a native one (\<open>Inr\<close>), or an object whose
  attribute \<open>_native\<close> holds one.
\<close>

definition cfg ::
    "('o, 'm) py_scheme \<Rightarrow> ('k, 'f) zmux_config \<Rightarrow> ('o \<Rightarrow> ('k, 'f) zmux_config option) \<Rightarrow> 'o option
       \<Rightarrow> ('k, 'f) zmux_config py_result" where
  "cfg py dflt native ob =
     (case ob of None \<Rightarrow> Inr dflt
      | Some v \<Rightarrow>
          and_then (if native v \<noteq> None then Inr v else getattr py v ''_native'')
            (\<lambda>n. ok_or (type_err ''a native Config is required'') (native n)))"

section \<open>Facts\<close>

text \<open>Setting a field, and the effect of one keyword as such a setting.\<close>

datatype ('k, 'f) setting = Keep | Set "('k, 'f) cfg_val" | PeerFlag bool | CarrierFlag bool

definition setting ::
    "('o, 'm) py_scheme \<Rightarrow> ('o, 'k, 'f) config_api \<Rightarrow> string \<Rightarrow> 'o \<Rightarrow> ('k, 'f) setting py_result" where
  "setting py api k v =
     (if k \<in> set TIMERS then map_ok (\<lambda>d. Set (OptSecs d)) (field_opt_secs py k v)
      else if is_none py v then Inr Keep
      else if k = ''early_data'' then map_ok PeerFlag (extract_bool py v)
      else if k = ''carrier_early_data'' then map_ok CarrierFlag (extract_bool py v)
      else map_ok Set (field_value py api k v))"

fun apply_setting :: "string \<Rightarrow> ('k, 'f) setting \<Rightarrow> ('k, 'f) zmux_config \<Rightarrow> ('k, 'f) zmux_config" where
  "apply_setting k Keep c = c"
| "apply_setting k (Set x) c = c\<lparr>cfg_fields := (cfg_fields c)(k := x)\<rparr>"
| "apply_setting k (PeerFlag b) c = c\<lparr>cfg_early := (cfg_early c)\<lparr>zmux_peer := b\<rparr>\<rparr>"
| "apply_setting k (CarrierFlag b) c = c\<lparr>cfg_early := (cfg_early c)\<lparr>carrier_early_data := b\<rparr>\<rparr>"

lemma config_field_setting:
  "config_field py api k v c = map_ok (\<lambda>s. apply_setting k s c) (setting py api k v)"
  by (simp add: config_field_def setting_def map_ok_comp)

lemma setting_flags:
  "setting py api k v = Inr (PeerFlag b) \<Longrightarrow> k = ''early_data''"
  "setting py api k v = Inr (CarrierFlag b) \<Longrightarrow> k = ''carrier_early_data''"
  by (auto simp: setting_def res_simps split: if_splits)

lemma apply_setting_commute:
  assumes "k \<noteq> k'" "setting py api k v = Inr s" "setting py api k' v' = Inr s'"
  shows "apply_setting k s (apply_setting k' s' c) = apply_setting k' s' (apply_setting k s c)"
proof (cases s; cases s')
  fix b b' assume "s = PeerFlag b" "s' = PeerFlag b'"
  with assms show ?thesis by (metis setting_flags(1))
next
  fix b b' assume "s = CarrierFlag b" "s' = CarrierFlag b'"
  with assms show ?thesis by (metis setting_flags(2))
next
  fix x x' assume "s = Set x" "s' = Set x'"
  with assms(1) show ?thesis by (simp add: fun_upd_twist)
qed simp_all

lemma config_field_commute:
  assumes "k \<noteq> k'"
  shows "and_then (config_field py api k v c) (config_field py api k' v') = Inr t \<longleftrightarrow>
     and_then (config_field py api k' v' c) (config_field py api k v) = Inr t"
  unfolding config_field_setting
  by (auto simp: res_simps) (metis apply_setting_commute [OF assms])+

interpretation cfgs: keyed_body "config_field py api"
  by unfold_locales (rule config_field_commute)

lemma config_field_other:
  assumes "config_field py api k v c = Inr c'" "k \<noteq> n"
  shows "cfg_fields c' n = cfg_fields c n"
proof -
  obtain s where "setting py api k v = Inr s" "c' = apply_setting k s c"
    using assms(1) by (auto simp: config_field_setting res_simps)
  then show ?thesis using assms(2) by (cases s) simp_all
qed

lemma for_items_other:
  "for_items (config_field py api) kw c = Inr c' \<Longrightarrow> n \<notin> fst ` set kw \<Longrightarrow> cfg_fields c' n = cfg_fields c n"
proof (induction kw arbitrary: c)
  case (Cons x kw)
  obtain k v where x: "x = (k, v)" by fastforce
  with Cons.prems obtain c1 where c1: "config_field py api k v c = Inr c1"
    "for_items (config_field py api) kw c1 = Inr c'" by (auto simp: res_simps)
  then show ?case using Cons.IH [OF c1(2)] Cons.prems(2) config_field_other [OF c1(1)] x by auto
qed simp

lemma for_items_config_at:
  assumes "for_items (config_field py api) kw c = Inr c'" "distinct (map fst kw)" "map_of kw n = Some v"
  shows "\<exists>s c0. setting py api n v = Inr s \<and> cfg_fields c0 n = cfg_fields c n
     \<and> cfg_fields c' n = cfg_fields (apply_setting n s c0) n"
proof -
  have "(n, v) \<in> set kw" using assms(3) by (rule map_of_SomeD)
  then obtain as bs where kw: "kw = as @ (n, v) # bs" by (meson split_list)
  have n: "n \<notin> fst ` set as" "n \<notin> fst ` set bs" using assms(2) by (auto simp: kw)
  from assms(1) obtain c0 c1 where c: "for_items (config_field py api) as c = Inr c0"
    "config_field py api n v c0 = Inr c1" "for_items (config_field py api) bs c1 = Inr c'"
    unfolding kw for_items_append by (auto simp: res_simps)
  from c(2) obtain s where "setting py api n v = Inr s" "c1 = apply_setting n s c0"
    by (auto simp: config_field_setting res_simps)
  moreover have "cfg_fields c0 n = cfg_fields c n" using for_items_other [OF c(1) n(1)] .
  moreover have "cfg_fields c' n = cfg_fields c1 n" using for_items_other [OF c(3) n(2)] .
  ultimately show ?thesis by auto
qed

section \<open>Properties\<close>


text \<open>The fields of a configuration and, among them, the durations.\<close>

definition DURATIONS :: "string list" where
  "DURATIONS = TIMERS @ [''latency_budget'', ''suspect_floor'', ''overflow_delay'', ''dead_timeout'',
     ''probation'', ''resume_timeout'']"

definition known_fields :: "string list" where
  "known_fields = DURATIONS @ NUMBERS @ CAPS @ [''max_incoming_uni_streams'', ''replay_window'',
     ''memory_budget'', ''enable_datagrams'', ''max_lanes'', ''scheduler'', ''probe_jitter'',
     ''redundancy'', ''pipe_auth'', ''protocols'', ''shaping_limits'', ''shaping'', ''early_data'',
     ''carrier_early_data'']"

lemma field_value_unknown:
  "k \<notin> set known_fields \<Longrightarrow> field_value py api k v = Inl (type_err (''unknown Config field '' @ debug_str k))"
  by (simp add: field_value_def known_fields_def DURATIONS_def)

lemma config_field_unknown:
  assumes "k \<notin> set known_fields" "\<not> is_none py v"
  shows "config_field py api k v c = Inl (type_err (''unknown Config field '' @ debug_str k))"
proof -
  have "k \<notin> set TIMERS" "k \<noteq> ''early_data''" "k \<noteq> ''carrier_early_data''"
    using assms(1) by (auto simp: known_fields_def DURATIONS_def)
  then show ?thesis using assms by (simp add: config_field_def field_value_unknown)
qed

lemma config_field_duration:
  assumes "k \<in> set DURATIONS" "\<not> is_none py v" "field_secs py k v = Inl e"
  shows "config_field py api k v c = Inl e"
proof (cases "k \<in> set TIMERS")
  case True
  then show ?thesis using assms by (simp add: config_field_def field_opt_secs_def)
next
  case False
  then have k: "k \<in> set [''latency_budget'', ''suspect_floor'', ''overflow_delay'', ''dead_timeout'',
     ''probation'', ''resume_timeout'']" using assms(1) by (auto simp: DURATIONS_def)
  then have "field_value py api k v = Inl e" "k \<noteq> ''early_data''" "k \<noteq> ''carrier_early_data''"
    using assms(3) unfolding list.set
    by (elim insertE emptyE; simp add: field_value_def NUMBERS_def CAPS_def)+
  then show ?thesis using False assms(2) by (simp add: config_field_def)
qed

text \<open>
  A wrong argument fails the whole call, in whatever position it is given: the first
  unknown field that has a value raises \<open>TypeError\<close>, and the first duration that is negative,
  infinite, not a number or too large raises \<open>ValueError\<close> with the field's name.
\<close>

theorem config_new_rejects:
  assumes "is_ok (config_new py api (Some pre))" "\<not> is_none py v"
  shows "(k \<notin> set known_fields \<longrightarrow>
       config_new py api (Some (pre @ (k, v) # post)) = Inl (type_err (''unknown Config field '' @ debug_str k)))
    \<and> (k \<in> set DURATIONS \<and> extract_f64 py v = Inr x \<and> try_from_secs_f64 x = None \<longrightarrow>
       config_new py api (Some (pre @ (k, v) # post))
         = Inl (value_err (k @ '' is a non-negative number of seconds'')))"
proof -
  obtain c where c: "for_items (config_field py api) pre (default_config api) = Inr c"
    using assms(1) by (auto simp: config_new_def is_ok_iff)
  have "field_secs py k v = Inl (value_err (k @ '' is a non-negative number of seconds''))"
    if "extract_f64 py v = Inr x" "try_from_secs_f64 x = None"
    using that by (simp add: field_secs_def seconds_def)
  moreover have "config_new py api (Some (pre @ (k, v) # post)) = Inl e"
    if "config_field py api k v c = Inl e" for e
    using that by (simp add: config_new_def for_items_append c)
  ultimately show ?thesis
    using config_field_duration [OF _ assms(2)] config_field_unknown [OF _ assms(2)] by blast
qed

section \<open>Witnesses\<close>

definition sample_config_api :: "(pyval, nat, string) config_api" where
  "sample_config_api = \<lparr>
     default_config = \<lparr>cfg_fields = (\<lambda>n. if n = ''handshake_timeout'' then OptSecs (Some 10000000000) else Num 0),
       cfg_early = \<lparr>zmux_peer = False, carrier_early_data = False\<rparr>\<rparr>,
     extract_num = (\<lambda>k v. map_ok nat (and_then (int_of_pyval v) (in_range 0 (2 ^ 64)))),
     extract_strs = (\<lambda>v. Inl (type_err ''a list is required'')),
     check_limits = (\<lambda>l. None), shaping = sample_shaping, default_exec = sample_exec\<rparr>"


theorem config_new_rejects_witness:
  "config_new builtins sample_config_api (Some ([] @ (''bogus'', PInt 1) # []))
     = Inl (type_err (''unknown Config field '' @ debug_str ''bogus''))
   \<and> config_new builtins sample_config_api (Some ([(''max_pipes'', PInt 4)] @ (''probation'', PFloat NInf) # []))
     = Inl (value_err (''probation'' @ '' is a non-negative number of seconds''))"
proof
  have 1: "is_ok (config_new builtins sample_config_api (Some []))"
    by (simp add: config_new_def)
  have "''bogus'' \<notin> set known_fields"
    by (simp add: known_fields_def DURATIONS_def TIMERS_def NUMBERS_def CAPS_def)
  then show "config_new builtins sample_config_api (Some ([] @ (''bogus'', PInt 1) # []))
     = Inl (type_err (''unknown Config field '' @ debug_str ''bogus''))"
    by (intro config_new_rejects [THEN conjunct1, THEN mp, OF 1]) simp_all
  have 2: "is_ok (config_new builtins sample_config_api (Some [(''max_pipes'', PInt 4)]))"
    by (simp add: config_new_def config_field_def TIMERS_def field_value_def NUMBERS_def
        sample_config_api_def in_range_def)
  show "config_new builtins sample_config_api (Some ([(''max_pipes'', PInt 4)] @ (''probation'', PFloat NInf) # []))
     = Inl (value_err (''probation'' @ '' is a non-negative number of seconds''))"
    by (intro config_new_rejects [where x = NInf, THEN conjunct2, THEN mp, OF 2]) (simp_all add: DURATIONS_def)
qed

end
