(* ===== verification/Carriers.thy ===== *)
theory Carriers
  imports Config
begin

text \<open>
  Carriers before a session has them, of \<open>src/src/lib.rs\<close>: the unsent count shared with the
  session's driver (\<open>UnsentCount\<close>), the carrier that can be used once (\<open>PipeIo\<close>), the far end
  of an in-memory pipe (\<open>PipeEnd\<close>), the reservation of a pipe (\<open>PipeReservation\<close>), and the
  calls that use a carrier up. The carrier itself is the crate's: a parameter.
\<close>

section \<open>The unsent count\<close>

text \<open>
  The atomic counts by address, since \<open>with_unsent\<close> shares a count between the Python object
  and the carrier; the largest value stands for \<open>None\<close>.
\<close>

type_synonym counts = "nat \<Rightarrow> u64"

definition decode :: "counts \<Rightarrow> nat \<Rightarrow> u64 option" where
  "decode st a = (if st a = - 1 then None else Some (st a))"

definition encode_count :: "u64 option \<Rightarrow> u64" where
  "encode_count n = (case n of None \<Rightarrow> - 1 | Some x \<Rightarrow> min x (- 2))"

definition count_new :: "nat \<Rightarrow> u64 option \<Rightarrow> counts \<Rightarrow> counts" where
  "count_new a n st = st(a := encode_count n)"

definition count_set :: "nat \<Rightarrow> u64 option \<Rightarrow> counts \<Rightarrow> counts" where
  "count_set a n st = st(a := encode_count n)"

definition count_value :: "counts \<Rightarrow> nat \<Rightarrow> u64 option" where
  "count_value st a = decode st a"

section \<open>The carrier\<close>

text \<open>
  The operations of the crate's carrier \<open>'io\<close>; the closure of \<open>with_unsent\<close> is given by the
  address of the count it decodes.
\<close>

record ('io, 'k, 'st) pipe_api =
  io_with_carrier :: "'k \<Rightarrow> 'io \<Rightarrow> 'io"
  io_with_unsent :: "nat \<Rightarrow> 'io \<Rightarrow> 'io"
  io_with_write_overhead :: "u16 \<Rightarrow> 'io \<Rightarrow> 'io"
  io_into_stream :: "'io \<Rightarrow> 'st"
  io_carrier :: "'io \<Rightarrow> 'k option"

definition pipe_used :: py_err where
  "pipe_used = new_err PyRuntimeError ''pipe already used''"

definition pipe_wrap :: "'io \<Rightarrow> 'io cell" where
  "pipe_wrap io = Some io"

definition pipe_take :: "'io cell \<Rightarrow> 'io py_result \<times> 'io cell" where
  "pipe_take c = (case cell_take c of (x, c') \<Rightarrow> (ok_or pipe_used x, c'))"

text \<open>A method that takes the carrier and makes something of it.\<close>

definition with_taken :: "('io \<Rightarrow> 'a) \<Rightarrow> 'io cell \<Rightarrow> 'a py_result \<times> 'io cell" where
  "with_taken f c = (case pipe_take c of (r, c') \<Rightarrow> (map_ok f r, c'))"

definition with_carrier ::
    "('o, 'm) py_scheme \<Rightarrow> ('k, 'f) shaping_api \<Rightarrow> ('io, 'k, 'st) pipe_api \<Rightarrow> 'o \<Rightarrow> 'io cell
       \<Rightarrow> 'io cell py_result \<times> 'io cell" where
  "with_carrier py sh api kind c =
     (case carrier_kind py sh kind of
        Inl e \<Rightarrow> (Inl e, c)
      | Inr k \<Rightarrow> with_taken (\<lambda>io. pipe_wrap (io_with_carrier api k io)) c)"

definition with_unsent ::
    "('io, 'k, 'st) pipe_api \<Rightarrow> nat \<Rightarrow> 'io cell \<Rightarrow> 'io cell py_result \<times> 'io cell" where
  "with_unsent api a c = with_taken (\<lambda>io. pipe_wrap (io_with_unsent api a io)) c"

text \<open>\<open>u16::try_from\<close> on an \<open>i64\<close>.\<close>

definition u16_try_from :: "int \<Rightarrow> u16 option" where
  "u16_try_from n = (if 0 \<le> n \<and> n < 2 ^ 16 then Some (word_of_int n) else None)"

definition with_write_overhead ::
    "('io, 'k, 'st) pipe_api \<Rightarrow> int \<Rightarrow> 'io cell \<Rightarrow> 'io cell py_result \<times> 'io cell" where
  "with_write_overhead api overhead c =
     (case u16_try_from overhead of
        None \<Rightarrow> (Inl (value_err ''write_overhead is between 0 and 65535''), c)
      | Some n \<Rightarrow> with_taken (\<lambda>io. pipe_wrap (io_with_write_overhead api n io)) c)"

definition into_stream :: "('io, 'k, 'st) pipe_api \<Rightarrow> 'io cell \<Rightarrow> 'st py_result \<times> 'io cell" where
  "into_stream api c = with_taken (io_into_stream api) c"

text \<open>
  \<open>wrap\<close> of a layer: the running loop is asked for first (\<open>locals\<close>); the future it returns
  runs \<open>layer::wrap\<close> on the carrier taken, whose failure is an I/O error.
\<close>

definition wrap_layer ::
    "zmux_errors \<Rightarrow> 'l py_result \<Rightarrow> ('l \<Rightarrow> 'io \<Rightarrow> io_error + 'io) \<Rightarrow> 'io cell
       \<Rightarrow> 'io cell py_result py_result \<times> 'io cell" where
  "wrap_layer z locals run c =
     (case locals of
        Inl e \<Rightarrow> (Inl e, c)
      | Inr l \<Rightarrow> with_taken (\<lambda>io. map_ok pipe_wrap (map_err (io_err z) (run l io))) c)"

definition pipe_carrier :: "('io, 'k, 'st) pipe_api \<Rightarrow> 'io cell \<Rightarrow> 'k option py_result" where
  "pipe_carrier api c = map_ok (io_carrier api) (ok_or pipe_used c)"

section \<open>Calls that use a carrier up\<close>

text \<open>\<open>Session.add_pipe\<close>: the options are read before the carrier is taken.\<close>

definition add_pipe ::
    "zmux_errors \<Rightarrow> ('o, 'm) py_scheme \<Rightarrow> options_api \<Rightarrow> ('io \<Rightarrow> pipe_opts \<Rightarrow> pipe_error + 'p) \<Rightarrow> 'o option
       \<Rightarrow> 'io cell \<Rightarrow> 'p py_result \<times> 'io cell" where
  "add_pipe z py oapi add opts c =
     (case pipe_options py oapi opts of
        Inl e \<Rightarrow> (Inl e, c)
      | Inr r \<Rightarrow> (case pipe_take c of
                    (Inl e, c') \<Rightarrow> (Inl e, c')
                  | (Inr io, c') \<Rightarrow> (map_err (pipe_err z) (add io r), c')))"

text \<open>
  \<open>start\<close>, behind \<open>Session.connect\<close>, \<open>accept\<close> and \<open>peer\<close>: the carrier is taken before the
  configuration is read; the session is established by the future it returns.
\<close>

datatype start_how = Connect | Accept | Peer

definition start ::
    "zmux_errors \<Rightarrow> 'c py_result \<Rightarrow> (start_how \<Rightarrow> 'io \<Rightarrow> 'c \<Rightarrow> connect_error + 's) \<Rightarrow> start_how
       \<Rightarrow> 'io cell \<Rightarrow> 's py_result py_result \<times> 'io cell" where
  "start z config establish how c =
     (case pipe_take c of
        (Inl e, c') \<Rightarrow> (Inl e, c')
      | (Inr io, c') \<Rightarrow>
          (map_ok (\<lambda>cf. map_err (connect_err z) (establish how io cf)) config, c'))"

definition session_connect where
  "session_connect z config establish c = start z config establish Connect c"

definition session_accept where
  "session_accept z config establish c = start z config establish Accept c"

definition session_peer where
  "session_peer z config establish c = start z config establish Peer c"

section \<open>Reservations\<close>

record ('res, 'io, 'p) reserve_api =
  res_id :: "'res \<Rightarrow> u64"
  res_frame :: "'res \<Rightarrow> bytes"
  res_header :: "'res \<Rightarrow> string"
  res_attach :: "'res \<Rightarrow> 'io \<Rightarrow> pipe_error + 'p"

definition reservation_used :: py_err where
  "reservation_used = new_err PyRuntimeError ''reservation already used''"

datatype direction = DirIn | DirOut | DirBidi

definition direction_of :: "string \<Rightarrow> direction py_result" where
  "direction_of d =
     (if d = ''in'' then Inr DirIn else if d = ''out'' then Inr DirOut else if d = ''bidi'' then Inr DirBidi
      else Inl (value_err ''direction is in, out or bidi''))"

definition reserve_pipe ::
    "zmux_errors \<Rightarrow> ('o, 'm) py_scheme \<Rightarrow> options_api \<Rightarrow> (direction \<Rightarrow> pipe_opts \<Rightarrow> pipe_error + 'res) \<Rightarrow> string
       \<Rightarrow> 'o option \<Rightarrow> 'res cell py_result" where
  "reserve_pipe z py oapi reserve dir opts =
     and_then (direction_of dir) (\<lambda>d.
     and_then (pipe_options py oapi opts) (\<lambda>r.
     map_ok Some (map_err (pipe_err z) (reserve d r))))"

definition reservation_take :: "'res cell \<Rightarrow> 'res py_result \<times> 'res cell" where
  "reservation_take c = (case cell_take c of (x, c') \<Rightarrow> (ok_or reservation_used x, c'))"

definition reservation_with :: "('res \<Rightarrow> 'a) \<Rightarrow> 'res cell \<Rightarrow> 'a py_result" where
  "reservation_with f c = ok_or reservation_used (map_option f c)"

definition reservation_id :: "('res, 'io, 'p) reserve_api \<Rightarrow> 'res cell \<Rightarrow> u64 py_result" where
  "reservation_id api c = reservation_with (res_id api) c"

definition reservation_frame :: "('res, 'io, 'p) reserve_api \<Rightarrow> 'res cell \<Rightarrow> bytes py_result" where
  "reservation_frame api c = reservation_with (res_frame api) c"

definition reservation_header :: "('res, 'io, 'p) reserve_api \<Rightarrow> 'res cell \<Rightarrow> string py_result" where
  "reservation_header api c = reservation_with (res_header api) c"

definition reservation_attach ::
    "zmux_errors \<Rightarrow> ('res, 'io, 'p) reserve_api \<Rightarrow> 'io cell \<Rightarrow> 'res cell
       \<Rightarrow> 'p py_result \<times> 'io cell \<times> 'res cell" where
  "reservation_attach z api pipe c =
     (case pipe_take pipe of
        (Inl e, pipe') \<Rightarrow> (Inl e, pipe', c)
      | (Inr io, pipe') \<Rightarrow>
          (case reservation_take c of
             (Inl e, c') \<Rightarrow> (Inl e, pipe', c')
           | (Inr res, c') \<Rightarrow> (map_err (pipe_err z) (res_attach api res io), pipe', c')))"

definition reservation_cancel :: "'res cell \<Rightarrow> unit py_result \<times> 'res cell" where
  "reservation_cancel c = (case reservation_take c of (r, c') \<Rightarrow> (map_ok (\<lambda>res. ()) r, c'))"

section \<open>The far end of an in-memory pipe\<close>

text \<open>
  The halves of the duplex stream are tokio's: reading into a buffer of \<open>n\<close> bytes, writing
  all of some bytes and shutting down are parameters.
\<close>

record 's duplex_api =
  dx_read :: "'s \<Rightarrow> nat \<Rightarrow> (io_error + bytes) \<times> 's"
  dx_write_all :: "'s \<Rightarrow> bytes \<Rightarrow> (io_error + unit) \<times> 's"
  dx_shutdown :: "'s \<Rightarrow> (io_error + unit) \<times> 's"

definition pipe_end_read :: "'s duplex_api \<Rightarrow> nat \<Rightarrow> 's \<Rightarrow> bytes py_result \<times> 's" where
  "pipe_end_read api n s =
     (case dx_read api s n of (r, s') \<Rightarrow> (Inr (case r of Inl e \<Rightarrow> [] | Inr b \<Rightarrow> b), s'))"

definition pipe_end_write :: "'s duplex_api \<Rightarrow> bytes \<Rightarrow> 's \<Rightarrow> unit py_result \<times> 's" where
  "pipe_end_write api b s =
     (case (if b = [] then dx_shutdown api s else dx_write_all api s b) of
        (r, s') \<Rightarrow> (map_err (\<lambda>e. new_err PyRuntimeError (io_display e)) r, s'))"

definition pipe_pair ::
    "('o, 'm) py_scheme \<Rightarrow> ('k, 'f) shaping_api \<Rightarrow> ('io, 'k, 'st) pipe_api \<Rightarrow> 'io \<times> 's \<Rightarrow> 'o option
       \<Rightarrow> ('io cell \<times> 's) py_result" where
  "pipe_pair py sh api ends carrier =
     (case ends of (io, e) \<Rightarrow>
        (case carrier of
           None \<Rightarrow> Inr (pipe_wrap io, e)
         | Some k \<Rightarrow> map_ok (\<lambda>k'. (pipe_wrap (io_with_carrier api k' io), e)) (carrier_kind py sh k)))"

section \<open>Facts\<close>

text \<open>The uses of a carrier, and their success.\<close>

datatype 'o CarrierUse =
    UseTake | UseCarrier 'o | UseUnsent nat | UseOverhead int | UseStream | UseWrap
  | UseAdd "'o option" | UseStart start_how

text \<open>What the uses are given: the crate's operations and the outcome of their other arguments.\<close>

record ('o, 'io, 'k, 'f, 'st, 'l, 'p, 'c, 's) use_env =
  ue_errors :: zmux_errors
  ue_py :: "'o py"
  ue_shaping :: "('k, 'f) shaping_api"
  ue_pipe :: "('io, 'k, 'st) pipe_api"
  ue_locals :: "'l py_result"
  ue_run :: "'l \<Rightarrow> 'io \<Rightarrow> io_error + 'io"
  ue_options :: options_api
  ue_add :: "'io \<Rightarrow> pipe_opts \<Rightarrow> pipe_error + 'p"
  ue_config :: "'c py_result"
  ue_establish :: "start_how \<Rightarrow> 'io \<Rightarrow> 'c \<Rightarrow> connect_error + 's"

definition outcome :: "'a py_result \<times> 'c \<Rightarrow> unit py_result \<times> 'c" where
  "outcome x = (map_ok (\<lambda>a. ()) (fst x), snd x)"

fun carrier_use ::
    "('o, 'io, 'k, 'f, 'st, 'l, 'p, 'c, 's) use_env \<Rightarrow> 'o CarrierUse \<Rightarrow> 'io cell \<Rightarrow> unit py_result \<times> 'io cell" where
  "carrier_use e UseTake c = outcome (pipe_take c)"
| "carrier_use e (UseCarrier k) c = outcome (with_carrier (ue_py e) (ue_shaping e) (ue_pipe e) k c)"
| "carrier_use e (UseUnsent a) c = outcome (with_unsent (ue_pipe e) a c)"
| "carrier_use e (UseOverhead n) c = outcome (with_write_overhead (ue_pipe e) n c)"
| "carrier_use e UseStream c = outcome (into_stream (ue_pipe e) c)"
| "carrier_use e UseWrap c = outcome (wrap_layer (ue_errors e) (ue_locals e) (ue_run e) c)"
| "carrier_use e (UseAdd ob) c = outcome (add_pipe (ue_errors e) (ue_py e) (ue_options e) (ue_add e) ob c)"
| "carrier_use e (UseStart how) c = outcome (start (ue_errors e) (ue_config e) (ue_establish e) how c)"

lemma pipe_take_simps [simp]:
  "pipe_take (Some io) = (Inr io, None)" "pipe_take None = (Inl pipe_used, None)"
  by (simp_all add: pipe_take_def cell_take_def)

lemma with_taken_simps [simp]:
  "with_taken f (Some io) = (Inr (f io), None)" "with_taken f None = (Inl pipe_used, None)"
  by (simp_all add: with_taken_def)

lemmas use_defs = with_carrier_def with_unsent_def with_write_overhead_def into_stream_def
  wrap_layer_def add_pipe_def start_def outcome_def

lemma carrier_use_empty: "carrier_use e u None = (r, c') \<Longrightarrow> \<not> is_ok r \<and> c' = None"
  by (cases u) (auto simp: use_defs split: sum.splits option.splits)

lemma carrier_use_ok: "carrier_use e u (Some io) = (Inr x, c') \<Longrightarrow> c' = None"
  by (cases u) (auto simp: use_defs res_simps split: sum.splits option.splits)

interpretation carrier: one_shot "carrier_use e" "\<lambda>c. c \<noteq> None"
proof unfold_locales
  fix u c a c' assume u: "carrier_use e u c = (Inr a, c')"
  show "c \<noteq> None \<and> \<not> c' \<noteq> None"
    using u carrier_use_empty [of e u "Inr a" c'] carrier_use_ok [of e u _ a c'] by (cases c) auto
next
  fix u c x c' assume "carrier_use e u c = (Inl x, c')" "c' \<noteq> None"
  then show "c \<noteq> None" using carrier_use_empty [of e u "Inl x" c'] by (cases c) auto
qed

text \<open>The uses of a reservation.\<close>

datatype 'io ReservationUse = Attach "'io cell" | Cancel

fun reservation_use ::
    "zmux_errors \<Rightarrow> ('res, 'io, 'p) reserve_api \<Rightarrow> 'io ReservationUse \<Rightarrow> 'res cell \<Rightarrow> unit py_result \<times> 'res cell" where
  "reservation_use z api (Attach pipe) c =
     (case reservation_attach z api pipe c of (r, pipe', c') \<Rightarrow> outcome (r, c'))"
| "reservation_use z api Cancel c = reservation_cancel c"

lemma reservation_take_simps [simp]:
  "reservation_take (Some res) = (Inr res, None)" "reservation_take None = (Inl reservation_used, None)"
  by (simp_all add: reservation_take_def cell_take_def)

interpretation reservation: one_shot "reservation_use z api" "\<lambda>c. c \<noteq> None"
proof unfold_locales
  fix u c a c' assume "reservation_use z api u c = (Inr a, c')"
  then show "c \<noteq> None \<and> \<not> c' \<noteq> None"
    by (cases u; cases c) (auto simp: reservation_attach_def reservation_cancel_def outcome_def
        split: prod.splits sum.splits)
next
  fix u c e c' assume "reservation_use z api u c = (Inl e, c')" "c' \<noteq> None"
  then show "c \<noteq> None"
    by (cases u; cases c) (auto simp: reservation_attach_def reservation_cancel_def outcome_def
        split: prod.splits sum.splits)
qed

lemma word_pred_top:
  assumes "x \<noteq> - 1"
  shows "(x::u64) \<le> - 2"
proof -
  have "uint (- 1 :: u64) = 2 ^ 64 - 1" by code_simp
  with assms have "uint x \<noteq> 2 ^ 64 - 1" by (simp add: word_uint_eq_iff)
  moreover have "uint x < 2 ^ 64" using uint_lt2p [of x] by simp
  ultimately show ?thesis by (simp add: word_le_def)
qed

lemma word_min_pred: "min (x::u64) (- 2) = (if x = - 1 then - 2 else x)"
proof -
  have "\<not> (- 1 :: u64) \<le> - 2" by code_simp
  then show ?thesis using word_pred_top [of x] by (simp add: min_def)
qed

section \<open>Properties\<close>

text \<open>
  C16. A carrier is used at most once: of any sequence of calls that use it (relabelling it,
  turning it into a stream, wrapping it, adding it to a session, starting a session on it),
  at most one succeeds, whatever the arguments and whatever the crate answers; the same holds
  for attaching and cancelling a reservation.
\<close>

theorem carrier_used_once:
  "length (filter is_ok (uses (carrier_use e) us c)) \<le> 1
   \<and> length (filter is_ok (uses (reservation_use z api) rs r)) \<le> 1"
  using carrier.uses_at_most_once reservation.uses_at_most_once by blast

text \<open>
  A carrier survives the argument errors that are found before it is taken: an unknown
  carrier kind, an overhead that is no 16 bit number and invalid pipe options leave it usable.
  An invalid configuration does not, and neither does a reservation that is used up: there the
  carrier is gone although the call failed.
\<close>

theorem argument_errors_and_the_carrier:
  "(carrier_kind py sh kind = Inl e \<longrightarrow> with_carrier py sh api kind (Some io) = (Inl e, Some io))
   \<and> (n < 0 \<or> 2 ^ 16 \<le> n \<longrightarrow> snd (with_write_overhead api n (Some io)) = Some io)
   \<and> (pipe_options py oapi opts = Inl e \<longrightarrow> add_pipe z py oapi add opts (Some io) = (Inl e, Some io))
   \<and> start z (Inl e) establish how (Some io) = (Inl e, None)
   \<and> reservation_attach z rapi (Some io) None = (Inl reservation_used, None, None)"
  by (simp add: use_defs u16_try_from_def reservation_attach_def)

text \<open>
  The unsent count reads back as it was set, except that the largest count, which stands
  for \<open>None\<close>, is reported as one byte less; the count of another carrier does not change.
\<close>

theorem unsent_count_read_back:
  "count_value (count_set a n st) a = (if n = Some (- 1) then Some (- 2) else n)
   \<and> count_value (count_new a n st) a = count_value (count_set a n st) a
   \<and> (b \<noteq> a \<longrightarrow> count_value (count_set a n st) b = count_value st b)"
  by (cases n) (auto simp: count_value_def count_set_def count_new_def decode_def encode_count_def word_min_pred)

text \<open>
  \<open>PipeEnd.read\<close> answers with no bytes not only at the end of the session's side: a read of
  0 bytes does, and so does a read that fails.
\<close>

theorem pipe_end_read_empty:
  assumes "\<And>s. dx_read api s 0 = (Inr [], s)"
  shows "pipe_end_read api 0 s = (Inr [], s)
    \<and> (dx_read api s n = (Inl e, s') \<longrightarrow> pipe_end_read api n s = (Inr [], s'))"
  using assms by (simp add: pipe_end_read_def)

section \<open>Witnesses\<close>

definition sample_duplex :: "bytes duplex_api" where
  "sample_duplex = \<lparr>dx_read = (\<lambda>s n. (Inr (take n s), drop n s)),
     dx_write_all = (\<lambda>s b. (Inr (), s @ b)), dx_shutdown = (\<lambda>s. (Inr (), s))\<rparr>"

theorem pipe_end_read_empty_witness: "pipe_end_read sample_duplex 0 [1, 2] = (Inr [], [1, 2])"
  by (rule pipe_end_read_empty [THEN conjunct1]) (simp add: sample_duplex_def)

definition sample_pipe :: "(string, nat, string) pipe_api" where
  "sample_pipe = \<lparr>io_with_carrier = (\<lambda>k io. io), io_with_unsent = (\<lambda>a io. io),
     io_with_write_overhead = (\<lambda>n io. io), io_into_stream = id, io_carrier = (\<lambda>io. None)\<rparr>"

theorem argument_errors_and_the_carrier_witness:
  "snd (with_carrier builtins sample_shaping sample_pipe (PStr ''udp'') (Some ''tcp'')) = Some ''tcp''
   \<and> snd (with_write_overhead sample_pipe 70000 (Some ''tcp'')) = Some ''tcp''"
proof
  have k: "carrier_kind builtins sample_shaping (PStr ''udp'')
      = Inl (value_err (''unknown carrier kind '' @ debug_str ''udp''))"
    by (simp add: carrier_kind_def sample_shaping_def)
  show "snd (with_carrier builtins sample_shaping sample_pipe (PStr ''udp'') (Some ''tcp'')) = Some ''tcp''"
    using argument_errors_and_the_carrier [THEN conjunct1, THEN mp, OF k, of sample_pipe "''tcp''"] by simp
  show "snd (with_write_overhead sample_pipe 70000 (Some ''tcp'')) = Some ''tcp''"
    by (rule argument_errors_and_the_carrier [THEN conjunct2, THEN conjunct1, THEN mp]) simp
qed

theorem unsent_count_read_back_witness:
  "count_value (count_set 0 (Some 7) (\<lambda>a. 3)) 1 = Some 3 \<and> count_value (count_set 0 (Some 7) (\<lambda>a. 3)) 0 = Some 7"
  using unsent_count_read_back [of 0 "Some 7" "\<lambda>a. 3" 1] by (simp add: count_value_def decode_def)

end
