(* ===== verification/Layer_Channel.thy ===== *)
theory Layer_Channel
  imports Machines
begin

text \<open>
  The stream between a carrier and a Python layer, \<open>ChanIo\<close> and \<open>LayerEnd\<close> of
  \<open>src/src/layer.rs\<close>: two bounded channels, on one side an asynchronous byte stream, on the
  other side the methods Python pumps. The channels are tokio's: their operations are a
  parameter, and the laws the code relies on are the locale \<open>mpsc_laws\<close>.
\<close>

section \<open>Channels\<close>

text \<open>
  The operations on a channel of byte messages, of both of its ends: \<open>poll_reserve\<close> polls for
  room for one message (\<open>False\<close>: the receiver is gone), \<open>permit_send\<close> uses that room, and
  \<open>clone_tx\<close> and \<open>drop_tx\<close> make and drop one more sender.
\<close>

record 'c mpsc =
  new_channel :: "nat \<Rightarrow> 'c"
  poll_recv :: "'c \<Rightarrow> bytes option poll \<times> 'c"
  poll_reserve :: "'c \<Rightarrow> bool poll \<times> 'c"
  permit_send :: "bytes \<Rightarrow> 'c \<Rightarrow> 'c"
  clone_tx :: "'c \<Rightarrow> 'c"
  drop_tx :: "'c \<Rightarrow> 'c"

definition DEPTH :: nat where
  "DEPTH = 8"

text \<open>
  The state of both sides: the channels to and from the carrier, the fields of \<open>ChanIo\<close>, the
  sender of \<open>LayerEnd\<close>, and the data of the \<open>write\<close> futures that have not completed, each of
  which holds a sender of its own.
\<close>

record 'c layer =
  in_ch :: 'c
  out_ch :: 'c
  cio_buf :: bytes
  cio_tx :: bool
  cio_reserve :: bool
  end_tx :: bool
  end_writes :: "bytes list"

section \<open>The carrier's side\<close>

datatype fill = Filled | Ended | Waiting

text \<open>The loop of \<open>poll_read\<close>: receives until the buffer holds something.\<close>

partial_function (option) fill_loop :: "'c mpsc \<Rightarrow> ('c, 'z) layer_scheme \<Rightarrow> (fill \<times> ('c, 'z) layer_scheme) option" where
  "fill_loop ch s =
     (if cio_buf s \<noteq> [] then Some (Filled, s)
      else case poll_recv ch (in_ch s) of
             (Ready (Some b), c) \<Rightarrow> fill_loop ch (s\<lparr>in_ch := c, cio_buf := b\<rparr>)
           | (Ready None, c) \<Rightarrow> Some (Ended, s\<lparr>in_ch := c\<rparr>)
           | (Pending, c) \<Rightarrow> Some (Waiting, s\<lparr>in_ch := c\<rparr>))"

declare fill_loop.simps [code]

definition poll_read :: "'c mpsc \<Rightarrow> nat \<Rightarrow> ('c, 'z) layer_scheme \<Rightarrow> (bytes poll \<times> ('c, 'z) layer_scheme) option" where
  "poll_read ch remaining s =
     (case fill_loop ch s of
        None \<Rightarrow> None
      | Some (Filled, t) \<Rightarrow>
          (let n = min (length (cio_buf t)) remaining
           in Some (Ready (take n (cio_buf t)), t\<lparr>cio_buf := drop n (cio_buf t)\<rparr>))
      | Some (Ended, t) \<Rightarrow> Some (Ready [], t)
      | Some (Waiting, t) \<Rightarrow> Some (Pending, t))"

datatype write_error = BrokenPipe

definition poll_write ::
    "'c mpsc \<Rightarrow> bytes \<Rightarrow> ('c, 'z) layer_scheme \<Rightarrow> (write_error + nat) poll \<times> ('c, 'z) layer_scheme" where
  "poll_write ch b s =
     (if \<not> cio_tx s then (Ready (Inl BrokenPipe), s)
      else let t = (if cio_reserve s then s else s\<lparr>out_ch := clone_tx ch (out_ch s), cio_reserve := True\<rparr>)
      in case poll_reserve ch (out_ch t) of
           (Pending, c) \<Rightarrow> (Pending, t\<lparr>out_ch := c\<rparr>)
         | (Ready True, c) \<Rightarrow>
             (Ready (Inr (length b)), t\<lparr>out_ch := drop_tx ch (permit_send ch b c), cio_reserve := False\<rparr>)
         | (Ready False, c) \<Rightarrow>
             (Ready (Inl BrokenPipe), t\<lparr>out_ch := drop_tx ch c, cio_reserve := False\<rparr>))"

definition drop_if :: "'c mpsc \<Rightarrow> bool \<Rightarrow> 'c \<Rightarrow> 'c" where
  "drop_if ch b c = (if b then drop_tx ch c else c)"

definition poll_shutdown :: "'c mpsc \<Rightarrow> ('c, 'z) layer_scheme \<Rightarrow> ('c, 'z) layer_scheme" where
  "poll_shutdown ch s =
     s\<lparr>out_ch := drop_if ch (cio_reserve s) (drop_if ch (cio_tx s) (out_ch s)),
       cio_tx := False, cio_reserve := False\<rparr>"

section \<open>Python's side\<close>

definition end_recv :: "'c mpsc \<Rightarrow> ('c, 'z) layer_scheme \<Rightarrow> bytes option poll \<times> ('c, 'z) layer_scheme" where
  "end_recv ch s = (case poll_recv ch (out_ch s) of (r, c) \<Rightarrow> (r, s\<lparr>out_ch := c\<rparr>))"

text \<open>What \<open>read\<close> answers: the message, or no bytes at the end.\<close>

fun end_read :: "bytes option poll \<Rightarrow> bytes poll" where
  "end_read Pending = Pending"
| "end_read (Ready m) = Ready (unwrap_or [] m)"

text \<open>
  \<open>write\<close>: the sender is cloned when it is called; the future fails on a closed end, is done
  at once on no data, and else waits for room.
\<close>

datatype end_write_result = EndClosed | WriteDone | WriteStarted

definition end_write :: "'c mpsc \<Rightarrow> bytes \<Rightarrow> ('c, 'z) layer_scheme \<Rightarrow> end_write_result \<times> ('c, 'z) layer_scheme" where
  "end_write ch b s =
     (if \<not> end_tx s then (EndClosed, s)
      else if b = [] then (WriteDone, s)
      else (WriteStarted, s\<lparr>in_ch := clone_tx ch (in_ch s), end_writes := end_writes s @ [b]\<rparr>))"

definition remove_at :: "nat \<Rightarrow> 'a list \<Rightarrow> 'a list" where
  "remove_at i xs = take i xs @ drop (Suc i) xs"

text \<open>A poll of the \<open>i\<close>-th pending \<open>write\<close>: whether it is done, and whether it sent its data.\<close>

definition end_write_poll :: "'c mpsc \<Rightarrow> nat \<Rightarrow> ('c, 'z) layer_scheme \<Rightarrow> bool poll \<times> ('c, 'z) layer_scheme" where
  "end_write_poll ch i s =
     (case poll_reserve ch (in_ch s) of
        (Pending, c) \<Rightarrow> (Pending, s\<lparr>in_ch := c\<rparr>)
      | (Ready True, c) \<Rightarrow>
          (Ready True, s\<lparr>in_ch := drop_tx ch (permit_send ch (end_writes s ! i) c),
             end_writes := remove_at i (end_writes s)\<rparr>)
      | (Ready False, c) \<Rightarrow>
          (Ready False, s\<lparr>in_ch := drop_tx ch c, end_writes := remove_at i (end_writes s)\<rparr>))"

text \<open>A pending \<open>write\<close> that is cancelled drops its sender and its data.\<close>

definition end_write_drop :: "'c mpsc \<Rightarrow> nat \<Rightarrow> ('c, 'z) layer_scheme \<Rightarrow> ('c, 'z) layer_scheme" where
  "end_write_drop ch i s =
     s\<lparr>in_ch := drop_tx ch (in_ch s), end_writes := remove_at i (end_writes s)\<rparr>"

definition end_close :: "'c mpsc \<Rightarrow> ('c, 'z) layer_scheme \<Rightarrow> ('c, 'z) layer_scheme" where
  "end_close ch s = s\<lparr>in_ch := drop_if ch (end_tx s) (in_ch s), end_tx := False\<rparr>"

section \<open>Both sides together\<close>

text \<open>
  The history beside the state: the messages Python sent and the bytes the carrier read, the
  messages the carrier wrote and those Python received.
\<close>

record 'c layer_run = "'c layer" +
  sent_in :: "bytes list"
  read_in :: bytes
  sent_out :: "bytes list"
  read_out :: "bytes list"

definition chan_pair :: "'c mpsc \<Rightarrow> 'c layer_run" where
  "chan_pair ch = \<lparr>in_ch = new_channel ch DEPTH, out_ch = new_channel ch DEPTH, cio_buf = [],
     cio_tx = True, cio_reserve = False, end_tx = True, end_writes = [],
     sent_in = [], read_in = [], sent_out = [], read_out = []\<rparr>"

datatype layer_action =
    CarrierRead nat | CarrierWrite bytes | CarrierShutdown | EndRead | EndWrite bytes
  | EndWritePoll nat | EndWriteDrop nat | EndClose

fun layer_step :: "'c mpsc \<Rightarrow> 'c layer_run \<Rightarrow> layer_action \<Rightarrow> 'c layer_run option" where
  "layer_step ch s (CarrierRead n) =
     (case poll_read ch n s of
        None \<Rightarrow> None
      | Some (Pending, t) \<Rightarrow> Some t
      | Some (Ready b, t) \<Rightarrow> Some (t\<lparr>read_in := read_in t @ b\<rparr>))"
| "layer_step ch s (CarrierWrite b) =
     (case poll_write ch b s of
        (Ready (Inr n), t) \<Rightarrow> Some (t\<lparr>sent_out := sent_out t @ [b]\<rparr>)
      | (r, t) \<Rightarrow> Some t)"
| "layer_step ch s CarrierShutdown = Some (poll_shutdown ch s)"
| "layer_step ch s EndRead =
     (case end_recv ch s of
        (Ready (Some m), t) \<Rightarrow> Some (t\<lparr>read_out := read_out t @ [m]\<rparr>)
      | (r, t) \<Rightarrow> Some t)"
| "layer_step ch s (EndWrite b) = Some (snd (end_write ch b s))"
| "layer_step ch s (EndWritePoll i) =
     (if i < length (end_writes s)
      then case end_write_poll ch i s of
             (Ready True, t) \<Rightarrow> Some (t\<lparr>sent_in := sent_in t @ [end_writes s ! i]\<rparr>)
           | (r, t) \<Rightarrow> Some t
      else None)"
| "layer_step ch s (EndWriteDrop i) =
     (if i < length (end_writes s) then Some (end_write_drop ch i s) else None)"
| "layer_step ch s EndClose = Some (end_close ch s)"

section \<open>The interface of a channel\<close>

text \<open>
  What the code relies on of a bounded channel, by the messages in it, the senders alive and
  the capacity: messages arrive once and in order, the end is reported only when every sender
  is gone and every message has been received, room is granted only below the capacity. A
  poll may answer that it is pending at any time.
\<close>

locale mpsc_laws =
  fixes ch :: "'c mpsc"
    and queue :: "'c \<Rightarrow> bytes list"
    and txs :: "'c \<Rightarrow> nat"
    and cap :: "'c \<Rightarrow> nat"
  assumes new_laws: "queue (new_channel ch n) = []" "txs (new_channel ch n) = 1" "cap (new_channel ch n) = n"
    and recv_item: "poll_recv ch c = (Ready (Some m), c') \<Longrightarrow>
      queue c = m # queue c' \<and> txs c' = txs c \<and> cap c' = cap c"
    and recv_end: "poll_recv ch c = (Ready None, c') \<Longrightarrow>
      queue c = [] \<and> txs c = 0 \<and> queue c' = [] \<and> txs c' = 0 \<and> cap c' = cap c"
    and recv_wait: "poll_recv ch c = (Pending, c') \<Longrightarrow>
      queue c' = queue c \<and> txs c' = txs c \<and> cap c' = cap c"
    and reserve_keeps: "poll_reserve ch c = (r, c') \<Longrightarrow>
      queue c' = queue c \<and> txs c' = txs c \<and> cap c' = cap c"
    and reserve_room: "poll_reserve ch c = (Ready True, c') \<Longrightarrow> length (queue c) < cap c"
    and send_laws: "queue (permit_send ch m c) = queue c @ [m]" "txs (permit_send ch m c) = txs c"
      "cap (permit_send ch m c) = cap c"
    and clone_laws: "queue (clone_tx ch c) = queue c" "txs (clone_tx ch c) = Suc (txs c)"
      "cap (clone_tx ch c) = cap c"
    and drop_laws: "queue (drop_tx ch c) = queue c" "txs (drop_tx ch c) = txs c - 1"
      "cap (drop_tx ch c) = cap c"

text \<open>
  The invariants of the pair: the bytes Python sent are those the carrier read, then the
  buffer, then the queue; the messages the carrier wrote are those Python received, then the
  queue; the senders are accounted for; the queues are bounded.
\<close>

definition in_inv :: "('c \<Rightarrow> bytes list) \<Rightarrow> 'c layer_run \<Rightarrow> bool" where
  "in_inv queue s \<longleftrightarrow> concat (sent_in s) = read_in s @ cio_buf s @ concat (queue (in_ch s))"

definition out_inv :: "('c \<Rightarrow> bytes list) \<Rightarrow> 'c layer_run \<Rightarrow> bool" where
  "out_inv queue s \<longleftrightarrow> sent_out s = read_out s @ queue (out_ch s)"

definition tx_inv :: "('c \<Rightarrow> nat) \<Rightarrow> 'c layer_run \<Rightarrow> bool" where
  "tx_inv txs s \<longleftrightarrow> txs (in_ch s) = of_bool (end_tx s) + length (end_writes s)
     \<and> txs (out_ch s) = of_bool (cio_tx s) + of_bool (cio_reserve s)"

definition cap_inv :: "('c \<Rightarrow> bytes list) \<Rightarrow> ('c \<Rightarrow> nat) \<Rightarrow> 'c layer_run \<Rightarrow> bool" where
  "cap_inv queue cap s \<longleftrightarrow> cap (in_ch s) = DEPTH \<and> cap (out_ch s) = DEPTH
     \<and> length (queue (in_ch s)) \<le> DEPTH \<and> length (queue (out_ch s)) \<le> DEPTH"

definition layer_inv :: "('c \<Rightarrow> bytes list) \<Rightarrow> ('c \<Rightarrow> nat) \<Rightarrow> ('c \<Rightarrow> nat) \<Rightarrow> 'c layer_run \<Rightarrow> bool" where
  "layer_inv queue txs cap s \<longleftrightarrow> in_inv queue s \<and> out_inv queue s \<and> tx_inv txs s \<and> cap_inv queue cap s"

lemma buf_unchanged: "cio_buf s = b \<Longrightarrow> s\<lparr>in_ch := c, cio_buf := b\<rparr> = s\<lparr>in_ch := c\<rparr>"
  by (cases s) simp

lemma length_remove_at [simp]: "i < length xs \<Longrightarrow> length (remove_at i xs) = length xs - 1"
  by (simp add: remove_at_def)

context mpsc_laws
begin

lemmas ch_laws = new_laws send_laws clone_laws drop_laws

lemma fill_loop_returns:
  "\<exists>r b c. fill_loop ch s = Some (r, s\<lparr>in_ch := c, cio_buf := b\<rparr>)
     \<and> cio_buf s @ concat (queue (in_ch s)) = b @ concat (queue c)
     \<and> txs c = txs (in_ch s) \<and> cap c = cap (in_ch s) \<and> length (queue c) \<le> length (queue (in_ch s))
     \<and> (r = Filled \<longleftrightarrow> b \<noteq> []) \<and> (r = Ended \<longrightarrow> queue c = [] \<and> txs c = 0)"
proof (induction "length (queue (in_ch s))" arbitrary: s rule: less_induct)
  case less
  show ?case
  proof (cases "cio_buf s = []")
    case True
    obtain r c where p: "poll_recv ch (in_ch s) = (r, c)" by fastforce
    show ?thesis
    proof (cases "\<exists>m. r = Ready (Some m)")
      case True
      then obtain m where r: "r = Ready (Some m)" by blast
      note q = recv_item [OF p [unfolded r]]
      have "length (queue (in_ch (s\<lparr>in_ch := c, cio_buf := m\<rparr>))) < length (queue (in_ch s))"
        using q by simp
      from less [OF this] have "\<exists>r' b' c'.
          fill_loop ch (s\<lparr>in_ch := c, cio_buf := m\<rparr>) = Some (r', s\<lparr>in_ch := c', cio_buf := b'\<rparr>)
          \<and> m @ concat (queue c) = b' @ concat (queue c') \<and> txs c' = txs c \<and> cap c' = cap c
          \<and> length (queue c') \<le> length (queue c) \<and> (r' = Filled \<longleftrightarrow> b' \<noteq> [])
          \<and> (r' = Ended \<longrightarrow> queue c' = [] \<and> txs c' = 0)" by simp
      then obtain r' b' c' where
        f: "fill_loop ch (s\<lparr>in_ch := c, cio_buf := m\<rparr>) = Some (r', s\<lparr>in_ch := c', cio_buf := b'\<rparr>)"
          "m @ concat (queue c) = b' @ concat (queue c')" "txs c' = txs c" "cap c' = cap c"
          "length (queue c') \<le> length (queue c)" "r' = Filled \<longleftrightarrow> b' \<noteq> []"
          "r' = Ended \<longrightarrow> queue c' = [] \<and> txs c' = 0" by blast
      have "fill_loop ch s = Some (r', s\<lparr>in_ch := c', cio_buf := b'\<rparr>)"
        using \<open>cio_buf s = []\<close> p r f(1) by (subst fill_loop.simps) simp
      then show ?thesis using f q \<open>cio_buf s = []\<close> by (intro exI [of _ r'] exI [of _ b'] exI [of _ c']) simp
    next
      case False
      then consider "r = Ready None" | "r = Pending" by (cases r) auto
      then show ?thesis
      proof cases
        case 1
        then have "fill_loop ch s = Some (Ended, s\<lparr>in_ch := c, cio_buf := []\<rparr>)"
          using \<open>cio_buf s = []\<close> p by (subst fill_loop.simps) (simp add: buf_unchanged)
        then show ?thesis using recv_end p 1 \<open>cio_buf s = []\<close>
          by (intro exI [of _ Ended] exI [of _ "[]"] exI [of _ c]) simp
      next
        case 2
        then have "fill_loop ch s = Some (Waiting, s\<lparr>in_ch := c, cio_buf := []\<rparr>)"
          using \<open>cio_buf s = []\<close> p by (subst fill_loop.simps) (simp add: buf_unchanged)
        then show ?thesis using recv_wait p 2 \<open>cio_buf s = []\<close>
          by (intro exI [of _ Waiting] exI [of _ "[]"] exI [of _ c]) simp
      qed
    qed
  next
    case False
    have "fill_loop ch s = Some (Filled, s\<lparr>in_ch := in_ch s, cio_buf := cio_buf s\<rparr>)"
      using False by (subst fill_loop.simps) simp
    then show ?thesis using False
      by (intro exI [of _ Filled] exI [of _ "cio_buf s"] exI [of _ "in_ch s"]) simp
  qed
qed

lemma poll_read_result:
  obtains b c where "poll_read ch n s = Some (Ready [], s\<lparr>in_ch := c, cio_buf := b\<rparr>)"
      "b = []" "cio_buf s @ concat (queue (in_ch s)) = []" "queue c = []" "txs c = 0"
      "txs (in_ch s) = 0" "cap c = cap (in_ch s)"
  | b c where "poll_read ch n s = Some (Pending, s\<lparr>in_ch := c, cio_buf := b\<rparr>)"
      "cio_buf s @ concat (queue (in_ch s)) = b @ concat (queue c)"
      "txs c = txs (in_ch s)" "cap c = cap (in_ch s)" "length (queue c) \<le> length (queue (in_ch s))"
  | b c where "b \<noteq> []"
      "poll_read ch n s = Some (Ready (take n b), s\<lparr>in_ch := c, cio_buf := drop n b\<rparr>)"
      "cio_buf s @ concat (queue (in_ch s)) = b @ concat (queue c)"
      "txs c = txs (in_ch s)" "cap c = cap (in_ch s)" "length (queue c) \<le> length (queue (in_ch s))"
proof -
  obtain r b c where f: "fill_loop ch s = Some (r, s\<lparr>in_ch := c, cio_buf := b\<rparr>)"
    "cio_buf s @ concat (queue (in_ch s)) = b @ concat (queue c)"
    "txs c = txs (in_ch s)" "cap c = cap (in_ch s)" "length (queue c) \<le> length (queue (in_ch s))"
    "r = Filled \<longleftrightarrow> b \<noteq> []" "r = Ended \<longrightarrow> queue c = [] \<and> txs c = 0"
    using fill_loop_returns [of s] by blast
  have m: "take (min (length b) n) b = take n b" "drop (min (length b) n) b = drop n b"
    by (simp_all add: min_def)
  show ?thesis
  proof (cases r)
    case Filled
    then show ?thesis using f m by (intro that(3)) (simp_all add: poll_read_def Let_def)
  next
    case Ended
    then show ?thesis using f by (intro that(1) [of b c]) (simp_all add: poll_read_def)
  next
    case Waiting
    then show ?thesis using f by (intro that(2)) (simp_all add: poll_read_def)
  qed
qed

lemma in_inv_step: "in_inv queue s \<Longrightarrow> layer_step ch s a = Some s' \<Longrightarrow> in_inv queue s'"
proof (cases a)
  case (CarrierRead n)
  assume i: "in_inv queue s" and st: "layer_step ch s a = Some s'"
  show ?thesis
    by (rule poll_read_result [of n s]) (use i st CarrierRead in \<open>auto simp: in_inv_def\<close>)
next
  case (EndWritePoll i)
  assume i: "in_inv queue s" and st: "layer_step ch s a = Some s'"
  obtain r c where "poll_reserve ch (in_ch s) = (r, c)" by fastforce
  then show ?thesis using i st EndWritePoll reserve_keeps [of "in_ch s" r c]
    by (auto simp: in_inv_def end_write_poll_def ch_laws split: poll.splits bool.splits if_splits)
qed (auto simp: in_inv_def poll_write_def poll_shutdown_def end_recv_def end_write_def end_write_drop_def
    end_close_def drop_if_def ch_laws Let_def split: prod.splits poll.splits bool.splits sum.splits option.splits if_splits)

lemma poll_write_result:
  obtains "\<not> cio_tx s" "poll_write ch b s = (Ready (Inl BrokenPipe), s)"
  | c where "cio_tx s" "poll_write ch b s = (Pending, s\<lparr>out_ch := c, cio_reserve := True\<rparr>)"
      "queue c = queue (out_ch s)" "txs c = txs (out_ch s) + of_bool (\<not> cio_reserve s)"
      "cap c = cap (out_ch s)"
  | c where "cio_tx s" "poll_write ch b s = (Ready (Inr (length b)), s\<lparr>out_ch := c, cio_reserve := False\<rparr>)"
      "queue c = queue (out_ch s) @ [b]" "txs c = txs (out_ch s) - of_bool (cio_reserve s)"
      "cap c = cap (out_ch s)" "length (queue (out_ch s)) < cap (out_ch s)"
  | c where "cio_tx s" "poll_write ch b s = (Ready (Inl BrokenPipe), s\<lparr>out_ch := c, cio_reserve := False\<rparr>)"
      "queue c = queue (out_ch s)" "txs c = txs (out_ch s) - of_bool (cio_reserve s)"
      "cap c = cap (out_ch s)"
proof (cases "cio_tx s")
  case True
  define t where "t = (if cio_reserve s then s else s\<lparr>out_ch := clone_tx ch (out_ch s), cio_reserve := True\<rparr>)"
  obtain r c where p: "poll_reserve ch (out_ch t) = (r, c)" by fastforce
  have t: "queue (out_ch t) = queue (out_ch s)" "cap (out_ch t) = cap (out_ch s)"
    "txs (out_ch t) = txs (out_ch s) + of_bool (\<not> cio_reserve s)"
    by (simp_all add: t_def ch_laws)
  have upd: "t\<lparr>out_ch := d\<rparr> = s\<lparr>out_ch := d, cio_reserve := True\<rparr>"
    "t\<lparr>out_ch := d, cio_reserve := False\<rparr> = s\<lparr>out_ch := d, cio_reserve := False\<rparr>" for d
    by (cases s; simp add: t_def)+
  note k = reserve_keeps [OF p]
  show ?thesis
  proof (cases r)
    case Pending
    then show ?thesis using True p t k upd
      by (intro that(2) [of c]) (simp_all add: poll_write_def t_def [symmetric])
  next
    case (Ready ok)
    show ?thesis
    proof (cases ok)
      case ok: True
      show ?thesis using True Ready ok p t k upd reserve_room [of "out_ch t" c]
        by (intro that(3) [of "drop_tx ch (permit_send ch b c)"])
          (simp_all add: poll_write_def t_def [symmetric] ch_laws)
    next
      case False
      then show ?thesis using True Ready p t k upd
        by (intro that(4) [of "drop_tx ch c"]) (simp_all add: poll_write_def t_def [symmetric] ch_laws)
    qed
  qed
qed (intro that(1), simp_all add: poll_write_def)

lemma out_inv_step: "out_inv queue s \<Longrightarrow> layer_step ch s a = Some s' \<Longrightarrow> out_inv queue s'"
proof (cases a)
  case (CarrierRead n)
  assume i: "out_inv queue s" and st: "layer_step ch s a = Some s'"
  show ?thesis
    by (rule poll_read_result [of n s]) (use i st CarrierRead in \<open>auto simp: out_inv_def\<close>)
next
  case (CarrierWrite b)
  assume i: "out_inv queue s" and st: "layer_step ch s a = Some s'"
  show ?thesis
    by (rule poll_write_result [of s b]) (use i st CarrierWrite in \<open>auto simp: out_inv_def\<close>)
next
  case EndRead
  assume i: "out_inv queue s" and st: "layer_step ch s a = Some s'"
  obtain r c where "poll_recv ch (out_ch s) = (r, c)" by fastforce
  then show ?thesis
    using i st EndRead recv_item [of "out_ch s" _ c] recv_end [of "out_ch s" c] recv_wait [of "out_ch s" c]
    by (auto simp: out_inv_def end_recv_def split: poll.splits option.splits)
qed (auto simp: out_inv_def poll_shutdown_def end_write_def end_write_poll_def end_write_drop_def
    end_close_def drop_if_def ch_laws split: prod.splits poll.splits bool.splits if_splits)

lemma tx_inv_step: "tx_inv txs s \<Longrightarrow> layer_step ch s a = Some s' \<Longrightarrow> tx_inv txs s'"
proof (cases a)
  case (CarrierRead n)
  assume i: "tx_inv txs s" and st: "layer_step ch s a = Some s'"
  show ?thesis
    by (rule poll_read_result [of n s]) (use i st CarrierRead in \<open>auto simp: tx_inv_def\<close>)
next
  case (CarrierWrite b)
  assume i: "tx_inv txs s" and st: "layer_step ch s a = Some s'"
  show ?thesis
    by (rule poll_write_result [of s b]) (use i st CarrierWrite in \<open>auto simp: tx_inv_def\<close>)
next
  case EndRead
  assume i: "tx_inv txs s" and st: "layer_step ch s a = Some s'"
  obtain r c where "poll_recv ch (out_ch s) = (r, c)" by fastforce
  then show ?thesis
    using i st EndRead recv_item [of "out_ch s" _ c] recv_end [of "out_ch s" c] recv_wait [of "out_ch s" c]
    by (auto simp: tx_inv_def end_recv_def split: poll.splits option.splits)
next
  case (EndWritePoll i)
  assume i: "tx_inv txs s" and st: "layer_step ch s a = Some s'"
  obtain r c where "poll_reserve ch (in_ch s) = (r, c)" by fastforce
  then show ?thesis using i st EndWritePoll reserve_keeps [of "in_ch s" r c]
    by (auto simp: tx_inv_def end_write_poll_def ch_laws split: poll.splits bool.splits if_splits)
qed (auto simp: tx_inv_def poll_shutdown_def end_write_def end_write_drop_def end_close_def drop_if_def
    ch_laws split: if_splits)

lemma cap_inv_step: "cap_inv queue cap s \<Longrightarrow> layer_step ch s a = Some s' \<Longrightarrow> cap_inv queue cap s'"
proof (cases a)
  case (CarrierRead n)
  assume i: "cap_inv queue cap s" and st: "layer_step ch s a = Some s'"
  show ?thesis
    by (rule poll_read_result [of n s]) (use i st CarrierRead in \<open>auto simp: cap_inv_def\<close>)
next
  case (CarrierWrite b)
  assume i: "cap_inv queue cap s" and st: "layer_step ch s a = Some s'"
  show ?thesis
    by (rule poll_write_result [of s b]) (use i st CarrierWrite in \<open>auto simp: cap_inv_def\<close>)
next
  case EndRead
  assume i: "cap_inv queue cap s" and st: "layer_step ch s a = Some s'"
  obtain r c where "poll_recv ch (out_ch s) = (r, c)" by fastforce
  then show ?thesis
    using i st EndRead recv_item [of "out_ch s" _ c] recv_end [of "out_ch s" c] recv_wait [of "out_ch s" c]
    by (auto simp: cap_inv_def end_recv_def split: poll.splits option.splits)
next
  case (EndWritePoll i)
  assume i: "cap_inv queue cap s" and st: "layer_step ch s a = Some s'"
  obtain r c where "poll_reserve ch (in_ch s) = (r, c)" by fastforce
  then show ?thesis using i st EndWritePoll reserve_keeps [of "in_ch s" r c] reserve_room [of "in_ch s" c]
    by (auto simp: cap_inv_def end_write_poll_def ch_laws split: poll.splits bool.splits if_splits)
qed (auto simp: cap_inv_def poll_shutdown_def end_write_def end_write_drop_def end_close_def drop_if_def
    ch_laws split: if_splits)

lemma layer_inv_start: "layer_inv queue txs cap (chan_pair ch)"
  by (simp add: layer_inv_def in_inv_def out_inv_def tx_inv_def cap_inv_def chan_pair_def ch_laws)

lemma layer_inv_step: "layer_inv queue txs cap s \<Longrightarrow> layer_step ch s a = Some s' \<Longrightarrow> layer_inv queue txs cap s'"
  unfolding layer_inv_def using in_inv_step out_inv_step tx_inv_step cap_inv_step by blast

end

sublocale mpsc_laws \<subseteq> pair: step_invariant "layer_step ch" "layer_inv queue txs cap" "chan_pair ch"
  by unfold_locales (fact layer_inv_step layer_inv_start)+

context mpsc_laws
begin

lemma layer_reachable_inv: "reach (layer_step ch) (chan_pair ch) s \<Longrightarrow> layer_inv queue txs cap s"
  by (rule pair.reachable_inv)

end

section \<open>A bounded channel\<close>

text \<open>A channel as tokio documents it: a queue, its capacity, the senders alive and the receiver.\<close>

record bounded_queue =
  bq_items :: "bytes list"
  bq_cap :: nat
  bq_txs :: nat
  bq_open :: bool

definition bounded :: "bounded_queue mpsc" where
  "bounded =
     \<lparr>new_channel = (\<lambda>n. \<lparr>bq_items = [], bq_cap = n, bq_txs = 1, bq_open = True\<rparr>),
      poll_recv = (\<lambda>c. case bq_items c of
          m # ms \<Rightarrow> (Ready (Some m), c\<lparr>bq_items := ms\<rparr>)
        | [] \<Rightarrow> (if bq_txs c = 0 then Ready None else Pending, c)),
      poll_reserve = (\<lambda>c.
        (if \<not> bq_open c then Ready False
         else if length (bq_items c) < bq_cap c then Ready True else Pending, c)),
      permit_send = (\<lambda>m c. c\<lparr>bq_items := bq_items c @ [m]\<rparr>),
      clone_tx = (\<lambda>c. c\<lparr>bq_txs := Suc (bq_txs c)\<rparr>),
      drop_tx = (\<lambda>c. c\<lparr>bq_txs := bq_txs c - 1\<rparr>)\<rparr>"

interpretation bq: mpsc_laws bounded bq_items bq_txs bq_cap
  by unfold_locales (auto simp: bounded_def split: list.splits if_splits)

section \<open>Properties\<close>

text \<open>
  C17. The stream between a layer and its carrier loses, duplicates and reorders nothing, in any
  interleaving of both sides: at every moment the bytes Python sent are those the carrier read
  followed by those under way, the messages the carrier wrote are, one by one, those Python
  received followed by those under way, and at most \<open>DEPTH\<close> messages are under way each way.
\<close>

theorem layer_stream_integrity:
  assumes "mpsc_laws ch queue txs cap" "reach (layer_step ch) (chan_pair ch) s"
  shows "concat (sent_in s) = read_in s @ cio_buf s @ concat (queue (in_ch s))
    \<and> sent_out s = read_out s @ queue (out_ch s)
    \<and> length (queue (in_ch s)) \<le> DEPTH \<and> length (queue (out_ch s)) \<le> DEPTH"
proof -
  have "layer_inv queue txs cap s"
    by (rule mpsc_laws.layer_reachable_inv [OF assms(1,2)])
  then show ?thesis by (simp add: layer_inv_def in_inv_def out_inv_def cap_inv_def)
qed


text \<open>
  C19. A poll of the carrier's read always returns, whatever is queued (its loop skips empty
  messages), and never yields more bytes than were asked for.
\<close>

theorem poll_read_returns:
  assumes "mpsc_laws ch queue txs cap"
  shows "\<exists>r t. poll_read ch n s = Some (r, t) \<and> (\<forall>b. r = Ready b \<longrightarrow> length b \<le> n)"
  by (rule mpsc_laws.poll_read_result [OF assms, of n s]) auto

section \<open>Witnesses\<close>

definition sample_actions :: "layer_action list" where
  "sample_actions = [EndWrite [1, 2, 3], EndWritePoll 0, CarrierRead 2, CarrierWrite [9, 8], EndRead,
     EndClose, CarrierRead 5, CarrierShutdown]"

definition sample_layer :: "bounded_queue layer_run" where
  "sample_layer = the (run_steps (layer_step bounded) (chan_pair bounded) sample_actions)"

lemma sample_layer_reach: "reach (layer_step bounded) (chan_pair bounded) sample_layer"
proof -
  have "run_steps (layer_step bounded) (chan_pair bounded) sample_actions \<noteq> None" by code_simp
  then show ?thesis unfolding sample_layer_def by (rule reach_the_run)
qed

theorem layer_stream_integrity_witness:
  "sent_in sample_layer = [[1, 2, 3]] \<and> read_in sample_layer = [1, 2, 3]
   \<and> length (bq_items (in_ch sample_layer)) \<le> DEPTH"
proof -
  have "sent_in sample_layer = [[1, 2, 3]]" "cio_buf sample_layer = []" "bq_items (in_ch sample_layer) = []"
    by code_simp+
  with layer_stream_integrity [OF bq.mpsc_laws_axioms sample_layer_reach] show ?thesis by simp
qed


theorem poll_read_returns_witness:
  "\<exists>r t. poll_read bounded 2 sample_layer = Some (r, t) \<and> (\<forall>b. r = Ready b \<longrightarrow> length b \<le> 2)"
  by (rule poll_read_returns [OF bq.mpsc_laws_axioms])

end
