(* ===== verification/Layer.thy ===== *)
theory Layer
  imports Carriers
begin

text \<open>
  Layers over carriers, the rest of \<open>src/src/layer.rs\<close>: the carrier as a byte stream
  (\<open>CarrierStream\<close>), the run of a Python layer (\<open>wrap\<close>), what a listener knows of a carrier
  (\<open>PipeHint\<close>), and the inbound transform with its guard on the carrier it gives away.
\<close>

section \<open>The carrier as a byte stream\<close>

text \<open>
  The halves of the crate's stream: reading into a buffer of some length, writing everything,
  flushing and shutting down.
\<close>

record ('r, 'w) half_api =
  h_read :: "'r \<Rightarrow> nat \<Rightarrow> (io_error + bytes) \<times> 'r"
  h_write_all :: "'w \<Rightarrow> bytes \<Rightarrow> (io_error + unit) \<times> 'w"
  h_flush :: "'w \<Rightarrow> (io_error + unit) \<times> 'w"
  h_shutdown :: "'w \<Rightarrow> (io_error + unit) \<times> 'w"

record ('r, 'w) CarrierStream =
  cs_r :: "'r option"
  cs_w :: "'w option"

definition carrier_stream :: "'r \<times> 'w \<Rightarrow> ('r, 'w) CarrierStream" where
  "carrier_stream halves = \<lparr>cs_r = Some (fst halves), cs_w = Some (snd halves)\<rparr>"

definition release :: "('r, 'w) CarrierStream \<Rightarrow> ('r, 'w) CarrierStream" where
  "release s = s\<lparr>cs_r := None, cs_w := None\<rparr>"

definition released :: py_err where
  "released = new_err PyRuntimeError ''carrier released''"

definition cs_read ::
    "zmux_errors \<Rightarrow> ('r, 'w) half_api \<Rightarrow> nat \<Rightarrow> ('r, 'w) CarrierStream \<Rightarrow> bytes py_result \<times> ('r, 'w) CarrierStream" where
  "cs_read z api n s =
     (case cs_r s of
        None \<Rightarrow> (Inl released, s)
      | Some r \<Rightarrow> (case h_read api r (max n 1) of (x, r') \<Rightarrow> (map_err (io_err z) x, s\<lparr>cs_r := Some r'\<rparr>)))"

definition cs_write ::
    "zmux_errors \<Rightarrow> ('r, 'w) half_api \<Rightarrow> bytes \<Rightarrow> ('r, 'w) CarrierStream \<Rightarrow> unit py_result \<times> ('r, 'w) CarrierStream" where
  "cs_write z api b s =
     (case cs_w s of
        None \<Rightarrow> (Inl released, s)
      | Some w \<Rightarrow>
          (case h_write_all api w b of
             (Inl e, w') \<Rightarrow> (Inl (io_err z e), s\<lparr>cs_w := Some w'\<rparr>)
           | (Inr u, w') \<Rightarrow>
               (case h_flush api w' of (x, w'') \<Rightarrow> (map_err (io_err z) x, s\<lparr>cs_w := Some w''\<rparr>))))"

definition cs_shutdown ::
    "zmux_errors \<Rightarrow> ('r, 'w) half_api \<Rightarrow> ('r, 'w) CarrierStream \<Rightarrow> unit py_result \<times> ('r, 'w) CarrierStream" where
  "cs_shutdown z api s =
     (case cs_w s of
        None \<Rightarrow> (Inl released, s)
      | Some w \<Rightarrow> (case h_shutdown api w of (x, w') \<Rightarrow> (map_err (io_err z) x, s\<lparr>cs_w := Some w'\<rparr>)))"

text \<open>A Python error as an I/O error, by the text of the exception.\<close>

definition py_io :: "(py_err \<Rightarrow> string) \<Rightarrow> py_err \<Rightarrow> io_error" where
  "py_io text e = \<lparr>io_display = text e, io_debug = ''Custom { kind: Other, error: '' @ debug_str (text e) @ '' }''\<rparr>"

text \<open>
  The run of a layer over the stream: it fails (the import, the call or the awaited task
  raised) or succeeds, and leaves the stream in some state; our own handle shares that state.
\<close>

definition layer_wrap ::
    "(py_err \<Rightarrow> string) \<Rightarrow> (('r, 'w) CarrierStream \<Rightarrow> unit py_result \<times> ('r, 'w) CarrierStream) \<Rightarrow> 'chan
       \<Rightarrow> 'r \<times> 'w \<Rightarrow> (io_error + 'chan) \<times> ('r, 'w) CarrierStream" where
  "layer_wrap text run chan halves =
     (case run (carrier_stream halves) of
        (Inl e, ours) \<Rightarrow> (Inl (py_io text e), release ours)
      | (Inr u, ours) \<Rightarrow> (Inr chan, ours))"

section \<open>What a listener knows of a carrier\<close>

record 'ip socket_addr =
  sa_ip :: 'ip
  sa_port :: u16

record ('ip, 'v) native_hint =
  nh_source :: "'ip socket_addr option"
  nh_peer :: "'ip socket_addr option"
  nh_pair :: "nat option"
  nh_admitted :: "'v option"

record 'v PipeHint =
  ph_source :: "(string \<times> u16) option"
  ph_peer :: "(string \<times> u16) option"
  ph_split :: bool
  ph_admitted :: "'v option"

definition addr :: "('ip \<Rightarrow> string) \<Rightarrow> 'ip socket_addr option \<Rightarrow> (string \<times> u16) option" where
  "addr ip_string a = map_option (\<lambda>x. (ip_string (sa_ip x), sa_port x)) a"

definition or_else :: "'a option \<Rightarrow> 'a option \<Rightarrow> 'a option" where
  "or_else a b = (case a of None \<Rightarrow> b | Some x \<Rightarrow> Some x)"

definition hint_of :: "('ip \<Rightarrow> string) \<Rightarrow> ('ip, 'v) native_hint \<Rightarrow> 'v PipeHint" where
  "hint_of ip_string h =
     \<lparr>ph_source = addr ip_string (or_else (nh_source h) (nh_peer h)),
      ph_peer = addr ip_string (nh_peer h),
      ph_split = (nh_pair h \<noteq> None),
      ph_admitted = nh_admitted h\<rparr>"

section \<open>The inbound transform\<close>

text \<open>
  What the callable returns: the very object it was given, another \<open>PipeIo\<close>, or something
  else. It may use the object it was given (the cell), raise, or return an awaitable whose
  task does the same later.
\<close>

datatype 'io returned = GivenPipe | OtherPipe "'io cell" | NotPipe

datatype 'io called =
    Plain "'io returned"
  | Awaits "'io cell \<Rightarrow> 'io returned py_result \<times> 'io cell"

type_synonym 'io transform_fn = "'io cell \<Rightarrow> 'io called py_result \<times> 'io cell"

text \<open>The carrier the object that was returned holds, and the given object after that.\<close>

fun take_returned :: "'io returned \<Rightarrow> 'io cell \<Rightarrow> 'io py_result \<times> 'io cell" where
  "take_returned GivenPipe g = pipe_take g"
| "take_returned (OtherPipe c) g = (fst (pipe_take c), g)"
| "take_returned NotPipe g = (Inl (type_err ''a PipeIo is required''), g)"

text \<open>The guard: what the given object still holds when \<open>call\<close> returns is dropped.\<close>

definition release_given :: "'a \<times> 'io cell \<Rightarrow> 'a \<times> 'io cell \<times> 'io option" where
  "release_given x = (fst x, snd (cell_take (snd x)), fst (cell_take (snd x)))"

definition call_fn :: "'io transform_fn \<Rightarrow> 'io \<Rightarrow> 'io py_result \<times> 'io cell \<times> 'io option" where
  "call_fn f io =
     release_given
       (case f (pipe_wrap io) of
          (Inl e, g) \<Rightarrow> (Inl e, g)
        | (Inr (Plain ob), g) \<Rightarrow> take_returned ob g
        | (Inr (Awaits task), g) \<Rightarrow>
            (case task g of
               (Inl e, g') \<Rightarrow> (Inl e, g')
             | (Inr ob, g') \<Rightarrow> take_returned ob g'))"

definition transform_failed :: io_error where
  "transform_failed = \<lparr>io_display = ''inbound transform failed'',
     io_debug = ''Custom { kind: Other, error: '' @ debug_str ''inbound transform failed'' @ '' }''\<rparr>"

text \<open>The transform: its result, the given object, the carrier dropped, and what was reported as unraisable.\<close>

definition transform ::
    "'io transform_fn \<Rightarrow> 'io \<Rightarrow> (io_error + 'io) \<times> 'io cell \<times> 'io option \<times> py_err list" where
  "transform f io =
     (case call_fn f io of
        (Inr x, g, d) \<Rightarrow> (Inr x, g, d, [])
      | (Inl e, g, d) \<Rightarrow>
          (Inl transform_failed, g, d, if is_instance e PyCancelledError then [] else [e]))"

section \<open>Properties\<close>

lemma release_simps [simp]:
  "cs_r (release s) = None" "cs_w (release s) = None"
  by (simp_all add: release_def)

text \<open>
  On the carrier as a stream, no bytes mean the end of the stream, also for a read that asks
  for none: if the crate's reader answers a read into a buffer of at least one byte with no bytes
  only at its end, then so does \<open>CarrierStream.read\<close> for every argument.
\<close>

theorem carrier_stream_read_end:
  assumes "\<And>r m r'. 0 < m \<Longrightarrow> h_read api r m = (Inr [], r') \<Longrightarrow> ended r"
    and "cs_read z api n s = (Inr [], s')"
  shows "\<exists>r. cs_r s = Some r \<and> ended r"
proof (cases "cs_r s")
  case (Some r)
  obtain x r' where h: "h_read api r (max n 1) = (x, r')" by fastforce
  then have "x = Inr []" using assms(2) Some by (simp add: cs_read_def res_simps)
  then have "ended r" using h by (intro assms(1) [of "max n 1"]) simp_all
  then show ?thesis using Some by blast
qed (use assms(2) in \<open>simp add: cs_read_def\<close>)


text \<open>
  C21. The inbound transform keeps hold of the carrier: whatever the callable does, the object it
  was given is empty afterwards; on a failure the carrier is dropped unless the callable used it
  up itself, the listener gets one fixed error, and the exception is reported exactly when it is
  not a cancellation; on success the result is a carrier the returned object held.
\<close>

theorem transform_keeps_carrier:
  "(case transform f io of (r, g, dropped, reported) \<Rightarrow>
      g = None
      \<and> (\<forall>e. r = Inl e \<longrightarrow> e = transform_failed \<and> (\<exists>x. fst (call_fn f io) = Inl x
             \<and> reported = (if is_instance x PyCancelledError then [] else [x])))
      \<and> (\<forall>x. r = Inr x \<longrightarrow> reported = [] \<and> fst (call_fn f io) = Inr x))
   \<and> (f (pipe_wrap io) = (Inl e, Some io) \<longrightarrow>
       transform f io = (Inl transform_failed, None, Some io, if is_instance e PyCancelledError then [] else [e]))
   \<and> (f (pipe_wrap io) = (Inr (Plain GivenPipe), Some io) \<longrightarrow> transform f io = (Inr io, None, None, []))"
  by (auto simp: transform_def call_fn_def release_given_def cell_take_def
      split: prod.splits sum.splits called.splits)

section \<open>Witnesses\<close>

definition sample_halves :: "(bytes, bytes) half_api" where
  "sample_halves = \<lparr>h_read = (\<lambda>r n. (Inr (take n r), drop n r)), h_write_all = (\<lambda>w b. (Inr (), w @ b)),
     h_flush = (\<lambda>w. (Inr (), w)), h_shutdown = (\<lambda>w. (Inr (), w))\<rparr>"

theorem carrier_stream_read_end_witness:
  "\<exists>r. cs_r \<lparr>cs_r = Some ([] :: bytes), cs_w = Some ([] :: bytes)\<rparr> = Some r \<and> r = []"
proof (rule carrier_stream_read_end [where z = sample_errors and api = sample_halves and n = 0 and ended = "\<lambda>r. r = []"])
  show "cs_read sample_errors sample_halves 0 \<lparr>cs_r = Some [], cs_w = Some []\<rparr> = (Inr [], \<lparr>cs_r = Some [], cs_w = Some []\<rparr>)"
    by (simp add: cs_read_def sample_halves_def)
qed (auto simp: sample_halves_def)


theorem transform_keeps_carrier_witness:
  "transform (\<lambda>c. (Inl pipe_used, c)) ''tcp'' = (Inl transform_failed, None, Some ''tcp'', [pipe_used])"
proof -
  have "\<not> is_instance pipe_used PyCancelledError" by (simp add: pipe_used_def class_defs)
  then show ?thesis
    using transform_keeps_carrier [where f = "\<lambda>c. (Inl pipe_used, c)" and io = "''tcp''" and e = pipe_used]
    by (simp add: pipe_wrap_def)
qed
end
