(* ===== verification/Exporter.thy ===== *)
theory Exporter
  imports Machines
begin

text \<open>
  The exporter requests of \<open>src/src/admission.rs\<close>: \<open>with_info\<close> runs a call on a scoped thread
  of its own and answers, on the thread that holds the carrier, the requests that
  \<open>CarrierInfo.export\<close> sends. The machine interleaves both threads and whoever else holds the
  view of the carrier; a step is one operation on the request channel.
\<close>

section \<open>The machine\<close>

text \<open>A request by the number of the \<open>export\<close> call that made it, or the end of the call.\<close>

datatype ask = Export nat | Done

text \<open>An \<open>export\<close> call: its request, and whether it still waits or what it returned.\<close>

datatype 'v reply = Waiting | Returned "'v option"

datatype 'r helper = Running | Finished 'r | Panicked

datatype 'r outcome = Serving | LoopEnded | Joined "'r option"

record ('q, 'v, 'r) exporter =
  asks :: "ask list"
  calls :: "('q \<times> 'v reply) list"
  helper :: "'r helper"
  helper_waits :: "nat option"
  view_alive :: bool
  server :: "'r outcome"

definition exporter_init :: "('q, 'v, 'r) exporter" where
  "exporter_init = \<lparr>asks = [], calls = [], helper = Running, helper_waits = None, view_alive = True,
     server = Serving\<rparr>"

text \<open>The receiver is alive while the loop runs; its end fails the requests still queued.\<close>

definition refuse :: "'q \<times> 'v reply \<Rightarrow> 'q \<times> 'v reply" where
  "refuse c = (fst c, case snd c of Waiting \<Rightarrow> Returned None | Returned v \<Rightarrow> Returned v)"

text \<open>\<open>export\<close>: sends its request, or returns \<open>None\<close> at once when nobody receives it.\<close>

definition export_call :: "bool \<Rightarrow> 'q \<Rightarrow> ('q, 'v, 'r) exporter \<Rightarrow> ('q, 'v, 'r) exporter option" where
  "export_call by_helper q s =
     (if \<not> view_alive s \<or> by_helper \<and> (helper s \<noteq> Running \<or> helper_waits s \<noteq> None) then None
      else if server s = Serving
        then Some (s\<lparr>asks := asks s @ [Export (length (calls s))], calls := calls s @ [(q, Waiting)],
               helper_waits := (if by_helper then Some (length (calls s)) else helper_waits s)\<rparr>)
      else Some (s\<lparr>calls := calls s @ [(q, Returned None)]\<rparr>))"

text \<open>The helper goes on once its own request has been answered.\<close>

definition helper_resume :: "('q, 'v, 'r) exporter \<Rightarrow> ('q, 'v, 'r) exporter option" where
  "helper_resume s =
     (case helper_waits s of
        None \<Rightarrow> None
      | Some i \<Rightarrow> if i < length (calls s) \<and> snd (calls s ! i) \<noteq> Waiting
                  then Some (s\<lparr>helper_waits := None\<rparr>) else None)"

text \<open>The call returns and sends \<open>Done\<close>; a panic drops its sender without it.\<close>

definition helper_return :: "'r \<Rightarrow> ('q, 'v, 'r) exporter \<Rightarrow> ('q, 'v, 'r) exporter option" where
  "helper_return r s =
     (if helper s = Running \<and> helper_waits s = None
      then Some (s\<lparr>helper := Finished r,
             asks := (if server s = Serving then asks s @ [Done] else asks s)\<rparr>) else None)"

definition helper_panic :: "('q, 'v, 'r) exporter \<Rightarrow> ('q, 'v, 'r) exporter option" where
  "helper_panic s =
     (if helper s = Running \<and> helper_waits s = None then Some (s\<lparr>helper := Panicked\<rparr>) else None)"

text \<open>Python drops its last reference to the view, and with it the view's sender.\<close>

definition view_drop :: "('q, 'v, 'r) exporter \<Rightarrow> ('q, 'v, 'r) exporter option" where
  "view_drop s =
     (if view_alive s \<and> helper s \<noteq> Running then Some (s\<lparr>view_alive := False\<rparr>) else None)"

text \<open>
  One turn of the loop: answers a request, ends with \<open>Done\<close>, ends when every sender is gone,
  and is blocked otherwise.
\<close>

definition serve_step :: "('q \<Rightarrow> 'v option) \<Rightarrow> ('q, 'v, 'r) exporter \<Rightarrow> ('q, 'v, 'r) exporter option" where
  "serve_step export s =
     (if server s \<noteq> Serving then None
      else case asks s of
        Export i # q \<Rightarrow>
          Some (s\<lparr>asks := q, calls := (calls s)[i := (fst (calls s ! i), Returned (export (fst (calls s ! i))))]\<rparr>)
      | Done # q \<Rightarrow> Some (s\<lparr>asks := [], calls := map refuse (calls s), server := LoopEnded\<rparr>)
      | [] \<Rightarrow> if \<not> view_alive s \<and> helper s \<noteq> Running
              then Some (s\<lparr>calls := map refuse (calls s), server := LoopEnded\<rparr>) else None)"

text \<open>\<open>join\<close>: the result of the call, or the error of a panic.\<close>

definition join_step :: "('q, 'v, 'r) exporter \<Rightarrow> ('q, 'v, 'r) exporter option" where
  "join_step s =
     (if server s = LoopEnded
      then case helper s of
             Running \<Rightarrow> None
           | Finished r \<Rightarrow> Some (s\<lparr>server := Joined (Some r)\<rparr>)
           | Panicked \<Rightarrow> Some (s\<lparr>server := Joined None\<rparr>)
      else None)"

datatype ('q, 'r) exporter_action =
    ExportCall bool 'q | HelperResume | HelperReturn 'r | HelperPanic | ViewDrop | Serve | Join

fun exporter_step ::
    "('q \<Rightarrow> 'v option) \<Rightarrow> ('q, 'v, 'r) exporter \<Rightarrow> ('q, 'r) exporter_action \<Rightarrow> ('q, 'v, 'r) exporter option" where
  "exporter_step ex s (ExportCall h q) = export_call h q s"
| "exporter_step ex s HelperResume = helper_resume s"
| "exporter_step ex s (HelperReturn r) = helper_return r s"
| "exporter_step ex s HelperPanic = helper_panic s"
| "exporter_step ex s ViewDrop = view_drop s"
| "exporter_step ex s Serve = serve_step ex s"
| "exporter_step ex s Join = join_step s"

section \<open>Invariants\<close>

text \<open>Every queued request is of a call that waits, and every waiting call is queued, while the loop runs.\<close>

definition asks_inv :: "('q, 'v, 'r) exporter \<Rightarrow> bool" where
  "asks_inv s \<longleftrightarrow> (\<forall>i. Export i \<in> set (asks s) \<longrightarrow> i < length (calls s))
     \<and> (\<forall>i < length (calls s). snd (calls s ! i) = Waiting \<longrightarrow> server s = Serving \<and> Export i \<in> set (asks s))"

text \<open>What a call returned is the exporter's value of its own request, or nothing.\<close>

definition reply_inv :: "('q \<Rightarrow> 'v option) \<Rightarrow> ('q, 'v, 'r) exporter \<Rightarrow> bool" where
  "reply_inv ex s \<longleftrightarrow> (\<forall>q v. (q, Returned (Some v)) \<in> set (calls s) \<longrightarrow> ex q = Some v)"

text \<open>\<open>Done\<close> is sent exactly by a call that returned; the loop ends after the call.\<close>

definition done_inv :: "('q, 'v, 'r) exporter \<Rightarrow> bool" where
  "done_inv s \<longleftrightarrow> (Done \<in> set (asks s) \<longrightarrow> (\<exists>r. helper s = Finished r))
     \<and> (server s = Serving \<longrightarrow> (\<forall>r. helper s = Finished r \<longrightarrow> Done \<in> set (asks s)))
     \<and> (server s \<noteq> Serving \<longrightarrow> helper s \<noteq> Running \<and> asks s = [])
     \<and> (\<forall>r. server s = Joined (Some r) \<longrightarrow> helper s = Finished r)
     \<and> (server s = Joined None \<longrightarrow> helper s = Panicked)"

lemmas exporter_defs = export_call_def helper_resume_def helper_return_def helper_panic_def view_drop_def
  serve_step_def join_step_def

lemma refuse_simps [simp]: "fst (refuse c) = fst c" "snd (refuse c) \<noteq> Waiting"
  "snd (refuse c) = Returned (Some v) \<longleftrightarrow> snd c = Returned (Some v)"
  by (cases c; cases "snd c"; simp add: refuse_def)+

lemma refuse_value: "(q, Returned (Some v)) = refuse c \<longleftrightarrow> c = (q, Returned (Some v))"
  by (cases c; cases "snd c") (auto simp: refuse_def)

lemma done_inv_step: "done_inv s \<Longrightarrow> exporter_step ex s a = Some s' \<Longrightarrow> done_inv s'"
  by (cases a) (auto simp: done_inv_def exporter_defs split: if_splits option.splits list.splits ask.splits helper.splits)

lemma reply_inv_step: "reply_inv ex s \<Longrightarrow> exporter_step ex s a = Some s' \<Longrightarrow> reply_inv ex s'"
  by (cases a) (auto simp: reply_inv_def exporter_defs refuse_value dest!: set_update_subset_insert [THEN subsetD]
      split: if_splits option.splits list.splits ask.splits helper.splits)

lemma asks_inv_serve:
  assumes "asks_inv s" "serve_step ex s = Some s'"
  shows "asks_inv s'"
proof (cases "asks s")
  case (Cons a q)
  show ?thesis
  proof (cases a)
    case (Export i)
    have "Export j \<in> set q" if "j < length (calls s)" "j \<noteq> i" "snd (calls s ! j) = Waiting" for j
      using assms(1) that Cons Export by (auto simp: asks_inv_def)
    moreover have "i < length (calls s)" using assms(1) Cons Export by (auto simp: asks_inv_def)
    ultimately show ?thesis using assms Cons Export
      by (auto simp: asks_inv_def serve_step_def nth_list_update split: if_splits)
  next
    case Done
    then show ?thesis using assms Cons by (auto simp: asks_inv_def serve_step_def split: if_splits)
  qed
qed (use assms in \<open>auto simp: asks_inv_def serve_step_def split: if_splits\<close>)

lemma asks_inv_export:
  assumes "asks_inv s" "export_call h q s = Some s'"
  shows "asks_inv s'"
  using assms by (auto simp: asks_inv_def export_call_def nth_append less_Suc_eq split: if_splits)

lemma asks_inv_cong:
  "calls t = calls s \<Longrightarrow> server t = server s \<Longrightarrow> (\<And>i. Export i \<in> set (asks t) \<longleftrightarrow> Export i \<in> set (asks s))
     \<Longrightarrow> asks_inv t \<longleftrightarrow> asks_inv s"
  unfolding asks_inv_def by simp

lemma asks_inv_join:
  assumes "asks_inv s" "join_step s = Some t"
  shows "asks_inv t"
proof -
  have "server s = LoopEnded" using assms(2) by (simp add: join_step_def split: if_splits)
  moreover have "calls t = calls s" "asks t = asks s"
    using assms(2) by (auto simp: join_step_def split: if_splits helper.splits)
  ultimately show ?thesis using assms(1) unfolding asks_inv_def by auto
qed

lemma asks_inv_helper:
  assumes "asks_inv s" "helper_return r s = Some t \<or> helper_panic s = Some t \<or> helper_resume s = Some t \<or> view_drop s = Some t"
  shows "asks_inv t"
proof -
  have "calls t = calls s \<and> server t = server s \<and> (\<forall>i. Export i \<in> set (asks t) \<longleftrightarrow> Export i \<in> set (asks s))"
    using assms(2) by (auto simp: helper_return_def helper_panic_def helper_resume_def view_drop_def
        split: if_splits option.splits)
  then show ?thesis using assms(1) asks_inv_cong by blast
qed

lemma asks_inv_step: "asks_inv s \<Longrightarrow> exporter_step ex s a = Some s' \<Longrightarrow> asks_inv s'"
  by (cases a; simp) (blast intro: asks_inv_serve asks_inv_export asks_inv_join asks_inv_helper)+

definition exporter_inv :: "('q \<Rightarrow> 'v option) \<Rightarrow> ('q, 'v, 'r) exporter \<Rightarrow> bool" where
  "exporter_inv ex s \<longleftrightarrow> asks_inv s \<and> reply_inv ex s \<and> done_inv s"

interpretation exporter: step_invariant "exporter_step ex" "exporter_inv ex" exporter_init
proof unfold_locales
  fix s a s' assume "exporter_inv ex s" "exporter_step ex s a = Some s'"
  then show "exporter_inv ex s'"
    unfolding exporter_inv_def using asks_inv_step reply_inv_step done_inv_step by blast
next
  show "exporter_inv ex exporter_init"
    by (simp add: exporter_inv_def asks_inv_def reply_inv_def done_inv_def exporter_init_def)
qed

section \<open>Progress\<close>

text \<open>Once the call has returned, the loop and the join alone bring its result.\<close>

lemma serve_until_done:
  assumes "server s = Serving" "Done \<in> set (asks s)" "helper s = Finished r"
  shows "\<exists>n s'. run_steps (exporter_step ex) s (replicate n Serve) = Some s'
     \<and> n \<le> length (asks s) \<and> server s' = LoopEnded \<and> helper s' = Finished r"
  using assms
proof (induction "asks s" arbitrary: s)
  case (Cons a q)
  show ?case
  proof (cases a)
    case (Export i)
    define t where "t = s\<lparr>asks := q, calls := (calls s)[i := (fst (calls s ! i), Returned (ex (fst (calls s ! i))))]\<rparr>"
    have t: "exporter_step ex s Serve = Some t"
      using Cons.prems(1) Cons.hyps(2) [symmetric] Export by (simp add: serve_step_def t_def)
    have "q = asks t" "server t = Serving" "Done \<in> set (asks t)" "helper t = Finished r"
      using Cons.prems Cons.hyps(2) [symmetric] Export by (simp_all add: t_def)
    from Cons.hyps(1) [OF this] obtain n s' where "run_steps (exporter_step ex) t (replicate n Serve) = Some s'"
      "n \<le> length (asks t)" "server s' = LoopEnded" "helper s' = Finished r" by blast
    then show ?thesis using t Cons.hyps(2) [symmetric] \<open>q = asks t\<close>
      by (intro exI [of _ "Suc n"] exI [of _ s']) simp
  next
    case Done
    have "exporter_step ex s Serve = Some (s\<lparr>asks := [], calls := map refuse (calls s), server := LoopEnded\<rparr>)"
      using Cons.prems(1) Cons.hyps(2) [symmetric] Done by (simp add: serve_step_def)
    then show ?thesis using Cons.prems(3) Cons.hyps(2) [symmetric]
      by (intro exI [of _ 1]) simp
  qed
qed simp

section \<open>Properties\<close>

text \<open>
  C22. What \<open>export\<close> returns: in every interleaving, a value is the exporter's own value for the
  label, context and length that were asked for; a call made after the call that was given the
  view has been joined returns nothing; and \<open>with_info\<close> returns what the call returned, or the
  error of a panic if it panicked.
\<close>

theorem export_answers:
  assumes "reach (exporter_step ex) exporter_init s"
  shows "(\<forall>q v. (q, Returned (Some v)) \<in> set (calls s) \<longrightarrow> ex q = Some v)
    \<and> (\<forall>s'. server s \<noteq> Serving \<and> exporter_step ex s (ExportCall h q) = Some s' \<longrightarrow> last (calls s') = (q, Returned None))
    \<and> (\<forall>r. server s = Joined (Some r) \<longrightarrow> helper s = Finished r)
    \<and> (server s = Joined None \<longrightarrow> helper s = Panicked)"
proof -
  have "exporter_inv ex s" by (rule exporter.reachable_inv [OF assms])
  then show ?thesis
    by (auto simp: exporter_inv_def reply_inv_def done_inv_def export_call_def split: if_splits)
qed

text \<open>
  C23. Once the call has returned, \<open>with_info\<close> returns its result after answering what was asked
  before, although the view may outlive the call.
\<close>

theorem with_info_returns:
  assumes "reach (exporter_step ex) exporter_init s" "helper s = Finished r"
  shows "\<exists>as s'. run_steps (exporter_step ex) s as = Some s' \<and> server s' = Joined (Some r)
    \<and> length as \<le> Suc (length (asks s)) \<and> ViewDrop \<notin> set as"
proof -
  have inv: "exporter_inv ex s" by (rule exporter.reachable_inv [OF assms(1)])
  show ?thesis
  proof (cases "server s")
    case Serving
    then have "Done \<in> set (asks s)" using inv assms(2) by (auto simp: exporter_inv_def done_inv_def)
    from serve_until_done [OF Serving this assms(2)] obtain n t where
      t: "run_steps (exporter_step ex) s (replicate n Serve) = Some t" "n \<le> length (asks s)"
        "server t = LoopEnded" "helper t = Finished r" by blast
    then have "run_steps (exporter_step ex) s (replicate n Serve @ [Join]) = Some (t\<lparr>server := Joined (Some r)\<rparr>)"
      by (simp add: run_steps_append join_step_def)
    then show ?thesis using t(2) by (intro exI [of _ "replicate n Serve @ [Join]"]) auto
  next
    case LoopEnded
    then show ?thesis using assms(2)
      by (intro exI [of _ "[Join]"] exI [of _ "s\<lparr>server := Joined (Some r)\<rparr>"]) (simp add: join_step_def)
  next
    case (Joined x)
    then have "x = Some r" using inv assms(2) by (cases x) (auto simp: exporter_inv_def done_inv_def)
    then show ?thesis using Joined by (intro exI [of _ "[]"] exI [of _ s]) simp
  qed
qed


section \<open>Witnesses\<close>

definition sample_export :: "nat \<Rightarrow> nat option" where
  "sample_export q = (if q < 100 then Some (q + 1) else None)"

definition sample_asked :: "(nat, nat, nat) exporter" where
  "sample_asked = the (run_steps (exporter_step sample_export) exporter_init
     [ExportCall True 5, Serve, HelperResume, ExportCall False 7, HelperReturn 9])"

lemma sample_asked_reach: "reach (exporter_step sample_export) exporter_init sample_asked"
proof -
  have "run_steps (exporter_step sample_export) exporter_init
     [ExportCall True 5, Serve, HelperResume, ExportCall False 7, HelperReturn (9::nat)] \<noteq> None"
    by code_simp
  then show ?thesis unfolding sample_asked_def by (rule reach_the_run)
qed

theorem export_answers_witness:
  "calls sample_asked = [(5, Returned (Some 6)), (7, Waiting)] \<and> sample_export 5 = Some 6"
proof -
  have c: "calls sample_asked = [(5, Returned (Some 6)), (7, Waiting)]" by code_simp
  then show ?thesis using export_answers [OF sample_asked_reach] by auto
qed

theorem with_info_returns_witness:
  "\<exists>as s'. run_steps (exporter_step sample_export) sample_asked as = Some s' \<and> server s' = Joined (Some 9)
     \<and> length as \<le> Suc (length (asks sample_asked)) \<and> ViewDrop \<notin> set as"
  by (rule with_info_returns [OF sample_asked_reach]) code_simp


end
