(* ===== verification/Admission.thy ===== *)
theory Admission
  imports Layer
begin

text \<open>
  Admission of carriers and client credentials, \<open>src/src/admission.rs\<close>: the view of a carrier,
  verdicts, the decider written in Python with the event loop it runs on, and the dispatch of
  credentials. The exporter requests of the view are the theory \<open>Exporter\<close>.
\<close>

section \<open>The view of a carrier\<close>

record ('ip) native_info =
  ni_source :: "'ip socket_addr option"
  ni_peer :: "'ip socket_addr option"
  ni_alpn :: "bytes option"
  ni_server_name :: "string option"
  ni_request :: bool
  ni_headers :: "(string \<times> bytes) list"
  ni_head :: bool
  ni_exporter :: bool

record CarrierInfo =
  ci_source :: "(string \<times> u16) option"
  ci_peer :: "(string \<times> u16) option"
  ci_alpn :: "bytes option"
  ci_server_name :: "string option"
  ci_headers :: "(string \<times> bytes) list option"
  ci_head :: bool
  ci_exporter :: bool

definition info_view :: "('ip \<Rightarrow> string) \<Rightarrow> 'ip native_info \<Rightarrow> CarrierInfo" where
  "info_view ip_string i =
     \<lparr>ci_source = addr ip_string (ni_source i), ci_peer = addr ip_string (ni_peer i), ci_alpn = ni_alpn i,
      ci_server_name = ni_server_name i,
      ci_headers = (if ni_request i then Some (ni_headers i) else None),
      ci_head = ni_head i, ci_exporter = ni_exporter i\<rparr>"

section \<open>Verdicts\<close>

datatype 'o V = Accept nat "'o option" | Fallback | Stall | Close

text \<open>The crate's verdict; its admitted value is of any type, a Python object or another.\<close>

datatype 'o any_value = AnyPy 'o | AnyOther

datatype 'o native_verdict = NAccept nat "'o any_value option" | NFallback | NStall | NClose

definition admitted_obj :: "'o any_value option \<Rightarrow> 'o option" where
  "admitted_obj v = (case v of Some (AnyPy ob) \<Rightarrow> Some ob | _ \<Rightarrow> None)"

fun verdict_native :: "'o V \<Rightarrow> 'o native_verdict" where
  "verdict_native (Accept skip value) = NAccept skip (map_option AnyPy value)"
| "verdict_native Fallback = NFallback"
| "verdict_native Stall = NStall"
| "verdict_native Close = NClose"

definition verdict_accept :: "nat \<Rightarrow> 'o option \<Rightarrow> 'o V" where
  "verdict_accept skip value = Accept skip value"

fun verdict_skip :: "'o V \<Rightarrow> nat option" where
  "verdict_skip (Accept skip value) = Some skip"
| "verdict_skip v = None"

fun verdict_value :: "'o V \<Rightarrow> 'o option" where
  "verdict_value (Accept skip value) = value"
| "verdict_value v = None"

text \<open>Equality with an object that is a verdict or not; two values are compared in Python, which may raise.\<close>

fun verdict_eq :: "('o \<Rightarrow> 'o \<Rightarrow> bool py_result) \<Rightarrow> 'o V \<Rightarrow> 'o V option \<Rightarrow> bool py_result" where
  "verdict_eq eq v None = Inr False"
| "verdict_eq eq (Accept a x) (Some (Accept b y)) =
     (if a \<noteq> b then Inr False
      else case (x, y) of
             (None, None) \<Rightarrow> Inr True
           | (Some x', Some y') \<Rightarrow> eq x' y'
           | _ \<Rightarrow> Inr False)"
| "verdict_eq eq Fallback (Some Fallback) = Inr True"
| "verdict_eq eq Stall (Some Stall) = Inr True"
| "verdict_eq eq Close (Some Close) = Inr True"
| "verdict_eq eq v (Some w) = Inr False"

fun verdict_repr :: "('o \<Rightarrow> string py_result) \<Rightarrow> 'o V \<Rightarrow> string py_result" where
  "verdict_repr repr (Accept skip None) = Inr (''Verdict.accept('' @ show_nat skip @ '')'')"
| "verdict_repr repr (Accept skip (Some v)) =
     map_ok (\<lambda>t. ''Verdict.accept('' @ show_nat skip @ '', value='' @ t @ '')'') (repr v)"
| "verdict_repr repr Fallback = Inr ''Verdict.FALLBACK''"
| "verdict_repr repr Stall = Inr ''Verdict.STALL''"
| "verdict_repr repr Close = Inr ''Verdict.CLOSE''"

section \<open>The decider\<close>

text \<open>
  What the decider is given: the call of the Python callable, whether its result is awaitable,
  the future of an awaitable on an event loop (which may fail to start, or yields a result),
  and the verdict an object is.
\<close>

record ('l, 'o) decider_env =
  d_call :: "CarrierInfo \<Rightarrow> bytes \<Rightarrow> 'o py_result"
  d_has_await :: "'o \<Rightarrow> bool py_result"
  d_into_future :: "'l \<Rightarrow> 'o \<Rightarrow> 'o py_result py_result"
  d_verdict :: "'o \<Rightarrow> 'o V option"

datatype 'o started = Value 'o | Future "'o py_result"

definition no_loop :: py_err where
  "no_loop = value_err ''an async decide needs its Listener made inside a running event loop''"

definition py_start ::
    "('l, 'o) decider_env \<Rightarrow> 'l option \<Rightarrow> io_error + CarrierInfo \<Rightarrow> bytes \<Rightarrow> 'o started" where
  "py_start env locals info prefix =
     (case info of
        Inl e \<Rightarrow> Future (Inl (value_err (io_display e)))
      | Inr view \<Rightarrow>
          (case d_call env view prefix of
             Inl e \<Rightarrow> Future (Inl e)
           | Inr v \<Rightarrow>
               if d_has_await env v = Inr True
               then (case locals of
                       None \<Rightarrow> Future (Inl no_loop)
                     | Some l \<Rightarrow> (case d_into_future env l v of Inl e \<Rightarrow> Future (Inl e) | Inr r \<Rightarrow> Future r))
               else Value v))"

definition not_a_verdict :: py_err where
  "not_a_verdict = type_err ''a Verdict is required''"

text \<open>The verdict of a result, and what is reported as unraisable.\<close>

definition py_verdict :: "('l, 'o) decider_env \<Rightarrow> 'o py_result \<Rightarrow> 'o native_verdict \<times> py_err list" where
  "py_verdict env r =
     (case and_then r (\<lambda>v. ok_or not_a_verdict (map_option verdict_native (d_verdict env v))) of
        Inr w \<Rightarrow> (w, [])
      | Inl e \<Rightarrow> (NClose, [e]))"

definition py_decide ::
    "('l, 'o) decider_env \<Rightarrow> 'l option \<Rightarrow> io_error + CarrierInfo \<Rightarrow> bytes \<Rightarrow> 'o native_verdict \<times> py_err list" where
  "py_decide env locals info prefix =
     (case py_start env locals info prefix of
        Value v \<Rightarrow> py_verdict env (Inr v)
      | Future r \<Rightarrow> py_verdict env r)"

section \<open>Admissions\<close>

text \<open>\<open>OnceLock::set\<close>: the first value stays.\<close>

definition once_set :: "'l option \<Rightarrow> 'l \<Rightarrow> 'l option" where
  "once_set c l = (case c of None \<Rightarrow> Some l | Some x \<Rightarrow> Some x)"

text \<open>The event loop running now, if any, is taken for the decider's coroutines.\<close>

definition take_loop :: "'l py_result \<Rightarrow> 'l option \<Rightarrow> 'l option" where
  "take_loop current c = (case current of Inl e \<Rightarrow> c | Inr l \<Rightarrow> once_set c l)"

record 'a admission_api =
  a_with_peek_timeout :: "duration \<Rightarrow> 'a \<Rightarrow> 'a"
  a_with_stall_interval :: "duration \<Rightarrow> duration \<Rightarrow> 'a \<Rightarrow> 'a"

record ('a, 'l) Admission =
  adm_inner :: 'a
  adm_decider :: "'l option option"

definition with_times ::
    "'a admission_api \<Rightarrow> 'a \<Rightarrow> 'l option option \<Rightarrow> f64 option \<Rightarrow> (f64 \<times> f64) option \<Rightarrow> ('a, 'l) Admission py_result" where
  "with_times api a decider peek_timeout stall =
     and_then (case peek_timeout of
         None \<Rightarrow> Inr a
       | Some t \<Rightarrow> map_ok (\<lambda>d. a_with_peek_timeout api d a) (seconds ''peek_timeout'' t)) (\<lambda>a1.
     and_then (case stall of
         None \<Rightarrow> Inr a1
       | Some (lo, hi) \<Rightarrow>
           and_then (seconds ''stall'' lo) (\<lambda>l.
           map_ok (\<lambda>h. a_with_stall_interval api l h a1) (seconds ''stall'' hi))) (\<lambda>a2.
     Inr \<lparr>adm_inner = a2, adm_decider = decider\<rparr>))"

definition admission_new ::
    "'a admission_api \<Rightarrow> 'l py_result \<Rightarrow> 'a \<Rightarrow> f64 option \<Rightarrow> (f64 \<times> f64) option \<Rightarrow> ('a, 'l) Admission py_result" where
  "admission_new api current a peek_timeout stall =
     with_times api a (Some (take_loop current None)) peek_timeout stall"

definition admission_prefix_auth ::
    "'a admission_api \<Rightarrow> 'a \<Rightarrow> f64 option \<Rightarrow> (f64 \<times> f64) option \<Rightarrow> ('a, 'l) Admission py_result" where
  "admission_prefix_auth api a peek_timeout stall = with_times api a None peek_timeout stall"

definition for_listener :: "'l py_result \<Rightarrow> ('a, 'l) Admission \<Rightarrow> 'a \<times> ('a, 'l) Admission" where
  "for_listener current ad = (adm_inner ad, ad\<lparr>adm_decider := map_option (take_loop current) (adm_decider ad)\<rparr>)"

section \<open>Credentials\<close>

text \<open>\<open>PrefixAuth\<close>: the crate makes it of the key, the slot and the binding, or refuses.\<close>

record 'a prefix_api =
  pa_new :: "bytes \<Rightarrow> duration \<Rightarrow> bool \<Rightarrow> 'a option"
  pa_with_header :: "string \<Rightarrow> 'a \<Rightarrow> 'a"
  pa_binds_tls :: "'a \<Rightarrow> bool"
  pa_header_name :: "'a \<Rightarrow> string"

definition prefix_auth_new :: "'a prefix_api \<Rightarrow> bytes \<Rightarrow> u64 \<Rightarrow> bool \<Rightarrow> string option \<Rightarrow> 'a py_result" where
  "prefix_auth_new api psk slot bind_tls header =
     map_ok (\<lambda>a. case header of None \<Rightarrow> a | Some h \<Rightarrow> pa_with_header api h a)
       (ok_or (value_err ''prefix authentication needs a non-empty psk and slot > 0'')
          (pa_new api psk (unat slot * nanos_per_sec) bind_tls))"

definition prefix_auth_repr :: "'a prefix_api \<Rightarrow> 'a \<Rightarrow> string" where
  "prefix_auth_repr api a =
     ''PrefixAuth(bind_tls='' @ (if pa_binds_tls api a then ''True'' else ''False'')
       @ '', header='' @ debug_str (pa_header_name api a) @ '')''"

datatype ('o, 'a) Credential = CredPrefix 'a | CredPy 'o

definition credential ::
    "('o \<Rightarrow> 'a option) \<Rightarrow> ('o \<Rightarrow> string \<Rightarrow> bool py_result) \<Rightarrow> 'o option \<Rightarrow> ('o, 'a) Credential option py_result" where
  "credential as_prefix hasattr ob =
     (case ob of
        None \<Rightarrow> Inr None
      | Some v \<Rightarrow>
          (case as_prefix v of
             Some a \<Rightarrow> Inr (Some (CredPrefix a))
           | None \<Rightarrow>
               and_then (hasattr v ''prefix'') (\<lambda>p.
               and_then (if p then hasattr v ''header'' else Inr False) (\<lambda>both.
                 if both then Inr (Some (CredPy v))
                 else Inl (value_err ''a credential is a PrefixAuth or has prefix(info) and header(info) methods'')))))"

text \<open>A call of a credential's method on the view; its exception fails the dial as an I/O error.\<close>

definition cred_call ::
    "(py_err \<Rightarrow> string) \<Rightarrow> (string \<Rightarrow> CarrierInfo \<Rightarrow> 'o py_result) \<Rightarrow> ('o \<Rightarrow> 't py_result) \<Rightarrow> string
       \<Rightarrow> io_error + CarrierInfo \<Rightarrow> io_error + 't" where
  "cred_call text meth ext name info =
     and_then info (\<lambda>view. map_err (py_io text) (and_then (meth name view) ext))"

definition cred_prefix ::
    "(py_err \<Rightarrow> string) \<Rightarrow> ('o, 'm) py_scheme \<Rightarrow> (string \<Rightarrow> CarrierInfo \<Rightarrow> 'o py_result) \<Rightarrow> io_error + CarrierInfo
       \<Rightarrow> io_error + bytes" where
  "cred_prefix text py meth info = cred_call text meth (extract_bytes py) ''prefix'' info"

definition cred_header ::
    "(py_err \<Rightarrow> string) \<Rightarrow> ('o \<Rightarrow> (string \<times> string) py_result) \<Rightarrow> (string \<Rightarrow> CarrierInfo \<Rightarrow> 'o py_result)
       \<Rightarrow> io_error + CarrierInfo \<Rightarrow> io_error + string \<times> string" where
  "cred_header text ext meth info = cred_call text meth ext ''header'' info"

section \<open>Properties\<close>

text \<open>The object a decider's call comes to, directly or through its coroutine.\<close>

definition decided :: "('l, 'o) decider_env \<Rightarrow> 'l option \<Rightarrow> CarrierInfo \<Rightarrow> bytes \<Rightarrow> 'o py_result" where
  "decided env locals view prefix =
     and_then (d_call env view prefix) (\<lambda>v.
       if d_has_await env v \<noteq> Inr True then Inr v
       else and_then (ok_or no_loop locals) (\<lambda>l. and_then (d_into_future env l v) id))"

lemma py_decide_decided:
  "py_decide env locals (Inr view) prefix = py_verdict env (decided env locals view prefix)"
  by (auto simp: py_decide_def py_start_def decided_def split: sum.splits option.splits)

text \<open>
  C25. Admission fails closed: a carrier is accepted only if the decider came, directly or through
  its coroutine, to a verdict that accepts, with that verdict's bytes to skip and value. Every
  exception, every other object, a coroutine without an event loop and a view that could not be
  given close the carrier, and exactly then one exception is reported.
\<close>

theorem admission_fails_closed:
  "(py_decide env locals (Inr view) prefix = (NAccept skip value, reports) \<longrightarrow>
      (\<exists>v w. decided env locals view prefix = Inr v \<and> d_verdict env v = Some (Accept skip w)
         \<and> value = map_option AnyPy w \<and> reports = []))
   \<and> (py_decide env locals (Inr view) prefix = (r, [e]) \<longrightarrow> r = NClose)
   \<and> ((\<exists>e. decided env locals view prefix = Inl e) \<or> (\<exists>v. decided env locals view prefix = Inr v \<and> d_verdict env v = None)
        \<longleftrightarrow> snd (py_decide env locals (Inr view) prefix) \<noteq> [])
   \<and> fst (py_decide env locals (Inl f) prefix) = NClose"
proof -
  have a: "py_verdict env x = (NAccept skip value, reports) \<longrightarrow>
      (\<exists>v w. x = Inr v \<and> d_verdict env v = Some (Accept skip w) \<and> value = map_option AnyPy w \<and> reports = [])" for x
  proof (cases "\<exists>v w. x = Inr v \<and> d_verdict env v = Some w")
    case True
    then obtain v w where "x = Inr v" "d_verdict env v = Some w" by blast
    then show ?thesis by (cases w) (auto simp: py_verdict_def)
  next
    case False
    then show ?thesis by (cases x) (auto simp: py_verdict_def split: sum.splits)
  qed
  have b: "py_verdict env x = (r, [e]) \<longrightarrow> r = NClose" for x
    by (auto simp: py_verdict_def split: sum.splits)
  have c: "(\<exists>e. x = Inl e) \<or> (\<exists>v. x = Inr v \<and> d_verdict env v = None) \<longleftrightarrow> snd (py_verdict env x) \<noteq> []" for x
    by (cases x) (auto simp: py_verdict_def res_simps split: sum.splits)
  have d: "fst (py_decide env locals (Inl f) prefix) = NClose"
    by (simp add: py_decide_def py_start_def py_verdict_def)
  show ?thesis unfolding py_decide_decided using a b c d by blast
qed

text \<open>
  The value a decider gives an accept is the object the session, the pipe and the hint show:
  through the crate and back it is the same object, and none where none was given.
\<close>

theorem admitted_value_back:
  "verdict_native (verdict_accept skip v) = NAccept skip value \<Longrightarrow> admitted_obj value = v"
  by (cases v) (auto simp: verdict_accept_def admitted_obj_def)

lemma take_loop_foldl: "foldl (\<lambda>c r. take_loop r c) (Some l) rs = Some l"
  by (induction rs) (auto simp: take_loop_def once_set_def split: sum.splits)

text \<open>
  The coroutines of a decider run on one event loop for good: the first one running at the
  creation of the admission or of a listener that uses it; later listeners do not change it.
\<close>

theorem decider_loop_is_first:
  "foldl (\<lambda>c r. take_loop r c) None rs
     = (case dropWhile (\<lambda>r. \<not> is_ok r) rs of [] \<Rightarrow> None | r # _ \<Rightarrow> Some (projr r))"
proof (induction rs)
  case (Cons r rs)
  show ?case
  proof (cases r)
    case (Inr l)
    then show ?thesis using take_loop_foldl by (simp add: take_loop_def once_set_def)
  qed (use Cons in \<open>simp add: take_loop_def\<close>)
qed simp

section \<open>Witnesses\<close>

definition sample_decider :: "(nat, nat) decider_env" where
  "sample_decider = \<lparr>d_call = (\<lambda>view prefix. if prefix = [] then Inl pipe_used else Inr (length prefix)),
     d_has_await = (\<lambda>v. Inr (v = 2)), d_into_future = (\<lambda>l v. Inr (Inr l)),
     d_verdict = (\<lambda>v. if v = 1 then Some (Accept 1 (Some 7)) else None)\<rparr>"

definition sample_info :: CarrierInfo where
  "sample_info = \<lparr>ci_source = None, ci_peer = None, ci_alpn = None, ci_server_name = None,
     ci_headers = None, ci_head = False, ci_exporter = False\<rparr>"

theorem admission_fails_closed_witness:
  "\<exists>v w. decided sample_decider (Some 1) sample_info [0, 0] = Inr v
     \<and> d_verdict sample_decider v = Some (Accept 1 w) \<and> Some (AnyPy 7) = map_option AnyPy w \<and> ([] :: py_err list) = []"
proof -
  have "py_decide sample_decider (Some 1) (Inr sample_info) [0, 0] = (NAccept 1 (Some (AnyPy 7)), [])"
    by (simp add: py_decide_def py_start_def py_verdict_def sample_decider_def)
  from admission_fails_closed [THEN conjunct1, THEN mp, OF this] show ?thesis .
qed

theorem admitted_value_back_witness: "admitted_obj (Some (AnyPy (5::nat))) = Some 5"
  by (rule admitted_value_back [where skip = 0]) (simp add: verdict_accept_def)

end
