(* ===== verification/Streams.thy ===== *)
theory Streams
  imports Config Machines
begin

text \<open>
  The stream handles of \<open>src/src/lib.rs\<close>: a part behind an asynchronous mutex (\<open>Part\<close>, \<open>held\<close>,
  \<open>held_now\<close>, \<open>take_now\<close>) and the methods of \<open>SendStream\<close> and \<open>RecvStream\<close> on it. The crate's
  streams are parameters.
\<close>

section \<open>Parts\<close>

text \<open>A mutex around the part: whether an operation holds it now, and the part unless it was taken.\<close>

record 'a Part =
  in_progress :: bool
  content :: "'a option"

definition part_wrap :: "'a \<Rightarrow> 'a Part" where
  "part_wrap s = \<lparr>in_progress = False, content = Some s\<rparr>"

definition taken :: "zmux_errors \<Rightarrow> py_err" where
  "taken z = stream_err z ClosedLocally"

text \<open>
  An operation through \<open>held\<close> runs once the mutex is free; so its definition is the effect on
  the content. The calls that never wait fail while another operation is in progress.
\<close>

definition held :: "zmux_errors \<Rightarrow> ('a \<Rightarrow> 'b py_result \<times> 'a) \<Rightarrow> 'a Part \<Rightarrow> 'b py_result \<times> 'a Part" where
  "held z f p =
     (case content p of
        None \<Rightarrow> (Inl (taken z), p)
      | Some s \<Rightarrow> (case f s of (r, s') \<Rightarrow> (r, p\<lparr>content := Some s'\<rparr>)))"

definition held_now :: "zmux_errors \<Rightarrow> ('a \<Rightarrow> 'b py_result \<times> 'a) \<Rightarrow> 'a Part \<Rightarrow> 'b py_result \<times> 'a Part" where
  "held_now z f p = (if in_progress p then (Inl busy, p) else held z f p)"

definition take_now :: "zmux_errors \<Rightarrow> 'a Part \<Rightarrow> 'a py_result \<times> 'a Part" where
  "take_now z p =
     (if in_progress p then (Inl busy, p) else (ok_or (taken z) (content p), p\<lparr>content := None\<rparr>))"

text \<open>A call of the crate whose error is mapped, and one that only reads the part.\<close>

definition mapped :: "('e \<Rightarrow> py_err) \<Rightarrow> ('a \<Rightarrow> ('e + 'b) \<times> 'a) \<Rightarrow> 'a \<Rightarrow> 'b py_result \<times> 'a" where
  "mapped m f s = (case f s of (r, s') \<Rightarrow> (map_err m r, s'))"

definition peek :: "('a \<Rightarrow> 'b) \<Rightarrow> 'a \<Rightarrow> 'b py_result \<times> 'a" where
  "peek f s = (Inr (f s), s)"

text \<open>The conversions of the crate's numbers: a code of at most 62 bits, a priority.\<close>

record 'p number_api =
  varint_ok :: "u64 \<Rightarrow> bool"
  priority_new :: "u8 \<Rightarrow> bool \<Rightarrow> 'p option"
  priority_parts :: "'p \<Rightarrow> u8 \<times> bool"

definition varint :: "'p number_api \<Rightarrow> u64 \<Rightarrow> u64 py_result" where
  "varint api v = (if varint_ok api v then Inr v else Inl (value_err ''code exceeds 2**62-1''))"

definition priority :: "'p number_api \<Rightarrow> u8 \<Rightarrow> bool \<Rightarrow> 'p py_result" where
  "priority api u i = ok_or (value_err ''urgency out of range'') (priority_new api u i)"

section \<open>The sending part\<close>

record ('s, 'p, 'st) send_api =
  s_write_chunk :: "bytes \<Rightarrow> 's \<Rightarrow> (stream_error + unit) \<times> 's"
  s_finish :: "'s \<Rightarrow> (stream_error + unit) \<times> 's"
  s_reset :: "u64 \<Rightarrow> 's \<Rightarrow> (stream_error + unit) \<times> 's"
  s_set_reliable_boundary :: "'s \<Rightarrow> (stream_error + unit) \<times> 's"
  s_set_priority :: "'p \<Rightarrow> 's \<Rightarrow> (stream_error + unit) \<times> 's"
  s_priority :: "'s \<Rightarrow> (stream_error + 'p) \<times> 's"
  s_send_capacity :: "'s \<Rightarrow> u64"
  s_wait_send_capacity :: "u64 \<Rightarrow> 's \<Rightarrow> (stream_error + u64) \<times> 's"
  s_set_send_buffer :: "u64 \<Rightarrow> 's \<Rightarrow> (stream_error + unit) \<times> 's"
  s_set_scheduler :: "Policy option \<Rightarrow> 's \<Rightarrow> (stream_error + unit) \<times> 's"
  s_set_redundant :: "bool option \<Rightarrow> 's \<Rightarrow> (stream_error + unit) \<times> 's"
  s_send_datagram :: "u64 \<Rightarrow> bytes \<Rightarrow> 's \<Rightarrow> (datagram_error + unit) \<times> 's"
  s_stats :: "'s \<Rightarrow> 'st"
  s_stopped :: "'s \<Rightarrow> (stream_error + u64 option) option"
  s_id :: "'s \<Rightarrow> u64 option"

text \<open>A Python buffer, lent without a copy if it is contiguous.\<close>

datatype py_buffer = NotABuffer py_err | Strided | Contiguous bytes

fun lend :: "py_buffer \<Rightarrow> bytes py_result" where
  "lend (NotABuffer e) = Inl e"
| "lend Strided = Inl (value_err ''the buffer is not contiguous'')"
| "lend (Contiguous b) = Inr b"

text \<open>The way back: a received buffer exported to Python, never for writing.\<close>

definition chunk_getbuffer ::
    "u32 \<Rightarrow> (bytes \<Rightarrow> u32 \<Rightarrow> 'v py_result) \<Rightarrow> u32 \<Rightarrow> bytes \<Rightarrow> 'v py_result" where
  "chunk_getbuffer PyBUF_WRITABLE fill_info flags b =
     (if flags AND PyBUF_WRITABLE \<noteq> 0 then Inl (new_err PyBufferError ''the chunk is read-only'')
      else fill_info b flags)"

text \<open>The keyword arguments of \<open>StreamStats\<close>, from a view of the crate's counters.\<close>

definition stream_stats :: "(string \<Rightarrow> u64) \<Rightarrow> u64 option \<Rightarrow> (string \<times> u64 option) list" where
  "stream_stats st pipe_id =
     map (\<lambda>f. (f, Some (st f)))
       [''bytes_written'', ''bytes_sent'', ''bytes_acknowledged'', ''bytes_received'', ''bytes_read'',
        ''datagrams_sent'', ''datagrams_received'', ''datagrams_dropped_recv'', ''datagram_bytes_sent'',
        ''datagram_bytes_received'', ''send_buffered'', ''recv_buffered'', ''recv_window'']
     @ [(''pipe_id'', pipe_id)]"

type_synonym ('a, 'b) part_call = "'a Part \<Rightarrow> 'b py_result \<times> 'a Part"

text \<open>A call whose argument is checked before the part is looked at.\<close>

definition checked :: "'x py_result \<Rightarrow> ('x \<Rightarrow> ('a, 'b) part_call) \<Rightarrow> ('a, 'b) part_call" where
  "checked x f p = (case x of Inl e \<Rightarrow> (Inl e, p) | Inr a \<Rightarrow> f a p)"

definition send_write :: "zmux_errors \<Rightarrow> ('s, 'p, 'st) send_api \<Rightarrow> bytes \<Rightarrow> ('s, unit) part_call" where
  "send_write z api b = held z (mapped (stream_err z) (s_write_chunk api b))"

definition send_write_chunk :: "zmux_errors \<Rightarrow> ('s, 'p, 'st) send_api \<Rightarrow> py_buffer \<Rightarrow> ('s, unit) part_call" where
  "send_write_chunk z api buf =
     checked (lend buf) (\<lambda>b. held z (mapped (stream_err z) (s_write_chunk api b)))"

definition send_finish :: "zmux_errors \<Rightarrow> ('s, 'p, 'st) send_api \<Rightarrow> ('s, unit) part_call" where
  "send_finish z api = held z (mapped (stream_err z) (s_finish api))"

definition send_reset :: "zmux_errors \<Rightarrow> 'p number_api \<Rightarrow> ('s, 'p, 'st) send_api \<Rightarrow> u64 \<Rightarrow> ('s, unit) part_call" where
  "send_reset z num api code =
     checked (varint num code) (\<lambda>c. held z (mapped (stream_err z) (s_reset api c)))"

definition send_set_reliable_boundary :: "zmux_errors \<Rightarrow> ('s, 'p, 'st) send_api \<Rightarrow> ('s, unit) part_call" where
  "send_set_reliable_boundary z api = held_now z (mapped (stream_err z) (s_set_reliable_boundary api))"

text \<open>The handle is looked at first, the priority after it.\<close>

definition send_set_priority ::
    "zmux_errors \<Rightarrow> 'p number_api \<Rightarrow> ('s, 'p, 'st) send_api \<Rightarrow> u8 \<times> bool \<Rightarrow> ('s, unit) part_call" where
  "send_set_priority z num api pr =
     held_now z (\<lambda>s. case priority num (fst pr) (snd pr) of
        Inl e \<Rightarrow> (Inl e, s)
      | Inr p \<Rightarrow> mapped (stream_err z) (s_set_priority api p) s)"

definition send_priority_get ::
    "zmux_errors \<Rightarrow> 'p number_api \<Rightarrow> ('s, 'p, 'st) send_api \<Rightarrow> ('s, u8 \<times> bool) part_call" where
  "send_priority_get z num api =
     held_now z (\<lambda>s. case mapped (stream_err z) (s_priority api) s of (r, s') \<Rightarrow> (map_ok (priority_parts num) r, s'))"

definition send_capacity :: "zmux_errors \<Rightarrow> ('s, 'p, 'st) send_api \<Rightarrow> ('s, u64) part_call" where
  "send_capacity z api = held_now z (peek (s_send_capacity api))"

definition wait_send_capacity :: "zmux_errors \<Rightarrow> ('s, 'p, 'st) send_api \<Rightarrow> u64 \<Rightarrow> ('s, u64) part_call" where
  "wait_send_capacity z api m =
     checked (if m = 0 then Inl (value_err ''min is at least 1'') else Inr m)
       (\<lambda>n. held z (mapped (stream_err z) (s_wait_send_capacity api n)))"

definition set_send_buffer :: "zmux_errors \<Rightarrow> ('s, 'p, 'st) send_api \<Rightarrow> u64 \<Rightarrow> ('s, unit) part_call" where
  "set_send_buffer z api n = held_now z (mapped (stream_err z) (s_set_send_buffer api n))"

definition set_scheduler :: "zmux_errors \<Rightarrow> ('s, 'p, 'st) send_api \<Rightarrow> string option \<Rightarrow> ('s, unit) part_call" where
  "set_scheduler z api name =
     checked (transpose_opt (map_option policy name))
       (\<lambda>p. held_now z (mapped (stream_err z) (s_set_scheduler api p)))"

definition set_redundant :: "zmux_errors \<Rightarrow> ('s, 'p, 'st) send_api \<Rightarrow> bool option \<Rightarrow> ('s, unit) part_call" where
  "set_redundant z api on = held_now z (mapped (stream_err z) (s_set_redundant api on))"

definition send_datagram :: "zmux_errors \<Rightarrow> ('s, 'p, 'st) send_api \<Rightarrow> bytes \<Rightarrow> u64 \<Rightarrow> ('s, unit) part_call" where
  "send_datagram z api b cx = held_now z (mapped (datagram_err z) (s_send_datagram api cx b))"

definition send_stats :: "zmux_errors \<Rightarrow> ('s, 'p, 'st) send_api \<Rightarrow> ('s, 'st) part_call" where
  "send_stats z api = held_now z (peek (s_stats api))"

text \<open>
  \<open>__aexit__\<close>: nothing on a part that was taken; a reset with code 0 after an exception, whatever
  it answers; else a finish, whose error counts unless the part was closed already.
\<close>

definition send_aexit :: "zmux_errors \<Rightarrow> ('s, 'p, 'st) send_api \<Rightarrow> bool \<Rightarrow> ('s, bool) part_call" where
  "send_aexit z api ok p =
     (case content p of
        None \<Rightarrow> (Inr False, p)
      | Some s \<Rightarrow>
          if \<not> ok then (Inr False, p\<lparr>content := Some (snd (s_reset api 0 s))\<rparr>)
          else (case s_finish api s of
                  (Inl e, s') \<Rightarrow>
                    (if kind_of (debug (stream_view z) e) = ''ClosedLocally'' then Inr False
                     else Inl (stream_err z e), p\<lparr>content := Some s'\<rparr>)
                | (Inr u, s') \<Rightarrow> (Inr False, p\<lparr>content := Some s'\<rparr>)))"

text \<open>
  \<open>stopped\<close> keeps the guard of the mutex while it waits. A poll of the crate's future is \<open>None\<close> as
  long as it is pending; the call may be queued for the mutex, watch the part, have returned, or be
  cancelled, which drops the guard.
\<close>

datatype watcher = Queued | Watching | Returned "u64 option py_result" | Dropped

record 's watched =
  part :: "'s Part"
  watcher :: watcher

definition stopped_lock :: "zmux_errors \<Rightarrow> 's watched \<Rightarrow> 's watched option" where
  "stopped_lock z h =
     (if watcher h = Queued \<and> \<not> in_progress (part h)
      then Some (if content (part h) = None then h\<lparr>watcher := Returned (Inl (taken z))\<rparr>
                 else h\<lparr>part := (part h)\<lparr>in_progress := True\<rparr>, watcher := Watching\<rparr>)
      else None)"

definition stopped_poll :: "zmux_errors \<Rightarrow> ('s, 'p, 'st) send_api \<Rightarrow> 's watched \<Rightarrow> 's watched option" where
  "stopped_poll z api h =
     (if watcher h = Watching then
        (case content (part h) of
           None \<Rightarrow> None
         | Some s \<Rightarrow>
             (case s_stopped api s of
                None \<Rightarrow> Some h
              | Some r \<Rightarrow> Some (h\<lparr>part := (part h)\<lparr>in_progress := False\<rparr>,
                                  watcher := Returned (map_err (stream_err z) r)\<rparr>)))
      else None)"

definition stopped_drop :: "'s watched \<Rightarrow> 's watched option" where
  "stopped_drop h =
     (case watcher h of
        Queued \<Rightarrow> Some (h\<lparr>watcher := Dropped\<rparr>)
      | Watching \<Rightarrow> Some (h\<lparr>part := (part h)\<lparr>in_progress := False\<rparr>, watcher := Dropped\<rparr>)
      | _ \<Rightarrow> None)"

definition send_id :: "zmux_errors \<Rightarrow> ('s, 'p, 'st) send_api \<Rightarrow> ('s, u64 option) part_call" where
  "send_id z api = held_now z (peek (s_id api))"

section \<open>The receiving part\<close>

text \<open>The errors of the crate's exact and complete reads: the stream's, or their own.\<close>

datatype read_error = ReadFailed stream_error | ReadOther string

record ('r, 'p, 'st) recv_api =
  r_read_chunk :: "nat \<Rightarrow> 'r \<Rightarrow> (stream_error + bytes option) \<times> 'r"
  r_read_exact :: "nat \<Rightarrow> 'r \<Rightarrow> (read_error + bytes) \<times> 'r"
  r_read_to_end :: "nat \<Rightarrow> 'r \<Rightarrow> (read_error + bytes) \<times> 'r"
  r_stop :: "u64 \<Rightarrow> 'r \<Rightarrow> (stream_error + unit) \<times> 'r"
  r_reject :: "'r \<Rightarrow> stream_error + unit"
  r_set_receive_window :: "u64 \<Rightarrow> u64 \<Rightarrow> 'r \<Rightarrow> (stream_error + unit) \<times> 'r"
  r_set_peer_priority :: "'p \<Rightarrow> 'r \<Rightarrow> (stream_error + unit) \<times> 'r"
  r_read_datagram :: "'r \<Rightarrow> (stream_error + u64 \<times> bytes) \<times> 'r"
  r_stats :: "'r \<Rightarrow> 'st"
  r_preamble :: "'r \<Rightarrow> bytes option \<times> (u64 \<times> bytes) list \<times> bool"
  r_is_replayable :: "'r \<Rightarrow> bool"
  r_id :: "'r \<Rightarrow> u64 option"
  read_text :: "read_error \<Rightarrow> string"
  read_debug :: "read_error \<Rightarrow> string"

definition read_err :: "zmux_errors \<Rightarrow> ('r, 'p, 'st) recv_api \<Rightarrow> py_class \<Rightarrow> read_error \<Rightarrow> py_err" where
  "read_err z api cls e =
     (case e of ReadFailed s \<Rightarrow> stream_err z s
      | ReadOther t \<Rightarrow> raise_err z cls (read_text api e) (read_debug api e) False None)"

definition recv_read :: "zmux_errors \<Rightarrow> ('r, 'p, 'st) recv_api \<Rightarrow> nat \<Rightarrow> ('r, bytes) part_call" where
  "recv_read z api n =
     held z (\<lambda>r. case mapped (stream_err z) (r_read_chunk api n) r of (x, r') \<Rightarrow> (map_ok (unwrap_or []) x, r'))"

definition recv_read_chunk :: "zmux_errors \<Rightarrow> ('r, 'p, 'st) recv_api \<Rightarrow> nat \<Rightarrow> ('r, bytes) part_call" where
  "recv_read_chunk z api n =
     held z (\<lambda>r. case mapped (stream_err z) (r_read_chunk api n) r of (x, r') \<Rightarrow> (map_ok (unwrap_or []) x, r'))"

definition recv_read_exact :: "zmux_errors \<Rightarrow> ('r, 'p, 'st) recv_api \<Rightarrow> nat \<Rightarrow> ('r, bytes) part_call" where
  "recv_read_exact z api n = held z (mapped (read_err z api IncompleteRead) (r_read_exact api n))"

definition recv_read_to_end :: "zmux_errors \<Rightarrow> ('r, 'p, 'st) recv_api \<Rightarrow> nat \<Rightarrow> ('r, bytes) part_call" where
  "recv_read_to_end z api limit = held z (mapped (read_err z api LimitExceeded) (r_read_to_end api limit))"

definition recv_stop :: "zmux_errors \<Rightarrow> 'p number_api \<Rightarrow> ('r, 'p, 'st) recv_api \<Rightarrow> u64 \<Rightarrow> ('r, unit) part_call" where
  "recv_stop z num api code =
     checked (varint num code) (\<lambda>c. held z (mapped (stream_err z) (r_stop api c)))"

definition recv_reject :: "zmux_errors \<Rightarrow> ('r, 'p, 'st) recv_api \<Rightarrow> ('r, unit) part_call" where
  "recv_reject z api p =
     (case take_now z p of (x, p') \<Rightarrow> (and_then x (\<lambda>r. map_err (stream_err z) (r_reject api r)), p'))"

definition recv_set_receive_window :: "zmux_errors \<Rightarrow> ('r, 'p, 'st) recv_api \<Rightarrow> u64 \<Rightarrow> u64 \<Rightarrow> ('r, unit) part_call" where
  "recv_set_receive_window z api init mx = held_now z (mapped (stream_err z) (r_set_receive_window api init mx))"

definition recv_set_peer_priority ::
    "zmux_errors \<Rightarrow> 'p number_api \<Rightarrow> ('r, 'p, 'st) recv_api \<Rightarrow> u8 \<times> bool \<Rightarrow> ('r, unit) part_call" where
  "recv_set_peer_priority z num api pr =
     held_now z (\<lambda>r. case priority num (fst pr) (snd pr) of
        Inl e \<Rightarrow> (Inl e, r)
      | Inr p \<Rightarrow> mapped (stream_err z) (r_set_peer_priority api p) r)"

definition recv_read_datagram :: "zmux_errors \<Rightarrow> ('r, 'p, 'st) recv_api \<Rightarrow> ('r, u64 \<times> bytes) part_call" where
  "recv_read_datagram z api = held z (mapped (stream_err z) (r_read_datagram api))"

definition recv_stats :: "zmux_errors \<Rightarrow> ('r, 'p, 'st) recv_api \<Rightarrow> ('r, 'st) part_call" where
  "recv_stats z api = held_now z (peek (r_stats api))"

definition recv_preamble ::
    "zmux_errors \<Rightarrow> ('r, 'p, 'st) recv_api \<Rightarrow> ('r, bytes option \<times> (u64 \<times> bytes) list \<times> bool) part_call" where
  "recv_preamble z api = held_now z (peek (r_preamble api))"

definition stop_async_iteration :: py_err where
  "stop_async_iteration = new_err PyStopAsyncIteration []"

definition recv_anext :: "zmux_errors \<Rightarrow> ('r, 'p, 'st) recv_api \<Rightarrow> ('r, bytes) part_call" where
  "recv_anext z api =
     held z (\<lambda>r. case mapped (stream_err z) (r_read_chunk api 65536) r of
        (x, r') \<Rightarrow> (and_then x (\<lambda>b. case b of
             Some c \<Rightarrow> if c \<noteq> [] then Inr c else Inl stop_async_iteration
           | None \<Rightarrow> Inl stop_async_iteration), r'))"

definition recv_aexit :: "zmux_errors \<Rightarrow> ('r, 'p, 'st) recv_api \<Rightarrow> bool \<Rightarrow> ('r, bool) part_call" where
  "recv_aexit z api ok p =
     (Inr False, if ok then p else p\<lparr>content := map_option (\<lambda>r. snd (r_stop api 0 r)) (content p)\<rparr>)"

definition recv_is_replayable :: "zmux_errors \<Rightarrow> ('r, 'p, 'st) recv_api \<Rightarrow> ('r, bool) part_call" where
  "recv_is_replayable z api = held_now z (peek (r_is_replayable api))"

definition recv_id :: "zmux_errors \<Rightarrow> ('r, 'p, 'st) recv_api \<Rightarrow> ('r, u64 option) part_call" where
  "recv_id z api = held_now z (peek (r_id api))"

section \<open>A part for the witnesses\<close>

text \<open>A sending part that keeps what was written and whether it was finished; nobody stops it.\<close>

definition sample_send :: "(bytes \<times> bool, u8 \<times> bool, nat) send_api" where
  "sample_send = \<lparr>s_write_chunk = (\<lambda>b s. if snd s then (Inl ClosedLocally, s) else (Inr (), (fst s @ b, False))),
     s_finish = (\<lambda>s. if snd s then (Inl ClosedLocally, s) else (Inr (), (fst s, True))),
     s_reset = (\<lambda>c s. (Inr (), ([], True))), s_set_reliable_boundary = (\<lambda>s. (Inr (), s)),
     s_set_priority = (\<lambda>p s. (Inr (), s)), s_priority = (\<lambda>s. (Inr (3, False), s)),
     s_send_capacity = (\<lambda>s. 100), s_wait_send_capacity = (\<lambda>n s. (Inr 100, s)),
     s_set_send_buffer = (\<lambda>n s. (Inr (), s)), s_set_scheduler = (\<lambda>p s. (Inr (), s)),
     s_set_redundant = (\<lambda>x s. (Inr (), s)), s_send_datagram = (\<lambda>c b s. (Inr (), s)),
     s_stats = (\<lambda>s. length (fst s)), s_stopped = (\<lambda>s. if snd s then Some (Inr None) else None),
     s_id = (\<lambda>s. None)\<rparr>"

definition named_errors :: zmux_errors where
  "named_errors = sample_errors\<lparr>stream_view :=
     \<lparr>display = (\<lambda>e. ''stream error''),
      debug = (\<lambda>e. if e = ClosedLocally then ''ClosedLocally'' else ''Other''), retryable = (\<lambda>e. False)\<rparr>\<rparr>"

section \<open>Properties\<close>

lemmas part_defs = held_def held_now_def take_now_def mapped_def peek_def checked_def

text \<open>A call through \<open>held\<close> that is queued behind \<open>stopped\<close>, and what the session does to the part.\<close>

datatype watched_act = StoppedLock | StoppedPoll | StoppedDrop | RunWrite bytes | RunFinish | Session nat

definition run_held :: "('s, unit) part_call \<Rightarrow> 's watched \<Rightarrow> 's watched option" where
  "run_held f h = (if in_progress (part h) then None else Some (h\<lparr>part := snd (f (part h))\<rparr>))"

fun watched_step ::
    "zmux_errors \<Rightarrow> ('s, 'p, 'st) send_api \<Rightarrow> (nat \<Rightarrow> 's \<Rightarrow> 's) \<Rightarrow> 's watched \<Rightarrow> watched_act \<Rightarrow> 's watched option" where
  "watched_step z api evolve h StoppedLock = stopped_lock z h"
| "watched_step z api evolve h StoppedPoll = stopped_poll z api h"
| "watched_step z api evolve h StoppedDrop = stopped_drop h"
| "watched_step z api evolve h (RunWrite b) = run_held (send_write z api b) h"
| "watched_step z api evolve h RunFinish = run_held (send_finish z api) h"
| "watched_step z api evolve h (Session n) =
     Some (h\<lparr>part := (part h)\<lparr>content := map_option (evolve n) (content (part h))\<rparr>\<rparr>)"

definition watching_open :: "('s \<Rightarrow> bool) \<Rightarrow> 's watched \<Rightarrow> bool" where
  "watching_open open_stream h \<longleftrightarrow>
     watcher h = Watching \<and> in_progress (part h) \<and> (\<exists>s. content (part h) = Some s \<and> open_stream s)"

lemma watching_step:
  assumes "watching_open open_stream h" "watched_step z api evolve h a = Some h'" "a \<noteq> StoppedDrop"
    and "\<And>n s. open_stream s \<Longrightarrow> open_stream (evolve n s)"
    and "\<And>s. open_stream s \<Longrightarrow> s_stopped api s = None"
  shows "watching_open open_stream h' \<and> a \<noteq> RunFinish \<and> (\<forall>b. a \<noteq> RunWrite b)"
  using assms by (cases a) (auto simp: watching_open_def stopped_lock_def stopped_poll_def run_held_def)



text \<open>
  C26. Leaving an \<open>async with\<close> block of a sending part never swallows the block's exception. After an
  exception it resets the part with code 0 and raises nothing of its own. On a normal exit it
  finishes the part exactly as \<open>finish\<close> does and raises no other exception than \<open>finish\<close>; it
  raises all of them but the one of a part that is closed or used up. The receiving part never raises.
\<close>
theorem async_with_parts:
  assumes "\<And>e. kind_of (debug (stream_view z) e) = ''ClosedLocally'' \<longleftrightarrow> e = ClosedLocally"
  shows "send_aexit z api False p = (Inr False, p\<lparr>content := map_option (\<lambda>s. snd (s_reset api 0 s)) (content p)\<rparr>)
    \<and> snd (send_aexit z api True p) = snd (send_finish z api p)
    \<and> fst (send_aexit z api True p) \<in> {Inr False, map_ok (\<lambda>u. False) (fst (send_finish z api p))}
    \<and> (fst (send_finish z api p) = Inl e \<and> e \<noteq> taken z \<longrightarrow> fst (send_aexit z api True p) = Inl e)
    \<and> fst (recv_aexit z rapi ok q) = Inr False \<and> snd (recv_aexit z rapi True q) = q"
proof (cases "content p")
  case None
  then show ?thesis by (simp add: send_aexit_def send_finish_def recv_aexit_def held_def)
next
  case (Some s)
  obtain r s' where "s_finish api s = (r, s')" by fastforce
  with Some assms show ?thesis
    by (cases r) (simp_all add: send_aexit_def send_finish_def recv_aexit_def held_def mapped_def taken_def)
qed

theorem async_with_parts_witness:
  "fst (send_aexit named_errors sample_send True (part_wrap ([1], False))) = Inr False
   \<and> snd (send_aexit named_errors sample_send True (part_wrap ([1], False))) = part_wrap ([1], True)"
proof -
  have n: "\<And>e. kind_of (debug (stream_view named_errors) e) = ''ClosedLocally'' \<longleftrightarrow> e = ClosedLocally"
    by (simp add: named_errors_def kind_of_def)
  have "snd (send_finish named_errors sample_send (part_wrap ([1], False))) = part_wrap ([1], True)"
    "fst (send_finish named_errors sample_send (part_wrap ([1], False))) = Inr ()"
    by (simp_all add: send_finish_def held_def mapped_def part_wrap_def sample_send_def)
  with async_with_parts [OF n, of sample_send "part_wrap ([1], False)"] show ?thesis by auto
qed

text \<open>
  C28. Iterating over a receiving part is reading it: \<open>__anext__\<close> has the effect and the
  errors of \<open>read(65536)\<close>, and ends the iteration exactly when that read returns no bytes;
  \<open>read_chunk\<close> returns the same bytes as \<open>read\<close>.
\<close>
theorem iteration_is_reading:
  "snd (recv_anext z api p) = snd (recv_read z api 65536 p)
   \<and> fst (recv_anext z api p) = and_then (fst (recv_read z api 65536 p))
       (\<lambda>b. if b = [] then Inl stop_async_iteration else Inr b)
   \<and> recv_read_chunk z api n p = recv_read z api n p"
proof (cases "content p")
  case None
  then show ?thesis by (simp add: recv_anext_def recv_read_def recv_read_chunk_def held_def)
next
  case (Some r)
  obtain x r' where x: "r_read_chunk api 65536 r = (x, r')" by fastforce
  show ?thesis
  proof (cases x)
    case (Inr b)
    with Some x show ?thesis
      by (cases b) (simp_all add: recv_anext_def recv_read_def recv_read_chunk_def held_def mapped_def)
  qed (simp add: Some x recv_anext_def recv_read_def recv_read_chunk_def held_def mapped_def)
qed

end
