(* ===== verification/Helpers.thy ===== *)
theory Helpers
  imports Streams Carriers
begin

text \<open>
  \<open>src/src/helpers.rs\<close>: Python limiters, the parts of a stream taken out of their handles, splices,
  and the resolution of duplicate sessions.
\<close>

section \<open>Python limiters\<close>

text \<open>
  What Python does for one call: \<open>ready\<close> is the call of the method and the start of its coroutine,
  a poll of the coroutine is \<open>None\<close> while it runs.
\<close>

record ('o, 'f) limiter_env =
  ready :: "nat \<Rightarrow> nat \<Rightarrow> 'f py_result"
  poll_coro :: "'f \<Rightarrow> 'o py_result option \<times> 'f"
  extract_usize :: "'o \<Rightarrow> nat py_result"
  try_ready_call :: "nat \<Rightarrow> 'o py_result"
  charge_call :: "nat \<Rightarrow> unit py_result"

text \<open>The count, and the exceptions reported as unraisable.\<close>

definition allowance :: "('o, 'f) limiter_env \<Rightarrow> 'o py_result \<Rightarrow> nat \<times> py_err list" where
  "allowance py r = (case and_then r (extract_usize py) of Inr n \<Rightarrow> (n, []) | Inl e \<Rightarrow> (0, [e]))"

text \<open>A poll: \<open>None\<close> is pending. The second component is the coroutine in flight.\<close>

definition poll_pending ::
    "('o, 'f) limiter_env \<Rightarrow> 'f \<Rightarrow> (nat \<times> py_err list) option \<times> 'f option" where
  "poll_pending py f =
     (case poll_coro py f of
        (Some r, f') \<Rightarrow> (Some (allowance py r), None)
      | (None, f') \<Rightarrow> (None, Some f'))"

definition poll_ready ::
    "('o, 'f) limiter_env \<Rightarrow> nat \<Rightarrow> nat \<Rightarrow> 'f option \<Rightarrow> (nat \<times> py_err list) option \<times> 'f option" where
  "poll_ready py mn mx pending =
     (case pending of
        None \<Rightarrow>
          (case ready py mn mx of
             Inr f \<Rightarrow> poll_pending py f
           | Inl e \<Rightarrow> (Some (allowance py (Inl e)), None))
      | Some f \<Rightarrow> poll_pending py f)"

definition try_ready :: "('o, 'f) limiter_env \<Rightarrow> nat \<Rightarrow> nat \<times> py_err list" where
  "try_ready py mx = allowance py (try_ready_call py mx)"

definition charge :: "('o, 'f) limiter_env \<Rightarrow> nat \<Rightarrow> py_err list" where
  "charge py n = (case charge_call py n of Inl e \<Rightarrow> [e] | Inr u \<Rightarrow> [])"

section \<open>Taking the parts of a stream\<close>

text \<open>The handles Python holds, by identity.\<close>

record ('s, 'r) handles =
  sends :: "nat \<Rightarrow> 's Part"
  recvs :: "nat \<Rightarrow> 'r Part"

record ('s, 'r, 'io) ids_api =
  send_stream_id :: "'s \<Rightarrow> u64 option"
  recv_stream_id :: "'r \<Rightarrow> u64 option"
  from_stream :: "'s \<Rightarrow> 'r \<Rightarrow> 'io"

definition different_streams :: "u64 option \<Rightarrow> u64 option \<Rightarrow> bool" where
  "different_streams a b = (case (a, b) of (Some x, Some y) \<Rightarrow> x \<noteq> y | _ \<Rightarrow> False)"

definition pair_parts ::
    "zmux_errors \<Rightarrow> ('s, 'r, 'io) ids_api \<Rightarrow> nat \<times> nat \<Rightarrow> ('s, 'r) handles
       \<Rightarrow> ('s \<times> 'r) py_result \<times> ('s, 'r) handles" where
  "pair_parts z api h st =
     (let s = sends st (fst h); r = recvs st (snd h)
      in if in_progress s then (Inl busy, st)
         else if in_progress r then (Inl busy, st)
         else (case (content s, content r) of
                 (Some a, Some b) \<Rightarrow>
                   if different_streams (send_stream_id api a) (recv_stream_id api b)
                   then (Inl (value_err ''the parts of two different streams''), st)
                   else (Inr (a, b), st\<lparr>sends := (sends st)(fst h := s\<lparr>content := None\<rparr>),
                                        recvs := (recvs st)(snd h := r\<lparr>content := None\<rparr>)\<rparr>)
               | _ \<Rightarrow> (Inl (stream_err z ClosedLocally), st)))"

definition stream_pipe ::
    "zmux_errors \<Rightarrow> ('s, 'r, 'io) ids_api \<Rightarrow> nat \<times> nat \<Rightarrow> ('s, 'r) handles
       \<Rightarrow> 'io cell py_result \<times> ('s, 'r) handles" where
  "stream_pipe z api h st =
     (case pair_parts z api h st of
        (x, st') \<Rightarrow> (map_ok (\<lambda>(s, r). pipe_wrap (from_stream api s r)) x, st'))"

section \<open>Splices\<close>

datatype splice_end =
  SpliceFinished | SpliceReset u64 | SpliceStopped u64 | UpstreamLost | DownstreamLost | SpliceEndOther string

record Forwarded =
  fwd_bytes :: u64
  fwd_datagram_bytes :: u64
  fwd_datagrams_dropped :: u64
  fwd_end :: splice_end

definition forwarded :: "Forwarded \<Rightarrow> (u64 \<times> u64 \<times> u64 \<times> string \<times> u64 option) py_result" where
  "forwarded f =
     map_ok (\<lambda>(e, code). (fwd_bytes f, fwd_datagram_bytes f, fwd_datagrams_dropped f, e, code))
       (case fwd_end f of
          SpliceFinished \<Rightarrow> Inr (''finished'', None)
        | SpliceReset c \<Rightarrow> Inr (''reset'', Some c)
        | SpliceStopped c \<Rightarrow> Inr (''stopped'', Some c)
        | UpstreamLost \<Rightarrow> Inr (''upstream_lost'', None)
        | DownstreamLost \<Rightarrow> Inr (''downstream_lost'', None)
        | SpliceEndOther d \<Rightarrow> Inl (value_err d))"

record ('l, 'loc) SpliceOptions =
  chunk :: nat
  a_to_b :: "('l \<times> 'loc) option"
  b_to_a :: "('l \<times> 'loc) option"

text \<open>A limiter with the caller's event loop; \<open>expect\<close> panics without one.\<close>

definition lim_of :: "'loc option \<Rightarrow> 'l option \<Rightarrow> ('l \<times> 'loc) option py_result" where
  "lim_of locals l =
     (case l of
        None \<Rightarrow> Inr None
      | Some obj \<Rightarrow> map_ok (\<lambda>loc. Some (obj, loc)) (ok_or (new_err PanicException ''a running loop'') locals))"

definition splice_options ::
    "'loc py_result \<Rightarrow> nat \<Rightarrow> 'l option \<Rightarrow> 'l option \<Rightarrow> ('l, 'loc) SpliceOptions py_result" where
  "splice_options get_current_locals ch ab ba =
     and_then (if ab \<noteq> None \<or> ba \<noteq> None then map_ok Some get_current_locals else Inr None)
       (\<lambda>locals. and_then (lim_of locals ab) (\<lambda>x. map_ok (\<lambda>y. \<lparr>chunk = ch, a_to_b = x, b_to_a = y\<rparr>) (lim_of locals ba)))"

text \<open>Everything before the future is made: its arguments, or the error.\<close>

definition splice ::
    "zmux_errors \<Rightarrow> ('s, 'r, 'io) ids_api \<Rightarrow> 'loc py_result \<Rightarrow> nat \<times> nat \<Rightarrow> nat \<times> nat \<Rightarrow> nat
       \<Rightarrow> 'l option \<Rightarrow> 'l option \<Rightarrow> ('s, 'r) handles
       \<Rightarrow> (('s \<times> 'r) \<times> ('s \<times> 'r) \<times> ('l, 'loc) SpliceOptions) py_result \<times> ('s, 'r) handles" where
  "splice z api get_current_locals a b ch ab ba st =
     (if ch = 0 then (Inl (value_err ''chunk is at least 1''), st)
      else if fst a = fst b \<or> snd a = snd b then (Inl (value_err ''a stream cannot be spliced into itself''), st)
      else (case splice_options get_current_locals ch ab ba of
              Inl e \<Rightarrow> (Inl e, st)
            | Inr opts \<Rightarrow>
                (case pair_parts z api a st of
                   (Inl e, st1) \<Rightarrow> (Inl e, st1)
                 | (Inr sa, st1) \<Rightarrow>
                     (case pair_parts z api b st1 of
                        (Inl e, st2) \<Rightarrow> (Inl e, st2)
                      | (Inr sb, st2) \<Rightarrow> (Inr (sa, sb, opts), st2)))))"

text \<open>What the future makes of the crate's result.\<close>

definition spliced ::
    "string + Forwarded \<times> Forwarded
       \<Rightarrow> ((u64 \<times> u64 \<times> u64 \<times> string \<times> u64 option) \<times> (u64 \<times> u64 \<times> u64 \<times> string \<times> u64 option)) py_result" where
  "spliced r =
     and_then (map_err value_err r)
       (\<lambda>(ab, ba). and_then (forwarded ab) (\<lambda>x. map_ok (\<lambda>y. (x, y)) (forwarded ba)))"

section \<open>Duplicate sessions\<close>

text \<open>\<open>SessionNonce\<close> as \<open>session_nonce\<close>.\<close>

definition is_ascii_uppercase :: "char \<Rightarrow> bool" where
  "is_ascii_uppercase c \<longleftrightarrow> 65 \<le> (of_char c :: nat) \<and> (of_char c :: nat) \<le> 90"

definition to_ascii_lowercase :: "char \<Rightarrow> char" where
  "to_ascii_lowercase c = (if is_ascii_uppercase c then char_of (of_char c + 32 :: nat) else c)"

fun snake_loop :: "nat \<Rightarrow> string \<Rightarrow> string" where
  "snake_loop i [] = []"
| "snake_loop i (c # cs) =
     (if is_ascii_uppercase c \<and> i > 0 then ''_'' else []) @ to_ascii_lowercase c # snake_loop (Suc i) cs"

definition snake :: "string \<Rightarrow> string" where
  "snake name = snake_loop 0 name"

definition dial_err :: "(py_err \<Rightarrow> string) \<Rightarrow> py_err \<Rightarrow> string" where
  "dial_err err_to_string e = err_to_string e"

text \<open>
  The dial of a rejoin: the call and the start of its coroutine, its result, and the carrier taken
  out of the object if that is a \<open>PipeIo\<close> (its cell is the second component).
\<close>

definition rejoin_dial ::
    "(py_err \<Rightarrow> string) \<Rightarrow> 'f py_result \<Rightarrow> ('f \<Rightarrow> 'o py_result) \<Rightarrow> ('o \<Rightarrow> 'io cell py_result)
       \<Rightarrow> (string + 'io) \<times> 'io cell option" where
  "rejoin_dial err_to_string started await cast_pipe =
     (case and_then (and_then started await) cast_pipe of
        Inl e \<Rightarrow> (Inl (dial_err err_to_string e), None)
      | Inr c \<Rightarrow> (case pipe_take c of (x, c') \<Rightarrow> (map_err (dial_err err_to_string) x, Some c')))"

record ('s, 'rule) resolution =
  survivor :: 's
  loser :: 's
  rule :: 'rule
  rejoin_started :: bool

record ('f, 'loc) DuplicateOptions =
  local_identity :: "bytes option"
  peer_identity :: "bytes option"
  rejoin :: "('f \<times> 'loc) option"

definition resolve_duplicate ::
    "('loc py_result) \<Rightarrow> (('f, 'loc) DuplicateOptions \<Rightarrow> string + ('s, string) resolution)
       \<Rightarrow> bytes option \<Rightarrow> bytes option \<Rightarrow> 'f option \<Rightarrow> ('s, string) resolution py_result" where
  "resolve_duplicate get_current_locals resolve lid pid rj =
     and_then (case rj of None \<Rightarrow> Inr None | Some f \<Rightarrow> map_ok (\<lambda>loc. Some (f, loc)) get_current_locals)
       (\<lambda>dial. map_ok (\<lambda>r. r\<lparr>rule := snake (kind_of (rule r))\<rparr>)
          (map_err value_err (resolve \<lparr>local_identity = lid, peer_identity = pid, rejoin = dial\<rparr>)))"

section \<open>Properties\<close>

text \<open>Consecutive polls of a limiter, each with what Python does then: the answers and the coroutine left.\<close>

fun polls ::
    "(('o, 'f) limiter_env \<times> nat \<times> nat) list \<Rightarrow> 'f option \<Rightarrow> (nat \<times> py_err list) option list \<times> 'f option" where
  "polls [] p = ([], p)"
| "polls ((py, mn, mx) # qs) p =
     (case poll_ready py mn mx p of (a, p') \<Rightarrow> (case polls qs p' of (as, p'') \<Rightarrow> (a # as, p'')))"

text \<open>The polls that call \<open>ready\<close>: those with no coroutine in flight.\<close>

fun starts_of :: "(('o, 'f) limiter_env \<times> nat \<times> nat) list \<Rightarrow> 'f option \<Rightarrow> nat" where
  "starts_of [] p = 0"
| "starts_of ((py, mn, mx) # qs) p = (if p = None then 1 else 0) + starts_of qs (snd (poll_ready py mn mx p))"

definition in_flight :: "'f option \<Rightarrow> nat" where
  "in_flight p = (if p = None then 0 else 1)"

lemma poll_ready_pending: "fst (poll_ready py mn mx p) = None \<longleftrightarrow> snd (poll_ready py mn mx p) \<noteq> None"
  by (auto simp: poll_ready_def poll_pending_def split: option.splits sum.splits prod.splits)

lemma poll_count:
  "starts_of qs p + in_flight p = length (filter (\<lambda>a. a \<noteq> None) (fst (polls qs p))) + in_flight (snd (polls qs p))"
proof (induction qs arbitrary: p)
  case (Cons q qs)
  obtain py mn mx where q: "q = (py, mn, mx)" by (cases q)
  obtain a p' where r: "poll_ready py mn mx p = (a, p')" by fastforce
  obtain as p'' where rs: "polls qs p' = (as, p'')" by fastforce
  from poll_ready_pending [of py mn mx p] r have "a = None \<longleftrightarrow> p' \<noteq> None" by simp
  with Cons.IH [of p'] q r rs show ?case by (auto simp: in_flight_def)
qed simp

lemma allowance_zero: "allowance py r = (n, es) \<Longrightarrow> es \<noteq> [] \<Longrightarrow> n = 0"
  by (auto simp: allowance_def split: sum.splits)

lemma poll_ready_reported: "fst (poll_ready py mn mx p) = Some (n, es) \<Longrightarrow> es \<noteq> [] \<Longrightarrow> n = 0"
  by (auto simp: poll_ready_def poll_pending_def split: option.splits sum.splits prod.splits dest: allowance_zero)


lemma pair_parts_ok:
  assumes "pair_parts z api (i, j) st = (Inr (a, b), st')"
  shows "content (sends st i) = Some a" "content (recvs st j) = Some b"
    and "st' = st\<lparr>sends := (sends st)(i := (sends st i)\<lparr>content := None\<rparr>),
                  recvs := (recvs st)(j := (recvs st j)\<lparr>content := None\<rparr>)\<rparr>"
  using assms by (auto simp: pair_parts_def Let_def split: if_splits option.splits)

lemma pair_parts_err: "pair_parts z api h st = (Inl e, st') \<Longrightarrow> st' = st"
  by (auto simp: pair_parts_def Let_def split: if_splits option.splits)

lemma pair_parts_errD: "pair_parts z api h st = (Inl e, st') \<Longrightarrow> st' = st \<and> fst (pair_parts z api h st) = Inl e"
  using pair_parts_err by fastforce

text \<open>
  C29. Making a carrier of a stream takes both parts or none: when \<open>stream_pipe\<close> fails, no handle
  has changed; when it succeeds, both handles were there, their parts are in the carrier, the same
  call fails from then on as on a closed stream, and every other handle is as before.
\<close>
theorem stream_pipe_both_or_none:
  "(case stream_pipe z api (i, j) st of
      (Inl e, st') \<Rightarrow> st' = st
    | (Inr c, st') \<Rightarrow>
        (\<exists>a b. content (sends st i) = Some a \<and> content (recvs st j) = Some b \<and> c = Some (from_stream api a b))
        \<and> fst (stream_pipe z api (i, j) st') = Inl (taken z)
        \<and> sends st' = (sends st)(i := (sends st i)\<lparr>content := None\<rparr>)
        \<and> recvs st' = (recvs st)(j := (recvs st j)\<lparr>content := None\<rparr>))"
proof -
  obtain x st' where x: "pair_parts z api (i, j) st = (x, st')" by fastforce
  show ?thesis
  proof (cases x)
    case (Inl e)
    with x pair_parts_err show ?thesis by (fastforce simp: stream_pipe_def)
  next
    case (Inr ab)
    obtain a b where ab: "ab = (a, b)" by fastforce
    from x Inr ab have r: "pair_parts z api (i, j) st = (Inr (a, b), st')" by simp
    then have "\<not> in_progress (sends st i)" "\<not> in_progress (recvs st j)"
      by (auto simp: pair_parts_def Let_def split: if_splits)
    with pair_parts_ok [OF r] have "pair_parts z api (i, j) st' = (Inl (taken z), st')"
      by (simp add: pair_parts_def taken_def)
    with pair_parts_ok [OF r] r show ?thesis by (simp add: stream_pipe_def pipe_wrap_def)
  qed
qed


text \<open>The limiters of a splice have the caller's event loop: the call never panics for want of one.\<close>

lemma splice_options_eq:
  "splice_options locals ch ab ba =
     (if ab = None \<and> ba = None then Inr \<lparr>chunk = ch, a_to_b = None, b_to_a = None\<rparr>
      else map_ok (\<lambda>loc. \<lparr>chunk = ch, a_to_b = map_option (\<lambda>x. (x, loc)) ab, b_to_a = map_option (\<lambda>x. (x, loc)) ba\<rparr>)
             locals)"
  by (cases locals; cases ab; cases ba; simp add: splice_options_def lim_of_def)

text \<open>Names of several words: \<open>SessionNonce\<close> of \<open>session\<close> and \<open>nonce\<close>.\<close>

definition lower_char :: "char \<Rightarrow> bool" where
  "lower_char c \<longleftrightarrow> 97 \<le> (of_char c :: nat) \<and> (of_char c :: nat) \<le> 122"

definition upper_of :: "char \<Rightarrow> char" where
  "upper_of c = char_of (of_char c - 32 :: nat)"

fun capitalise :: "string \<Rightarrow> string" where
  "capitalise [] = []"
| "capitalise (c # cs) = upper_of c # cs"

fun join_words :: "string list \<Rightarrow> string" where
  "join_words [] = []"
| "join_words [w] = w"
| "join_words (w # ws) = w @ ''_'' @ join_words ws"

lemma lower_char_simps:
  "lower_char c \<Longrightarrow> \<not> is_ascii_uppercase c" "lower_char c \<Longrightarrow> to_ascii_lowercase c = c"
  by (auto simp: lower_char_def is_ascii_uppercase_def to_ascii_lowercase_def)

lemma upper_of_simps:
  assumes "lower_char c"
  shows "is_ascii_uppercase (upper_of c)" "to_ascii_lowercase (upper_of c) = c"
proof -
  have n: "(of_char (upper_of c) :: nat) = of_char c - 32"
  proof -
    from assms have "of_char c - 32 < (256 :: nat)" unfolding lower_char_def by arith
    then show ?thesis by (simp add: upper_of_def)
  qed
  with assms show u: "is_ascii_uppercase (upper_of c)"
    unfolding is_ascii_uppercase_def lower_char_def by arith
  from assms have "(of_char c :: nat) - 32 + 32 = of_char c" unfolding lower_char_def by arith
  with u n show "to_ascii_lowercase (upper_of c) = c" by (simp add: to_ascii_lowercase_def)
qed

lemma snake_loop_lower:
  "list_all lower_char cs \<Longrightarrow> snake_loop i (cs @ rest) = cs @ snake_loop (i + length cs) rest"
  by (induction cs arbitrary: i) (simp_all add: lower_char_simps)

lemma snake_loop_words:
  "list_all (\<lambda>w. w \<noteq> [] \<and> list_all lower_char w) ws \<Longrightarrow> 0 < i \<Longrightarrow>
   snake_loop i (concat (map capitalise ws)) = concat (map (\<lambda>w. ''_'' @ w) ws)"
proof (induction ws arbitrary: i)
  case (Cons w ws)
  then obtain c cs where "w = c # cs" by (cases w) auto
  with Cons show ?case by (simp add: upper_of_simps snake_loop_lower)
qed simp

lemma join_words_concat: "join_words (w # ws) = w @ concat (map (\<lambda>w. ''_'' @ w) ws)"
  by (induction ws arbitrary: w) simp_all

text \<open>
  The rule of a resolution is shown in snake case: a name made of any number of capitalised
  words becomes these words in lower case, joined by underscores.
\<close>
theorem snake_joins_words:
  assumes "list_all (\<lambda>w. w \<noteq> [] \<and> list_all lower_char w) ws"
  shows "snake (concat (map capitalise ws)) = join_words ws"
proof (cases ws)
  case (Cons w ws')
  with assms obtain c cs where "w = c # cs" by (cases w) auto
  with Cons assms show ?thesis
    by (simp add: snake_def join_words_concat upper_of_simps snake_loop_lower snake_loop_words del: join_words.simps)
qed (simp add: snake_def)

theorem snake_joins_words_witness:
  "snake ''SessionNonce'' = ''session_nonce''"
proof -
  have "list_all (\<lambda>w. w \<noteq> [] \<and> list_all lower_char w) [''session'', ''nonce'']"
    by (simp add: lower_char_def)
  from snake_joins_words [OF this] have "snake (capitalise ''session'' @ capitalise ''nonce'') = ''session_nonce''"
    by (simp del: capitalise.simps)
  moreover have "capitalise ''session'' @ capitalise ''nonce'' = ''SessionNonce''" by code_simp
  ultimately show ?thesis by simp
qed

end
