(* ===== verification/Modes.thy ===== *)
theory Modes
  imports Config
begin

text \<open>
  Carrier modes (\<open>src/src/mode.rs\<close>): the choice of candidates, the cache of what worked, the policy
  of an auto mode, and \<open>dial_mode\<close>. The crate's cache and its dialling are parameters.
\<close>

section \<open>Results\<close>

record candidate_result =
  cr_kind :: string
  cr_outcome :: string
  cr_joined :: bool
  cr_error :: "string option"

definition result_dict :: "('o, 'm) py_scheme \<Rightarrow> candidate_result \<Rightarrow> (string \<times> 'o) list" where
  "result_dict py r =
     [(''carrier'', mk_str py (cr_kind r)), (''outcome'', mk_str py (cr_outcome r)),
      (''joined'', mk_bool py (cr_joined r)), (''error'', mk_opt py (mk_str py) (cr_error r))]"

definition result_obj :: "('o, 'm) py_scheme \<Rightarrow> candidate_result \<Rightarrow> 'o py_result" where
  "result_obj py r = call_kw py ''_candidate_result'' (result_dict py r)"

section \<open>Modes\<close>

datatype 'c Mode = Explicit 'c | Auto "'c list"

definition mode_explicit :: "'c \<Rightarrow> 'c Mode" where
  "mode_explicit c = Explicit c"

definition mode_auto :: "'c list \<Rightarrow> 'c Mode py_result" where
  "mode_auto cs = (if cs = [] then Inl (value_err ''auto mode without a candidate'') else Inr (Auto cs))"

fun candidates :: "'c Mode \<Rightarrow> 'c list" where
  "candidates (Explicit c) = [c]"
| "candidates (Auto cs) = cs"

fun is_auto :: "'c Mode \<Rightarrow> bool" where
  "is_auto (Explicit c) = False"
| "is_auto (Auto cs) = True"

fun join_with :: "string \<Rightarrow> string list \<Rightarrow> string" where
  "join_with sep [] = []"
| "join_with sep [w] = w"
| "join_with sep (w # ws) = w @ sep @ join_with sep ws"

definition mode_repr :: "('c \<Rightarrow> string) \<Rightarrow> 'c Mode \<Rightarrow> string" where
  "mode_repr kind_name m =
     ''Mode.'' @ (if is_auto m then ''auto'' else ''explicit'') @ ''('' @
     join_with '', '' (map kind_name (candidates m)) @ '')''"

section \<open>The cache\<close>

record ('k, 'c, 'sn) cache_api =
  cache_new :: "duration \<Rightarrow> duration \<Rightarrow> duration \<Rightarrow> 'c"
  cache_is_usable :: "'c \<Rightarrow> string \<Rightarrow> 'k \<Rightarrow> bool"
  cache_failed_until :: "'c \<Rightarrow> string \<Rightarrow> 'k \<Rightarrow> nat option"
  snapshot_from_json :: "string \<Rightarrow> string + 'sn"
  snapshot_to_json :: "'sn \<Rightarrow> string"
  cache_snapshot :: "'c \<Rightarrow> 'sn"
  cache_restore :: "'c \<Rightarrow> 'sn \<Rightarrow> 'c"
  kind_of_name :: "string \<Rightarrow> 'k option"

definition kind :: "('k, 'c, 'sn) cache_api \<Rightarrow> string \<Rightarrow> 'k py_result" where
  "kind api name = ok_or (value_err (''unknown carrier kind '' @ debug_str name)) (kind_of_name api name)"

definition carrier_cache_new :: "('k, 'c, 'sn) cache_api \<Rightarrow> f64 \<Rightarrow> f64 \<Rightarrow> f64 \<Rightarrow> 'c py_result" where
  "carrier_cache_new api success_ttl backoff_min backoff_max =
     and_then (seconds ''success_ttl'' success_ttl) (\<lambda>t.
     and_then (seconds ''backoff_min'' backoff_min) (\<lambda>a.
     and_then (seconds ''backoff_max'' backoff_max) (\<lambda>b. Inr (cache_new api t a b))))"

definition is_usable :: "('k, 'c, 'sn) cache_api \<Rightarrow> 'c \<Rightarrow> string \<Rightarrow> string \<Rightarrow> bool py_result" where
  "is_usable api c key carrier = map_ok (cache_is_usable api c key) (kind api carrier)"

definition is_failed :: "('k, 'c, 'sn) cache_api \<Rightarrow> 'c \<Rightarrow> string \<Rightarrow> string \<Rightarrow> bool py_result" where
  "is_failed api c key carrier = map_ok (\<lambda>k. cache_failed_until api c key k \<noteq> None) (kind api carrier)"

definition snapshot :: "('k, 'c, 'sn) cache_api \<Rightarrow> 'c \<Rightarrow> string" where
  "snapshot api c = snapshot_to_json api (cache_snapshot api c)"

definition restore :: "('k, 'c, 'sn) cache_api \<Rightarrow> string \<Rightarrow> 'c \<Rightarrow> unit py_result \<times> 'c" where
  "restore api text c =
     (case map_err value_err (snapshot_from_json api text) of
        Inl e \<Rightarrow> (Inl e, c)
      | Inr s \<Rightarrow> (Inr (), cache_restore api c s))"

section \<open>The policy\<close>

record 'c ModePolicy =
  mp_cache :: "'c option"
  mp_key :: string
  timer_factor :: f64
  timer_min :: duration
  timer_max :: duration
  settle :: duration
  drop_window :: duration
  no_join :: bool

definition dur_of :: "string \<Rightarrow> f64 \<Rightarrow> duration py_result" where
  "dur_of name v = ok_or (value_err (name @ '' is a non-negative number of seconds'')) (try_from_secs_f64 v)"

text \<open>The comparison \<open>x >= 0.0\<close>, false on a NaN.\<close>

fun ge_zero :: "f64 \<Rightarrow> bool" where
  "ge_zero (Fin q) = (0 \<le> q)"
| "ge_zero PInf = True"
| "ge_zero x = False"

definition mode_policy ::
    "'c ModePolicy \<Rightarrow> ('c \<Rightarrow> string \<Rightarrow> 'c ModePolicy \<Rightarrow> 'c ModePolicy) \<Rightarrow> 'c option \<Rightarrow> string \<Rightarrow> f64
       \<Rightarrow> f64 \<Rightarrow> f64 \<Rightarrow> f64 \<Rightarrow> f64 \<Rightarrow> bool \<Rightarrow> 'c ModePolicy py_result" where
  "mode_policy dflt with_cache cache key factor tmin tmax st dw nj =
     (let p = (case cache of Some c \<Rightarrow> with_cache c key dflt | None \<Rightarrow> dflt\<lparr>mp_key := key\<rparr>)
      in if \<not> (is_finite factor \<and> ge_zero factor)
         then Inl (value_err ''timer_factor is a non-negative finite number'')
         else
           and_then (dur_of ''timer_min'' tmin) (\<lambda>a.
           and_then (dur_of ''timer_max'' tmax) (\<lambda>b.
           and_then (dur_of ''settle'' st) (\<lambda>c.
           and_then (dur_of ''drop_window'' dw) (\<lambda>d.
             Inr (p\<lparr>timer_factor := factor, timer_min := a, timer_max := b, settle := c, drop_window := d,
                     no_join := nj\<rparr>))))))"

section \<open>Dialling\<close>

text \<open>The arguments are checked before the future is made.\<close>

definition dial_mode_args :: "'cfg py_result \<Rightarrow> 'c ModePolicy py_result \<Rightarrow> 'm \<Rightarrow> ('m \<times> 'cfg \<times> 'c ModePolicy) py_result" where
  "dial_mode_args config pol m = and_then config (\<lambda>c. map_ok (\<lambda>p. (m, c, p)) pol)"

text \<open>The answer of the future: a session, or \<open>ModeError\<close> with its text and every try as \<open>args\<close>.\<close>

definition dial_mode_result ::
    "('o, 'm) py_scheme \<Rightarrow> (string \<times> candidate_result list) + 's \<Rightarrow> ((py_err \<times> 'o list) + 's) py_result" where
  "dial_mode_result py r =
     (case r of
        Inr s \<Rightarrow> Inr (Inr s)
      | Inl (text, tries) \<Rightarrow>
          map_ok (\<lambda>objs. Inl (mode_error text, objs)) (collect_results (map (result_obj py) tries)))"

section \<open>Properties\<close>

lemma dur_of_seconds: "dur_of = seconds"
  by (intro ext) (simp add: dur_of_def seconds_def)

text \<open>
  The policy of an auto mode is accepted exactly when the timer factor is finite and not
  negative and every time is a duration; then each of its fields is the argument's value, and
  without a cache the key is kept and the cache stays the default's. The first argument at fault
  names the error.
\<close>
theorem mode_policy_exact:
  "(case mode_policy dflt wc None key factor tmin tmax st dw nj of
      Inr p \<Rightarrow>
        is_finite factor \<and> \<not> is_neg factor \<and> timer_factor p = factor
        \<and> try_from_secs_f64 tmin = Some (timer_min p) \<and> try_from_secs_f64 tmax = Some (timer_max p)
        \<and> try_from_secs_f64 st = Some (settle p) \<and> try_from_secs_f64 dw = Some (drop_window p)
        \<and> no_join p = nj \<and> mp_key p = key \<and> mp_cache p = mp_cache dflt
    | Inl e \<Rightarrow>
        err_class e = PyValueError
        \<and> (if is_finite factor \<and> \<not> is_neg factor
           then (\<exists>name v. e = value_err (name @ '' is a non-negative number of seconds'') \<and> try_from_secs_f64 v = None
                   \<and> find (\<lambda>(n, v). try_from_secs_f64 v = None)
                       [(''timer_min'', tmin), (''timer_max'', tmax), (''settle'', st), (''drop_window'', dw)]
                     = Some (name, v))
           else err_msg e = ''timer_factor is a non-negative finite number''))"
proof -
  have f: "is_finite factor \<Longrightarrow> ge_zero factor \<longleftrightarrow> \<not> is_neg factor"
    by (cases factor) auto
  have c: "err_class (value_err m) = PyValueError" "err_msg (value_err m) = m" for m
    by (simp_all add: value_err_def)
  show ?thesis
    by (cases "is_finite factor"; cases "is_neg factor"; cases "try_from_secs_f64 tmin"; cases "try_from_secs_f64 tmax";
        cases "try_from_secs_f64 st"; cases "try_from_secs_f64 dw"; simp add: mode_policy_def f dur_of_def c)
qed

end
