(* ===== verification/Pool.thy ===== *)
theory Pool
  imports Helpers Modes
begin

text \<open>
  Pipe pools (\<open>src/src/pool.rs\<close>): the decisions of a policy, pools and where their members come from,
  and \<open>maintain\<close>. The crate's policies and its maintainer are parameters.
\<close>

section \<open>Reading policies\<close>

record ('o, 'pol) policy_api =
  cast_str :: "'o \<Rightarrow> string py_result option"
  cast_bytes :: "'o \<Rightarrow> bytes option"
  is_dict :: "'o \<Rightarrow> bool"
  json_dumps :: "'o \<Rightarrow> string py_result"
  cast_policy :: "'o \<Rightarrow> 'pol option"
  pool_policy :: "bytes \<Rightarrow> string + 'pol"

definition as_bytes :: "string \<Rightarrow> bytes" where
  "as_bytes s = map of_char s"

definition json_bytes :: "('o, 'pol) policy_api \<Rightarrow> 'o \<Rightarrow> bytes py_result" where
  "json_bytes api json =
     (case cast_str api json of
        Some s \<Rightarrow> map_ok as_bytes s
      | None \<Rightarrow>
          (case cast_bytes api json of
             Some b \<Rightarrow> Inr b
           | None \<Rightarrow>
               if is_dict api json then map_ok as_bytes (json_dumps api json)
               else Inl (value_err ''pool policy JSON is str, bytes or dict'')))"

definition policy_parse :: "('o, 'pol) policy_api \<Rightarrow> 'o \<Rightarrow> 'pol py_result" where
  "policy_parse api json = and_then (json_bytes api json) (\<lambda>b. map_err value_err (pool_policy api b))"

definition policy_of :: "('o, 'pol) policy_api \<Rightarrow> 'o \<Rightarrow> 'pol py_result" where
  "policy_of api p = (case cast_policy api p of Some x \<Rightarrow> Inr x | None \<Rightarrow> policy_parse api p)"

section \<open>Decisions\<close>

text \<open>A member is a dict; \<open>get_item\<close> may raise.\<close>

type_synonym 'o member_dict = "string \<Rightarrow> 'o option py_result"

definition metric :: "('o, 'm) py_scheme \<Rightarrow> 'o member_dict \<Rightarrow> string \<Rightarrow> f64 py_result" where
  "metric py d k =
     and_then (d k) (\<lambda>item. case item of
        None \<Rightarrow> Inr (Fin 0)
      | Some v \<Rightarrow> and_then (extract_f64 py v) (\<lambda>x.
          if \<not> is_finite x \<or> is_neg x then Inl (value_err (''member '' @ k @ '' is a finite non-negative number''))
          else Inr x))"

text \<open>\<open>x.clamp(0.0, u64::MAX as f64) as u64\<close>: the bound is \<open>2 ^ 64\<close>, the cast truncates and saturates.\<close>

fun clamp_u64 :: "f64 \<Rightarrow> f64" where
  "clamp_u64 (Fin q) = Fin (if q < 0 then 0 else if 2 ^ 64 < q then 2 ^ 64 else q)"
| "clamp_u64 PInf = Fin (2 ^ 64)"
| "clamp_u64 NInf = Fin 0"
| "clamp_u64 NaN = NaN"

fun as_u64 :: "f64 \<Rightarrow> u64" where
  "as_u64 (Fin q) = word_of_int (max 0 (min \<lfloor>q\<rfloor> (2 ^ 64 - 1)))"
| "as_u64 PInf = - 1"
| "as_u64 NInf = 0"
| "as_u64 NaN = 0"

definition count_of :: "f64 \<Rightarrow> u64" where
  "count_of x = as_u64 (clamp_u64 x)"

text \<open>\<open>Duration::from_secs_f64\<close> panics where \<open>try_from_secs_f64\<close> fails.\<close>

definition secs_panic :: py_err where
  "secs_panic = new_err PanicException ''cannot convert float seconds to Duration: value is either too big or NaN''"

definition from_secs_f64 :: "f64 \<Rightarrow> duration py_result" where
  "from_secs_f64 x = ok_or secs_panic (try_from_secs_f64 x)"

record PoolMember =
  pm_id :: u64
  pm_age :: duration
  pm_idle :: duration
  pm_pipes :: u64
  pm_bytes_sent :: u64
  pm_bytes_received :: u64

definition pool_member :: "('o, 'm) py_scheme \<Rightarrow> 'o member_dict \<Rightarrow> PoolMember py_result" where
  "pool_member py d =
     and_then (d ''id'') (\<lambda>item.
     and_then (ok_or (value_err ''member without an id'') item) (\<lambda>v.
     and_then (extract_u64 py v) (\<lambda>i.
     and_then (metric py d ''age'') (\<lambda>a. and_then (from_secs_f64 a) (\<lambda>age.
     and_then (metric py d ''idle'') (\<lambda>b. and_then (from_secs_f64 b) (\<lambda>idle.
     and_then (metric py d ''pipes'') (\<lambda>p.
     and_then (metric py d ''bytes_sent'') (\<lambda>s.
     and_then (metric py d ''bytes_received'') (\<lambda>r.
       Inr \<lparr>pm_id = i, pm_age = age, pm_idle = idle, pm_pipes = count_of p, pm_bytes_sent = count_of s,
            pm_bytes_received = count_of r\<rparr>))))))))))"

definition since_of :: "f64 option \<Rightarrow> duration option py_result" where
  "since_of since_dial =
     (case since_dial of
        None \<Rightarrow> Inr None
      | Some s \<Rightarrow>
          if \<not> is_finite s \<or> is_neg s then Inl (value_err ''since_dial is a finite non-negative number'')
          else map_ok Some (from_secs_f64 s))"

record MemberDecision =
  md_count :: "nat option"
  md_dial_after :: "f64 option"
  md_retire :: "u64 list"
  md_recheck :: "duration option"
  md_probe_interval :: "f64 option"
  md_probe_jitter :: "f64 option"

record PoolPolicyDecision =
  pd_count :: "nat option"
  pd_dial_after :: "f64 option"
  pd_retire :: "u64 list"
  pd_recheck :: "f64 option"
  pd_probe_interval :: "f64 option"
  pd_probe_jitter :: "f64 option"

definition policy_decision :: "MemberDecision \<Rightarrow> PoolPolicyDecision" where
  "policy_decision d =
     \<lparr>pd_count = md_count d, pd_dial_after = md_dial_after d, pd_retire = md_retire d,
      pd_recheck = map_option as_secs_f64 (md_recheck d), pd_probe_interval = md_probe_interval d,
      pd_probe_jitter = md_probe_jitter d\<rparr>"

text \<open>The policy is asked only once every argument has been read; it keeps a state of its own.\<close>

definition pool_decide ::
    "('o, 'm) py_scheme \<Rightarrow> (u32 \<Rightarrow> duration option \<Rightarrow> PoolMember list \<Rightarrow> 'pol \<Rightarrow> MemberDecision \<times> 'pol)
       \<Rightarrow> u32 \<Rightarrow> 'o member_dict list \<Rightarrow> f64 option \<Rightarrow> 'pol \<Rightarrow> PoolPolicyDecision py_result \<times> 'pol" where
  "pool_decide py decide_members failures mems since_dial pol =
     (case and_then (collect_results (map (pool_member py) mems))
             (\<lambda>ms. map_ok (\<lambda>s. (ms, s)) (since_of since_dial)) of
        Inl e \<Rightarrow> (Inl e, pol)
      | Inr (ms, s) \<Rightarrow>
          (case decide_members failures s ms pol of (d, pol') \<Rightarrow> (Inr (policy_decision d), pol')))"

text \<open>A decision of Python's own; the crate checks the probe settings.\<close>

definition bad_time :: "f64 option \<Rightarrow> bool" where
  "bad_time v = (case v of None \<Rightarrow> False | Some x \<Rightarrow> \<not> is_finite x \<or> is_neg x)"

definition time_err :: "string \<Rightarrow> py_err" where
  "time_err name = value_err (name @ '' is a non-negative number of seconds'')"

definition probe_period :: "f64 \<Rightarrow> period py_result" where
  "probe_period i =
     (if i = Fin 0 then Inr Off
      else map_ok Every (ok_or (value_err ''probe_interval is 0 or at least 1 s'') (try_from_secs_f64 i)))"

definition decision_new ::
    "(period \<Rightarrow> bool) \<Rightarrow> (f64 \<Rightarrow> bool) \<Rightarrow> nat option \<Rightarrow> f64 option \<Rightarrow> u64 list \<Rightarrow> f64 option \<Rightarrow> f64 option
       \<Rightarrow> f64 option \<Rightarrow> PoolPolicyDecision py_result" where
  "decision_new interval_ok jitter_ok cnt dial_after retire recheck interval jitter =
     (if bad_time dial_after then Inl (time_err ''dial_after'')
      else if bad_time recheck then Inl (time_err ''recheck'')
      else
        and_then (case interval of
            None \<Rightarrow> Inr ()
          | Some i \<Rightarrow> and_then (probe_period i) (\<lambda>p.
              if interval_ok p then Inr () else Inl (value_err ''probe_interval is 0 or at least 1 s''))) (\<lambda>_.
        and_then (case jitter of
            None \<Rightarrow> Inr ()
          | Some j \<Rightarrow> if jitter_ok j then Inr () else Inl (value_err ''probe_jitter is in [0, 1)'')) (\<lambda>_.
          Inr \<lparr>pd_count = cnt, pd_dial_after = dial_after, pd_retire = retire, pd_recheck = recheck,
               pd_probe_interval = interval, pd_probe_jitter = jitter\<rparr>)))"

definition show_opt :: "('a \<Rightarrow> string) \<Rightarrow> 'a option \<Rightarrow> string" where
  "show_opt f v = (case v of None \<Rightarrow> ''None'' | Some x \<Rightarrow> f x)"

definition decision_repr :: "(f64 \<Rightarrow> string) \<Rightarrow> PoolPolicyDecision \<Rightarrow> string" where
  "decision_repr show_f64 d =
     ''PoolPolicyDecision(count='' @ show_opt show_nat (pd_count d) @ '', dial_after='' @
     show_opt show_f64 (pd_dial_after d) @ '', retire=['' @
     join_with '', '' (map (\<lambda>n. show_nat (unat n)) (pd_retire d)) @ ''], recheck='' @
     show_opt show_f64 (pd_recheck d) @ '', probe_interval='' @ show_opt show_f64 (pd_probe_interval d) @
     '', probe_jitter='' @ show_opt show_f64 (pd_probe_jitter d) @ '')''"

section \<open>Pools\<close>

record RotatePolicy =
  rot_jitter :: f64
  rot_max_bytes :: "u64 option"
  rot_max_age :: "duration option"

record ('o, 'md, 'mp, 'pol) PipePool =
  pool_count :: nat
  pool_dial :: "'o option"
  pool_join :: "'o option"
  pool_mode :: "('md \<times> 'mp) option"
  pool_options :: pipe_opts
  pool_rotate :: "RotatePolicy option"
  pool_pol :: "'pol option"
  pool_rejected :: "'o option"

fun unit_interval :: "f64 \<Rightarrow> bool" where
  "unit_interval (Fin q) = (0 \<le> q \<and> q \<le> 1)"
| "unit_interval x = False"

definition pool_build ::
    "('o, 'm) py_scheme \<Rightarrow> options_api \<Rightarrow> ('o, 'pol) policy_api \<Rightarrow> nat \<Rightarrow> 'o option \<Rightarrow> 'o option
       \<Rightarrow> ('md \<times> 'mp) option \<Rightarrow> u64 option \<Rightarrow> f64 option \<Rightarrow> f64 \<Rightarrow> 'o option \<Rightarrow> 'o option \<Rightarrow> 'o option
       \<Rightarrow> ('o, 'md, 'mp, 'pol) PipePool py_result" where
  "pool_build py oapi api cnt dial join mode mbytes max_age jitter pol opts rejected =
     (if \<not> unit_interval jitter then Inl (value_err ''rotate_jitter is between 0 and 1'')
      else
        and_then (transpose_opt (map_option (\<lambda>a.
            ok_or (value_err ''rotate_max_age is a non-negative number of seconds'') (try_from_secs_f64 a)) max_age))
        (\<lambda>age.
        and_then (pipe_options py oapi opts) (\<lambda>o'.
        and_then (transpose_opt (map_option (policy_of api) pol)) (\<lambda>p.
          Inr \<lparr>pool_count = cnt, pool_dial = dial, pool_join = join, pool_mode = mode, pool_options = o',
               pool_rotate =
                 (if mbytes \<noteq> None \<or> age \<noteq> None
                  then Some \<lparr>rot_jitter = jitter, rot_max_bytes = mbytes, rot_max_age = age\<rparr> else None),
               pool_pol = p, pool_rejected = rejected\<rparr>))))"

definition pool_new ::
    "('o, 'm) py_scheme \<Rightarrow> options_api \<Rightarrow> ('o, 'pol) policy_api \<Rightarrow> nat \<Rightarrow> 'o option \<Rightarrow> 'o option
       \<Rightarrow> u64 option \<Rightarrow> f64 option \<Rightarrow> f64 \<Rightarrow> 'o option \<Rightarrow> 'o option \<Rightarrow> 'o option
       \<Rightarrow> ('o, 'md, 'mp, 'pol) PipePool py_result" where
  "pool_new py oapi api cnt dial join mbytes max_age jitter pol opts rejected =
     (if (dial \<noteq> None) = (join \<noteq> None) then Inl (type_err ''PipePool takes one of dial and join'')
      else pool_build py oapi api cnt dial join None mbytes max_age jitter pol opts rejected)"

text \<open>\<open>native_mode\<close> is the crate's \<open>PipePool::mode\<close>: it may reject the mode or the policy.\<close>

definition pool_of_mode ::
    "('o, 'm) py_scheme \<Rightarrow> options_api \<Rightarrow> ('o, 'pol) policy_api \<Rightarrow> ('md \<Rightarrow> 'mp \<Rightarrow> string + 'np) \<Rightarrow> 'md \<Rightarrow> nat
       \<Rightarrow> 'mp py_result \<Rightarrow> u64 option \<Rightarrow> f64 option \<Rightarrow> f64 \<Rightarrow> 'o option \<Rightarrow> 'o option \<Rightarrow> 'o option
       \<Rightarrow> ('o, 'md, 'mp, 'pol) PipePool py_result" where
  "pool_of_mode py oapi api native_mode mode cnt mode_pol mbytes max_age jitter pol opts rejected =
     and_then mode_pol (\<lambda>p.
     and_then (map_err value_err (native_mode mode p)) (\<lambda>_.
       pool_build py oapi api cnt None None (Some (mode, p)) mbytes max_age jitter pol opts rejected))"

text \<open>The crate's pool and its builder methods.\<close>

record ('np, 'o, 'pol) native_api =
  np_join :: "nat \<Rightarrow> 'o \<Rightarrow> 'np"
  np_dial :: "nat \<Rightarrow> 'o \<Rightarrow> 'np"
  np_set_count :: "nat \<Rightarrow> 'np \<Rightarrow> 'np"
  np_with_options :: "pipe_opts \<Rightarrow> 'np \<Rightarrow> 'np"
  np_with_rotate :: "RotatePolicy \<Rightarrow> 'np \<Rightarrow> 'np"
  np_with_policy :: "'pol \<Rightarrow> 'np \<Rightarrow> 'np"
  np_with_rejected :: "'o \<Rightarrow> 'np \<Rightarrow> 'np"

definition with_opt :: "('a \<Rightarrow> 'np \<Rightarrow> 'np) \<Rightarrow> 'a option \<Rightarrow> 'np \<Rightarrow> 'np" where
  "with_opt f x p = (case x of None \<Rightarrow> p | Some a \<Rightarrow> f a p)"

definition pool_native ::
    "('md \<Rightarrow> 'mp \<Rightarrow> string + 'np) \<Rightarrow> ('np, 'o, 'pol) native_api \<Rightarrow> ('o, 'md, 'mp, 'pol) PipePool \<Rightarrow> 'np py_result" where
  "pool_native native_mode api pl =
     map_ok (\<lambda>p. with_opt (np_with_rejected api) (pool_rejected pl)
                  (with_opt (np_with_policy api) (pool_pol pl)
                    (with_opt (np_with_rotate api) (pool_rotate pl)
                      (np_with_options api (pool_options pl) p))))
       (case pool_mode pl of
          Some (mode, pol) \<Rightarrow>
            map_ok (np_set_count api (pool_count pl))
              (map_err (\<lambda>e. new_err PanicException ''checked when the pool was made'') (native_mode mode pol))
        | None \<Rightarrow>
            (case pool_join pl of
               Some f \<Rightarrow> Inr (np_join api (pool_count pl) f)
             | None \<Rightarrow>
                 map_ok (np_dial api (pool_count pl))
                   (ok_or (new_err PanicException ''a dial or a join'') (pool_dial pl))))"

text \<open>A dial of a pool, and a join: the pipes of the iterable Python returns.\<close>

definition pool_dial_call ::
    "(py_err \<Rightarrow> string) \<Rightarrow> 'f py_result \<Rightarrow> ('f \<Rightarrow> 'o py_result) \<Rightarrow> ('o \<Rightarrow> 'io cell py_result)
       \<Rightarrow> (string + 'io) \<times> 'io cell option" where
  "pool_dial_call err_to_string started await cast_pipe =
     (case started of
        Inl e \<Rightarrow> (Inl (dial_err err_to_string e), None)
      | Inr f \<Rightarrow>
          (case await f of
             Inl e \<Rightarrow> (Inl (dial_err err_to_string e), None)
           | Inr obj \<Rightarrow>
               (case cast_pipe obj of
                  Inl e \<Rightarrow> (Inl (dial_err err_to_string e), None)
                | Inr c \<Rightarrow> (case pipe_take c of (x, c') \<Rightarrow> (map_err (dial_err err_to_string) x, Some c')))))"

definition pool_join_call ::
    "(py_err \<Rightarrow> string) \<Rightarrow> ('o, 'm) py_scheme \<Rightarrow> ('o \<Rightarrow> 'f py_result) \<Rightarrow> ('f \<Rightarrow> 'o py_result)
       \<Rightarrow> ('o \<Rightarrow> 'o py_result list py_result) \<Rightarrow> ('o \<Rightarrow> 'p py_result) \<Rightarrow> pipe_opts \<Rightarrow> string + 'p list" where
  "pool_join_call err_to_string py call await try_iter cast_pipe opts =
     map_err (dial_err err_to_string)
       (and_then (options_obj py opts) (\<lambda>ob.
        and_then (call ob) (\<lambda>f.
        and_then (await f) (\<lambda>obj.
        and_then (try_iter obj) (\<lambda>items.
          collect_results (map (\<lambda>i. and_then i cast_pipe) items))))))"

definition maintain ::
    "'loc py_result \<Rightarrow> ('loc \<Rightarrow> 'np py_result) \<Rightarrow> ('np \<Rightarrow> 'h) \<Rightarrow> 'h py_result" where
  "maintain get_current_locals native maintain_pipes =
     and_then (map_err (\<lambda>e. new_err PyRuntimeError ''maintain_pipes needs a running event loop'') get_current_locals)
       (\<lambda>loc. map_ok maintain_pipes (native loc))"

section \<open>Properties\<close>

lemma count_of_floor: "0 \<le> q \<Longrightarrow> uint (count_of (Fin q)) = min \<lfloor>q\<rfloor> (2 ^ 64 - 1)"
proof -
  assume q: "0 \<le> q"
  have u: "uint (word_of_int n :: u64) = n" if "0 \<le> n" "n \<le> 2 ^ 64 - 1" for n
    using that by (simp add: uint_word_of_int take_bit_int_eq_self)
  show ?thesis
  proof (cases "2 ^ 64 < q")
    case True
    then have "(2 ^ 64 :: int) \<le> \<lfloor>q\<rfloor>" by (simp add: le_floor_iff)
    with True q u [of "2 ^ 64 - 1"] show ?thesis by (simp add: count_of_def)
  next
    case False
    with q u [of "min \<lfloor>q\<rfloor> (2 ^ 64 - 1)"] show ?thesis by (simp add: count_of_def)
  qed
qed

lemma round_even_huge: "2 ^ 64 \<le> q \<Longrightarrow> int duration_end \<le> round_even (q * 1000000000)"
proof -
  assume "2 ^ 64 \<le> q"
  then have "of_int (int duration_end) \<le> q * 1000000000" by (simp add: duration_end_def nanos_per_sec_def)
  then have "int duration_end \<le> \<lfloor>q * 1000000000\<rfloor>" by (simp only: le_floor_iff)
  then show ?thesis by (auto simp: round_even_def Let_def)
qed

lemma from_secs_f64_huge: "2 ^ 64 \<le> q \<Longrightarrow> from_secs_f64 (Fin q) = Inl secs_panic"
  by (simp add: from_secs_f64_def round_even_huge)

text \<open>
  C33. A member whose \<open>age\<close> is a finite number of at least \<open>2 ^ 64\<close> seconds passes the check of
  \<open>metric\<close> and makes \<open>PoolPolicy.decide\<close> panic, and so does such a \<open>since_dial\<close>: Python sees
  a \<open>PanicException\<close>, which is not an \<open>Exception\<close>, where the other values out of range raise
  \<open>ValueError\<close>. The policy is not asked and keeps its state.
\<close>
theorem decide_panics_on_long_times:
  assumes "d ''id'' = Inr (Some v)" "extract_u64 py v = Inr i"
    and "d ''age'' = Inr (Some w)" "extract_f64 py w = Inr (Fin q)" "2 ^ 64 \<le> q"
  shows "pool_decide py dm n (d # ds) since pol = (Inl secs_panic, pol)
    \<and> pool_decide py dm n [] (Some (Fin q)) pol = (Inl secs_panic, pol)
    \<and> \<not> is_instance secs_panic PyException"
proof (intro conjI)
  from assms(5) have "metric py d ''age'' = Inr (Fin q)" using assms(3,4) by (simp add: metric_def)
  with assms(1,2,5) have "pool_member py d = Inl secs_panic" by (simp add: pool_member_def from_secs_f64_huge)
  then show "pool_decide py dm n (d # ds) since pol = (Inl secs_panic, pol)" by (simp add: pool_decide_def)
  from assms(5) show "pool_decide py dm n [] (Some (Fin q)) pol = (Inl secs_panic, pol)"
    by (simp add: pool_decide_def since_of_def from_secs_f64_huge)
qed (simp add: secs_panic_def class_defs)

text \<open>A policy that keeps one member, for the witnesses.\<close>

definition keep_one :: "u32 \<Rightarrow> duration option \<Rightarrow> PoolMember list \<Rightarrow> nat \<Rightarrow> MemberDecision \<times> nat" where
  "keep_one n s ms k =
     (\<lparr>md_count = Some 1, md_dial_after = None, md_retire = [], md_recheck = None, md_probe_interval = None,
       md_probe_jitter = None\<rparr>, Suc k)"

theorem decide_panics_on_long_times_witness:
  "let d = (\<lambda>k. Inr (map_of [(''id'', PInt 7), (''age'', PFloat (Fin (2 ^ 70)))] k))
   in pool_decide builtins keep_one 0 [d] None 0 = (Inl secs_panic, 0)"
proof -
  let ?d = "\<lambda>k. Inr (map_of [(''id'', PInt 7), (''age'', PFloat (Fin (2 ^ 70)))] k) :: pyval option py_result"
  have "pool_decide builtins keep_one 0 (?d # []) None 0 = (Inl secs_panic, 0)"
    by (rule decide_panics_on_long_times [THEN conjunct1, of ?d "PInt 7" builtins 7 "PFloat (Fin (2 ^ 70))" "2 ^ 70"])
      (simp_all add: in_range_def)
  then show ?thesis by (simp only: Let_def)
qed

lemma pool_build_source:
  "pool_build py oapi api cnt dial join mode mb ma j pol opts rej = Inr pl \<Longrightarrow>
   pool_dial pl = dial \<and> pool_join pl = join \<and> pool_mode pl = mode"
  by (auto simp: pool_build_def and_then_Inr_iff split: if_splits)

lemma pool_new_converts:
  assumes "pool_new py oapi api cnt dial join mb ma j pol opts rej = Inr pl"
  shows "is_ok (pool_native nm napi pl)"
proof -
  from assms have "(dial \<noteq> None) \<noteq> (join \<noteq> None)" "pool_dial pl = dial" "pool_join pl = join" "pool_mode pl = None"
    by (auto simp: pool_new_def split: if_splits dest: pool_build_source)
  then show ?thesis by (cases dial; cases join) (simp_all add: pool_native_def)
qed

lemma pool_of_mode_converts:
  assumes "pool_of_mode py oapi api nm mode cnt mp mb ma j pol opts rej = Inr pl"
  shows "is_ok (pool_native nm napi pl)"
proof -
  from assms obtain p np where "nm mode p = Inr np" "pool_mode pl = Some (mode, p)"
    by (auto simp: pool_of_mode_def and_then_Inr_iff map_err_Inr_iff dest!: pool_build_source)
  then show ?thesis by (simp add: pool_native_def)
qed

text \<open>
  C32. A pool that was made can be maintained: with exactly one of \<open>dial\<close> and \<open>join\<close>, or with a mode
  the crate accepted, the conversion to the crate's pool never reaches one of its two \<open>expect\<close>s.
\<close>
theorem made_pool_converts:
  "(\<forall>pl. pool_new py oapi api cnt dial join mb ma j pol opts rej = Inr pl \<longrightarrow> is_ok (pool_native nm napi pl))
   \<and> (\<forall>pl. pool_of_mode py oapi api nm mode cnt mp mb ma j pol opts rej = Inr pl \<longrightarrow> is_ok (pool_native nm napi pl))"
  by (intro conjI allI impI) (erule pool_new_converts, erule pool_of_mode_converts)

definition sample_policies :: "(pyval, nat) policy_api" where
  "sample_policies =
     \<lparr>cast_str = (\<lambda>v. case v of PStr s \<Rightarrow> Some (Inr s) | _ \<Rightarrow> None),
      cast_bytes = (\<lambda>v. case v of PBytes b \<Rightarrow> Some b | _ \<Rightarrow> None),
      is_dict = (\<lambda>v. case v of PDict kvs \<Rightarrow> True | _ \<Rightarrow> False),
      json_dumps = (\<lambda>v. Inr ''{}''), cast_policy = (\<lambda>v. None), pool_policy = (\<lambda>b. Inr (length b))\<rparr>"

definition sample_native :: "(nat, pyval, nat) native_api" where
  "sample_native =
     \<lparr>np_join = (\<lambda>n f. n), np_dial = (\<lambda>n f. n), np_set_count = (\<lambda>n p. n), np_with_options = (\<lambda>r p. p),
      np_with_rotate = (\<lambda>r p. p), np_with_policy = (\<lambda>r p. p), np_with_rejected = (\<lambda>r p. p)\<rparr>"

theorem made_pool_converts_witness:
  "\<exists>pl. pool_new builtins sample_api sample_policies 2 (Some PNone) None None None (Fin 0) None None None
         = Inr (pl :: (pyval, nat, nat, nat) PipePool)
     \<and> is_ok (pool_native (\<lambda>m p. Inl ''no mode'') sample_native pl)"
proof -
  obtain pl :: "(pyval, nat, nat, nat) PipePool" where pl:
    "pool_new builtins sample_api sample_policies 2 (Some PNone) None None None (Fin 0) None None None = Inr pl"
    by (simp add: pool_new_def pool_build_def)
  from made_pool_converts [THEN conjunct1, rule_format, OF this]
  have "is_ok (pool_native (\<lambda>m p. Inl ''no mode'') sample_native pl)" .
  with pl show ?thesis by blast
qed

text \<open>The dial of a pool and that of a rejoin are the same code.\<close>

lemma pool_dial_is_rejoin: "pool_dial_call = rejoin_dial"
  by (intro ext) (auto simp: pool_dial_call_def rejoin_dial_def split: sum.splits)

lemma is_ok_and_then_const: "is_ok (and_then x (\<lambda>_. y)) \<longleftrightarrow> is_ok x \<and> is_ok y"
  by (cases x) auto

text \<open>
  A decision made by Python is accepted exactly with times that are finite and not negative, a
  probe interval that is 0 or at least one second, and a jitter the crate takes. So a probe
  interval of 0 is accepted.
\<close>

lemma decision_new_accepts:
  assumes "interval_ok Off" "\<And>d. interval_ok (Every d) \<longleftrightarrow> nanos_per_sec \<le> d"
  shows "is_ok (decision_new interval_ok jitter_ok cnt da ret re iv jt) \<longleftrightarrow>
     \<not> bad_time da \<and> \<not> bad_time re \<and>
     (case iv of None \<Rightarrow> True
      | Some i \<Rightarrow> i = Fin 0 \<or> (\<exists>d. try_from_secs_f64 i = Some d \<and> nanos_per_sec \<le> d)) \<and>
     (case jt of None \<Rightarrow> True | Some j \<Rightarrow> jitter_ok j)"
proof -
  have "is_ok (and_then (probe_period i) (\<lambda>p. if interval_ok p then Inr () else Inl e)) \<longleftrightarrow>
      i = Fin 0 \<or> (\<exists>d. try_from_secs_f64 i = Some d \<and> nanos_per_sec \<le> d)" for i and e :: py_err
    using assms by (cases "try_from_secs_f64 i") (auto simp: probe_period_def)
  then show ?thesis
    by (cases "bad_time da"; cases "bad_time re"; cases iv; cases jt)
      (simp_all add: decision_new_def is_ok_and_then_const)
qed

end
