(* ===== verification/Views.thy ===== *)
theory Views
  imports Modes Helpers
begin

text \<open>
  What the bindings show of a session: events (\<open>event_obj\<close>), the statistics of sessions, pipes and
  listeners (\<open>src/src/lib.rs\<close>), and the dataclasses of \<open>src/python/zmux/_types.py\<close> that take them as
  keyword arguments. A counter of the crate is read by its name.
\<close>

section \<open>Values and the dataclasses that take them\<close>

datatype field_val =
    FU64 u64 | FOptU64 "u64 option" | FBool bool | FStr string | FOptStr "string option"
  | FF64 f64 | FOptF64 "f64 option" | FIds "u64 list" | FLanes "(u64 \<times> u64 \<times> u64 \<times> u64) list"
  | FRequest "(u64 \<times> bool) option" | FTries "candidate_result list" | FStats "(string \<times> field_val) list"

type_synonym view = "(string \<times> field_val) list"

text \<open>A class with its fields: those without a default, and those with one.\<close>

definition dataclasses :: "(string \<times> string list \<times> string list) list" where
  "dataclasses =
     [(''StreamStats'', [''bytes_written'', ''bytes_sent'', ''bytes_acknowledged'', ''bytes_received'', ''bytes_read'',
         ''datagrams_sent'', ''datagrams_received'', ''datagrams_dropped_recv'', ''datagram_bytes_sent'',
         ''datagram_bytes_received'', ''send_buffered'', ''recv_buffered'', ''recv_window'', ''pipe_id''],
        []),
      (''AdmissionStats'', [],
        [''accepted'', ''fallback'', ''stalled'', ''closed'', ''stall_overflow'', ''peek_timed_out'',
         ''handshake_failed'']),
      (''ListenerStats'', [''sessions'', ''joins'', ''setup_failures'', ''rejected'', ''refused'', ''timed_out''],
        [''admission'']),
      (''SessionStats'', [''bytes_sent'', ''bytes_received'', ''records_sent'', ''records_received'', ''bytes_written'',
         ''bytes_read'', ''datagram_bytes_sent'', ''datagram_bytes_received'', ''streams_opened_local'',
         ''streams_opened_remote'', ''streams_active'', ''stream_credit_waits'', ''datagrams_sent'',
         ''datagrams_received'', ''datagrams_sent_channel'', ''datagrams_received_channel'',
         ''datagrams_dropped_send'', ''datagrams_dropped_recv'', ''datagrams_dropped_limit'',
         ''no_effect_budget'', ''smoothed_rtt'', ''min_rtt'', ''latest_rtt'', ''mean_deviation'',
         ''bytes_reinjected'', ''bytes_opportunistic'', ''penalties'', ''reinjections'', ''bytes_redundant'',
         ''bytes_duplicate_received'', ''send_buffered'', ''recv_buffered'', ''retained'', ''pipes_active'',
         ''pipes_added'', ''pipe_failures'', ''join_auth_failures'', ''join_replays'', ''join_refusals'',
         ''suspensions'', ''suspended_time'', ''scheduler_answers'', ''scheduler_fallbacks''],
        [''carrier'', ''carrier_candidates'']),
      (''PipeStats'', [''pipe'', ''local'', ''fate_group'', ''label'', ''carrier'', ''inbound'', ''outbound'',
         ''attached_for'', ''suspect_count'', ''failure_count'', ''failure'', ''send_priority'',
         ''send_priority_source'', ''standby'', ''standby_source'', ''receive_priority'', ''receive_standby'',
         ''request_seq'', ''peer_request'', ''weight'', ''probation_until'', ''in_probation'',
         ''revalidating'', ''eligible'', ''writable'', ''saturated'', ''rtt_source'', ''smoothed_rtt'',
         ''min_rtt'', ''rttvar'', ''one_way_delay'', ''delivery_rate'', ''queued_bytes'', ''queue_delay'',
         ''bytes_in_flight'', ''bytes_sent'', ''bytes_received'', ''bytes_acked'', ''records_sent'',
         ''records_received'', ''bytes_reinjected'', ''bytes_lost'', ''records_lost'', ''bytes_retransmitted'',
         ''loss_rate'', ''bytes_opportunistic'', ''bytes_redundant'', ''bytes_duplicate_received'',
         ''pings_sent'', ''pings_answered'', ''since_last_ack'', ''since_last_receive'',
         ''since_last_traffic'', ''lanes_out'', ''lanes_in'', ''lanes_refused'', ''lanes''],
        []),
      (''PipeOptions'', [],
        [''send_priority'', ''receive_priority'', ''send_standby'', ''receive_standby'', ''weight'',
         ''probation'', ''label'', ''fate_group'', ''suspect_floor'', ''dead_timeout'', ''probe_interval'',
         ''idle_probes'', ''probe_jitter''])]"

text \<open>The classes of events, by the kind of the event.\<close>

definition EVENTS :: "(string \<times> string list \<times> string list) list" where
  "EVENTS =
     [(''PipeState'', [''pipe'', ''half'', ''state'', ''failure''], [''carrier'']),
      (''JoinAuthFailed'', [''carrier_bound'', ''count''], []),
      (''JoinSecurityUnavailable'', [], []),
      (''PipePriorityChanged'', [''pipe'', ''send_priority'', ''standby'', ''weight'', ''source''], []),
      (''PipeQualityChanged'', [''pipe'', ''smoothed_rtt'', ''delivery_rate''], []),
      (''TierSaturation'', [''priority'', ''saturated''], []),
      (''CapacityBelow'', [''rate''], []),
      (''CapacityRestored'', [''rate''], []),
      (''GoAway'', [''max_bidi'', ''max_uni'', ''code''], []),
      (''Suspended'', [], []),
      (''Resumed'', [], []),
      (''PipesRetired'', [''retired'', ''failed'', ''closed'', ''dropped'', ''last''], []),
      (''CarrierCandidate'', [''carrier'', ''outcome'', ''joined''], []),
      (''CarrierChosen'', [''carrier''], [])]"

text \<open>A call \<open>cls(**fields)\<close> succeeds if every required field is given and no other than the class has.\<close>

definition takes :: "string list \<times> string list \<Rightarrow> string list \<Rightarrow> bool" where
  "takes cls keys \<longleftrightarrow>
     distinct keys \<and> list_all (\<lambda>f. f \<in> set keys) (fst cls) \<and>
     list_all (\<lambda>k. k \<in> set (fst cls) \<or> k \<in> set (snd cls)) keys"

definition takes_view :: "string \<Rightarrow> view \<Rightarrow> bool" where
  "takes_view c v = (case map_of dataclasses c of None \<Rightarrow> False | Some cls \<Rightarrow> takes cls (map fst v))"

section \<open>Events\<close>

text \<open>The state of a direction, by its \<open>Debug\<close> text.\<close>

datatype direction = OutboundIs string | InboundIs string

fun half :: "direction \<Rightarrow> string" where
  "half (OutboundIs s) = ''Outbound''"
| "half (InboundIs s) = ''Inbound''"

fun direction_state :: "direction \<Rightarrow> string" where
  "direction_state (OutboundIs s) = kind_of s"
| "direction_state (InboundIs s) = kind_of s"

definition dur :: "duration option \<Rightarrow> f64 option" where
  "dur d = map_option as_secs_f64 d"

datatype session_event =
    PipeState u64 direction "string option" "string option"
  | JoinAuthFailed bool u64
  | JoinSecurityUnavailable
  | PipePriorityChanged u64 u64 bool u64 string
  | PipeQualityChanged u64 "duration option" "u64 option"
  | TierSaturation u64 bool
  | CapacityBelow u64
  | CapacityRestored u64
  | GoAway u64 u64 u64
  | EvSuspended
  | EvResumed
  | PipesRetired u64 u64 u64 u64 "u64 list"
  | CarrierCandidate string string bool
  | CarrierChosen string
  | EventOther string

fun event_obj :: "session_event \<Rightarrow> string \<times> view" where
  "event_obj (PipeState p st failure carrier) =
     (''PipeState'', [(''pipe'', FU64 p), (''half'', FStr (half st)), (''state'', FStr (direction_state st)),
        (''failure'', FOptStr failure), (''carrier'', FOptStr carrier)])"
| "event_obj (JoinAuthFailed bound n) =
     (''JoinAuthFailed'', [(''carrier_bound'', FBool bound), (''count'', FU64 n)])"
| "event_obj JoinSecurityUnavailable = (''JoinSecurityUnavailable'', [])"
| "event_obj (PipePriorityChanged p sp sb w source) =
     (''PipePriorityChanged'', [(''pipe'', FU64 p), (''send_priority'', FU64 sp), (''standby'', FBool sb),
        (''weight'', FU64 w), (''source'', FStr source)])"
| "event_obj (PipeQualityChanged p rtt rate) =
     (''PipeQualityChanged'', [(''pipe'', FU64 p), (''smoothed_rtt'', FOptF64 (dur rtt)),
        (''delivery_rate'', FOptU64 rate)])"
| "event_obj (TierSaturation pr sat) = (''TierSaturation'', [(''priority'', FU64 pr), (''saturated'', FBool sat)])"
| "event_obj (CapacityBelow r) = (''CapacityBelow'', [(''rate'', FU64 r)])"
| "event_obj (CapacityRestored r) = (''CapacityRestored'', [(''rate'', FU64 r)])"
| "event_obj (GoAway b u c) = (''GoAway'', [(''max_bidi'', FU64 b), (''max_uni'', FU64 u), (''code'', FU64 c)])"
| "event_obj EvSuspended = (''Suspended'', [])"
| "event_obj EvResumed = (''Resumed'', [])"
| "event_obj (PipesRetired r f c d last_ids) =
     (''PipesRetired'', [(''retired'', FU64 r), (''failed'', FU64 f), (''closed'', FU64 c), (''dropped'', FU64 d),
        (''last'', FIds last_ids)])"
| "event_obj (CarrierCandidate k out joined) =
     (''CarrierCandidate'', [(''carrier'', FStr k), (''outcome'', FStr out), (''joined'', FBool joined)])"
| "event_obj (CarrierChosen k) = (''CarrierChosen'', [(''carrier'', FStr k)])"
| "event_obj (EventOther dbg) = (''Unknown'', [(''detail'', FStr dbg)])"

text \<open>
  \<open>_event\<close> on the Python side: the class of the kind with the fields as keywords, else \<open>UnknownEvent\<close>.
  The result is the kind of the object made, or a \<open>TypeError\<close> for fields the class does not take.
\<close>

definition py_event :: "string \<Rightarrow> view \<Rightarrow> string py_result" where
  "py_event k v =
     (case map_of EVENTS k of
        None \<Rightarrow> Inr ''Unknown''
      | Some cls \<Rightarrow> if takes cls (map fst v) then Inr k else Inl (type_err ''unexpected keyword argument''))"

section \<open>Statistics\<close>

text \<open>\<open>Session.stats\<close>: the counters, the times, and the tries of a carrier mode.\<close>

record session_stats =
  ss_counter :: "string \<Rightarrow> u64"
  ss_smoothed_rtt :: "duration option"
  ss_min_rtt :: "duration option"
  ss_latest_rtt :: "duration option"
  ss_mean_deviation :: "duration option"
  ss_suspended_time :: duration
  ss_carrier :: "string option"
  ss_tries :: "candidate_result list"

definition session_stats_dict :: "session_stats \<Rightarrow> view" where
  "session_stats_dict st =
     map (\<lambda>f. (f, FU64 (ss_counter st f)))
       [''bytes_sent'', ''bytes_received'', ''records_sent'', ''records_received'', ''bytes_written'',
        ''bytes_read'', ''datagram_bytes_sent'', ''datagram_bytes_received'', ''streams_opened_local'',
        ''streams_opened_remote'', ''streams_active'', ''stream_credit_waits'', ''datagrams_sent'',
        ''datagrams_received'', ''datagrams_sent_channel'', ''datagrams_received_channel'',
        ''datagrams_dropped_send'', ''datagrams_dropped_recv'', ''datagrams_dropped_limit'',
        ''no_effect_budget'', ''bytes_reinjected'', ''bytes_opportunistic'', ''penalties'', ''reinjections'',
        ''bytes_redundant'', ''bytes_duplicate_received'', ''send_buffered'', ''recv_buffered'', ''retained'',
        ''pipes_active'', ''pipes_added'', ''pipe_failures'', ''join_auth_failures'', ''join_replays'',
        ''join_refusals'', ''suspensions'', ''scheduler_answers'', ''scheduler_fallbacks'']
     @ [(''smoothed_rtt'', FOptF64 (dur (ss_smoothed_rtt st))), (''min_rtt'', FOptF64 (dur (ss_min_rtt st))),
        (''latest_rtt'', FOptF64 (dur (ss_latest_rtt st))), (''mean_deviation'', FOptF64 (dur (ss_mean_deviation st))),
        (''suspended_time'', FF64 (as_secs_f64 (ss_suspended_time st))), (''carrier'', FOptStr (ss_carrier st)),
        (''carrier_candidates'', FTries (ss_tries st))]"

text \<open>\<open>Session.shaping_stats\<close>.\<close>

definition shaping_stats :: "(string \<Rightarrow> u64) \<Rightarrow> duration \<Rightarrow> view" where
  "shaping_stats st pause_total =
     [(''padding_bytes'', FU64 (st ''padding_bytes'')), (''injected'', FU64 (st ''injected'')),
      (''inject_dropped'', FU64 (st ''inject_dropped'')), (''clamped'', FU64 (st ''clamped'')),
      (''pause_total'', FF64 (as_secs_f64 pause_total)), (''faults'', FU64 (st ''faults''))]"

text \<open>
  A point in time on Python's monotonic clock: the offset from now on both clocks. An instant is
  a number of nanoseconds.
\<close>

definition monotonic :: "(f64 \<Rightarrow> f64 \<Rightarrow> f64) \<Rightarrow> (f64 \<Rightarrow> f64 \<Rightarrow> f64) \<Rightarrow> nat \<Rightarrow> f64 py_result \<Rightarrow> nat \<Rightarrow> f64 py_result" where
  "monotonic fadd fsub now py_monotonic t =
     map_ok (\<lambda>py_now. if now \<le> t then fadd py_now (as_secs_f64 (t - now)) else fsub py_now (as_secs_f64 (now - t)))
       py_monotonic"

record pipe_stats =
  ps_value :: "string \<Rightarrow> field_val"
  ps_pipe :: u64
  ps_label :: "string option"
  ps_carrier :: "string option"
  ps_inbound :: "string option"
  ps_outbound :: "string option"
  ps_attached_for :: duration
  ps_failure :: "string option"
  ps_send_priority_source :: string
  ps_standby_source :: string
  ps_peer_request :: "(u64 \<times> bool) option"
  ps_probation_until :: "nat option"
  ps_rtt_source :: "string option"
  ps_time :: "string \<Rightarrow> duration option"
  ps_lanes :: "(u64 \<times> u64 \<times> u64 \<times> u64) list"

definition to_lowercase :: "string \<Rightarrow> string" where
  "to_lowercase s = map to_ascii_lowercase s"

definition PIPE_COUNTERS :: "string list" where
  "PIPE_COUNTERS =
     [''local'', ''fate_group'', ''suspect_count'', ''failure_count'', ''send_priority'', ''standby'',
      ''receive_priority'', ''receive_standby'', ''request_seq'', ''weight'', ''in_probation'',
      ''revalidating'', ''eligible'', ''writable'', ''saturated'', ''delivery_rate'', ''queued_bytes'',
      ''bytes_in_flight'', ''bytes_sent'', ''bytes_received'', ''bytes_acked'', ''records_sent'',
      ''records_received'', ''bytes_reinjected'', ''bytes_lost'', ''records_lost'',
      ''bytes_retransmitted'', ''loss_rate'', ''bytes_opportunistic'', ''bytes_redundant'',
      ''bytes_duplicate_received'', ''pings_sent'', ''pings_answered'', ''lanes_out'', ''lanes_in'',
      ''lanes_refused'']"

definition pipe_other :: "pipe_stats \<Rightarrow> f64 option \<Rightarrow> view" where
  "pipe_other s until =
     [(''pipe'', FU64 (ps_pipe s)), (''label'', FOptStr (ps_label s)), (''carrier'', FOptStr (ps_carrier s)),
      (''inbound'', FOptStr (map_option kind_of (ps_inbound s))),
      (''outbound'', FOptStr (map_option kind_of (ps_outbound s))),
      (''attached_for'', FF64 (as_secs_f64 (ps_attached_for s))), (''failure'', FOptStr (ps_failure s)),
      (''send_priority_source'', FStr (kind_of (ps_send_priority_source s))),
      (''standby_source'', FStr (kind_of (ps_standby_source s))), (''peer_request'', FRequest (ps_peer_request s)),
      (''probation_until'', FOptF64 until),
      (''rtt_source'', FOptStr (map_option (\<lambda>r. to_lowercase (kind_of r)) (ps_rtt_source s)))]
     @ map (\<lambda>f. (f, FOptF64 (dur (ps_time s f))))
       [''smoothed_rtt'', ''min_rtt'', ''rttvar'', ''one_way_delay'', ''queue_delay'', ''since_last_ack'',
        ''since_last_receive'', ''since_last_traffic'']
     @ [(''lanes'', FLanes (ps_lanes s))]"

definition pipe_stats_dict :: "(nat \<Rightarrow> f64 py_result) \<Rightarrow> pipe_stats \<Rightarrow> view py_result" where
  "pipe_stats_dict to_monotonic s =
     map_ok (\<lambda>until. map (\<lambda>f. (f, ps_value s f)) PIPE_COUNTERS @ pipe_other s until)
       (transpose_opt (map_option to_monotonic (ps_probation_until s)))"

text \<open>\<open>Listener.stats\<close>, with the admission's counters as a value of their own class.\<close>

definition admission_stats_dict :: "(string \<Rightarrow> u64) \<Rightarrow> view" where
  "admission_stats_dict a =
     map (\<lambda>f. (f, FU64 (a f)))
       [''accepted'', ''fallback'', ''stalled'', ''closed'', ''stall_overflow'', ''peek_timed_out'', ''handshake_failed'']"

definition listener_stats_dict :: "(string \<Rightarrow> u64) \<Rightarrow> (string \<Rightarrow> u64) \<Rightarrow> view" where
  "listener_stats_dict st a =
     map (\<lambda>f. (f, FU64 (st f))) [''sessions'', ''joins'', ''setup_failures'', ''rejected'', ''refused'', ''timed_out'']
     @ [(''admission'', FStats (admission_stats_dict a))]"

section \<open>Properties\<close>

lemmas view_keys = takes_view_def map_append list.map map_map comp_def fst_conv

lemma session_stats_taken: "takes_view ''SessionStats'' (session_stats_dict st)"
  unfolding session_stats_dict_def view_keys by code_simp

lemma listener_stats_taken:
  "takes_view ''ListenerStats'' (listener_stats_dict st a)" "takes_view ''AdmissionStats'' (admission_stats_dict a)"
  unfolding listener_stats_dict_def admission_stats_dict_def view_keys by code_simp+

lemma pipe_stats_taken: "pipe_stats_dict tm s = Inr v \<Longrightarrow> takes_view ''PipeStats'' v"
proof -
  assume "pipe_stats_dict tm s = Inr v"
  then obtain until where v: "v = map (\<lambda>f. (f, ps_value s f)) PIPE_COUNTERS @ pipe_other s until"
    by (auto simp: pipe_stats_dict_def map_ok_Inr_iff)
  show ?thesis unfolding v pipe_other_def view_keys by code_simp
qed

lemma stream_stats_taken: "takes (the (map_of dataclasses ''StreamStats'')) (map fst (stream_stats g pid))"
  unfolding stream_stats_def view_keys by code_simp

lemma options_dict_taken: "takes (the (map_of dataclasses ''PipeOptions'')) (map fst (options_dict py r))"
  unfolding options_dict_def Let_def view_keys by code_simp

lemma event_taken: "py_event (fst (event_obj e)) (snd (event_obj e)) = Inr (fst (event_obj e))"
  unfolding py_event_def by (cases e) (simp_all add: EVENTS_def takes_def)

text \<open>
  C34. What the bindings hand to Python is what the dataclasses of the Python package take: for every
  event of the session \<open>_event\<close> makes an object of the event's own kind, and the statistics of
  sessions, streams, pipes and listeners and the options of a pipe have all required fields and no
  other, so that no snapshot raises \<open>TypeError\<close>. The snapshot of a pipe fails only where the
  clock of Python does.
\<close>
theorem views_match_dataclasses:
  "py_event (fst (event_obj e)) (snd (event_obj e)) = Inr (fst (event_obj e))
   \<and> takes_view ''SessionStats'' (session_stats_dict st)
   \<and> takes_view ''ListenerStats'' (listener_stats_dict ls a) \<and> takes_view ''AdmissionStats'' (admission_stats_dict a)
   \<and> takes (the (map_of dataclasses ''StreamStats'')) (map fst (stream_stats g pid))
   \<and> takes (the (map_of dataclasses ''PipeOptions'')) (map fst (options_dict py r))
   \<and> (case pipe_stats_dict (monotonic fadd fsub now clk) s of Inr v \<Rightarrow> takes_view ''PipeStats'' v | Inl e \<Rightarrow> clk = Inl e)"
proof -
  have "case pipe_stats_dict (monotonic fadd fsub now clk) s of Inr v \<Rightarrow> takes_view ''PipeStats'' v | Inl e \<Rightarrow> clk = Inl e"
  proof (cases "pipe_stats_dict (monotonic fadd fsub now clk) s")
    case (Inl e)
    then show ?thesis
      by (auto simp: pipe_stats_dict_def monotonic_def map_ok_Inl_iff transpose_opt_Inl_iff)
  qed (simp add: pipe_stats_taken)
  then show ?thesis
    by (simp add: event_taken session_stats_taken listener_stats_taken stream_stats_taken options_dict_taken)
qed

end
