(* ===== verification/Sessions.thy ===== *)
theory Sessions
  imports Views Shaping
begin

text \<open>
  The operations of \<open>Session\<close> and \<open>Pipe\<close> of \<open>src/src/lib.rs\<close>: opening and accepting streams, datagrams,
  the end of a session, shaping, and the settings of pipes. The crate's session and pipe are
  parameters; a call of the crate returns its result and the new state.
\<close>

section \<open>Preambles and priorities\<close>

record 'pre preamble_api =
  pre_new :: 'pre
  pre_with_pipe_carrier :: "'pre \<Rightarrow> 'pre"
  pre_with_info :: "bytes \<Rightarrow> 'pre \<Rightarrow> 'pre"
  pre_with_tlv :: "u64 \<Rightarrow> bytes \<Rightarrow> 'pre \<Rightarrow> 'pre"

definition preamble ::
    "'pre preamble_api \<Rightarrow> bytes option \<Rightarrow> (u64 \<times> bytes) list option \<Rightarrow> bool \<Rightarrow> 'pre option" where
  "preamble api info tlvs carrier =
     (if info = None \<and> (tlvs = None \<or> tlvs = Some []) \<and> \<not> carrier then None
      else
        let p = pre_new api;
            p = (if carrier then pre_with_pipe_carrier api p else p);
            p = (case info of None \<Rightarrow> p | Some i \<Rightarrow> pre_with_info api i p)
        in Some (fold (\<lambda>(t, v). pre_with_tlv api t v) (unwrap_or [] tlvs) p))"

type_synonym 'p prios = "'p option \<times> 'p option"

definition prio_of :: "'p number_api \<Rightarrow> (u8 \<times> bool) option \<Rightarrow> 'p option py_result" where
  "prio_of num v = transpose_opt (map_option (\<lambda>(u, i). priority num u i) v)"

definition prios_new :: "'p number_api \<Rightarrow> (u8 \<times> bool) option \<Rightarrow> (u8 \<times> bool) option \<Rightarrow> 'p prios py_result" where
  "prios_new num own peer = and_then (prio_of num own) (\<lambda>a. map_ok (\<lambda>b. (a, b)) (prio_of num peer))"

text \<open>A setting that is made only if it was asked for.\<close>

definition set_opt :: "('e \<Rightarrow> py_err) \<Rightarrow> ('p \<Rightarrow> 'a \<Rightarrow> ('e + unit) \<times> 'a) \<Rightarrow> 'p option \<Rightarrow> 'a \<Rightarrow> unit py_result \<times> 'a" where
  "set_opt m f p x = (case p of None \<Rightarrow> (Inr (), x) | Some v \<Rightarrow> mapped m (f v) x)"

definition prios_apply ::
    "zmux_errors \<Rightarrow> ('s, 'p, 'ss) send_api \<Rightarrow> ('r, 'p, 'rs) recv_api \<Rightarrow> 'p prios \<Rightarrow> 's \<times> 'r \<Rightarrow> ('s \<times> 'r) py_result" where
  "prios_apply z sapi rapi pr pair =
     (case set_opt (stream_err z) (s_set_priority sapi) (fst pr) (fst pair) of
        (Inl e, s) \<Rightarrow> Inl e
      | (Inr u, s) \<Rightarrow>
          (case set_opt (stream_err z) (r_set_peer_priority rapi) (snd pr) (snd pair) of
             (Inl e, r) \<Rightarrow> Inl e
           | (Inr u', r) \<Rightarrow> Inr (s, r)))"

section \<open>The crate's session\<close>

record ('se, 's, 'r, 'pre, 'io) session_api =
  se_open_bi :: "'pre option \<Rightarrow> 'se \<Rightarrow> (open_error + 's \<times> 'r) \<times> 'se"
  se_try_open_bi :: "'pre option \<Rightarrow> 'se \<Rightarrow> (open_error + 's \<times> 'r) \<times> 'se"
  se_open_uni :: "'pre option \<Rightarrow> 'se \<Rightarrow> (open_error + 's) \<times> 'se"
  se_open_pipe_stream :: "'pre \<Rightarrow> 'se \<Rightarrow> (open_error + 'io) \<times> 'se"
  se_accept_bi :: "'se \<Rightarrow> (session_error + 's \<times> 'r) \<times> 'se"
  se_accept_uni :: "'se \<Rightarrow> (session_error + 'r) \<times> 'se"
  se_send_datagram :: "bytes \<Rightarrow> 'se \<Rightarrow> (datagram_error + unit) \<times> 'se"
  se_read_datagram :: "'se \<Rightarrow> (session_error + bytes) \<times> 'se"
  se_close :: "u64 \<Rightarrow> bytes \<Rightarrow> 'se \<Rightarrow> 'se"
  se_shutdown :: "u64 \<Rightarrow> bytes \<Rightarrow> 'se \<Rightarrow> (session_error + unit) \<times> 'se"
  se_ping :: "'se \<Rightarrow> (session_error + duration) \<times> 'se"
  se_next_event :: "'se \<Rightarrow> session_event option \<times> 'se"

section \<open>Streams\<close>

definition wrap_pair :: "'s \<times> 'r \<Rightarrow> 's Part \<times> 'r Part" where
  "wrap_pair p = (part_wrap (fst p), part_wrap (snd p))"

definition opened ::
    "zmux_errors \<Rightarrow> ('s, 'p, 'ss) send_api \<Rightarrow> ('r, 'p, 'rs) recv_api \<Rightarrow> 'p prios
       \<Rightarrow> (open_error + 's \<times> 'r) \<times> 'se \<Rightarrow> ('s Part \<times> 'r Part) py_result \<times> 'se" where
  "opened z sapi rapi pr r =
     (and_then (map_err (open_err z) (fst r)) (\<lambda>pair. map_ok wrap_pair (prios_apply z sapi rapi pr pair)), snd r)"

definition open_bi ::
    "zmux_errors \<Rightarrow> 'p number_api \<Rightarrow> ('s, 'p, 'ss) send_api \<Rightarrow> ('r, 'p, 'rs) recv_api \<Rightarrow> 'pre preamble_api
       \<Rightarrow> ('se, 's, 'r, 'pre, 'io) session_api \<Rightarrow> bytes option \<Rightarrow> (u64 \<times> bytes) list option \<Rightarrow> bool
       \<Rightarrow> (u8 \<times> bool) option \<Rightarrow> (u8 \<times> bool) option \<Rightarrow> 'se \<Rightarrow> ('s Part \<times> 'r Part) py_result \<times> 'se" where
  "open_bi z num sapi rapi papi api info tlvs pc own peer se =
     (let p = preamble papi info tlvs pc
      in case prios_new num own peer of
           Inl e \<Rightarrow> (Inl e, se)
         | Inr pr \<Rightarrow> opened z sapi rapi pr (se_open_bi api p se))"

definition try_open_bi ::
    "zmux_errors \<Rightarrow> 'p number_api \<Rightarrow> ('s, 'p, 'ss) send_api \<Rightarrow> ('r, 'p, 'rs) recv_api \<Rightarrow> 'pre preamble_api
       \<Rightarrow> ('se, 's, 'r, 'pre, 'io) session_api \<Rightarrow> bytes option \<Rightarrow> (u64 \<times> bytes) list option \<Rightarrow> bool
       \<Rightarrow> (u8 \<times> bool) option \<Rightarrow> (u8 \<times> bool) option \<Rightarrow> 'se \<Rightarrow> ('s Part \<times> 'r Part) py_result \<times> 'se" where
  "try_open_bi z num sapi rapi papi api info tlvs pc own peer se =
     (case prios_new num own peer of
        Inl e \<Rightarrow> (Inl e, se)
      | Inr pr \<Rightarrow> opened z sapi rapi pr (se_try_open_bi api (preamble papi info tlvs pc) se))"

definition open_pipe_stream ::
    "zmux_errors \<Rightarrow> 'pre preamble_api \<Rightarrow> ('se, 's, 'r, 'pre, 'io) session_api \<Rightarrow> (u64 \<times> bytes) list option \<Rightarrow> 'se
       \<Rightarrow> 'io cell py_result \<times> 'se" where
  "open_pipe_stream z papi api tlvs se =
     (case se_open_pipe_stream api (unwrap_or (pre_new papi) (preamble papi None tlvs False)) se of
        (r, se') \<Rightarrow> (map_err (open_err z) (map_ok pipe_wrap r), se'))"

definition open_uni ::
    "zmux_errors \<Rightarrow> 'p number_api \<Rightarrow> ('s, 'p, 'ss) send_api \<Rightarrow> 'pre preamble_api \<Rightarrow> ('se, 's, 'r, 'pre, 'io) session_api
       \<Rightarrow> bytes option \<Rightarrow> (u64 \<times> bytes) list option \<Rightarrow> (u8 \<times> bool) option \<Rightarrow> 'se \<Rightarrow> 's Part py_result \<times> 'se" where
  "open_uni z num sapi papi api info tlvs own se =
     (let p = preamble papi info tlvs False
      in case prio_of num own of
           Inl e \<Rightarrow> (Inl e, se)
         | Inr prio \<Rightarrow>
             (case se_open_uni api p se of
                (Inl e, se') \<Rightarrow> (Inl (open_err z e), se')
              | (Inr s, se') \<Rightarrow>
                  (case set_opt (stream_err z) (s_set_priority sapi) prio s of
                     (r, s') \<Rightarrow> (map_ok (\<lambda>u. part_wrap s') r, se'))))"

definition accept_bi ::
    "zmux_errors \<Rightarrow> ('se, 's, 'r, 'pre, 'io) session_api \<Rightarrow> 'se \<Rightarrow> ('s Part \<times> 'r Part) py_result \<times> 'se" where
  "accept_bi z api se =
     (case se_accept_bi api se of (r, se') \<Rightarrow> (map_ok wrap_pair (map_err (session_err z) r), se'))"

definition accept_uni :: "zmux_errors \<Rightarrow> ('se, 's, 'r, 'pre, 'io) session_api \<Rightarrow> 'se \<Rightarrow> 'r Part py_result \<times> 'se" where
  "accept_uni z api se =
     (case se_accept_uni api se of (r, se') \<Rightarrow> (map_ok part_wrap (map_err (session_err z) r), se'))"

text \<open>Iterating over a session: its streams until it ends, whatever ended it.\<close>

definition session_anext :: "('se, 's, 'r, 'pre, 'io) session_api \<Rightarrow> 'se \<Rightarrow> ('s Part \<times> 'r Part) py_result \<times> 'se" where
  "session_anext api se =
     (case se_accept_bi api se of (r, se') \<Rightarrow> (map_ok wrap_pair (map_err (\<lambda>e. stop_async_iteration) r), se'))"

section \<open>Datagrams, events and the end\<close>

definition session_send_datagram ::
    "zmux_errors \<Rightarrow> ('se, 's, 'r, 'pre, 'io) session_api \<Rightarrow> bytes \<Rightarrow> 'se \<Rightarrow> unit py_result \<times> 'se" where
  "session_send_datagram z api b = mapped (datagram_err z) (se_send_datagram api b)"

definition session_read_datagram ::
    "zmux_errors \<Rightarrow> ('se, 's, 'r, 'pre, 'io) session_api \<Rightarrow> 'se \<Rightarrow> bytes py_result \<times> 'se" where
  "session_read_datagram z api = mapped (session_err z) (se_read_datagram api)"

definition datagrams_anext :: "('se, 's, 'r, 'pre, 'io) session_api \<Rightarrow> 'se \<Rightarrow> bytes py_result \<times> 'se" where
  "datagrams_anext api = mapped (\<lambda>e. stop_async_iteration) (se_read_datagram api)"

definition next_event :: "('se, 's, 'r, 'pre, 'io) session_api \<Rightarrow> 'se \<Rightarrow> string option py_result \<times> 'se" where
  "next_event api se =
     (case se_next_event api se of
        (Some e, se') \<Rightarrow> (map_ok Some (py_event (fst (event_obj e)) (snd (event_obj e))), se')
      | (None, se') \<Rightarrow> (Inr None, se'))"

definition events_anext :: "('se, 's, 'r, 'pre, 'io) session_api \<Rightarrow> 'se \<Rightarrow> string py_result \<times> 'se" where
  "events_anext api se =
     (case se_next_event api se of
        (Some e, se') \<Rightarrow> (py_event (fst (event_obj e)) (snd (event_obj e)), se')
      | (None, se') \<Rightarrow> (Inl stop_async_iteration, se'))"

definition session_close ::
    "'p number_api \<Rightarrow> ('se, 's, 'r, 'pre, 'io) session_api \<Rightarrow> u64 \<Rightarrow> bytes \<Rightarrow> 'se \<Rightarrow> unit py_result \<times> 'se" where
  "session_close num api code reason se =
     (case varint num code of Inl e \<Rightarrow> (Inl e, se) | Inr c \<Rightarrow> (Inr (), se_close api c reason se))"

definition session_shutdown ::
    "zmux_errors \<Rightarrow> 'p number_api \<Rightarrow> ('se, 's, 'r, 'pre, 'io) session_api \<Rightarrow> u64 \<Rightarrow> bytes \<Rightarrow> 'se \<Rightarrow> unit py_result \<times> 'se" where
  "session_shutdown z num api code reason se =
     (case varint num code of
        Inl e \<Rightarrow> (Inl e, se)
      | Inr c \<Rightarrow> mapped (session_err z) (se_shutdown api c reason) se)"

definition session_aexit :: "('se, 's, 'r, 'pre, 'io) session_api \<Rightarrow> 'se \<Rightarrow> bool py_result \<times> 'se" where
  "session_aexit api se = (Inr False, se_close api 0 [] se)"

definition ping :: "zmux_errors \<Rightarrow> ('se, 's, 'r, 'pre, 'io) session_api \<Rightarrow> 'se \<Rightarrow> f64 py_result \<times> 'se" where
  "ping z api se =
     (case se_ping api se of (r, se') \<Rightarrow> (map_err (session_err z) (map_ok as_secs_f64 r), se'))"

text \<open>The getters that show a state by its name.\<close>

definition role :: "zmux_errors \<Rightarrow> string \<Rightarrow> py_tag" where
  "role z dbg = typed (members z) ''Role'' (to_lowercase dbg)"

definition session_state :: "zmux_errors \<Rightarrow> string \<Rightarrow> py_tag" where
  "session_state z dbg = typed (members z) ''SessionState'' (kind_of dbg)"

definition early_data :: "zmux_errors \<Rightarrow> string \<Rightarrow> py_tag" where
  "early_data z dbg = typed (members z) ''EarlyDataState'' (kind_of dbg)"

section \<open>Shaping\<close>

datatype ('k, 'f) shaper_choice = OneMachine 'f | PerKind "('k, 'f) ByKind"

text \<open>The new shaper of the session, or the error that leaves the old one.\<close>

definition set_shaper ::
    "('o, 'm) py_scheme \<Rightarrow> ('k, 'f) shaping_api \<Rightarrow> (string \<Rightarrow> exec_options \<Rightarrow> string + 'f) \<Rightarrow> exec_options
       \<Rightarrow> string option \<Rightarrow> string option \<Rightarrow> 'o option \<Rightarrow> 'o option \<Rightarrow> bytes option
       \<Rightarrow> ('k, 'f) shaper_choice option \<Rightarrow> unit py_result \<times> ('k, 'f) shaper_choice option" where
  "set_shaper py api from_sequence dflt json sequence kinds_obj lims seed cur =
     (case options py dflt lims seed of
        Inl e \<Rightarrow> (Inl e, cur)
      | Inr r \<Rightarrow>
          (case (json, sequence, kinds_obj) of
             (Some j, None, None) \<Rightarrow>
               (case map_err value_err (from_json api j r) of Inl e \<Rightarrow> (Inl e, cur) | Inr f \<Rightarrow> (Inr (), Some (OneMachine f)))
           | (None, Some q, None) \<Rightarrow>
               (case map_err value_err (from_sequence q r) of Inl e \<Rightarrow> (Inl e, cur) | Inr f \<Rightarrow> (Inr (), Some (OneMachine f)))
           | (None, None, Some m) \<Rightarrow>
               (case by_kind py api m r of Inl e \<Rightarrow> (Inl e, cur) | Inr bk \<Rightarrow> (Inr (), Some (PerKind bk)))
           | (None, None, None) \<Rightarrow> (Inr (), None)
           | _ \<Rightarrow> (Inl (value_err ''at most one of json, sequence and by_kind''), cur)))"

section \<open>Bands, floors and pipes\<close>

record quality =
  q_rtt :: duration
  q_rate_ratio :: f64
  q_min_interval :: duration

definition quality_band :: "('o, 'm) py_scheme \<Rightarrow> 'o \<Rightarrow> quality py_result" where
  "quality_band py b =
     and_then (and_then (attr py (extract_f64 py) b ''rtt'') (seconds ''rtt'')) (\<lambda>r.
     and_then (attr py (extract_f64 py) b ''rate_ratio'') (\<lambda>q.
     and_then (and_then (attr py (extract_f64 py) b ''min_interval'') (seconds ''min_interval'')) (\<lambda>m.
       Inr \<lparr>q_rtt = r, q_rate_ratio = q, q_min_interval = m\<rparr>)))"

definition capacity_floor :: "('o, 'm) py_scheme \<Rightarrow> 'o \<Rightarrow> (u64 \<times> f64) py_result" where
  "capacity_floor py f =
     and_then (attr py (extract_u64 py) f ''rate'') (\<lambda>r. map_ok (\<lambda>q. (r, q)) (attr py (extract_f64 py) f ''rate_ratio''))"

text \<open>\<open>revalidate_pipes\<close>, and the statistics of every pipe.\<close>

definition revalidate_pipes :: "zmux_errors \<Rightarrow> ('se \<Rightarrow> (pipe_error + unit) \<times> 'se) \<Rightarrow> 'se \<Rightarrow> unit py_result \<times> 'se" where
  "revalidate_pipes z f se = mapped (pipe_err z) f se"

definition session_pipe_stats :: "('st \<Rightarrow> 'd py_result) \<Rightarrow> 'st list \<Rightarrow> 'd list py_result" where
  "session_pipe_stats stats_dict sts = collect_results (map stats_dict sts)"

text \<open>\<open>set_quality_band\<close> of sessions and pipes, and \<open>set_capacity_floor\<close>.\<close>

definition set_quality_band ::
    "zmux_errors \<Rightarrow> ('o, 'm) py_scheme \<Rightarrow> (quality option \<Rightarrow> 'a \<Rightarrow> (pipe_error + unit) \<times> 'a) \<Rightarrow> 'o option \<Rightarrow> 'a
       \<Rightarrow> unit py_result \<times> 'a" where
  "set_quality_band z py f band x =
     (case transpose_opt (map_option (quality_band py) band) of
        Inl e \<Rightarrow> (Inl e, x)
      | Inr b \<Rightarrow> mapped (pipe_err z) (f b) x)"

definition set_capacity_floor ::
    "zmux_errors \<Rightarrow> ('o, 'm) py_scheme \<Rightarrow> ((u64 \<times> f64) option \<Rightarrow> 'a \<Rightarrow> (pipe_error + unit) \<times> 'a) \<Rightarrow> 'o option \<Rightarrow> 'a
       \<Rightarrow> unit py_result \<times> 'a" where
  "set_capacity_floor z py f cap x =
     (case transpose_opt (map_option (capacity_floor py) cap) of
        Inl e \<Rightarrow> (Inl e, x)
      | Inr b \<Rightarrow> mapped (pipe_err z) (f b) x)"

record 'pi live_pipe_api =
  p_update :: "PipeUpdate \<Rightarrow> 'pi \<Rightarrow> (pipe_error + unit) \<times> 'pi"
  p_options :: "'pi \<Rightarrow> pipe_opts option"
  p_joined :: "'pi \<Rightarrow> (pipe_error + unit) \<times> 'pi"
  p_closed :: "'pi \<Rightarrow> (pipe_error + unit) \<times> 'pi"
  p_close :: "'pi \<Rightarrow> (pipe_error + unit) \<times> 'pi"
  p_abort :: "'pi \<Rightarrow> (pipe_error + unit) \<times> 'pi"
  p_stats :: "'pi \<Rightarrow> pipe_stats option"

definition pipe_joined :: "zmux_errors \<Rightarrow> 'pi live_pipe_api \<Rightarrow> 'pi \<Rightarrow> unit py_result \<times> 'pi" where
  "pipe_joined z api = mapped (pipe_err z) (p_joined api)"

definition pipe_closed :: "zmux_errors \<Rightarrow> 'pi live_pipe_api \<Rightarrow> 'pi \<Rightarrow> unit py_result \<times> 'pi" where
  "pipe_closed z api = mapped (pipe_err z) (p_closed api)"

definition pipe_update_call ::
    "zmux_errors \<Rightarrow> PipeUpdate py_result \<Rightarrow> 'pi live_pipe_api \<Rightarrow> 'pi \<Rightarrow> unit py_result \<times> 'pi" where
  "pipe_update_call z u api p = (case u of Inl e \<Rightarrow> (Inl e, p) | Inr x \<Rightarrow> mapped (pipe_err z) (p_update api x) p)"

definition pipe_options_get :: "('o, 'm) py_scheme \<Rightarrow> 'pi live_pipe_api \<Rightarrow> 'pi \<Rightarrow> 'o option py_result" where
  "pipe_options_get py api p = transpose_opt (map_option (options_obj py) (p_options api p))"

definition pipe_state :: "zmux_errors \<Rightarrow> 'pi live_pipe_api \<Rightarrow> 'pi \<Rightarrow> py_tag option" where
  "pipe_state z api p =
     Option.bind (p_stats api p) (\<lambda>s.
       case (ps_outbound s, ps_inbound s) of
         (Some out, _) \<Rightarrow> Some (typed (members z) ''OutboundState'' (kind_of out))
       | (None, Some inb) \<Rightarrow> Some (typed (members z) ''InboundState'' (kind_of inb))
       | (None, None) \<Rightarrow> None)"

definition pipe_aexit :: "'pi live_pipe_api \<Rightarrow> bool \<Rightarrow> 'pi \<Rightarrow> bool py_result \<times> 'pi" where
  "pipe_aexit api ok p = (Inr False, snd (if ok then p_close api p else p_abort api p))"

definition pipe_close :: "zmux_errors \<Rightarrow> 'pi live_pipe_api \<Rightarrow> 'pi \<Rightarrow> unit py_result \<times> 'pi" where
  "pipe_close z api = mapped (pipe_err z) (p_close api)"

definition pipe_abort :: "zmux_errors \<Rightarrow> 'pi live_pipe_api \<Rightarrow> 'pi \<Rightarrow> unit py_result \<times> 'pi" where
  "pipe_abort z api = mapped (pipe_err z) (p_abort api)"

definition pipe_stats_get :: "(nat \<Rightarrow> f64 py_result) \<Rightarrow> 'pi live_pipe_api \<Rightarrow> 'pi \<Rightarrow> view option py_result" where
  "pipe_stats_get tm api p = transpose_opt (map_option (pipe_stats_dict tm) (p_stats api p))"

section \<open>Properties\<close>

lemma set_opt_set:
  "set_opt m f p x = (Inr (), y) \<Longrightarrow> (case p of None \<Rightarrow> y = x | Some v \<Rightarrow> f v x = (Inr (), y))"
  by (auto simp: set_opt_def mapped_def map_err_Inr_iff split: option.splits prod.splits)

lemma prios_apply_ok:
  assumes "prios_apply z sapi rapi (a, b) (s, r) = Inr (s', r')"
  shows "(case a of None \<Rightarrow> s' = s | Some p \<Rightarrow> s_set_priority sapi p s = (Inr (), s'))
       \<and> (case b of None \<Rightarrow> r' = r | Some p \<Rightarrow> r_set_peer_priority rapi p r = (Inr (), r'))"
  using assms set_opt_set [of "stream_err z" "s_set_priority sapi" a s s']
    set_opt_set [of "stream_err z" "r_set_peer_priority rapi" b r r']
  by (auto simp: prios_apply_def split: prod.splits sum.splits)


text \<open>
  Setting a shaper is all or nothing: a call that raises leaves the session's shaper in place,
  and a call with none of the definitions removes it. More than one definition is an error.
\<close>
theorem set_shaper_atomic:
  "case set_shaper py api from_seq dflt json sequence kinds_obj lims seed cur of
     (Inl e, cur') \<Rightarrow> cur' = cur
   | (Inr u, cur') \<Rightarrow>
       length (filter id [json \<noteq> None, sequence \<noteq> None, kinds_obj \<noteq> None]) \<le> 1
       \<and> (cur' = None \<longleftrightarrow> json = None \<and> sequence = None \<and> kinds_obj = None)"
  by (cases json; cases sequence; cases kinds_obj)
    (auto simp: set_shaper_def split: sum.splits)

text \<open>A preamble is sent exactly when the caller gave something to put into it.\<close>

lemma preamble_none_iff:
  "preamble api info tlvs pc = None \<longleftrightarrow> info = None \<and> unwrap_or [] tlvs = [] \<and> \<not> pc"
  by (cases tlvs) (auto simp: preamble_def Let_def)

end
