(* ===== verification/Listeners.thy ===== *)
theory Listeners
  imports Machines Sessions Admission
begin

text \<open>
  \<open>Listener\<close> of \<open>src/src/lib.rs\<close>: its configuration, the carriers handed to it, and the life of the
  tasks that serve its addresses. The crate's listener and its servers are parameters.
\<close>

section \<open>Making a listener\<close>

record ('o, 'net) listener_args =
  la_max_pending :: "nat option"
  la_max_pending_per_source :: "nat option"
  la_max_pending_per_session :: "nat option"
  la_first_record_timeout :: "f64 option"
  la_handshake_timeout :: "f64 option"
  la_max_record_size :: "u64 option"
  la_accept_sessions :: "bool option"
  la_max_suspended :: "nat option"
  la_memory_budget :: "'o option"
  la_instance_id :: "bytes option"
  la_on_memory_pressure :: "'o option"
  la_trusted_proxies :: "string list option"
  la_forwarded_header :: "string option"
  la_proxy_protocol :: bool
  la_inbound_transform :: "'o option"
  la_answer_unknown_joins :: bool

record ('o, 'net, 'a, 'l) ListenerConfig =
  lc_proxies :: "'net list"
  lc_forwarded_header :: "string option"
  lc_proxy_protocol :: bool
  lc_max_pending :: nat
  lc_max_pending_per_source :: nat
  lc_max_pending_per_session :: nat
  lc_max_record_size :: u64
  lc_accept_sessions :: bool
  lc_max_suspended :: nat
  lc_instance_id :: bytes
  lc_memory_budget :: budget
  lc_first_record_timeout :: duration
  lc_handshake_timeout :: duration
  lc_on_memory_pressure :: "'o option"
  lc_admission :: "'a option"
  lc_inbound_transform :: "('o \<times> 'l) option"
  lc_answer_unknown_joins :: bool

text \<open>The fields that are set as given, if they are given.\<close>

definition set_given :: "('o, 'net) listener_args \<Rightarrow> ('o, 'net, 'a, 'l) ListenerConfig \<Rightarrow> ('o, 'net, 'a, 'l) ListenerConfig" where
  "set_given a l =
     l\<lparr>lc_max_pending := unwrap_or (lc_max_pending l) (la_max_pending a),
       lc_max_pending_per_source := unwrap_or (lc_max_pending_per_source l) (la_max_pending_per_source a),
       lc_max_pending_per_session := unwrap_or (lc_max_pending_per_session l) (la_max_pending_per_session a),
       lc_max_record_size := unwrap_or (lc_max_record_size l) (la_max_record_size a),
       lc_accept_sessions := unwrap_or (lc_accept_sessions l) (la_accept_sessions a),
       lc_max_suspended := unwrap_or (lc_max_suspended l) (la_max_suspended a),
       lc_instance_id := unwrap_or (lc_instance_id l) (la_instance_id a)\<rparr>"

definition given_or :: "('x \<Rightarrow> 'y py_result) \<Rightarrow> 'x option \<Rightarrow> 'y \<Rightarrow> 'y py_result" where
  "given_or f x d = (case x of None \<Rightarrow> Inr d | Some v \<Rightarrow> f v)"

definition id_too_long :: "nat \<Rightarrow> py_err" where
  "id_too_long n = value_err (''instance_id is longer than '' @ show_nat n @ '' bytes'')"

text \<open>The part before the admission is asked for its loop.\<close>

definition listener_fields ::
    "('o, 'm) py_scheme \<Rightarrow> (string \<Rightarrow> string + 'net) \<Rightarrow> nat \<Rightarrow> ('o, 'net, 'a, 'l) ListenerConfig
       \<Rightarrow> ('o, 'net) listener_args \<Rightarrow> ('o, 'net, 'a, 'l) ListenerConfig py_result" where
  "listener_fields py parse_net max_id_len dflt a =
     and_then (collect_results (map (\<lambda>n. map_err value_err (parse_net n)) (unwrap_or [] (la_trusted_proxies a)))) (\<lambda>nets.
     let l = set_given a (dflt\<lparr>lc_proxies := nets, lc_forwarded_header := la_forwarded_header a,
                               lc_proxy_protocol := la_proxy_protocol a\<rparr>) in
     and_then (given_or (field_budget py ''memory_budget'') (la_memory_budget a) (lc_memory_budget l)) (\<lambda>b.
     and_then (given_or (seconds ''first_record_timeout'') (la_first_record_timeout a) (lc_first_record_timeout l)) (\<lambda>fr.
     and_then (given_or (seconds ''handshake_timeout'') (la_handshake_timeout a) (lc_handshake_timeout l)) (\<lambda>hs.
       if max_id_len < length (lc_instance_id l) then Inl (id_too_long max_id_len)
       else Inr (l\<lparr>lc_memory_budget := b, lc_first_record_timeout := fr, lc_handshake_timeout := hs,
                    lc_on_memory_pressure := la_on_memory_pressure a\<rparr>)))))"

definition no_transform_loop :: py_err where
  "no_transform_loop =
     new_err PyRuntimeError ''inbound_transform needs the Listener made inside a running event loop''"

text \<open>The whole constructor; the admission may keep the running loop even if the call then fails.\<close>

definition listener_new ::
    "('o, 'm) py_scheme \<Rightarrow> (string \<Rightarrow> string + 'net) \<Rightarrow> nat \<Rightarrow> ('o, 'net, 'a, 'l) ListenerConfig \<Rightarrow> 'l py_result
       \<Rightarrow> 'cfg py_result \<Rightarrow> ('o, 'net) listener_args \<Rightarrow> ('a, 'l) Admission option
       \<Rightarrow> ('cfg \<times> ('o, 'net, 'a, 'l) ListenerConfig) py_result \<times> ('a, 'l) Admission option" where
  "listener_new py parse_net max_id_len dflt current config a adm =
     (case listener_fields py parse_net max_id_len dflt a of
        Inl e \<Rightarrow> (Inl e, adm)
      | Inr l \<Rightarrow>
          let taken_adm = map_option (for_listener current) adm;
              l' = l\<lparr>lc_admission := map_option fst taken_adm\<rparr>
          in (and_then (case la_inbound_transform a of
                  None \<Rightarrow> Inr (lc_inbound_transform l')
                | Some f \<Rightarrow> map_ok (\<lambda>loc. Some (f, loc)) (map_err (\<lambda>e. no_transform_loop) current)) (\<lambda>tr.
              map_ok (\<lambda>c. (c, l'\<lparr>lc_inbound_transform := tr, lc_answer_unknown_joins := la_answer_unknown_joins a\<rparr>))
                config),
              map_option snd taken_adm))"

section \<open>Carriers and sessions\<close>

text \<open>A carrier handed over by the application: its addresses are parsed before it is taken.\<close>

definition parse_addr :: "(string \<Rightarrow> string + 'ip) \<Rightarrow> (string \<times> u16) option \<Rightarrow> ('ip \<times> u16) option py_result" where
  "parse_addr parse_ip a =
     transpose_opt (map_option (\<lambda>(h, p). map_ok (\<lambda>ip. (ip, p)) (map_err value_err (parse_ip h))) a)"

definition handle_pipe ::
    "(string \<Rightarrow> string + 'ip) \<Rightarrow> 'ip \<Rightarrow> (string \<times> u16) option \<Rightarrow> (string \<times> u16) option \<Rightarrow> 'io cell
       \<Rightarrow> ('io \<times> ('ip \<times> u16) \<times> ('ip \<times> u16) option) py_result \<times> 'io cell" where
  "handle_pipe parse_ip localhost peer source c =
     (case parse_addr parse_ip peer of
        Inl e \<Rightarrow> (Inl e, c)
      | Inr p \<Rightarrow>
          (case parse_addr parse_ip source of
             Inl e \<Rightarrow> (Inl e, c)
           | Inr s \<Rightarrow> (case pipe_take c of
                (r, c') \<Rightarrow> (map_ok (\<lambda>io. (io, unwrap_or (localhost, 0) p, s)) r, c'))))"

text \<open>The callback of memory pressure: an exception of the callable is reported as unraisable.\<close>

definition memory_pressure_call :: "('o \<Rightarrow> u64 \<times> u64 \<times> bool \<Rightarrow> 'r py_result) \<Rightarrow> 'o \<Rightarrow> u64 \<times> u64 \<times> bool \<Rightarrow> (py_err \<times> 'o) list" where
  "memory_pressure_call call f m = (case call f m of Inl e \<Rightarrow> [(e, f)] | Inr _ \<Rightarrow> [])"

definition listener_accept :: "zmux_errors \<Rightarrow> 'se option \<Rightarrow> 'se py_result" where
  "listener_accept z r = ok_or (listener_closed z) r"

definition listener_anext :: "'se option \<Rightarrow> 'se py_result" where
  "listener_anext r = ok_or stop_async_iteration r"

text \<open>\<open>serve_quic\<close> excludes early data under an admission.\<close>

definition serve_quic_check :: "bool \<Rightarrow> ('o, 'net, 'a, 'l) ListenerConfig \<Rightarrow> unit py_result" where
  "serve_quic_check zero_rtt l =
     (if zero_rtt \<and> lc_admission l \<noteq> None then Inl (value_err ''zero_rtt and admission are mutually exclusive'')
      else Inr ())"

section \<open>Serving\<close>

text \<open>
  The tasks of a listener: those on its list, those that run, and the calls of \<open>serve\<close> that are still
  binding their address. \<open>shutdown\<close> is under way between its two steps.
\<close>

record listener =
  open_inner :: bool
  tasks :: "nat list"
  running :: "nat list"
  binding :: nat
  next_task :: nat
  shutting :: bool
  collected :: bool

definition listener_init :: listener where
  "listener_init = \<lparr>open_inner = True, tasks = [], running = [], binding = 0, next_task = 0, shutting = False,
     collected = False\<rparr>"

datatype listener_act =
  Serve | Bound | BindFailed | ServeCancelled | TaskEnds nat | Close | Shutdown | ShutdownDone | ShutdownCancelled
  | Collect

text \<open>\<open>serve\<close>: the call, and what its future does once the address is bound.\<close>

definition serve_call :: "listener \<Rightarrow> listener option" where
  "serve_call s = (if collected s then None else Some (s\<lparr>binding := Suc (binding s)\<rparr>))"

definition serve_bound :: "listener \<Rightarrow> listener option" where
  "serve_bound s =
     (if binding s = 0 then None
      else Some (s\<lparr>binding := binding s - 1, next_task := Suc (next_task s), tasks := tasks s @ [next_task s],
                   running := next_task s # running s\<rparr>))"

definition serve_gone :: "listener \<Rightarrow> listener option" where
  "serve_gone s = (if binding s = 0 then None else Some (s\<lparr>binding := binding s - 1\<rparr>))"

text \<open>The drain of the list: every task on it is aborted.\<close>

definition abort_all :: "listener \<Rightarrow> listener" where
  "abort_all s = s\<lparr>tasks := [], running := filter (\<lambda>t. t \<notin> set (tasks s)) (running s)\<rparr>"

definition listener_close :: "listener \<Rightarrow> listener" where
  "listener_close s = abort_all (s\<lparr>open_inner := False\<rparr>)"

definition listener_aexit :: "listener \<Rightarrow> bool py_result \<times> listener" where
  "listener_aexit s = (Inr False, listener_close s)"

definition listener_shutdown_done :: "listener \<Rightarrow> listener option" where
  "listener_shutdown_done s =
     (if shutting s then Some (abort_all (s\<lparr>open_inner := False, shutting := False\<rparr>)) else None)"

definition listener_drop :: "listener \<Rightarrow> listener option" where
  "listener_drop s = (if collected s then None else Some ((listener_close s)\<lparr>collected := True\<rparr>))"

fun listener_step :: "listener \<Rightarrow> listener_act \<Rightarrow> listener option" where
  "listener_step s Serve = serve_call s"
| "listener_step s Bound = serve_bound s"
| "listener_step s BindFailed = serve_gone s"
| "listener_step s ServeCancelled = serve_gone s"
| "listener_step s (TaskEnds t) =
     (if t \<in> set (running s) then Some (s\<lparr>running := filter (\<lambda>u. u \<noteq> t) (running s)\<rparr>) else None)"
| "listener_step s Close = (if collected s then None else Some (listener_close s))"
| "listener_step s Shutdown = (if collected s then None else Some (s\<lparr>shutting := True\<rparr>))"
| "listener_step s ShutdownDone = listener_shutdown_done s"
| "listener_step s ShutdownCancelled = (if shutting s then Some (s\<lparr>open_inner := False, shutting := False\<rparr>) else None)"
| "listener_step s Collect = listener_drop s"

section \<open>Properties\<close>

lemmas listener_defs = serve_call_def serve_bound_def serve_gone_def abort_all_def listener_close_def
  listener_shutdown_done_def listener_drop_def

text \<open>Every task that runs is on the list, so that whoever drains the list reaches it.\<close>

definition listed :: "listener \<Rightarrow> bool" where
  "listed s \<longleftrightarrow> set (running s) \<subseteq> set (tasks s)"

lemma listed_step: "listed s \<Longrightarrow> listener_step s a = Some s' \<Longrightarrow> listed s'"
  by (cases a) (auto simp: listed_def listener_defs split: if_splits)

interpretation listener: step_invariant listener_step listed listener_init
  by unfold_locales (use listed_step in \<open>auto simp: listed_def listener_init_def\<close>)

lemma quiet_step:
  assumes "running s = []" "binding s = 0" "listener_step s a = Some s'" "a \<noteq> Serve"
  shows "running s' = [] \<and> binding s' = 0"
  using assms by (cases a) (auto simp: listener_defs split: if_splits)

lemma quiet_run:
  "running s = [] \<Longrightarrow> binding s = 0 \<Longrightarrow> run_steps listener_step s as = Some s' \<Longrightarrow> Serve \<notin> set as
   \<Longrightarrow> running s' = []"
proof (induction as arbitrary: s)
  case (Cons a as)
  then obtain s1 where s1: "listener_step s a = Some s1" "run_steps listener_step s1 as = Some s'"
    by (auto split: option.splits)
  from Cons.prems(4) have "a \<noteq> Serve" "Serve \<notin> set as" by auto
  with quiet_step [OF Cons.prems(1,2) s1(1)] Cons.IH [OF _ _ s1(2)] show ?case by blast
qed simp



text \<open>A task that was started after the list was drained and the listener collected.\<close>

definition orphan :: "nat \<Rightarrow> listener \<Rightarrow> bool" where
  "orphan t s \<longleftrightarrow> collected s \<and> \<not> shutting s \<and> t \<in> set (running s)"

lemma orphan_step: "orphan t s \<Longrightarrow> listener_step s a = Some s' \<Longrightarrow> a \<noteq> TaskEnds t \<Longrightarrow> orphan t s'"
  by (cases a) (auto simp: orphan_def listener_defs split: if_splits)

text \<open>
  C37. A call of \<open>serve\<close> that is still binding its address when the listener is closed and collected
  starts its task all the same: in any state with a call under way and no \<open>shutdown\<close> in progress, the
  listener is collected, the address is bound, and from then on the task runs until it ends by itself;
  nothing that the bindings do aborts it.
\<close>
theorem serve_outlives_listener:
  assumes "0 < binding s" "\<not> collected s" "\<not> shutting s"
    and "run_steps listener_step s (Collect # Bound # as) = Some s'" "TaskEnds (next_task s) \<notin> set as"
  shows "next_task s \<in> set (running s') \<and> collected s'"
proof -
  define s2 where "s2 = (the (serve_bound (the (listener_drop s))))"
  from assms(1-3) have o: "orphan (next_task s) s2" and r: "run_steps listener_step s2 as = Some s'"
    using assms(4) by (auto simp: s2_def orphan_def listener_defs)
  have "orphan (next_task s) s'"
    using o r assms(5)
  proof (induction as arbitrary: s2)
    case (Cons a as)
    then obtain s3 where "listener_step s2 a = Some s3" "run_steps listener_step s3 as = Some s'"
      by (auto split: option.splits)
    with Cons orphan_step show ?case by (metis list.set_intros(1,2))
  qed simp
  then show ?thesis by (simp add: orphan_def)
qed

theorem serve_outlives_listener_witness:
  "running (the (run_steps listener_step listener_init [Serve, Close, Collect, Bound])) = [0]"
proof -
  let ?s = "\<lparr>open_inner = False, tasks = [], running = [], binding = 1, next_task = 0, shutting = False,
      collected = False\<rparr> :: listener"
  let ?s' = "\<lparr>open_inner = False, tasks = [0], running = [0], binding = 0, next_task = 1, shutting = False,
      collected = True\<rparr> :: listener"
  have "run_steps listener_step ?s [Collect, Bound] = Some ?s'" by (simp add: listener_defs)
  from serve_outlives_listener [of ?s "[]" ?s'] this have "0 \<in> set (running ?s')" by simp
  moreover have "run_steps listener_step listener_init [Serve, Close, Collect, Bound] = Some ?s'"
    by (simp add: listener_defs listener_init_def)
  ultimately show ?thesis by simp
qed

text \<open>A carrier survives an address that does not parse, and a carrier in use is not handled.\<close>

lemma handle_pipe_address:
  "fst (handle_pipe parse_ip lh peer source c) = Inl e \<Longrightarrow> e \<noteq> pipe_used \<Longrightarrow> snd (handle_pipe parse_ip lh peer source c) = c"
  by (auto simp: handle_pipe_def pipe_take_def map_ok_Inl_iff ok_or_Inl_iff split: sum.splits prod.splits)

end
