(* ===== verification/Tls.thy ===== *)
theory Tls
  imports Options
begin

text \<open>
  The TLS settings of \<open>src/src/lib.rs\<close> (\<open>TlsConfig\<close>): loading PEM, the client and the server
  configuration made of them, and the verifier that accepts every certificate. Parsing PEM, the
  stores of roots and the handshake are parameters.
\<close>

section \<open>Settings\<close>

datatype Pem = PemPath string | PemData bytes

fun pem_load :: "(string \<Rightarrow> string + bytes) \<Rightarrow> Pem \<Rightarrow> bytes py_result" where
  "pem_load read_file (PemPath p) = map_err (\<lambda>e. value_err (p @ '': '' @ e)) (read_file p)"
| "pem_load read_file (PemData d) = Inr d"

record TlsConfig =
  tls_cert :: "bytes option"
  tls_key :: "bytes option"
  tls_ca :: "bytes option"
  tls_verify :: bool
  tls_alpn :: "bytes list"

definition tls_new ::
    "(string \<Rightarrow> string + bytes) \<Rightarrow> Pem option \<Rightarrow> Pem option \<Rightarrow> Pem option \<Rightarrow> bool \<Rightarrow> string list option
       \<Rightarrow> TlsConfig py_result" where
  "tls_new read_file cert key ca verify alpn =
     and_then (transpose_opt (map_option (pem_load read_file) cert)) (\<lambda>c.
     and_then (transpose_opt (map_option (pem_load read_file) key)) (\<lambda>k.
     and_then (transpose_opt (map_option (pem_load read_file) ca)) (\<lambda>a.
       Inr \<lparr>tls_cert = c, tls_key = k, tls_ca = a, tls_verify = verify,
            tls_alpn = map (map of_char) (unwrap_or [] alpn)\<rparr>)))"

definition tls_web :: TlsConfig where
  "tls_web = \<lparr>tls_cert = None, tls_key = None, tls_ca = None, tls_verify = True, tls_alpn = []\<rparr>"

definition client_tls :: "TlsConfig option \<Rightarrow> TlsConfig" where
  "client_tls t = (case t of None \<Rightarrow> tls_web | Some c \<Rightarrow> c)"

definition HTTP1 :: bytes where
  "HTTP1 = map of_char ''http/1.1''"

definition http1 :: "bytes list" where
  "http1 = [HTTP1]"

section \<open>Configurations\<close>

text \<open>
  Certificates of a PEM text one by one, its key, the roots and how a certificate is added to them,
  the checks of the builders, and the crate's list of protocols where none is set.
\<close>

record ('cert, 'key, 'roots) tls_api =
  pem_certs :: "bytes \<Rightarrow> (string + 'cert) list"
  pem_key :: "bytes \<Rightarrow> string + 'key"
  roots_empty :: 'roots
  roots_add :: "'cert \<Rightarrow> 'roots \<Rightarrow> string + 'roots"
  web_roots :: 'roots
  versions_check :: "string + unit"
  client_auth_check :: "'cert list \<Rightarrow> 'key \<Rightarrow> string + unit"
  single_cert_check :: "'cert list \<Rightarrow> 'key \<Rightarrow> string + unit"
  default_alpn :: "bytes list \<Rightarrow> bytes list \<Rightarrow> bytes list"
  zmux_alpn :: "bytes list"

datatype 'roots verifier = NoVerify | Roots 'roots

record ('cert, 'key, 'roots) client_config =
  cc_verifier :: "'roots verifier"
  cc_auth :: "('cert list \<times> 'key) option"
  cc_alpn :: "bytes list"

record ('cert, 'key) server_config =
  sc_cert :: "'cert list \<times> 'key"
  sc_alpn :: "bytes list"

definition pem_err :: "string \<Rightarrow> py_err" where
  "pem_err e = value_err (''invalid PEM: '' @ e)"

definition chain :: "('cert, 'key, 'roots) tls_api \<Rightarrow> TlsConfig \<Rightarrow> ('cert list \<times> 'key) option py_result" where
  "chain api t =
     (case (tls_cert t, tls_key t) of
        (Some c, Some k) \<Rightarrow>
          and_then (map_err pem_err (collect_results (pem_certs api c))) (\<lambda>certs.
            map_ok (\<lambda>key. Some (certs, key)) (map_err pem_err (pem_key api k)))
      | _ \<Rightarrow> Inr None)"

fun add_roots :: "('cert, 'key, 'roots) tls_api \<Rightarrow> (string + 'cert) list \<Rightarrow> 'roots \<Rightarrow> 'roots py_result" where
  "add_roots api [] r = Inr r"
| "add_roots api (c # cs) r =
     and_then (map_err pem_err c) (\<lambda>cert.
     and_then (map_err value_err (roots_add api cert r)) (add_roots api cs))"

definition verifier_of :: "('cert, 'key, 'roots) tls_api \<Rightarrow> TlsConfig \<Rightarrow> 'roots verifier py_result" where
  "verifier_of api t =
     (if \<not> tls_verify t then Inr NoVerify
      else map_ok Roots (case tls_ca t of
              Some ca \<Rightarrow> add_roots api (pem_certs api ca) (roots_empty api)
            | None \<Rightarrow> Inr (web_roots api)))"

definition tls_client :: "('cert, 'key, 'roots) tls_api \<Rightarrow> TlsConfig \<Rightarrow> ('cert, 'key, 'roots) client_config py_result" where
  "tls_client api t =
     and_then (map_err value_err (versions_check api)) (\<lambda>_.
     and_then (verifier_of api t) (\<lambda>v.
     and_then (chain api t) (\<lambda>ch.
     and_then (case ch of
         Some (certs, key) \<Rightarrow> map_err value_err (client_auth_check api certs key)
       | None \<Rightarrow> Inr ()) (\<lambda>_.
       Inr \<lparr>cc_verifier = v, cc_auth = ch, cc_alpn = tls_alpn t\<rparr>))))"

definition tls_server :: "('cert, 'key, 'roots) tls_api \<Rightarrow> TlsConfig \<Rightarrow> ('cert, 'key) server_config py_result" where
  "tls_server api t =
     and_then (chain api t) (\<lambda>ch.
     and_then (ok_or (value_err ''a server needs cert and key'') ch) (\<lambda>ck.
     and_then (map_err value_err (versions_check api)) (\<lambda>_.
     and_then (map_err value_err (single_cert_check api (fst ck) (snd ck))) (\<lambda>_.
       Inr \<lparr>sc_cert = ck, sc_alpn = tls_alpn t\<rparr>))))"

definition client_alpn ::
    "('cert, 'key, 'roots) tls_api \<Rightarrow> bytes list \<Rightarrow> TlsConfig \<Rightarrow> ('cert, 'key, 'roots) client_config py_result" where
  "client_alpn api defaults t = map_ok (\<lambda>c. c\<lparr>cc_alpn := default_alpn api (cc_alpn c) defaults\<rparr>) (tls_client api t)"

definition server_alpn ::
    "('cert, 'key, 'roots) tls_api \<Rightarrow> bytes list \<Rightarrow> TlsConfig \<Rightarrow> ('cert, 'key) server_config py_result" where
  "server_alpn api defaults t = map_ok (\<lambda>c. c\<lparr>sc_alpn := default_alpn api (sc_alpn c) defaults\<rparr>) (tls_server api t)"

definition client_zmux :: "('cert, 'key, 'roots) tls_api \<Rightarrow> TlsConfig \<Rightarrow> ('cert, 'key, 'roots) client_config py_result" where
  "client_zmux api t = client_alpn api (zmux_alpn api) t"

definition server_zmux :: "('cert, 'key, 'roots) tls_api \<Rightarrow> TlsConfig \<Rightarrow> ('cert, 'key) server_config py_result" where
  "server_zmux api t = server_alpn api (zmux_alpn api) t"

text \<open>What a client makes of a server's certificate: \<open>check\<close> is the verification against roots.\<close>

definition verify_server_cert :: "('roots \<Rightarrow> 'id \<Rightarrow> string + unit) \<Rightarrow> 'roots verifier \<Rightarrow> 'id \<Rightarrow> string + unit" where
  "verify_server_cert check v ident = (case v of NoVerify \<Rightarrow> Inr () | Roots r \<Rightarrow> check r ident)"

section \<open>Properties\<close>

lemma add_roots_ok:
  "add_roots api cs r = Inr r' \<Longrightarrow>
   \<exists>certs. cs = map Inr certs \<and> foldl (\<lambda>acc c. and_then acc (roots_add api c)) (Inr r) certs = Inr r'"
proof (induction cs arbitrary: r)
  case (Cons c cs)
  then obtain cert r1 where c: "c = Inr cert" "roots_add api cert r = Inr r1" "add_roots api cs r1 = Inr r'"
    by (auto simp: and_then_Inr_iff map_err_Inr_iff)
  from Cons.IH [OF c(3)] obtain certs where
    "cs = map Inr certs" "foldl (\<lambda>acc c. and_then acc (roots_add api c)) (Inr r1) certs = Inr r'" by blast
  with c show ?case by (intro exI [of _ "cert # certs"]) simp
qed simp

lemma tls_client_fields:
  assumes "tls_client api t = Inr c"
  shows "verifier_of api t = Inr (cc_verifier c)" "chain api t = Inr (cc_auth c)"
  using assms by (auto simp: tls_client_def and_then_Inr_iff)

lemma chain_given: "chain api t = Inr ch \<Longrightarrow> ch \<noteq> None \<longleftrightarrow> tls_cert t \<noteq> None \<and> tls_key t \<noteq> None"
  by (auto simp: chain_def and_then_Inr_iff map_ok_Inr_iff split: option.splits)

text \<open>
  C39. A client's certificate checks: a configuration that was made accepts every server exactly when
  \<open>verify\<close> is off; with \<open>verify\<close> on it trusts the certificates of \<open>ca\<close> and no other root if \<open>ca\<close> is given,
  else the bundled web roots; the settings of a client without TLS settings verify. It presents a
  certificate of its own exactly when both \<open>cert\<close> and \<open>key\<close> are given, one alone being ignored.
\<close>
theorem client_verification:
  assumes "tls_client api t = Inr c"
  shows "(cc_verifier c = NoVerify \<longleftrightarrow> \<not> tls_verify t)
    \<and> (tls_verify t \<longrightarrow>
        (case tls_ca t of
           None \<Rightarrow> cc_verifier c = Roots (web_roots api)
         | Some ca \<Rightarrow>
             \<exists>certs r. pem_certs api ca = map Inr certs \<and> cc_verifier c = Roots r
               \<and> foldl (\<lambda>acc x. and_then acc (roots_add api x)) (Inr (roots_empty api)) certs = Inr r))
    \<and> (cc_auth c \<noteq> None \<longleftrightarrow> tls_cert t \<noteq> None \<and> tls_key t \<noteq> None)
    \<and> tls_verify (client_tls None) \<and> tls_ca (client_tls None) = None"
proof -
  note f = tls_client_fields [OF assms]
  have v: "cc_verifier c = NoVerify \<longleftrightarrow> \<not> tls_verify t"
    using f(1) by (auto simp: verifier_of_def map_ok_Inr_iff split: if_splits)
  have "\<exists>certs r. pem_certs api ca = map Inr certs \<and> cc_verifier c = Roots r
      \<and> foldl (\<lambda>acc x. and_then acc (roots_add api x)) (Inr (roots_empty api)) certs = Inr r"
    if "tls_verify t" "tls_ca t = Some ca" for ca
    using f(1) that add_roots_ok by (fastforce simp: verifier_of_def map_ok_Inr_iff)
  moreover have "cc_verifier c = Roots (web_roots api)" if "tls_verify t" "tls_ca t = None"
    using f(1) that by (simp add: verifier_of_def)
  ultimately show ?thesis
    using v chain_given [OF f(2)] by (auto simp: client_tls_def tls_web_def split: option.splits)
qed

definition sample_tls :: "(string, string, string list) tls_api" where
  "sample_tls = \<lparr>pem_certs = (\<lambda>b. [Inr ''ca'']), pem_key = (\<lambda>b. Inr ''key''), roots_empty = [],
     roots_add = (\<lambda>c r. Inr (r @ [c])), web_roots = [''web''], versions_check = Inr (),
     client_auth_check = (\<lambda>cs k. Inr ()), single_cert_check = (\<lambda>cs k. Inr ()),
     default_alpn = (\<lambda>given dflt. if given = [] then dflt else given), zmux_alpn = [[1]]\<rparr>"

theorem client_verification_witness:
  "\<exists>c. tls_client sample_tls (tls_web\<lparr>tls_ca := Some [1]\<rparr>) = Inr c \<and> cc_verifier c = Roots [''ca'']"
proof -
  let ?c = "\<lparr>cc_verifier = Roots [''ca''], cc_auth = None, cc_alpn = []\<rparr> :: (string, string, string list) client_config"
  have c: "tls_client sample_tls (tls_web\<lparr>tls_ca := Some [1]\<rparr>) = Inr ?c"
    by (simp add: tls_client_def sample_tls_def tls_web_def verifier_of_def chain_def)
  from client_verification [OF this] have "cc_verifier ?c \<noteq> NoVerify" by (simp add: tls_web_def)
  with c show ?thesis by auto
qed

text \<open>With the settings of \<open>verify=False\<close> every server is accepted, which is what that asks for.\<close>

lemma no_verify_accepts:
  "tls_client api t = Inr c \<Longrightarrow> \<not> tls_verify t \<Longrightarrow> verify_server_cert check (cc_verifier c) ident = Inr ()"
  using tls_client_fields(1) by (fastforce simp: verify_server_cert_def verifier_of_def)

end
