(* ===== verification/Dial.thy ===== *)
theory Dial
  imports Tls Admission Modes
begin

text \<open>
  Dialling (\<open>src/src/lib.rs\<close>, and the candidates of \<open>src/src/mode.rs\<close>): host names and authorities, the
  arguments of the dialling functions, and the order of the steps of their futures. Sockets, name
  resolution, URLs and the carriers of the crates are parameters.
\<close>

section \<open>Addresses as text\<close>

text \<open>\<open>str::rsplit_once\<close>, \<open>trim_start_matches\<close> and \<open>trim_end_matches\<close> for one character.\<close>

definition rsplit_once :: "char \<Rightarrow> string \<Rightarrow> (string \<times> string) option" where
  "rsplit_once c s =
     (case dropWhile (\<lambda>x. x \<noteq> c) (rev s) of
        [] \<Rightarrow> None
      | _ # h \<Rightarrow> Some (rev h, rev (takeWhile (\<lambda>x. x \<noteq> c) (rev s))))"

definition trim_start_matches :: "char \<Rightarrow> string \<Rightarrow> string" where
  "trim_start_matches c s = dropWhile (\<lambda>x. x = c) s"

definition trim_end_matches :: "char \<Rightarrow> string \<Rightarrow> string" where
  "trim_end_matches c s = rev (dropWhile (\<lambda>x. x = c) (rev s))"

definition trim_brackets :: "string \<Rightarrow> string" where
  "trim_brackets h = trim_end_matches (CHR '']'') (trim_start_matches (CHR ''['') h)"

definition host_of :: "string \<Rightarrow> string" where
  "host_of ad = trim_brackets (case rsplit_once (CHR '':'') ad of Some (h, p) \<Rightarrow> h | None \<Rightarrow> ad)"

datatype family = IPv4 | IPv6

text \<open>The unspecified address of the same family, port 0.\<close>

definition bind_for :: "('a \<Rightarrow> family) \<Rightarrow> 'a \<Rightarrow> family \<times> u16" where
  "bind_for fam ad = (if fam ad = IPv4 then (IPv4, 0) else (IPv6, 0))"

definition no_host :: py_err where
  "no_host = value_err ''URL without a host''"

definition host_port :: "string \<Rightarrow> u16 option \<Rightarrow> u16 \<Rightarrow> string" where
  "host_port h p d = h @ '':'' @ show_nat (unat (unwrap_or d p))"

definition authority_of :: "string option \<Rightarrow> u16 option \<Rightarrow> string py_result" where
  "authority_of host port = map_ok (\<lambda>h. host_port h port 443) (ok_or no_host host)"

text \<open>Name resolution: the first address, or the error that there is none.\<close>

definition resolve :: "zmux_errors \<Rightarrow> (string \<Rightarrow> io_error + 'a list) \<Rightarrow> string \<Rightarrow> 'a py_result" where
  "resolve z lookup_host ad =
     and_then (map_err (io_err z) (lookup_host ad))
       (\<lambda>as. case as of [] \<Rightarrow> Inl (value_err ''no address'') | a # _ \<Rightarrow> Inr a)"

definition lookup_addr :: "io_error \<Rightarrow> (string \<Rightarrow> io_error + 'a list) \<Rightarrow> string \<Rightarrow> io_error + 'a" where
  "lookup_addr no_address lookup_host ad =
     and_then (lookup_host ad) (\<lambda>as. case as of [] \<Rightarrow> Inl no_address | a # _ \<Rightarrow> Inr a)"

section \<open>TCP and TLS\<close>

type_synonym ('o, 'a) cred_reader = "'o option \<Rightarrow> ('o, 'a) Credential option py_result"

text \<open>
  The future of \<open>dial_tcp\<close>: connected, the credential's prefix is written before the stream becomes a
  carrier. \<open>prefix\<close> is asked with the peer's address if that is known.
\<close>

definition dial_tcp_future ::
    "zmux_errors \<Rightarrow> (string \<Rightarrow> io_error + 'tcp) \<Rightarrow> ('tcp \<Rightarrow> 'a option) \<Rightarrow> ('c \<Rightarrow> 'a option \<Rightarrow> io_error + bytes)
       \<Rightarrow> ('tcp \<Rightarrow> bytes \<Rightarrow> io_error + 'tcp) \<Rightarrow> ('tcp \<Rightarrow> 'io) \<Rightarrow> 'c option \<Rightarrow> string \<Rightarrow> 'io cell py_result" where
  "dial_tcp_future z connect peer_addr prefix write_all to_pipe cred ad =
     and_then (map_err (io_err z) (connect ad)) (\<lambda>tcp.
     and_then (case cred of
         None \<Rightarrow> Inr tcp
       | Some c \<Rightarrow>
           and_then (map_err (io_err z) (prefix c (peer_addr tcp))) (\<lambda>p. map_err (io_err z) (write_all tcp p))) (\<lambda>tcp'.
       Inr (pipe_wrap (to_pipe tcp'))))"

definition dial_tls_args ::
    "('cert, 'key, 'roots) tls_api \<Rightarrow> ('o, 'a) cred_reader \<Rightarrow> string \<Rightarrow> TlsConfig option \<Rightarrow> string option \<Rightarrow> 'o option
       \<Rightarrow> (string \<times> string \<times> ('cert, 'key, 'roots) client_config \<times> ('o, 'a) Credential option) py_result" where
  "dial_tls_args tapi cred ad tls server_name c =
     and_then (client_zmux tapi (client_tls tls)) (\<lambda>cc.
     map_ok (\<lambda>cr. (ad, unwrap_or (host_of ad) server_name, cc, cr)) (cred c))"

section \<open>QUIC, HTTP/3 and WebTransport\<close>

record ('cert, 'key, 'roots, 'o, 'a) QuicDial =
  qd_addr :: string
  qd_server_name :: string
  qd_config :: "('cert, 'key, 'roots) client_config"
  qd_lanes :: u32
  qd_credential :: "('o, 'a) Credential option"

text \<open>\<open>check\<close> stands for the crate's making of a QUIC configuration of the TLS one.\<close>

definition quic_dial_new ::
    "('cert, 'key, 'roots) tls_api \<Rightarrow> ('o, 'a) cred_reader \<Rightarrow> (('cert, 'key, 'roots) client_config \<Rightarrow> string + unit)
       \<Rightarrow> string \<Rightarrow> TlsConfig option \<Rightarrow> string option \<Rightarrow> u32 \<Rightarrow> 'o option
       \<Rightarrow> ('cert, 'key, 'roots, 'o, 'a) QuicDial py_result" where
  "quic_dial_new tapi cred check ad tls server_name lanes c =
     and_then (cred c) (\<lambda>cr.
     and_then (client_zmux tapi (client_tls tls)) (\<lambda>cc.
     and_then (map_err value_err (check cc)) (\<lambda>_.
       Inr \<lparr>qd_addr = ad, qd_server_name = unwrap_or (host_of ad) server_name, qd_config = cc,
            qd_lanes = lanes, qd_credential = cr\<rparr>)))"

text \<open>
  A dial: resolve, bind a socket of the address's family, connect with the configuration, the name and
  the options of the settings.
\<close>

definition quic_open ::
    "(string \<Rightarrow> io_error + 'addr) \<Rightarrow> ('addr \<Rightarrow> family) \<Rightarrow> (family \<times> u16 \<Rightarrow> io_error + 'ep)
       \<Rightarrow> ('ep \<Rightarrow> 'addr \<Rightarrow> ('cert, 'key, 'roots, 'o, 'a) QuicDial \<Rightarrow> io_error + 'io)
       \<Rightarrow> ('cert, 'key, 'roots, 'o, 'a) QuicDial \<Rightarrow> io_error + 'io" where
  "quic_open lookup fam endpoint dial d =
     and_then (lookup (qd_addr d)) (\<lambda>a.
     and_then (endpoint (bind_for fam a)) (\<lambda>ep. dial ep a d))"

record ('uri, 'cert, 'key, 'roots, 'o, 'a) H3Dial =
  hd_uri :: 'uri
  hd_addr :: string
  hd_config :: "('cert, 'key, 'roots) client_config"
  hd_lanes :: u32
  hd_credential :: "('o, 'a) Credential option"

record 'uri uri_api =
  uri_parse :: "string \<Rightarrow> string + 'uri"
  uri_host :: "'uri \<Rightarrow> string option"
  uri_port :: "'uri \<Rightarrow> u16 option"

definition h3_dial_new ::
    "'uri uri_api \<Rightarrow> ('cert, 'key, 'roots) tls_api \<Rightarrow> ('o, 'a) cred_reader
       \<Rightarrow> (('cert, 'key, 'roots) client_config \<Rightarrow> string + unit) \<Rightarrow> string \<Rightarrow> TlsConfig option \<Rightarrow> string option \<Rightarrow> u32
       \<Rightarrow> 'o option \<Rightarrow> ('uri, 'cert, 'key, 'roots, 'o, 'a) H3Dial py_result" where
  "h3_dial_new uapi tapi cred check url tls ad lanes c =
     and_then (map_err value_err (uri_parse uapi url)) (\<lambda>uri.
     and_then (case ad of Some a \<Rightarrow> Inr a | None \<Rightarrow> authority_of (uri_host uapi uri) (uri_port uapi uri)) (\<lambda>a.
     and_then (cred c) (\<lambda>cr.
     and_then (tls_client tapi (client_tls tls)) (\<lambda>cc.
     and_then (map_err value_err (check cc)) (\<lambda>_.
       Inr \<lparr>hd_uri = uri, hd_addr = a, hd_config = cc, hd_lanes = lanes, hd_credential = cr\<rparr>)))))"

text \<open>The request of HTTP/3 goes to the address on a new connection of its family.\<close>

definition h3_open ::
    "(string \<Rightarrow> io_error + 'addr) \<Rightarrow> ('addr \<Rightarrow> family) \<Rightarrow> (family \<times> u16 \<Rightarrow> io_error + 'ep)
       \<Rightarrow> ('ep \<Rightarrow> 'addr \<Rightarrow> ('uri, 'cert, 'key, 'roots, 'o, 'a) H3Dial \<Rightarrow> io_error + 'io)
       \<Rightarrow> ('uri, 'cert, 'key, 'roots, 'o, 'a) H3Dial \<Rightarrow> io_error + 'io" where
  "h3_open lookup fam endpoint dial d =
     and_then (lookup (hd_addr d)) (\<lambda>a.
     and_then (endpoint (bind_for fam a)) (\<lambda>ep. dial ep a d))"

record ('uri, 'cert, 'key, 'roots, 'o, 'a) WebTransportDial =
  wd_url :: 'uri
  wd_host :: string
  wd_authority :: string
  wd_config :: "('cert, 'key, 'roots) client_config"
  wd_lanes :: u32
  wd_credential :: "('o, 'a) Credential option"

definition webtransport_dial_new ::
    "'uri uri_api \<Rightarrow> bytes \<Rightarrow> ('cert, 'key, 'roots) tls_api \<Rightarrow> ('o, 'a) cred_reader
       \<Rightarrow> (('cert, 'key, 'roots) client_config \<Rightarrow> string + unit) \<Rightarrow> string \<Rightarrow> TlsConfig option \<Rightarrow> u32 \<Rightarrow> 'o option
       \<Rightarrow> ('uri, 'cert, 'key, 'roots, 'o, 'a) WebTransportDial py_result" where
  "webtransport_dial_new uapi wt_alpn tapi cred check url tls lanes c =
     and_then (map_err value_err (uri_parse uapi url)) (\<lambda>u.
     and_then (map_ok trim_brackets (ok_or no_host (uri_host uapi u))) (\<lambda>host.
     let authority = host_port (unwrap_or [] (uri_host uapi u)) (uri_port uapi u) 443 in
     and_then (cred c) (\<lambda>cr.
     and_then (tls_client tapi (client_tls tls)) (\<lambda>cc.
     let cc = cc\<lparr>cc_alpn := [wt_alpn]\<rparr> in
     and_then (map_err value_err (check cc)) (\<lambda>_.
       Inr \<lparr>wd_url = u, wd_host = host, wd_authority = authority, wd_config = cc, wd_lanes = lanes,
            wd_credential = cr\<rparr>)))))"

text \<open>
  A WebTransport session: the QUIC connection is made to the address of the authority under the name of
  the host, and the session over it; \<open>bad_connect\<close> and \<open>lost\<close> make I/O errors of the connection's.
\<close>

definition webtransport_open ::
    "(string \<Rightarrow> io_error + 'addr) \<Rightarrow> ('addr \<Rightarrow> family) \<Rightarrow> (family \<times> u16 \<Rightarrow> io_error + 'ep)
       \<Rightarrow> ('ep \<Rightarrow> ('cert, 'key, 'roots) client_config \<Rightarrow> 'addr \<Rightarrow> string \<Rightarrow> 'e1 + 'connecting) \<Rightarrow> ('e1 \<Rightarrow> io_error)
       \<Rightarrow> ('connecting \<Rightarrow> 'e2 + 'conn) \<Rightarrow> ('e2 \<Rightarrow> io_error)
       \<Rightarrow> ('conn \<Rightarrow> ('uri, 'cert, 'key, 'roots, 'o, 'a) WebTransportDial \<Rightarrow> io_error + 'io)
       \<Rightarrow> ('uri, 'cert, 'key, 'roots, 'o, 'a) WebTransportDial \<Rightarrow> io_error + 'io" where
  "webtransport_open lookup fam endpoint connect_with bad_connect await_conn lost dial_over d =
     and_then (lookup (wd_authority d)) (\<lambda>a.
     and_then (endpoint (bind_for fam a)) (\<lambda>ep.
     and_then (map_err bad_connect (connect_with ep (wd_config d) a (wd_host d))) (\<lambda>c.
     and_then (map_err lost (await_conn c)) (\<lambda>conn. dial_over conn d))))"

text \<open>The functions \<open>dial_quic\<close>, \<open>dial_h3\<close> and \<open>dial_webtransport\<close>: the settings first, then a future that opens.\<close>

definition dial_with :: "zmux_errors \<Rightarrow> 'd py_result \<Rightarrow> ('d \<Rightarrow> io_error + 'io) \<Rightarrow> 'io cell py_result py_result" where
  "dial_with z d opens = map_ok (\<lambda>x. map_ok pipe_wrap (map_err (io_err z) (opens x))) d"

definition dial_quic where
  "dial_quic z tapi cred check opens ad tls server_name lanes c =
     dial_with z (quic_dial_new tapi cred check ad tls server_name lanes c) opens"

definition dial_h3 where
  "dial_h3 z uapi tapi cred check opens url tls ad lanes c =
     dial_with z (h3_dial_new uapi tapi cred check url tls ad lanes c) opens"

definition dial_webtransport where
  "dial_webtransport z uapi wt_alpn tapi cred check opens url tls lanes c =
     dial_with z (webtransport_dial_new uapi wt_alpn tapi cred check url tls lanes c) opens"

text \<open>The client whose endpoint is kept; with \<open>zero_rtt\<close> it has a memory of servers, which is the crate's.\<close>

record ('m, 'par) memory_api =
  mem_new :: 'm
  mem_with_capacity :: "nat \<Rightarrow> 'm"
  mem_forget :: "string \<Rightarrow> 'm \<Rightarrow> 'm"
  mem_clear :: "'m \<Rightarrow> 'm"
  mem_get :: "'m \<Rightarrow> string \<Rightarrow> 'par option"

record ('ep, 'm, 'o, 'a) QuicClient =
  qc_endpoint :: 'ep
  qc_lanes :: u32
  qc_credential :: "('o, 'a) Credential option"
  qc_memory :: "'m option"

definition quic_client_new ::
    "zmux_errors \<Rightarrow> ('m, 'par) memory_api \<Rightarrow> ('cert, 'key, 'roots) tls_api \<Rightarrow> ('o, 'a) cred_reader
       \<Rightarrow> (('cert, 'key, 'roots) client_config \<Rightarrow> string + unit) \<Rightarrow> (string \<Rightarrow> string + 'addr) \<Rightarrow> ('addr \<Rightarrow> io_error + 'ep)
       \<Rightarrow> TlsConfig option \<Rightarrow> u32 \<Rightarrow> bool \<Rightarrow> nat option \<Rightarrow> string \<Rightarrow> 'o option \<Rightarrow> ('ep, 'm, 'o, 'a) QuicClient py_result" where
  "quic_client_new z mapi tapi cred check parse_addr endpoint tls lanes zero_rtt capacity bind c =
     (let memory =
        (if zero_rtt then Some (case capacity of Some n \<Rightarrow> mem_with_capacity mapi n | None \<Rightarrow> mem_new mapi) else None) in
      and_then (cred c) (\<lambda>cr.
      and_then (client_zmux tapi (client_tls tls)) (\<lambda>cc.
      and_then (map_err value_err (check cc)) (\<lambda>_.
      and_then (map_err value_err (parse_addr bind)) (\<lambda>a.
      and_then (map_err (io_err z) (endpoint a)) (\<lambda>ep.
        Inr \<lparr>qc_endpoint = ep, qc_lanes = lanes, qc_credential = cr, qc_memory = memory\<rparr>))))))"

text \<open>\<open>QuicClient.dial\<close>: the name that is verified is the given one, else the host of the address.\<close>

definition quic_client_dial ::
    "zmux_errors \<Rightarrow> (string \<Rightarrow> io_error + 'addr list) \<Rightarrow> ('ep \<Rightarrow> 'addr \<Rightarrow> string \<Rightarrow> io_error + 'io)
       \<Rightarrow> ('ep, 'm, 'o, 'a) QuicClient \<Rightarrow> string \<Rightarrow> string option \<Rightarrow> 'io cell py_result" where
  "quic_client_dial z lookup_host dial q ad server_name =
     (let name = unwrap_or (host_of ad) server_name in
      and_then (resolve z lookup_host ad) (\<lambda>a. map_ok pipe_wrap (map_err (io_err z) (dial (qc_endpoint q) a name))))"

text \<open>\<open>QuicClient.connect\<close>: a session, with the report of its early data.\<close>

definition quic_client_connect ::
    "zmux_errors \<Rightarrow> (string \<Rightarrow> io_error + 'addr list) \<Rightarrow> 'cfg py_result
       \<Rightarrow> (('ep, 'm, 'o, 'a) QuicClient \<Rightarrow> 'addr \<Rightarrow> string \<Rightarrow> 'cfg \<Rightarrow> connect_error + 'se \<times> 'zr)
       \<Rightarrow> ('ep, 'm, 'o, 'a) QuicClient \<Rightarrow> string \<Rightarrow> string option \<Rightarrow> ('se \<times> 'zr option) py_result py_result" where
  "quic_client_connect z lookup_host config connect q ad server_name =
     map_ok (\<lambda>c.
       and_then (resolve z lookup_host ad) (\<lambda>a.
       map_ok (\<lambda>(s, zr). (s, Some zr))
         (map_err (connect_err z) (connect q a (unwrap_or (host_of ad) server_name) c))))
       config"

definition quic_forget :: "('m, 'par) memory_api \<Rightarrow> string \<Rightarrow> ('ep, 'm, 'o, 'a) QuicClient \<Rightarrow> ('ep, 'm, 'o, 'a) QuicClient" where
  "quic_forget mapi name q = q\<lparr>qc_memory := map_option (mem_forget mapi name) (qc_memory q)\<rparr>"

definition quic_clear :: "('m, 'par) memory_api \<Rightarrow> ('ep, 'm, 'o, 'a) QuicClient \<Rightarrow> ('ep, 'm, 'o, 'a) QuicClient" where
  "quic_clear mapi q = q\<lparr>qc_memory := map_option (mem_clear mapi) (qc_memory q)\<rparr>"

definition quic_remembers :: "('m, 'par) memory_api \<Rightarrow> string \<Rightarrow> ('ep, 'm, 'o, 'a) QuicClient \<Rightarrow> bool" where
  "quic_remembers mapi name q = (case qc_memory q of None \<Rightarrow> False | Some m \<Rightarrow> mem_get mapi m name \<noteq> None)"

section \<open>HTTP\<close>

text \<open>A credential bound to TLS is refused before the credential is read.\<close>

definition http_client_options ::
    "('o \<Rightarrow> 'a option) \<Rightarrow> ('a \<Rightarrow> bool) \<Rightarrow> ('o, 'a) cred_reader \<Rightarrow> string \<Rightarrow> 'o option
       \<Rightarrow> (string \<times> ('o, 'a) Credential option) py_result" where
  "http_client_options as_prefix binds_tls cred path c =
     (if (case c of None \<Rightarrow> False | Some v \<Rightarrow> (case as_prefix v of None \<Rightarrow> False | Some a \<Rightarrow> binds_tls a))
      then Inl (value_err ''HTTP carriers take tokens without bind_tls'')
      else map_ok (\<lambda>cr. (path, cr)) (cred c))"

definition dial_request :: "string \<Rightarrow> string option \<Rightarrow> (Carriers.direction \<times> string option) py_result" where
  "dial_request carrier join =
     map_ok (\<lambda>d. (d, join))
       (if carrier = ''bidirectional'' then Inr DirBidi
        else if carrier = ''uplink'' then Inr DirOut
        else if carrier = ''downlink'' then Inr DirIn
        else Inl (value_err (''unknown HTTP carrier '' @ debug_str carrier)))"

definition dial_http_args ::
    "(string \<times> ('o, 'a) Credential option) py_result \<Rightarrow> string \<Rightarrow> string option
       \<Rightarrow> ((string \<times> ('o, 'a) Credential option) \<times> Carriers.direction \<times> string option) py_result" where
  "dial_http_args opts carrier join = and_then opts (\<lambda>x. map_ok (\<lambda>r. (x, r)) (dial_request carrier join))"

text \<open>The arguments of \<open>dial_websocket\<close> that are headers: a mapping's items, or a list of pairs.\<close>

definition websocket_headers ::
    "('o \<Rightarrow> bool py_result) \<Rightarrow> ('o \<Rightarrow> 'o py_result) \<Rightarrow> ('o \<Rightarrow> (string \<times> string) list py_result) \<Rightarrow> 'o option
       \<Rightarrow> (string \<times> string) list option py_result" where
  "websocket_headers has_items items_list extract_pairs headers =
     (case headers of
        None \<Rightarrow> Inr None
      | Some h \<Rightarrow>
          and_then (has_items h) (\<lambda>m.
            map_ok Some (if m then and_then (items_list h) extract_pairs else extract_pairs h)))"

fun insert_headers ::
    "(string \<Rightarrow> string + 'n) \<Rightarrow> (string \<Rightarrow> string + 'v) \<Rightarrow> (string \<times> string) list \<Rightarrow> ('n \<Rightarrow> 'v option) \<Rightarrow> ('n \<Rightarrow> 'v option) py_result" where
  "insert_headers name_of value_of [] m = Inr m"
| "insert_headers name_of value_of ((k, v) # hs) m =
     and_then (map_err value_err (name_of k)) (\<lambda>n.
     and_then (map_err value_err (value_of v)) (\<lambda>x. insert_headers name_of value_of hs (m(n \<mapsto> x))))"

text \<open>
  The arguments of \<open>dial_websocket\<close>: the credential, the headers, the request with the headers put into
  it, and the TLS configuration, which is made for \<open>wss\<close> alone, whatever \<open>tls\<close> is.
\<close>

definition dial_websocket_args ::
    "('cert, 'key, 'roots) tls_api \<Rightarrow> ('o, 'a) cred_reader \<Rightarrow> (string \<times> string) list option py_result
       \<Rightarrow> (string \<Rightarrow> string + 'uri \<times> ('n \<Rightarrow> 'v option)) \<Rightarrow> ('uri \<Rightarrow> string option) \<Rightarrow> (string \<Rightarrow> string + 'n)
       \<Rightarrow> (string \<Rightarrow> string + 'v) \<Rightarrow> string \<Rightarrow> TlsConfig option \<Rightarrow> 'o option
       \<Rightarrow> (('uri \<times> ('n \<Rightarrow> 'v option)) \<times> ('cert, 'key, 'roots) client_config option \<times> ('o, 'a) Credential option) py_result" where
  "dial_websocket_args tapi cred headers into_request scheme name_of value_of url tls c =
     and_then (cred c) (\<lambda>cr.
     and_then headers (\<lambda>hs.
     and_then (map_err value_err (into_request url)) (\<lambda>(uri, m).
     and_then (insert_headers name_of value_of (unwrap_or [] hs) m) (\<lambda>m'.
     map_ok (\<lambda>connector. ((uri, m'), connector, cr))
       (if scheme uri = Some ''wss'' then map_ok Some (client_alpn tapi http1 (client_tls tls)) else Inr None)))))"

definition dial_websocket_future ::
    "zmux_errors \<Rightarrow> ('r \<Rightarrow> 'cc \<Rightarrow> 'cr option \<Rightarrow> io_error + 'io) \<Rightarrow> ('r \<Rightarrow> 'cr option \<Rightarrow> io_error + 'io)
       \<Rightarrow> 'r \<times> 'cc option \<times> 'cr option \<Rightarrow> 'io cell py_result" where
  "dial_websocket_future z dial_tls dial x =
     (case x of (req, connector, cr) \<Rightarrow>
        map_ok pipe_wrap (map_err (io_err z) (case connector of Some c \<Rightarrow> dial_tls req c cr | None \<Rightarrow> dial req cr)))"

text \<open>
  \<open>Http2Connection.connect\<close>: prior knowledge on plain TCP, or TLS under the given name, else the host of
  the address, which is checked before the connection is made.
\<close>

definition http2_connect_args ::
    "('cert, 'key, 'roots) tls_api \<Rightarrow> 'opts py_result \<Rightarrow> TlsConfig option
       \<Rightarrow> ('opts \<times> ('cert, 'key, 'roots) client_config option) py_result" where
  "http2_connect_args tapi opts tls =
     and_then opts (\<lambda>x. map_ok (\<lambda>cc. (x, cc)) (transpose_opt (map_option (client_alpn tapi [map of_char ''h2'']) tls)))"

definition http2_connect_future ::
    "zmux_errors \<Rightarrow> (string \<Rightarrow> 'opts \<Rightarrow> io_error + 'h2) \<Rightarrow> (string \<Rightarrow> string + 'n) \<Rightarrow> (string \<Rightarrow> io_error + 'tcp)
       \<Rightarrow> ('cc \<Rightarrow> 'n \<Rightarrow> 'tcp \<Rightarrow> io_error + 'tls) \<Rightarrow> ('tls \<Rightarrow> string \<Rightarrow> 'opts \<Rightarrow> io_error + 'h2) \<Rightarrow> string \<Rightarrow> string option
       \<Rightarrow> 'opts \<times> 'cc option \<Rightarrow> 'h2 py_result" where
  "http2_connect_future z connect server_name_of tcp_connect tls_connect handshake ad server_name x =
     (case x of
        (opts, None) \<Rightarrow> map_err (io_err z) (connect ad opts)
      | (opts, Some c) \<Rightarrow>
          and_then (map_err value_err (server_name_of (unwrap_or (host_of ad) server_name))) (\<lambda>name.
          and_then (map_err (io_err z) (tcp_connect ad)) (\<lambda>tcp.
          and_then (map_err (io_err z) (tls_connect c name tcp)) (\<lambda>io.
            map_err (io_err z) (handshake io ad opts)))))"

text \<open>Pipes on a connection: \<open>open_pipe\<close> and \<open>open_split\<close>, \<open>open_carrier\<close>, \<open>join_split\<close>.\<close>

definition http2_open :: "zmux_errors \<Rightarrow> ('h2 \<Rightarrow> io_error + 'io) \<Rightarrow> 'h2 \<Rightarrow> 'io cell py_result" where
  "http2_open z opens c = map_ok pipe_wrap (map_err (io_err z) (opens c))"

definition http2_open_carrier ::
    "zmux_errors \<Rightarrow> ('h2 \<Rightarrow> Carriers.direction \<times> string option \<Rightarrow> io_error + 'io) \<Rightarrow> 'h2 \<Rightarrow> string \<Rightarrow> string option
       \<Rightarrow> 'io cell py_result py_result" where
  "http2_open_carrier z opens c carrier join =
     map_ok (\<lambda>r. map_ok pipe_wrap (map_err (io_err z) (opens c r))) (dial_request carrier join)"

definition http2_join_split ::
    "zmux_errors \<Rightarrow> ('h2 \<Rightarrow> 'se \<Rightarrow> 'po \<Rightarrow> io_error + 'pi list) \<Rightarrow> 'h2 \<Rightarrow> 'se \<Rightarrow> 'po py_result \<Rightarrow> 'pi list py_result py_result" where
  "http2_join_split z join c se po = map_ok (\<lambda>p. map_err (io_err z) (join c se p)) po"

text \<open>The futures over HTTP/1.1: \<open>dial_http\<close> connects first, the split ones leave that to the crate.\<close>

definition dial_http_future ::
    "zmux_errors \<Rightarrow> (string \<Rightarrow> io_error + 'tcp) \<Rightarrow> ('tcp \<Rightarrow> string \<Rightarrow> 'opts \<Rightarrow> 'req \<Rightarrow> io_error + 'io) \<Rightarrow> string \<Rightarrow> 'opts \<times> 'req
       \<Rightarrow> 'io cell py_result" where
  "dial_http_future z connect over ad x =
     and_then (map_err (io_err z) (connect ad)) (\<lambda>tcp.
       map_ok pipe_wrap (map_err (io_err z) (over tcp ad (fst x) (snd x))))"

definition dial_http_split ::
    "zmux_errors \<Rightarrow> (string \<Rightarrow> 'opts \<Rightarrow> io_error + 'io) \<Rightarrow> string \<Rightarrow> 'opts py_result \<Rightarrow> 'io cell py_result py_result" where
  "dial_http_split z split ad opts = map_ok (\<lambda>x. map_ok pipe_wrap (map_err (io_err z) (split ad x))) opts"

definition join_http_split ::
    "zmux_errors \<Rightarrow> ('se \<Rightarrow> string \<Rightarrow> 'opts \<Rightarrow> 'po \<Rightarrow> io_error + 'pi list) \<Rightarrow> 'se \<Rightarrow> string \<Rightarrow> 'opts py_result \<Rightarrow> 'po py_result
       \<Rightarrow> 'pi list py_result py_result" where
  "join_http_split z join se ad opts po =
     and_then opts (\<lambda>x. map_ok (\<lambda>p. map_err (io_err z) (join se ad x p)) po)"

section \<open>Exchange\<close>

datatype encoding = Binary | Base64

record exchange_args =
  xa_psk :: "bytes option"
  xa_unauthenticated :: bool
  xa_encoding :: string
  xa_path :: "string option"
  xa_down_path :: "string option"
  xa_query :: "string option"
  xa_count :: "string \<Rightarrow> u64 option"
  xa_piece :: "string \<Rightarrow> u64 option"
  xa_secs :: "string \<Rightarrow> f64 option"
  xa_max_carriers :: "u64 option"

record ExchangeOptions =
  xo_psk :: bytes
  xo_unauthenticated :: bool
  xo_encoding :: encoding
  xo_path :: string
  xo_down_path :: "string option"
  xo_query :: string
  xo_count :: "string \<Rightarrow> u64"
  xo_piece :: "string \<Rightarrow> u64 option"
  xo_secs :: "string \<Rightarrow> duration"
  xo_max_carriers :: "u64 option"

definition exchange_encoding :: "string \<Rightarrow> encoding py_result" where
  "exchange_encoding e =
     (if e = ''binary'' then Inr Binary else if e = ''base64'' then Inr Base64
      else Inl (value_err (''unknown encoding '' @ debug_str e)))"

definition EXCHANGE_COUNTS :: "string list" where
  "EXCHANGE_COUNTS = [''down_requests'', ''up_requests'', ''down_window'', ''up_store'', ''max_recorded'']"

definition EXCHANGE_SECS :: "string list" where
  "EXCHANGE_SECS = [''request_timeout'', ''deadline'', ''hold'', ''coalesce'', ''idle_timeout'', ''gone_memory'',
     ''time_window'', ''backoff_initial'', ''backoff_max'']"

fun set_secs :: "(string \<Rightarrow> f64 option) \<Rightarrow> string list \<Rightarrow> (string \<Rightarrow> duration) \<Rightarrow> (string \<Rightarrow> duration) py_result" where
  "set_secs vals [] m = Inr m"
| "set_secs vals (f # fs) m =
     (case vals f of
        None \<Rightarrow> set_secs vals fs m
      | Some v \<Rightarrow> and_then (seconds f v) (\<lambda>d. set_secs vals fs (m(f := d))))"

text \<open>A field that is not given keeps the crate's default; piece sizes follow the argument.\<close>

definition exchange_new :: "ExchangeOptions \<Rightarrow> exchange_args \<Rightarrow> ExchangeOptions py_result" where
  "exchange_new dflt a =
     and_then (exchange_encoding (xa_encoding a)) (\<lambda>enc.
     map_ok (\<lambda>times.
         \<lparr>xo_psk = unwrap_or (xo_psk dflt) (xa_psk a), xo_unauthenticated = xa_unauthenticated a, xo_encoding = enc,
          xo_path = unwrap_or (xo_path dflt) (xa_path a), xo_down_path = xa_down_path a,
          xo_query = unwrap_or (xo_query dflt) (xa_query a),
          xo_count = (\<lambda>f. if f \<in> set EXCHANGE_COUNTS then unwrap_or (xo_count dflt f) (xa_count a f) else xo_count dflt f),
          xo_piece = (\<lambda>f. xa_piece a f), xo_secs = times, xo_max_carriers = xa_max_carriers a\<rparr>)
       (set_secs (xa_secs a) EXCHANGE_SECS (xo_secs dflt)))"

fun encoding_name :: "encoding \<Rightarrow> string" where
  "encoding_name Base64 = ''base64''"
| "encoding_name Binary = ''binary''"

text \<open>An endpoint over plain TCP, or over TLS with the name that is verified and the authority of the requests.\<close>

datatype 'n endpoint = TcpEndpoint string | TlsEndpoint string 'n string

definition exchange_endpoint ::
    "(string \<Rightarrow> string + 'n) \<Rightarrow> bool \<Rightarrow> string option \<Rightarrow> string \<Rightarrow> 'n endpoint py_result" where
  "exchange_endpoint server_name_of tls server_name ad =
     (if \<not> tls then Inr (TcpEndpoint ad)
      else
        let host = unwrap_or (host_of ad) server_name in
        and_then (map_err value_err (server_name_of host)) (\<lambda>name.
        let port = (case rsplit_once (CHR '':'') ad of Some (h, p) \<Rightarrow> p | None \<Rightarrow> ''443'');
            authority = (if port = ''443'' then host else host @ '':'' @ port)
        in Inr (TlsEndpoint ad name authority)))"

definition dial_exchange_args ::
    "('cert, 'key, 'roots) tls_api \<Rightarrow> ('o, 'a) cred_reader \<Rightarrow> (string \<Rightarrow> string + 'n) \<Rightarrow> ExchangeOptions \<Rightarrow> string
       \<Rightarrow> ExchangeOptions option \<Rightarrow> string option \<Rightarrow> TlsConfig option \<Rightarrow> string option \<Rightarrow> 'o option
       \<Rightarrow> (ExchangeOptions \<times> ('o, 'a) Credential option \<times> 'n endpoint \<times> 'n endpoint) py_result" where
  "dial_exchange_args tapi cred server_name_of dflt ad opts down_addr tls server_name c =
     and_then (cred c) (\<lambda>cr.
     and_then (transpose_opt (map_option (client_alpn tapi http1) tls)) (\<lambda>cc.
     and_then (exchange_endpoint server_name_of (cc \<noteq> None) server_name ad) (\<lambda>up.
     map_ok (\<lambda>down. (unwrap_or dflt opts, cr, up, down))
       (case down_addr of
          Some d \<Rightarrow> exchange_endpoint server_name_of (cc \<noteq> None) server_name d
        | None \<Rightarrow> Inr up))))"

definition dial_exchange_future ::
    "('n endpoint \<Rightarrow> 'n endpoint \<Rightarrow> ExchangeOptions \<Rightarrow> ('o, 'a) Credential option \<Rightarrow> string + 'io)
       \<Rightarrow> ExchangeOptions \<times> ('o, 'a) Credential option \<times> 'n endpoint \<times> 'n endpoint \<Rightarrow> 'io cell py_result" where
  "dial_exchange_future split x =
     (case x of (opts, cr, up, down) \<Rightarrow> map_ok pipe_wrap (map_err value_err (split up down opts cr)))"

section \<open>Candidates\<close>

datatype ('uri, 'cert, 'key, 'roots, 'o, 'a) candidate =
    CandStreaming string "string \<times> ('o, 'a) Credential option"
  | CandSplit string "string \<times> ('o, 'a) Credential option"
  | CandExchange string ExchangeOptions
  | CandWebSocketTls string "('cert, 'key, 'roots) client_config" "('o, 'a) Credential option"
  | CandWebSocket string string "('o, 'a) Credential option"
  | CandQuic "('cert, 'key, 'roots, 'o, 'a) QuicDial"
  | CandHttp3 "('uri, 'cert, 'key, 'roots, 'o, 'a) H3Dial"
  | CandWebTransport "('uri, 'cert, 'key, 'roots, 'o, 'a) WebTransportDial"

definition candidate_streaming ::
    "(string \<times> ('o, 'a) Credential option) py_result \<Rightarrow> string \<Rightarrow> ('uri, 'cert, 'key, 'roots, 'o, 'a) candidate py_result" where
  "candidate_streaming opts ad = map_ok (CandStreaming ad) opts"

definition candidate_split ::
    "(string \<times> ('o, 'a) Credential option) py_result \<Rightarrow> string \<Rightarrow> ('uri, 'cert, 'key, 'roots, 'o, 'a) candidate py_result" where
  "candidate_split opts ad = map_ok (CandSplit ad) opts"

definition candidate_exchange ::
    "ExchangeOptions \<Rightarrow> string \<Rightarrow> ExchangeOptions option \<Rightarrow> ('uri, 'cert, 'key, 'roots, 'o, 'a) candidate" where
  "candidate_exchange dflt ad opts = CandExchange ad (unwrap_or dflt opts)"

definition starts_with :: "string \<Rightarrow> string \<Rightarrow> bool" where
  "starts_with p s = (take (length p) s = p)"

definition candidate_websocket ::
    "'uri uri_api \<Rightarrow> ('cert, 'key, 'roots) tls_api \<Rightarrow> ('o, 'a) cred_reader \<Rightarrow> string \<Rightarrow> TlsConfig option \<Rightarrow> 'o option
       \<Rightarrow> ('uri, 'cert, 'key, 'roots, 'o, 'a) candidate py_result" where
  "candidate_websocket uapi tapi cred url tls c =
     and_then (cred c) (\<lambda>cr.
       if starts_with ''wss://'' url
       then map_ok (\<lambda>cc. CandWebSocketTls url cc cr) (client_alpn tapi http1 (client_tls tls))
       else
         and_then (map_err value_err (uri_parse uapi url)) (\<lambda>u.
         and_then (ok_or no_host (uri_host uapi u)) (\<lambda>h.
           Inr (CandWebSocket (host_port h (uri_port uapi u) 80) url cr))))"

definition candidate_quic ::
    "('cert, 'key, 'roots, 'o, 'a) QuicDial py_result \<Rightarrow> ('uri, 'cert, 'key, 'roots, 'o, 'a) candidate py_result" where
  "candidate_quic d = map_ok CandQuic d"

definition candidate_http3 ::
    "('uri, 'cert, 'key, 'roots, 'o, 'a) H3Dial py_result \<Rightarrow> ('uri, 'cert, 'key, 'roots, 'o, 'a) candidate py_result" where
  "candidate_http3 d = map_ok CandHttp3 d"

definition candidate_webtransport ::
    "('uri, 'cert, 'key, 'roots, 'o, 'a) WebTransportDial py_result
       \<Rightarrow> ('uri, 'cert, 'key, 'roots, 'o, 'a) candidate py_result" where
  "candidate_webtransport d = map_ok CandWebTransport d"

section \<open>Properties\<close>

lemma split_at_first:
  "c \<notin> set p \<Longrightarrow> dropWhile (\<lambda>x. x \<noteq> c) (p @ c # r) = c # r"
  "c \<notin> set p \<Longrightarrow> takeWhile (\<lambda>x. x \<noteq> c) (p @ c # r) = p"
  by (induction p) auto

lemma nothing_to_trim: "c \<notin> set xs \<Longrightarrow> dropWhile (\<lambda>x. x = c) xs = xs"
  by (cases xs) auto

lemma rsplit_once_last: "c \<notin> set p \<Longrightarrow> rsplit_once c (h @ c # p) = Some (h, p)"
  using split_at_first [of c "rev p" "rev h"] by (simp add: rsplit_once_def)

lemma trim_brackets_plain: "set h \<inter> set ''[]'' = {} \<Longrightarrow> trim_brackets h = h"
  by (simp add: trim_brackets_def trim_start_matches_def trim_end_matches_def nothing_to_trim)

lemma trim_brackets_ipv6: "set h \<inter> set ''[]'' = {} \<Longrightarrow> trim_brackets (''['' @ h @ '']'') = h"
  by (simp add: trim_brackets_def trim_start_matches_def trim_end_matches_def nothing_to_trim)

lemma host_of_forms:
  assumes "CHR '':'' \<notin> set p" "set h \<inter> set ''[]'' = {}"
  shows "host_of (h @ '':'' @ p) = h" "host_of (''['' @ h @ '']'' @ '':'' @ p) = h"
  using rsplit_once_last [OF assms(1), of h] rsplit_once_last [OF assms(1), of "''['' @ h @ '']''"]
    trim_brackets_plain [OF assms(2)] trim_brackets_ipv6 [OF assms(2)]
  by (simp_all add: host_of_def)

text \<open>
  C40. The name that TLS verifies is the host of the address, for a name or IPv4 address and a port as
  for an IPv6 address in brackets and a port. The authority of the exchange carrier's requests is the
  address itself in the first form, but in the second it has lost the brackets: the request names
  \<open>::1:8443\<close> where the address is \<open>[::1]:8443\<close>.
\<close>
theorem exchange_authority_of_ipv6:
  assumes "CHR '':'' \<notin> set p" "set h \<inter> set ''[]'' = {}" "p \<noteq> ''443''"
    and "server_name_of h = Inr n"
  shows "exchange_endpoint server_name_of True None (h @ '':'' @ p) =
           Inr (TlsEndpoint (h @ '':'' @ p) n (h @ '':'' @ p))
       \<and> exchange_endpoint server_name_of True None (''['' @ h @ '']'' @ '':'' @ p) =
           Inr (TlsEndpoint (''['' @ h @ '']'' @ '':'' @ p) n (h @ '':'' @ p))
       \<and> h @ '':'' @ p \<noteq> ''['' @ h @ '']'' @ '':'' @ p"
  using assms host_of_forms [OF assms(1,2)] rsplit_once_last [OF assms(1), of h]
    rsplit_once_last [OF assms(1), of "''['' @ h @ '']''"]
  by (simp add: exchange_endpoint_def)

theorem exchange_authority_of_ipv6_witness:
  "exchange_endpoint Inr True None ''[::1]:8443'' = Inr (TlsEndpoint ''[::1]:8443'' ''::1'' ''::1:8443'')"
  using exchange_authority_of_ipv6 [of "''8443''" "''::1''" Inr "''::1''"] by simp

text \<open>A dialled endpoint binds a socket of the family of the address it dials.\<close>

lemma bind_for_family: "fst (bind_for fam a) = fam a"
  by (cases "fam a") (simp_all add: bind_for_def)

text \<open>
  A credential bound to TLS never reaches an HTTP carrier, and one that is no credential is an error.
\<close>

lemma http_credential_unbound:
  "http_client_options as_prefix binds (credential as_prefix hasattr) path c = Inr (p, Some (CredPrefix a)) \<Longrightarrow> \<not> binds a"
  by (cases c) (auto simp: http_client_options_def credential_def map_ok_Inr_iff and_then_Inr_iff
      split: if_splits option.splits)

text \<open>On TCP, the prefix of a credential has been written in full when the carrier is handed out.\<close>

lemma dial_tcp_prefix_first:
  assumes "dial_tcp_future z conn pa pre wr tp (Some c) ad = Inr r"
  shows "\<exists>tcp bs tcp'. conn ad = Inr tcp \<and> pre c (pa tcp) = Inr bs \<and> wr tcp bs = Inr tcp' \<and> r = Some (tp tcp')"
  using assms by (auto simp: dial_tcp_future_def and_then_Inr_iff map_err_Inr_iff pipe_wrap_def)

text \<open>The encoding of exchange options reads back as the argument.\<close>

lemma exchange_encoding_back: "exchange_new d a = Inr o' \<Longrightarrow> encoding_name (xo_encoding o') = xa_encoding a"
  by (auto simp: exchange_new_def and_then_Inr_iff map_ok_Inr_iff exchange_encoding_def split: if_splits)

end
