(* ===== verification/Serving.thy ===== *)
theory Serving
  imports Listeners Dial
begin

text \<open>
  What \<open>Listener.serve_*\<close> of \<open>src/src/lib.rs\<close> check before they bind an address, the configuration
  each server gets, and the steps of the futures that bind it. The servers of the crates are
  parameters: a value of \<open>server\<close> says which one runs, with what.
\<close>

section \<open>Servers\<close>

datatype ('cert, 'key, 'x) server =
    TcpServer
  | TlsServer "('cert, 'key) server_config"
  | HttpServer string "'x option" bool "('cert, 'key) server_config option"
  | WebSocketServer "('cert, 'key) server_config option"
  | H3Server u32 "('cert, 'key) server_config"
  | WebTransportServer u32 "('cert, 'key) server_config"
  | QuicServer u32 bool "('cert, 'key) server_config"

definition serve_tcp :: "('cert, 'key, 'x) server py_result" where
  "serve_tcp = Inr TcpServer"

definition serve_tls :: "('cert, 'key, 'roots) tls_api \<Rightarrow> TlsConfig \<Rightarrow> ('cert, 'key, 'x) server py_result" where
  "serve_tls tapi tls = map_ok TlsServer (server_zmux tapi tls)"

text \<open>The exchange server is made first, the TLS configuration after it.\<close>

definition serve_http ::
    "('cert, 'key, 'roots) tls_api \<Rightarrow> (ExchangeOptions \<Rightarrow> string + 'x) \<Rightarrow> string \<Rightarrow> TlsConfig option
       \<Rightarrow> ExchangeOptions option \<Rightarrow> bool \<Rightarrow> ('cert, 'key, 'x) server py_result" where
  "serve_http tapi exchange_server path tls exchange websocket =
     and_then (transpose_opt (map_option (\<lambda>x. map_err value_err (exchange_server x)) exchange)) (\<lambda>xs.
     map_ok (HttpServer path xs websocket)
       (transpose_opt (map_option (server_alpn tapi [map of_char ''h2'', HTTP1]) tls)))"

definition serve_websocket :: "('cert, 'key, 'roots) tls_api \<Rightarrow> TlsConfig option \<Rightarrow> ('cert, 'key, 'x) server py_result" where
  "serve_websocket tapi tls = map_ok WebSocketServer (transpose_opt (map_option (server_alpn tapi http1) tls))"

text \<open>\<open>check\<close> is the making of a QUIC configuration of the TLS one.\<close>

definition serve_h3 ::
    "('cert, 'key, 'roots) tls_api \<Rightarrow> (('cert, 'key) server_config \<Rightarrow> string + unit) \<Rightarrow> TlsConfig \<Rightarrow> u32
       \<Rightarrow> ('cert, 'key, 'x) server py_result" where
  "serve_h3 tapi check tls lanes =
     and_then (tls_server tapi tls) (\<lambda>c. map_ok (\<lambda>_. H3Server lanes c) (map_err value_err (check c)))"

definition serve_webtransport ::
    "('cert, 'key, 'roots) tls_api \<Rightarrow> bytes \<Rightarrow> (('cert, 'key) server_config \<Rightarrow> string + unit) \<Rightarrow> TlsConfig \<Rightarrow> u32
       \<Rightarrow> ('cert, 'key, 'x) server py_result" where
  "serve_webtransport tapi wt_alpn check tls lanes =
     and_then (tls_server tapi tls) (\<lambda>c.
       let c = c\<lparr>sc_alpn := [wt_alpn]\<rparr> in map_ok (\<lambda>_. WebTransportServer lanes c) (map_err value_err (check c)))"

definition serve_quic ::
    "('cert, 'key, 'roots) tls_api \<Rightarrow> (('cert, 'key) server_config \<Rightarrow> string + unit)
       \<Rightarrow> ('o, 'net, 'a, 'l) ListenerConfig \<Rightarrow> TlsConfig \<Rightarrow> u32 \<Rightarrow> bool \<Rightarrow> ('cert, 'key, 'x) server py_result" where
  "serve_quic tapi check l tls lanes zero_rtt =
     and_then (serve_quic_check zero_rtt l) (\<lambda>_.
     and_then (server_zmux tapi tls) (\<lambda>c.
       map_ok (\<lambda>_. QuicServer lanes zero_rtt c) (map_err value_err (check c))))"

section \<open>Binding\<close>

text \<open>
  The future of \<open>serve\<close>: bind, read the local address, and only then start the task. The result is the
  text of the address and the socket the server got.
\<close>

definition serve_future ::
    "zmux_errors \<Rightarrow> (string \<Rightarrow> io_error + 'sock) \<Rightarrow> ('sock \<Rightarrow> io_error + 'a) \<Rightarrow> ('a \<Rightarrow> string) \<Rightarrow> string
       \<Rightarrow> (string \<times> 'sock) py_result" where
  "serve_future z bind local_addr addr_text ad =
     and_then (map_err (io_err z) (bind ad)) (\<lambda>tcp.
     map_ok (\<lambda>a. (addr_text a, tcp)) (map_err (io_err z) (local_addr tcp)))"

text \<open>The future of the servers over UDP: the address is resolved first.\<close>

definition serve_udp_future ::
    "zmux_errors \<Rightarrow> (string \<Rightarrow> io_error + 'a list) \<Rightarrow> ('a \<Rightarrow> io_error + 'ep) \<Rightarrow> ('ep \<Rightarrow> io_error + 'a) \<Rightarrow> ('a \<Rightarrow> string)
       \<Rightarrow> string \<Rightarrow> (string \<times> 'ep) py_result" where
  "serve_udp_future z lookup_host endpoint local_addr addr_text ad =
     and_then (resolve z lookup_host ad) (\<lambda>a.
     and_then (map_err (io_err z) (endpoint a)) (\<lambda>ep.
     map_ok (\<lambda>l. (addr_text l, ep)) (map_err (io_err z) (local_addr ep))))"

text \<open>The step of the listener's tasks that a finished future makes.\<close>

definition serve_act :: "'r py_result \<Rightarrow> listener_act" where
  "serve_act r = (if is_ok r then Bound else BindFailed)"

section \<open>Properties\<close>

fun server_tls :: "('cert, 'key, 'x) server \<Rightarrow> ('cert, 'key) server_config option" where
  "server_tls TcpServer = None"
| "server_tls (TlsServer c) = Some c"
| "server_tls (HttpServer p x w c) = c"
| "server_tls (WebSocketServer c) = c"
| "server_tls (H3Server n c) = Some c"
| "server_tls (WebTransportServer n c) = Some c"
| "server_tls (QuicServer n z c) = Some c"

lemma tls_server_pair:
  assumes "tls_server tapi t = Inr c"
  shows "chain tapi t = Inr (Some (sc_cert c))" "sc_alpn c = tls_alpn t" "tls_cert t \<noteq> None" "tls_key t \<noteq> None"
proof -
  show ch: "chain tapi t = Inr (Some (sc_cert c))" and "sc_alpn c = tls_alpn t"
    using assms by (auto simp: tls_server_def and_then_Inr_iff ok_or_Inr_iff)
  from chain_given [OF ch] show "tls_cert t \<noteq> None" "tls_key t \<noteq> None" by auto
qed

lemma server_alpn_pair:
  assumes "server_alpn tapi d t = Inr c"
  shows "chain tapi t = Inr (Some (sc_cert c))" "sc_alpn c = default_alpn tapi (tls_alpn t) d"
  using assms tls_server_pair by (fastforce simp: server_alpn_def map_ok_Inr_iff)+

text \<open>A server that was made has the certificate and the key of the settings it was given.\<close>

definition certified :: "('cert, 'key, 'roots) tls_api \<Rightarrow> TlsConfig \<Rightarrow> ('cert, 'key, 'x) server py_result \<Rightarrow> bool" where
  "certified tapi t r =
     (case r of
        Inl e \<Rightarrow> True
      | Inr s \<Rightarrow> (case server_tls s of Some c \<Rightarrow> chain tapi t = Inr (Some (sc_cert c)) | None \<Rightarrow> False))"

lemmas serve_defs = serve_tls_def serve_http_def serve_websocket_def serve_h3_def serve_webtransport_def
  serve_quic_def serve_quic_check_def server_zmux_def server_alpn_def

lemma certifiedI:
  assumes "\<And>s. r = Inr s \<Longrightarrow> \<exists>c. server_tls s = Some c \<and> chain tapi t = Inr (Some (sc_cert c))"
  shows "certified tapi t r"
  using assms by (fastforce simp: certified_def split: sum.splits)

lemma serve_tcp_based_certified:
  "certified tapi t (serve_tls tapi t)"
  "certified tapi t (serve_http tapi xs p (Some t) x w)"
  "certified tapi t (serve_websocket tapi (Some t))"
proof -
  show "certified tapi t (serve_tls tapi t)"
    by (rule certifiedI) (use server_alpn_pair(1) in \<open>auto simp: serve_tls_def map_ok_Inr_iff server_zmux_def\<close>)
  show "certified tapi t (serve_http tapi xs p (Some t) x w)"
    by (rule certifiedI)
      (use server_alpn_pair(1) in \<open>auto simp: serve_http_def map_ok_Inr_iff and_then_Inr_iff transpose_opt_Inr_iff\<close>)
  show "certified tapi t (serve_websocket tapi (Some t))"
    by (rule certifiedI)
      (use server_alpn_pair(1) in \<open>auto simp: serve_websocket_def map_ok_Inr_iff transpose_opt_Inr_iff\<close>)
qed

lemma serve_udp_based_certified:
  "certified tapi t (serve_h3 tapi ck t n)"
  "certified tapi t (serve_webtransport tapi wt ck t n)"
  "certified tapi t (serve_quic tapi ck l t n zr)"
proof -
  show "certified tapi t (serve_h3 tapi ck t n)"
    by (rule certifiedI) (use tls_server_pair(1) in \<open>auto simp: serve_h3_def map_ok_Inr_iff and_then_Inr_iff\<close>)
  show "certified tapi t (serve_webtransport tapi wt ck t n)"
    by (rule certifiedI)
      (use tls_server_pair(1) in \<open>auto simp: serve_webtransport_def Let_def map_ok_Inr_iff and_then_Inr_iff\<close>)
  show "certified tapi t (serve_quic tapi ck l t n zr)"
    by (rule certifiedI)
      (use server_alpn_pair(1) in \<open>auto simp: serve_quic_def server_zmux_def map_ok_Inr_iff and_then_Inr_iff\<close>)
qed

lemma no_chain_no_server:
  assumes "tls_cert t = None \<or> tls_key t = None"
  shows "tls_server tapi t = Inl (value_err ''a server needs cert and key'')"
  using assms by (auto simp: tls_server_def chain_def split: option.splits)

text \<open>
  C38. Every server over TLS runs with the certificate and the key of its settings, whichever of the six
  calls starts it, and settings that lack either are refused with the same \<open>ValueError\<close> before an address
  is bound. Under an admission the QUIC server does not start with early data.
\<close>
theorem served_with_certificate:
  "certified tapi t (serve_tls tapi t) \<and> certified tapi t (serve_http tapi xs p (Some t) x w)
   \<and> certified tapi t (serve_websocket tapi (Some t)) \<and> certified tapi t (serve_h3 tapi ck t n)
   \<and> certified tapi t (serve_webtransport tapi wt ck t n) \<and> certified tapi t (serve_quic tapi ck l t n zr)
   \<and> (if tls_cert t = None \<or> tls_key t = None
      then let e = value_err ''a server needs cert and key''
           in serve_tls tapi t = Inl e \<and> serve_http tapi xs p (Some t) None w = Inl e
              \<and> serve_websocket tapi (Some t) = Inl e \<and> serve_h3 tapi ck t n = Inl e
              \<and> serve_webtransport tapi wt ck t n = Inl e \<and> serve_quic tapi ck l t n False = Inl e
      else True)
   \<and> (if lc_admission l \<noteq> None
      then serve_quic tapi ck l t n True = Inl (value_err ''zero_rtt and admission are mutually exclusive'')
      else True)"
  by (intro conjI serve_tcp_based_certified serve_udp_based_certified)
    (simp_all add: Let_def serve_defs no_chain_no_server)

end
