(* ===== verification/Spec2Isabelle.thy ===== *)
theory Spec2Isabelle
  imports Exit_Gate Bridge Errors Options Shaping Config Carriers Layer_Channel Layer Exporter Admission Streams Helpers Modes Pool Views Sessions Listeners Tls Dial Serving
begin

text \<open>
  A verification of the Python bindings of \<open>zmux\<close>, the Rust sources under \<open>src/src\<close>. The bindings
  put a Python interface on the \<open>zmux\<close> crate: they convert values both ways, run the crate's
  futures for asyncio and asyncio's coroutines for the crate, guard objects that may be used
  once, and take care that no native thread enters an interpreter that is shutting down.

  \<^bold>\<open>How code becomes definitions.\<close> A fallible call is a sum, \<open>Inl\<close> the error. A Python exception is
  a record with its class, text and attributes (\<open>Pyo3\<close>). An object with a mutex around an \<open>Option\<close>
  is a cell that an operation takes and returns. Concurrent code is a step function whose actions
  are the atomic steps of each thread or callback; runs are lists of actions in the order in
  which they interleave (\<open>Machines\<close>), and invariants hold in every reachable state. 64 bit
  integers are words; a \<open>Duration\<close> is a number of nanoseconds; a float is the rational number
  it stands for, infinite or not a number (\<open>Floats\<close>). Strings are lists of 8 bit characters.

  \<^bold>\<open>What is a parameter.\<close> The \<open>zmux\<close> crates, PyO3, tokio and the application's Python code are not
  part of the repository. Their operations are arguments of the definitions, grouped in records
  (\<open>py\<close>, \<open>zmux_errors\<close>, \<open>options_api\<close>, \<open>config_api\<close>, \<open>pipe_api\<close>, \<open>mpsc\<close>, \<open>half_api\<close>,
  \<open>decider_env\<close> and others). What the code relies on of them is a locale (\<open>py_values\<close>, \<open>mpsc_laws\<close>)
  that is interpreted on Python's built-in values and on a bounded queue, or a hypothesis of the
  property that has a witness.

  \<^bold>\<open>The theories.\<close>
  \<^item> \<open>Prelude\<close>: results with the names of Rust's combinators, loops over keyword arguments, one-shot
    objects; the locales \<open>one_shot\<close> and \<open>keyed_body\<close> with what their clients get.
  \<^item> \<open>Machines\<close>: runs, reachability, the locales \<open>step_closed\<close> and \<open>step_invariant\<close>.
  \<^item> \<open>Exit_Gate\<close> (\<open>rt.rs\<close>: \<open>attach\<close>, \<open>_shutdown\<close>): the exit hook closes a gate for runtime threads and
    waits for those inside. No thread is inside Python after the hook saw none, the counter counts
    the guards, the wait is bounded, the hook returns on runs without nested attaches, and a
    nested attach can block it. \<open>exit_wait\<close> counts the polls of one second, one a millisecond.
  \<^item> \<open>Bridge\<close> (\<open>rt.rs\<close>: \<open>future_into_py\<close>, \<open>into_future\<close>): results arrive once and unchanged,
    cancellation of either side reaches the other.
  \<^item> \<open>Floats\<close>, \<open>Pyo3\<close>, \<open>Errors\<close>: durations and seconds, Python objects, the exception classes and the
    mappings of the crate's errors (\<open>lib.rs\<close>).
  \<^item> \<open>Options\<close>, \<open>Split_Mix\<close>, \<open>Shaping\<close>, \<open>Config\<close>: pipe options and their way to Python and back,
    the seeded random source, shaping definitions by carrier kind, and the configuration
    (\<open>lib.rs\<close>, \<open>shaping.rs\<close>).
  \<^item> \<open>Carriers\<close> (\<open>lib.rs\<close>: \<open>UnsentCount\<close>, \<open>PipeIo\<close>, \<open>PipeEnd\<close>, \<open>PipeReservation\<close>, \<open>start\<close>): carriers
    and reservations that are used at most once.
  \<^item> \<open>Layer_Channel\<close>, \<open>Layer\<close> (\<open>layer.rs\<close>): the channel between a carrier and a Python layer is a
    FIFO whose end is never early; \<open>fill_loop\<close> is a partial function, and it is shown to return.
    Layers and the inbound transform keep hold of the carrier they give away.
  \<^item> \<open>Exporter\<close>, \<open>Admission\<close> (\<open>admission.rs\<close>): the thread that answers exporter requests, and
    deciders that fail closed.
  \<^item> \<open>Streams\<close> (\<open>lib.rs\<close>: \<open>SendStream\<close>, \<open>RecvStream\<close>, \<open>Chunk\<close>): the two parts of a stream behind their
    mutexes; leaving an \<open>async with\<close> block, iterating, and the wait that holds a part.
  \<^item> \<open>Helpers\<close> (\<open>helpers.rs\<close>): limiters written in Python, taking the parts of streams, splices and
    duplicate sessions. Both parts of a stream are taken or none.
  \<^item> \<open>Modes\<close> (\<open>mode.rs\<close>) and \<open>Pool\<close> (\<open>pool.rs\<close>): modes and their policy, pools and their decisions. A
    pool that was made converts without a panic.
  \<^item> \<open>Views\<close> (\<open>lib.rs\<close>: \<open>event_obj\<close> and the statistics; \<open>_types.py\<close>): every object shown to Python has
    the fields its dataclass takes.
  \<^item> \<open>Sessions\<close> (\<open>lib.rs\<close>: \<open>Session\<close>, \<open>Pipe\<close>): opening and accepting streams with their priorities and
    preamble, datagrams, events, the end of a session, shapers and bands.
  \<^item> \<open>Listeners\<close>, \<open>Serving\<close> (\<open>lib.rs\<close>: \<open>Listener\<close>): the arguments, the life of the serving tasks as a
    machine of calls, binds, closes and collection, and what each server checks before it binds.
  \<^item> \<open>Tls\<close>, \<open>Dial\<close> (\<open>lib.rs\<close>: \<open>TlsConfig\<close> and the dialling functions; the candidates of \<open>mode.rs\<close>): what a
    client trusts, names and authorities, the settings of every dial and the order of its steps.

  The properties of single components stand with them; the lemma below joins the dialling functions
  and the sessions started on what they return.

  \<^bold>\<open>Not modelled.\<close> The registration of classes and functions and the start of the runtime, which
  only fill the module; documentation strings; getters that show one field of a crate's object and
  methods that return the object itself; \<open>MaintainHandle\<close>, which passes two calls on, and the
  asking of a pool policy under its mutex. The loops of the servers and the protocols themselves are
  the crates'. Lengths are compared as natural numbers where the code has \<open>usize\<close> values of objects in
  memory.
\<close>

text \<open>
  A dialled carrier starts one session: the first start gets the connection that was dialled, and
  every later one is refused, whether or not the first succeeded.
\<close>

lemma dialled_carrier_starts_once:
  assumes "dial_tcp_future z conn pa pre wr tp cr ad = Inr c" "start z cf est how c = (r, c')"
  shows "\<exists>tcp. r = map_ok (\<lambda>f. map_err (connect_err z) (est how (tp tcp) f)) cf"
    and "start z cf2 est2 how2 c' = (Inl pipe_used, c')"
  using assms by (auto simp: dial_tcp_future_def and_then_Inr_iff pipe_wrap_def start_def pipe_take_def cell_take_def
      split: sum.splits)

end
